(* ===== verification/Prelude.thy ===== *)
theory Prelude
  imports
    Main
    "HOL-Library.Sublist"
    "HOL-Library.Multiset"
    "HOL-Library.List_Lexorder"
    "HOL-Library.Char_ord"
    "HOL-Library.Product_Lexorder"
begin

text \<open>
  Shared vocabulary of the development: the collections of lemmas the component
  theories feed and use, and generic facts about lists and options that several
  components need.
  \<^item> \<open>doc_simps\<close>: how JSON documents answer lookups after the object operations of
    JavaScript (property assignment, spread) and of the document store (\<open>$set\<close>);
  \<^item> \<open>store_simps\<close>: what each primitive of the document store does to the
    collections, the fault script and the id counter;
  \<^item> \<open>handler_defs\<close>: the definitions of the route handlers, unfolded together when a
    proof runs a handler symbolically;
  \<^item> \<open>evolves_rules\<close>: one fact per primitive and per handler that it only appends to the
    ledger, keeps the environment and never lowers the id counter.
\<close>

named_theorems doc_simps "lookup equations of JSON documents"
named_theorems store_simps "effects of the document store primitives"
named_theorems handler_defs "definitions of the route handlers"
named_theorems evolves_rules "steps after which the ledger is a prefix of the new ledger"

subsection \<open>Lists\<close>

text \<open>Removing the first element that satisfies a predicate: what a delete-one does.\<close>

fun remove_first :: "('a \<Rightarrow> bool) \<Rightarrow> 'a list \<Rightarrow> 'a list" where
  "remove_first P [] = []"
| "remove_first P (x # xs) = (if P x then xs else x # remove_first P xs)"

text \<open>Rewriting the first element that satisfies a predicate: what an update-one does.\<close>

fun map_first :: "('a \<Rightarrow> bool) \<Rightarrow> ('a \<Rightarrow> 'a) \<Rightarrow> 'a list \<Rightarrow> 'a list" where
  "map_first P f [] = []"
| "map_first P f (x # xs) = (if P x then f x # xs else x # map_first P f xs)"

text \<open>\<open>xs.map(f)\<close> with a callback that may throw: the first throw propagates.\<close>

fun map_throw :: "('a \<Rightarrow> 'e + 'b) \<Rightarrow> 'a list \<Rightarrow> 'e + 'b list" where
  "map_throw f [] = Inr []"
| "map_throw f (x # xs) =
     (case f x of
        Inl e \<Rightarrow> Inl e
      | Inr y \<Rightarrow> (case map_throw f xs of Inl e \<Rightarrow> Inl e | Inr ys \<Rightarrow> Inr (y # ys)))"

lemma remove_first_no_match [simp]:
  "\<not> (\<exists>x \<in> set xs. P x) \<Longrightarrow> remove_first P xs = xs"
  by (induction xs) auto

lemma remove_first_snoc_only [simp]:
  "\<not> (\<exists>x \<in> set xs. P x) \<Longrightarrow> P y \<Longrightarrow> remove_first P (xs @ [y]) = xs"
  by (induction xs) auto

lemma remove_first_filter_other:
  "(\<And>x. P x \<Longrightarrow> \<not> Q x) \<Longrightarrow> filter Q (remove_first P xs) = filter Q xs"
  by (induction xs) auto

lemma set_remove_first_subset: "set (remove_first P xs) \<subseteq> set xs"
  by (induction xs) auto

lemma remove_first_find:
  "find P xs = Some x \<Longrightarrow> \<exists>ys zs. xs = ys @ x # zs \<and> remove_first P xs = ys @ zs"
proof (induction xs)
  case Nil
  then show ?case by simp
next
  case (Cons y xs)
  show ?case
  proof (cases "P y")
    case True
    with Cons.prems show ?thesis by force
  next
    case False
    with Cons.prems obtain ys zs where "xs = ys @ x # zs" "remove_first P xs = ys @ zs"
      using Cons.IH by auto
    with False have "y # xs = (y # ys) @ x # zs \<and> remove_first P (y # xs) = (y # ys) @ zs"
      by simp
    then show ?thesis by blast
  qed
qed

lemma length_remove_first_find:
  "find P xs = Some x \<Longrightarrow> length (remove_first P xs) = length xs - 1"
  using remove_first_find by fastforce

lemma map_first_filter_other:
  "(\<And>x. P x \<Longrightarrow> \<not> Q x \<and> \<not> Q (f x)) \<Longrightarrow> filter Q (map_first P f xs) = filter Q xs"
  by (induction xs) auto

lemma map_first_find:
  "find P xs = Some x \<Longrightarrow> \<exists>ys zs. xs = ys @ x # zs \<and> map_first P f xs = ys @ f x # zs"
proof (induction xs)
  case Nil
  then show ?case by simp
next
  case (Cons y xs)
  show ?case
  proof (cases "P y")
    case True
    with Cons.prems show ?thesis by force
  next
    case False
    with Cons.prems obtain ys zs where "xs = ys @ x # zs" "map_first P f xs = ys @ f x # zs"
      using Cons.IH by auto
    with False have "y # xs = (y # ys) @ x # zs \<and> map_first P f (y # xs) = (y # ys) @ f x # zs"
      by simp
    then show ?thesis by blast
  qed
qed

lemma map_first_no_match [simp]:
  "\<not> (\<exists>x \<in> set xs. P x) \<Longrightarrow> map_first P f xs = xs"
  by (induction xs) auto

lemma set_map_first_subset: "set (map_first P f xs) \<subseteq> set xs \<union> f ` {x \<in> set xs. P x}"
  by (induction xs) auto

lemma find_Some_in_set: "find P xs = Some x \<Longrightarrow> x \<in> set xs \<and> P x"
  by (auto simp: find_Some_iff)

lemma find_after_map_first:
  assumes "find P xs = Some u" and "Q u" and "\<forall>x \<in> set xs. Q x \<longrightarrow> x = u" and "P (f u)"
  shows "find P (map_first Q f xs) = Some (f u)"
  using assms
proof (induction xs)
  case (Cons x xs)
  show ?case
  proof (cases "P x")
    case True
    with Cons.prems(1) have "x = u" by simp
    with Cons.prems(2,4) show ?thesis by simp
  next
    case False
    with Cons.prems(1) have fu: "find P xs = Some u" by simp
    have "P u" using find_Some_in_set [OF fu] by blast
    have nq: "\<not> Q x"
    proof
      assume "Q x"
      with Cons.prems(3) have "x = u" by simp
      with False \<open>P u\<close> show False by simp
    qed
    have "\<forall>y \<in> set xs. Q y \<longrightarrow> y = u" using Cons.prems(3) by simp
    from Cons.IH [OF fu Cons.prems(2) this Cons.prems(4)]
    have "find P (map_first Q f xs) = Some (f u)" .
    with False nq show ?thesis by simp
  qed
qed simp

lemma distinct_map_unique:
  "distinct (map g xs) \<Longrightarrow> x \<in> set xs \<Longrightarrow> y \<in> set xs \<Longrightarrow> g x = g y \<Longrightarrow> x = y"
  by (auto simp: distinct_map dest: inj_onD)

lemma map_throw_Inl: "map_throw f xs = Inl e \<Longrightarrow> \<exists>x \<in> set xs. f x = Inl e"
  by (induction xs) (auto split: sum.splits)

subsection \<open>Integer remainders\<close>

lemma mod_pred_nonzero:
  fixes n k :: int
  assumes h: "n mod k \<noteq> 0" and k: "0 < k"
  shows "(n - 1) mod k = n mod k - 1"
proof -
  have e: "n - 1 = (n mod k - 1) + (n div k) * k" by simp
  have b: "0 \<le> n mod k - 1" "n mod k - 1 < k"
    using h pos_mod_sign[OF k, of n] pos_mod_bound[OF k, of n] by linarith+
  have "(n - 1) mod k = (n mod k - 1) mod k" by (subst e) (simp only: mod_mult_self1)
  also have "\<dots> = n mod k - 1" using b by (rule mod_pos_pos_trivial)
  finally show ?thesis .
qed

subsection \<open>Prefixes\<close>

lemma prefix_snoc_right [intro]: "prefix xs ys \<Longrightarrow> prefix xs (ys @ [y])"
  by (metis prefix_append prefix_order.trans)

end
