(* ===== verification/Json.thy ===== *)
theory Json
  imports Prelude
begin

text \<open>
  JSON values and JavaScript objects as the route handlers see them: request bodies
  parsed by \<open>request.json()\<close>, documents read from and written to the document store,
  and response bodies. An object is an association list in property order; property
  assignment (\<open>o.k = v\<close>), object spread (\<open>{...a, ...b}\<close>, \<open>Object.assign\<close>) and the
  store's top-level \<open>$set\<close> all replace an existing property in place and append a
  new one at the end, which \<open>doc_set\<close> and \<open>doc_assign\<close> model. Numbers are integers:
  the handlers only copy them and compare them with zero. \<open>JOid\<close> is a store
  ObjectId, \<open>JDate\<close> a \<open>Date\<close> object (milliseconds since the epoch).
\<close>

datatype jval =
    JNull
  | JBool bool
  | JNum int
  | JStr string
  | JArr "jval list"
  | JObj "(string \<times> jval) list"
  | JOid nat
  | JDate int

type_synonym doc = "(string \<times> jval) list"

definition doc_get :: "doc \<Rightarrow> string \<Rightarrow> jval option" where
  "doc_get d k = map_of d k"

fun doc_set :: "doc \<Rightarrow> string \<Rightarrow> jval \<Rightarrow> doc" where
  "doc_set [] k v = [(k, v)]"
| "doc_set ((k', v') # d) k v = (if k' = k then (k, v) # d else (k', v') # doc_set d k v)"

definition doc_assign :: "doc \<Rightarrow> doc \<Rightarrow> doc" where
  "doc_assign target src = foldl (\<lambda>acc (k, v). doc_set acc k v) target src"

text \<open>\<open>{...a}\<close>: the own properties of \<open>a\<close> copied into a fresh object.\<close>

definition spread :: "doc \<Rightarrow> doc" where
  "spread a = doc_assign [] a"

text \<open>A value where JavaScript writes \<open>undefined\<close>: the store's driver stores it as null.\<close>

definition js_val :: "jval option \<Rightarrow> jval" where
  "js_val v = (case v of None \<Rightarrow> JNull | Some x \<Rightarrow> x)"

text \<open>JavaScript truthiness of a property read (\<open>None\<close> is \<open>undefined\<close>).\<close>

fun js_truthy :: "jval option \<Rightarrow> bool" where
  "js_truthy None = False"
| "js_truthy (Some JNull) = False"
| "js_truthy (Some (JBool b)) = b"
| "js_truthy (Some (JNum n)) = (n \<noteq> 0)"
| "js_truthy (Some (JStr s)) = (s \<noteq> [])"
| "js_truthy (Some (JArr _)) = True"
| "js_truthy (Some (JObj _)) = True"
| "js_truthy (Some (JOid _)) = True"
| "js_truthy (Some (JDate _)) = True"

text \<open>The own properties of a parsed body; a body that is no object has none.\<close>

fun as_doc :: "jval \<Rightarrow> doc" where
  "as_doc (JObj d) = d"
| "as_doc _ = []"

text \<open>Thrown JavaScript errors; every one is an \<open>Error\<close> instance with a message.\<close>

text \<open>
  Thrown errors by class: the built-in ones, and the classes of the libraries the
  routes call (\<open>jsonwebtoken\<close>'s \<open>JsonWebTokenError\<close> and its subclass
  \<open>TokenExpiredError\<close>, \<open>bson\<close>'s \<open>BSONError\<close>).
\<close>

datatype exn = Error string | TypeError string | SyntaxError string | RangeError string
  | ReferenceError string | JsonWebTokenError string | TokenExpiredError string | BSONError string

fun exn_message :: "exn \<Rightarrow> string" where
  "exn_message (Error m) = m"
| "exn_message (TypeError m) = m"
| "exn_message (SyntaxError m) = m"
| "exn_message (RangeError m) = m"
| "exn_message (ReferenceError m) = m"
| "exn_message (JsonWebTokenError m) = m"
| "exn_message (TokenExpiredError m) = m"
| "exn_message (BSONError m) = m"

text \<open>\<open>e instanceof jwt.JsonWebTokenError\<close>.\<close>

fun is_jwt_error :: "exn \<Rightarrow> bool" where
  "is_jwt_error (JsonWebTokenError _) = True"
| "is_jwt_error (TokenExpiredError _) = True"
| "is_jwt_error _ = False"

text \<open>
  A property read \<open>v.k\<close> on a parsed body: \<open>null\<close> throws, an object answers from
  its own properties, any other value has no such property.
\<close>

definition js_prop :: "jval \<Rightarrow> string \<Rightarrow> exn + jval option" where
  "js_prop v k =
     (case v of
        JNull \<Rightarrow> Inl (TypeError (''Cannot read properties of null (reading '' @ k @ '')''))
      | JObj d \<Rightarrow> Inr (doc_get d k)
      | _ \<Rightarrow> Inr None)"

subsection \<open>Decimal rendering for template strings\<close>

fun nat_str :: "nat \<Rightarrow> string" where
  "nat_str n = (if n < 10 then [char_of (48 + n)]
                else nat_str (n div 10) @ [char_of (48 + n mod 10)])"

definition int_str :: "int \<Rightarrow> string" where
  "int_str i = (if i < 0 then CHR ''-'' # nat_str (nat (- i)) else nat_str (nat i))"

text \<open>\<open>v.k\<close> on a value already known not to be \<open>null\<close> or \<open>undefined\<close>.\<close>

definition field_of :: "jval option \<Rightarrow> string \<Rightarrow> jval option" where
  "field_of v k = (case v of Some (JObj d) \<Rightarrow> doc_get d k | _ \<Rightarrow> None)"

text \<open>
  \<open>a === b\<close>: primitives by value; objects, arrays, ObjectIds and dates by identity,
  so two values read from different sources are never identical.
\<close>

fun prim_eq :: "jval \<Rightarrow> jval \<Rightarrow> bool" where
  "prim_eq JNull y = (y = JNull)"
| "prim_eq (JBool a) y = (y = JBool a)"
| "prim_eq (JNum a) y = (y = JNum a)"
| "prim_eq (JStr a) y = (y = JStr a)"
| "prim_eq _ _ = False"

fun js_strict_eq :: "jval option \<Rightarrow> jval option \<Rightarrow> bool" where
  "js_strict_eq None y = (y = None)"
| "js_strict_eq (Some x) y = (case y of None \<Rightarrow> False | Some z \<Rightarrow> prim_eq x z)"

text \<open>\<open>$unset\<close> of top-level fields.\<close>

definition unset_fields :: "string list \<Rightarrow> doc \<Rightarrow> doc" where
  "unset_fields ks d = filter (\<lambda>(k, _). k \<notin> set ks) d"

subsection \<open>ObjectId strings\<close>

text \<open>
  An ObjectId prints (\<open>toString\<close>, \<open>toHexString\<close>) as 24 lower-case hex digits, and
  \<open>new ObjectId(s)\<close> reads a string of 24 hex digits of either case.
\<close>

definition hex_digit :: "nat \<Rightarrow> char" where
  "hex_digit d = char_of (if d < 10 then 48 + d else 87 + d)"

fun hex_digits :: "nat \<Rightarrow> nat \<Rightarrow> string" where
  "hex_digits 0 n = []"
| "hex_digits (Suc k) n = hex_digits k (n div 16) @ [hex_digit (n mod 16)]"

definition oid_hex :: "nat \<Rightarrow> string" where
  "oid_hex n = hex_digits 24 n"

definition hex_val :: "char \<Rightarrow> nat option" where
  "hex_val c =
     (let k = of_char c :: nat in
      if 48 \<le> k \<and> k \<le> 57 then Some (k - 48)
      else if 97 \<le> k \<and> k \<le> 102 then Some (k - 87)
      else if 65 \<le> k \<and> k \<le> 70 then Some (k - 55)
      else None)"

fun hex_value :: "string \<Rightarrow> nat \<Rightarrow> nat option" where
  "hex_value [] acc = Some acc"
| "hex_value (c # cs) acc = (case hex_val c of None \<Rightarrow> None | Some d \<Rightarrow> hex_value cs (16 * acc + d))"

text \<open>
  \<open>`${v}`\<close> for the values a trade id takes: strings as they are, \<open>undefined\<close>,
  \<open>null\<close>, booleans and integers as JavaScript prints them; any object prints as
  \<open>[object Object]\<close>.
\<close>

fun js_template :: "jval option \<Rightarrow> string" where
  "js_template None = ''undefined''"
| "js_template (Some JNull) = ''null''"
| "js_template (Some (JBool b)) = (if b then ''true'' else ''false'')"
| "js_template (Some (JNum n)) = int_str n"
| "js_template (Some (JStr s)) = s"
| "js_template (Some (JOid n)) = oid_hex n"
| "js_template (Some _) = ''[object Object]''"

subsection \<open>Lookups after assignment and spread\<close>

lemma doc_get_Nil [simp, doc_simps]: "doc_get [] k = None"
  by (simp add: doc_get_def)

lemma doc_get_Cons [simp, doc_simps]:
  "doc_get ((k', v) # d) k = (if k' = k then Some v else doc_get d k)"
  by (simp add: doc_get_def)

lemma map_of_doc_set: "map_of (doc_set d k v) = (map_of d)(k \<mapsto> v)"
  by (induction d) (auto simp: fun_eq_iff)

lemma doc_get_set [simp, doc_simps]:
  "doc_get (doc_set d k v) k' = (if k' = k then Some v else doc_get d k')"
  by (simp add: doc_get_def map_of_doc_set)

lemma keys_doc_set:
  "map fst (doc_set d k v) = (if k \<in> set (map fst d) then map fst d else map fst d @ [k])"
proof (induction d)
  case Nil
  then show ?case by simp
next
  case (Cons x d)
  then show ?case by (cases x) (simp del: set_map)
qed

lemma distinct_doc_set [intro]:
  "distinct (map fst d) \<Longrightarrow> distinct (map fst (doc_set d k v))"
  by (simp add: keys_doc_set)

lemma doc_set_fresh: "k \<notin> set (map fst d) \<Longrightarrow> doc_set d k v = d @ [(k, v)]"
  by (induction d) auto

lemma doc_assign_Cons [simp]:
  "doc_assign t ((k, v) # s) = doc_assign (doc_set t k v) s"
  by (simp add: doc_assign_def)

lemma doc_assign_Nil [simp]: "doc_assign t [] = t"
  by (simp add: doc_assign_def)

lemma doc_get_assign [doc_simps]:
  "doc_get (doc_assign t s) k = (case map_of (rev s) k of None \<Rightarrow> doc_get t k | Some v \<Rightarrow> Some v)"
proof (induction s arbitrary: t)
  case Nil
  then show ?case by simp
next
  case (Cons x s)
  obtain k' v' where x: "x = (k', v')" by fastforce
  show ?case
    using Cons.IH [of "doc_set t k' v'"] by (simp add: x map_add_def split: option.splits)
qed

lemma distinct_doc_assign [intro]:
  "distinct (map fst t) \<Longrightarrow> distinct (map fst (doc_assign t s))"
proof (induction s arbitrary: t)
  case Nil
  then show ?case by simp
next
  case (Cons x s)
  then show ?case by (cases x) auto
qed

lemma doc_assign_fresh:
  "distinct (map fst (t @ s)) \<Longrightarrow> doc_assign t s = t @ s"
proof (induction s arbitrary: t)
  case Nil
  then show ?case by simp
next
  case (Cons x s)
  obtain k v where x: "x = (k, v)" by fastforce
  from Cons.prems x have "k \<notin> set (map fst t)" by auto
  then have "doc_set t k v = t @ [(k, v)]" by (rule doc_set_fresh)
  with Cons.IH [of "t @ [(k, v)]"] Cons.prems x show ?case by simp
qed

lemma spread_distinct [simp]: "distinct (map fst a) \<Longrightarrow> spread a = a"
  using doc_assign_fresh [of "[]" a] by (simp add: spread_def)

lemma doc_get_spread [doc_simps]: "distinct (map fst a) \<Longrightarrow> doc_get (spread a) k = doc_get a k"
  by simp

lemma map_of_rev_distinct: "distinct (map fst s) \<Longrightarrow> map_of (rev s) = map_of s"
  by (metis map_of_inject_set distinct_rev rev_map set_rev)

lemma doc_get_assign_distinct [doc_simps]:
  "distinct (map fst s) \<Longrightarrow>
   doc_get (doc_assign t s) k = (case doc_get s k of None \<Rightarrow> doc_get t k | Some v \<Rightarrow> Some v)"
  using doc_get_assign [of t s k] map_of_rev_distinct [of s] by (simp add: doc_get_def)

lemma js_prop_Inr: "js_prop v k = Inr x \<Longrightarrow> x = doc_get (as_doc v) k"
  by (cases v) (auto simp: js_prop_def)

lemma js_truthy_Some_Str [simp]: "js_truthy (Some (JStr s)) \<longleftrightarrow> s \<noteq> []"
  by simp

subsection \<open>ObjectId strings read back\<close>

lemma hex_val_digit [simp]: "d < 16 \<Longrightarrow> hex_val (hex_digit d) = Some d"
  by (auto simp: hex_val_def hex_digit_def Let_def)

lemma length_hex_digits [simp]: "length (hex_digits k n) = k"
  by (induction k arbitrary: n) auto

lemma hex_value_snoc:
  "hex_value (xs @ [c]) acc =
     (case hex_value xs acc of None \<Rightarrow> None
      | Some a \<Rightarrow> (case hex_val c of None \<Rightarrow> None | Some d \<Rightarrow> Some (16 * a + d)))"
  by (induction xs arbitrary: acc) (auto split: option.splits)

lemma hex_value_digits: "hex_value (hex_digits k n) acc = Some (acc * 16 ^ k + n mod 16 ^ k)"
proof (induction k arbitrary: n)
  case (Suc k)
  have "16 * (acc * 16 ^ k + n div 16 mod 16 ^ k) + n mod 16 = acc * 16 ^ Suc k + n mod 16 ^ Suc k"
    by (simp add: mod_mult2_eq algebra_simps)
  with Suc show ?case by (simp add: hex_value_snoc)
qed simp

theorem oid_hex_read_back: "hex_value (oid_hex n) 0 = Some (n mod 16 ^ 24)"
  by (simp add: oid_hex_def hex_value_digits)

lemma doc_get_unset [simp, doc_simps]:
  "doc_get (unset_fields ks d) k = (if k \<in> set ks then None else doc_get d k)"
  by (induction d) (auto simp: unset_fields_def split: if_splits)

end
