(* ===== verification/MongoStore.thy ===== *)
theory MongoStore
  imports Json
begin

text \<open>
  The document store as the route handlers call it (the MongoDB node driver behind
  \<open>src/app/lib/mongodb.ts\<close>). The world holds the collections, the counter from which
  the driver draws fresh ObjectIds, the JavaScript environment (clock and the \<open>Date\<close>
  library) and a fault script: every call to the store takes the next outcome of the
  script (an empty script means every call succeeds). A failed call throws and writes
  nothing; an unacknowledged insert writes its document but reports
  \<open>acknowledged = false\<close>. Every handler theorem quantifies over all scripts, so
  "the ledger write is forced to fail" is one choice of script.

  Primitives, one per driver call the handlers make: \<open>connect_to_database\<close>
  (\<open>connectToDatabase\<close>, mongodb.ts), \<open>find_one\<close>, \<open>find_all\<close>
  (\<open>find(..).toArray()\<close>), \<open>insert_one\<close> (adds \<open>_id\<close> to the caller's object when
  it has none, refuses a duplicate \<open>_id\<close>), \<open>update_one\<close> with a top-level
  \<open>$set\<close> (refuses an empty \<open>$set\<close> and a change of \<open>_id\<close>), \<open>delete_one\<close>, and
  \<open>sort_desc\<close> (\<open>.sort({k: -1})\<close>, by the store's cross-type order).
\<close>

datatype coll = Trades | Ledger | Users

datatype outcome = Ok | Fail string | Unacked

text \<open>
  The JavaScript environment of a request: \<open>Date.now()\<close>, \<open>toISOString\<close> of a time
  value, and \<open>new Date(v)\<close> (its time value, \<open>None\<close> for an Invalid Date).
\<close>

record js_env =
  now_ms :: int
  iso_of :: "int \<Rightarrow> string"
  parse_date :: "jval option \<Rightarrow> int option"

text \<open>A message handed to the mail transport: its kind, recipient and content.\<close>

datatype mail = Mail string jval string

record world =
  store :: "coll \<Rightarrow> doc list"
  next_oid :: nat
  faults :: "outcome list"
  env :: js_env
  outbox :: "mail list"

type_synonym filter = "(string \<times> jval) list"

definition matches :: "filter \<Rightarrow> doc \<Rightarrow> bool" where
  "matches f d \<longleftrightarrow> list_all (\<lambda>(k, v). doc_get d k = Some v) f"

definition set_coll :: "coll \<Rightarrow> doc list \<Rightarrow> world \<Rightarrow> world" where
  "set_coll c ds w = w\<lparr>store := (store w)(c := ds)\<rparr>"

definition next_outcome :: "world \<Rightarrow> outcome \<times> world" where
  "next_outcome w = (case faults w of [] \<Rightarrow> (Ok, w) | r # rs \<Rightarrow> (r, w\<lparr>faults := rs\<rparr>))"

text \<open>\<open>await clientPromise\<close>: the shared client connection, which may have failed.\<close>

definition await_client :: "world \<Rightarrow> (exn + unit) \<times> world" where
  "await_client w =
     (let (r, w1) = next_outcome w in
      case r of Fail m \<Rightarrow> (Inl (Error m), w1) | _ \<Rightarrow> (Inr (), w1))"

definition connect_to_database :: "world \<Rightarrow> (exn + unit) \<times> world" where
  "connect_to_database w =
     (case await_client w of
        (Inl e, w1) \<Rightarrow> (Inl (Error (''Unable to connect to database: '' @ exn_message e)), w1)
      | (Inr u, w1) \<Rightarrow> (Inr u, w1))"

definition find_one :: "coll \<Rightarrow> filter \<Rightarrow> world \<Rightarrow> (exn + doc option) \<times> world" where
  "find_one c f w =
     (let (r, w1) = next_outcome w in
      case r of Fail m \<Rightarrow> (Inl (Error m), w1) | _ \<Rightarrow> (Inr (find (matches f) (store w1 c)), w1))"

text \<open>\<open>find(query).toArray()\<close> for a query given as a predicate on documents.\<close>

definition find_where :: "coll \<Rightarrow> (doc \<Rightarrow> bool) \<Rightarrow> world \<Rightarrow> (exn + doc list) \<times> world" where
  "find_where c q w =
     (let (r, w1) = next_outcome w in
      case r of Fail m \<Rightarrow> (Inl (Error m), w1) | _ \<Rightarrow> (Inr (filter q (store w1 c)), w1))"

definition find_all :: "coll \<Rightarrow> filter \<Rightarrow> world \<Rightarrow> (exn + doc list) \<times> world" where
  "find_all c f = find_where c (matches f)"

record insert_result =
  acknowledged :: bool
  inserted_id :: jval

text \<open>The driver gives a document without \<open>_id\<close> a fresh ObjectId, on the caller's object.\<close>

definition assign_id :: "doc \<Rightarrow> world \<Rightarrow> doc \<times> world" where
  "assign_id d w =
     (case doc_get d ''_id'' of
        Some _ \<Rightarrow> (d, w)
      | None \<Rightarrow> (doc_set d ''_id'' (JOid (next_oid w)), w\<lparr>next_oid := Suc (next_oid w)\<rparr>))"

definition id_taken :: "coll \<Rightarrow> jval \<Rightarrow> world \<Rightarrow> bool" where
  "id_taken c i w \<longleftrightarrow> (\<exists>d \<in> set (store w c). doc_get d ''_id'' = Some i)"

definition insert_one :: "coll \<Rightarrow> doc \<Rightarrow> world \<Rightarrow> (exn + insert_result \<times> doc) \<times> world" where
  "insert_one c d w =
     (let (d', w1) = assign_id d w;
          i = js_val (doc_get d' ''_id'');
          (r, w2) = next_outcome w1 in
      case r of
        Fail m \<Rightarrow> (Inl (Error m), w2)
      | _ \<Rightarrow>
          if id_taken c i w2 then (Inl (Error ''E11000 duplicate key error''), w2)
          else (Inr (\<lparr>acknowledged = (r \<noteq> Unacked), inserted_id = i\<rparr>, d'),
                set_coll c (store w2 c @ [d']) w2))"

record update_result =
  matched_count :: nat
  modified_count :: nat

definition update_one :: "coll \<Rightarrow> filter \<Rightarrow> doc \<Rightarrow> world \<Rightarrow> (exn + update_result) \<times> world" where
  "update_one c f u w =
     (let (r, w1) = next_outcome w in
      case r of
        Fail m \<Rightarrow> (Inl (Error m), w1)
      | _ \<Rightarrow>
          if u = [] then (Inl (Error ''$set is empty''), w1)
          else (case find (matches f) (store w1 c) of
            None \<Rightarrow> (Inr \<lparr>matched_count = 0, modified_count = 0\<rparr>, w1)
          | Some d \<Rightarrow>
              if doc_get u ''_id'' \<noteq> None \<and> doc_get u ''_id'' \<noteq> doc_get d ''_id''
              then (Inl (Error ''Performing an update on the path _id would modify the immutable field _id''), w1)
              else (Inr \<lparr>matched_count = 1, modified_count = (if doc_assign d u = d then 0 else 1)\<rparr>,
                    set_coll c (map_first (matches f) (\<lambda>x. doc_assign x u) (store w1 c)) w1)))"

text \<open>\<open>findOne(query)\<close> for a query given as a predicate on documents.\<close>

definition find_first :: "coll \<Rightarrow> (doc \<Rightarrow> bool) \<Rightarrow> world \<Rightarrow> (exn + doc option) \<times> world" where
  "find_first c q w =
     (let (r, w1) = next_outcome w in
      case r of Fail m \<Rightarrow> (Inl (Error m), w1) | _ \<Rightarrow> (Inr (find q (store w1 c)), w1))"

text \<open>
  \<open>updateOne(filter, {$set: u, $unset: {k: ""}, ..})\<close>, for the handlers whose \<open>$set\<close>
  is a literal without \<open>_id\<close>: the fields are set, then the unset ones removed.
\<close>

definition update_one_unset ::
  "coll \<Rightarrow> filter \<Rightarrow> doc \<Rightarrow> string list \<Rightarrow> world \<Rightarrow> (exn + update_result) \<times> world" where
  "update_one_unset c f u uns w =
     (let (r, w1) = next_outcome w in
      case r of
        Fail m \<Rightarrow> (Inl (Error m), w1)
      | _ \<Rightarrow>
          (case find (matches f) (store w1 c) of
             None \<Rightarrow> (Inr \<lparr>matched_count = 0, modified_count = 0\<rparr>, w1)
           | Some d \<Rightarrow>
               (Inr \<lparr>matched_count = 1, modified_count = (if unset_fields uns (doc_assign d u) = d then 0 else 1)\<rparr>,
                set_coll c (map_first (matches f) (\<lambda>x. unset_fields uns (doc_assign x u)) (store w1 c)) w1)))"

definition delete_one :: "coll \<Rightarrow> filter \<Rightarrow> world \<Rightarrow> (exn + nat) \<times> world" where
  "delete_one c f w =
     (let (r, w1) = next_outcome w in
      case r of
        Fail m \<Rightarrow> (Inl (Error m), w1)
      | _ \<Rightarrow> (case find (matches f) (store w1 c) of
               None \<Rightarrow> (Inr 0, w1)
             | Some _ \<Rightarrow> (Inr 1, set_coll c (remove_first (matches f) (store w1 c)) w1)))"

text \<open>
  The store's order on field values across types (missing and null first, then
  numbers, strings, objects, arrays, ObjectIds, booleans, dates); values inside
  objects and arrays are not compared.
\<close>

fun bson_key :: "jval option \<Rightarrow> nat \<times> int \<times> string" where
  "bson_key None = (1, 0, [])"
| "bson_key (Some JNull) = (1, 0, [])"
| "bson_key (Some (JNum n)) = (2, n, [])"
| "bson_key (Some (JStr s)) = (3, 0, s)"
| "bson_key (Some (JObj _)) = (4, 0, [])"
| "bson_key (Some (JArr _)) = (5, 0, [])"
| "bson_key (Some (JOid n)) = (7, int n, [])"
| "bson_key (Some (JBool b)) = (8, if b then 1 else 0, [])"
| "bson_key (Some (JDate t)) = (9, t, [])"

text \<open>\<open>.sort({k1: -1, k2: -1, ..})\<close>: descending, lexicographically over the keys.\<close>

definition sort_key_of :: "string list \<Rightarrow> doc \<Rightarrow> (nat \<times> int \<times> string) list" where
  "sort_key_of ks d = map (\<lambda>k. bson_key (doc_get d k)) ks"

definition sort_desc :: "string list \<Rightarrow> doc list \<Rightarrow> doc list" where
  "sort_desc ks ds = rev (sort_key (sort_key_of ks) ds)"

subsection \<open>Effects of the primitives\<close>

lemma next_outcome_frame [simp, store_simps]:
  "next_outcome w = (r, w') \<Longrightarrow> store w' = store w \<and> env w' = env w \<and> next_oid w' = next_oid w"
  by (auto simp: next_outcome_def split: list.splits)

lemma await_client_frame [store_simps]:
  "await_client w = (r, w') \<Longrightarrow> store w' = store w \<and> env w' = env w \<and> next_oid w' = next_oid w"
  by (auto simp: await_client_def split: prod.splits outcome.splits dest: next_outcome_frame)

lemma connect_frame [store_simps]:
  "connect_to_database w = (r, w') \<Longrightarrow> store w' = store w \<and> env w' = env w \<and> next_oid w' = next_oid w"
  by (auto simp: connect_to_database_def split: prod.splits sum.splits dest: await_client_frame)

lemma find_one_frame [store_simps]:
  "find_one c f w = (r, w') \<Longrightarrow> store w' = store w \<and> env w' = env w \<and> next_oid w' = next_oid w"
  by (auto simp: find_one_def split: prod.splits outcome.splits dest: next_outcome_frame)

lemma find_one_result [store_simps]:
  "find_one c f w = (Inr r, w') \<Longrightarrow> find (matches f) (store w c) = r"
  by (auto simp: find_one_def split: prod.splits outcome.splits dest: next_outcome_frame)

lemma find_one_Inr [store_simps]:
  "find_one c f w = (Inr r, w') \<Longrightarrow>
   find (matches f) (store w c) = r \<and> store w' = store w \<and> env w' = env w \<and> next_oid w' = next_oid w"
  using find_one_frame find_one_result by blast

lemma find_one_cases [store_simps]:
  "find_one c f w = (r, w') \<Longrightarrow>
   store w' = store w \<and> env w' = env w \<and> next_oid w' = next_oid w \<and>
   (\<forall>x. r = Inr x \<longrightarrow> find (matches f) (store w c) = x)"
  using find_one_frame find_one_result by blast

lemma find_where_frame [store_simps]:
  "find_where c q w = (r, w') \<Longrightarrow> store w' = store w \<and> env w' = env w \<and> next_oid w' = next_oid w"
  by (auto simp: find_where_def split: prod.splits outcome.splits dest: next_outcome_frame)

lemma find_where_result [store_simps]:
  "find_where c q w = (Inr r, w') \<Longrightarrow> filter q (store w c) = r"
  by (auto simp: find_where_def split: prod.splits outcome.splits dest: next_outcome_frame)

lemmas find_all_frame [store_simps] = find_where_frame [of c "matches f" for c f, folded find_all_def]
lemmas find_all_result [store_simps] = find_where_result [of c "matches f" for c f, folded find_all_def]

lemma set_coll_simps [simp, store_simps]:
  "store (set_coll c ds w) = (store w)(c := ds)"
  "env (set_coll c ds w) = env w"
  "next_oid (set_coll c ds w) = next_oid w"
  "faults (set_coll c ds w) = faults w"
  by (simp_all add: set_coll_def)

lemma assign_id_props:
  assumes "assign_id d w = (d', w1)"
  shows "store w1 = store w" and "env w1 = env w" and "faults w1 = faults w"
    and "next_oid w \<le> next_oid w1"
    and "\<exists>i. doc_get d' ''_id'' = Some i"
    and "\<And>k. k \<noteq> ''_id'' \<Longrightarrow> doc_get d' k = doc_get d k"
    and "doc_get d ''_id'' \<noteq> None \<Longrightarrow> d' = d"
  using assms by (auto simp: assign_id_def split: option.splits)

lemma insert_one_eq:
  assumes "assign_id d w = (d1, w1)" and "next_outcome w1 = (r, w2)"
  shows "insert_one c d w =
    (case r of
       Fail m \<Rightarrow> (Inl (Error m), w2)
     | _ \<Rightarrow>
         if id_taken c (js_val (doc_get d1 ''_id'')) w2 then (Inl (Error ''E11000 duplicate key error''), w2)
         else (Inr (\<lparr>acknowledged = (r \<noteq> Unacked), inserted_id = js_val (doc_get d1 ''_id'')\<rparr>, d1),
               set_coll c (store w2 c @ [d1]) w2))"
  using assms by (simp add: insert_one_def Let_def)

lemma insert_one_error [store_simps]:
  assumes "insert_one c d w = (Inl e, w')"
  shows "store w' = store w \<and> env w' = env w \<and> next_oid w \<le> next_oid w'"
proof -
  obtain d1 w1 where a: "assign_id d w = (d1, w1)" by fastforce
  obtain r w2 where n: "next_outcome w1 = (r, w2)" by fastforce
  from assms have "w' = w2"
    unfolding insert_one_eq [OF a n] by (cases r) (auto split: if_splits)
  with assign_id_props [OF a] next_outcome_frame [OF n] show ?thesis by simp
qed

lemma insert_one_ok [store_simps]:
  assumes "insert_one c d w = (Inr (res, d'), w')"
  shows "store w' = (store w)(c := store w c @ [d'])"
    and "env w' = env w" and "next_oid w \<le> next_oid w'"
    and "doc_get d' ''_id'' = Some (inserted_id res)"
    and "\<And>k. k \<noteq> ''_id'' \<Longrightarrow> doc_get d' k = doc_get d k"
    and "\<not> id_taken c (inserted_id res) w"
proof -
  obtain d1 w1 where a: "assign_id d w = (d1, w1)" by fastforce
  obtain r w2 where n: "next_outcome w1 = (r, w2)" by fastforce
  note f1 = assign_id_props [OF a] and f2 = next_outcome_frame [OF n]
  from assms have nt: "\<not> id_taken c (js_val (doc_get d1 ''_id'')) w2"
    and eq: "d' = d1" "inserted_id res = js_val (doc_get d1 ''_id'')"
            "w' = set_coll c (store w2 c @ [d1]) w2"
    unfolding insert_one_eq [OF a n] by (cases r; auto split: if_splits)+
  from f1(5) obtain i where i: "doc_get d1 ''_id'' = Some i" by blast
  show "store w' = (store w)(c := store w c @ [d'])"
    using eq f1 f2 by simp
  show "env w' = env w" using eq f1 f2 by simp
  show "next_oid w \<le> next_oid w'" using eq f1 f2 by simp
  show "doc_get d' ''_id'' = Some (inserted_id res)" using eq i by (simp add: js_val_def)
  show "\<And>k. k \<noteq> ''_id'' \<Longrightarrow> doc_get d' k = doc_get d k" using eq f1 by simp
  show "\<not> id_taken c (inserted_id res) w"
    using nt eq f1 f2 by (simp add: id_taken_def)
qed

lemma update_one_error [store_simps]:
  "update_one c f u w = (Inl e, w') \<Longrightarrow> store w' = store w \<and> env w' = env w \<and> next_oid w' = next_oid w"
  by (auto simp: update_one_def split: prod.splits outcome.splits if_splits option.splits
           dest!: next_outcome_frame)

lemma update_one_ok [store_simps]:
  assumes "update_one c f u w = (Inr res, w')"
  shows "store w' = (store w)(c := map_first (matches f) (\<lambda>x. doc_assign x u) (store w c))"
    and "env w' = env w" and "next_oid w' = next_oid w"
    and "matched_count res = 0 \<longleftrightarrow> find (matches f) (store w c) = None"
  using assms
  by (auto simp: update_one_def fun_eq_iff split: prod.splits outcome.splits if_splits option.splits
           dest!: next_outcome_frame)
     (auto simp: find_None_iff)

lemma delete_one_error [store_simps]:
  "delete_one c f w = (Inl e, w') \<Longrightarrow> store w' = store w \<and> env w' = env w \<and> next_oid w' = next_oid w"
  by (auto simp: delete_one_def split: prod.splits outcome.splits option.splits
           dest!: next_outcome_frame)

lemma delete_one_ok [store_simps]:
  assumes "delete_one c f w = (Inr n, w')"
  shows "store w' = (store w)(c := remove_first (matches f) (store w c))"
    and "env w' = env w" and "next_oid w' = next_oid w"
    and "n = 0 \<longleftrightarrow> find (matches f) (store w c) = None"
  using assms
  by (auto simp: delete_one_def fun_eq_iff split: prod.splits outcome.splits option.splits
           dest!: next_outcome_frame)
     (auto simp: find_None_iff)

subsection \<open>Sorting\<close>

lemma sort_desc_mset [simp]: "mset (sort_desc ks ds) = mset ds"
  by (simp add: sort_desc_def)

lemma sort_desc_sorted: "sorted_wrt (\<ge>) (map (sort_key_of ks) (sort_desc ks ds))"
proof -
  have "sorted (map (sort_key_of ks) (sort_key (sort_key_of ks) ds))"
    by (rule sorted_sort_key)
  then show ?thesis by (simp add: sort_desc_def sorted_wrt_rev flip: rev_map)
qed

subsection \<open>How the world evolves\<close>

text \<open>
  The relation every handler keeps between the world before and after it: the ledger
  only grows at its end, the JavaScript environment is the request's, and the
  ObjectId counter never goes back.
\<close>

definition evolves :: "world \<Rightarrow> world \<Rightarrow> bool" where
  "evolves w w' \<longleftrightarrow> prefix (store w Ledger) (store w' Ledger) \<and> env w' = env w \<and> next_oid w \<le> next_oid w'"

lemma evolves_refl [simp, intro]: "evolves w w"
  by (simp add: evolves_def)

lemma evolves_trans [trans]: "evolves w1 w2 \<Longrightarrow> evolves w2 w3 \<Longrightarrow> evolves w1 w3"
  unfolding evolves_def using prefix_order.trans by fastforce

lemma evolves_same_store: "store w' = store w \<Longrightarrow> env w' = env w \<Longrightarrow> next_oid w \<le> next_oid w' \<Longrightarrow> evolves w w'"
  by (simp add: evolves_def)

lemma connect_evolves [evolves_rules]: "connect_to_database w = (r, w') \<Longrightarrow> evolves w w'"
  by (auto dest!: connect_frame intro: evolves_same_store)

lemma await_client_evolves [evolves_rules]: "await_client w = (r, w') \<Longrightarrow> evolves w w'"
  by (auto dest!: await_client_frame intro: evolves_same_store)

lemma find_one_evolves [evolves_rules]: "find_one c f w = (r, w') \<Longrightarrow> evolves w w'"
  by (auto dest!: find_one_frame intro: evolves_same_store)

lemma find_where_evolves [evolves_rules]: "find_where c q w = (r, w') \<Longrightarrow> evolves w w'"
  by (auto dest!: find_where_frame intro: evolves_same_store)

lemma insert_one_evolves [evolves_rules]:
  assumes ins: "insert_one c d w = (r, w')"
  shows "evolves w w'"
proof (cases r)
  case (Inl e)
  with ins insert_one_error show ?thesis by (metis evolves_same_store)
next
  case (Inr p)
  obtain res d' where "p = (res, d')" by fastforce
  with Inr ins have "insert_one c d w = (Inr (res, d'), w')" by simp
  from insert_one_ok(1-3) [OF this] show ?thesis by (simp add: evolves_def)
qed

lemma update_one_evolves [evolves_rules]:
  assumes upd: "update_one c f u w = (r, w')" and c: "c \<noteq> Ledger"
  shows "evolves w w'"
proof (cases r)
  case (Inl e)
  with upd update_one_error show ?thesis by (metis evolves_same_store order_refl)
next
  case (Inr res)
  with upd have "update_one c f u w = (Inr res, w')" by simp
  from update_one_ok(1-3) [OF this] c show ?thesis by (simp add: evolves_def)
qed

lemma delete_one_evolves [evolves_rules]:
  assumes del: "delete_one c f w = (r, w')" and c: "c \<noteq> Ledger"
  shows "evolves w w'"
proof (cases r)
  case (Inl e)
  with del delete_one_error show ?thesis by (metis evolves_same_store order_refl)
next
  case (Inr n)
  with del have "delete_one c f w = (Inr n, w')" by simp
  from delete_one_ok(1-3) [OF this] c show ?thesis by (simp add: evolves_def)
qed

subsection \<open>Lookups by predicate and updates with \<open>$unset\<close>\<close>

lemma find_first_cases [store_simps]:
  "find_first c q w = (r, w') \<Longrightarrow>
   store w' = store w \<and> env w' = env w \<and> next_oid w' = next_oid w \<and>
   (\<forall>x. r = Inr x \<longrightarrow> find q (store w c) = x)"
  by (auto simp: find_first_def split: prod.splits outcome.splits dest: next_outcome_frame)

lemma find_first_evolves [evolves_rules]: "find_first c q w = (r, w') \<Longrightarrow> evolves w w'"
  by (drule find_first_cases) (simp add: evolves_same_store)

lemma update_one_unset_error [store_simps]:
  "update_one_unset c f u uns w = (Inl e, w') \<Longrightarrow> store w' = store w \<and> env w' = env w \<and> next_oid w' = next_oid w"
  by (auto simp: update_one_unset_def split: prod.splits outcome.splits option.splits dest!: next_outcome_frame)

lemma update_one_unset_ok [store_simps]:
  assumes "update_one_unset c f u uns w = (Inr res, w')"
  shows "store w' = (store w)(c := map_first (matches f) (\<lambda>x. unset_fields uns (doc_assign x u)) (store w c))"
    and "env w' = env w" and "next_oid w' = next_oid w"
    and "matched_count res = 0 \<longleftrightarrow> find (matches f) (store w c) = None"
  using assms
  by (auto simp: update_one_unset_def fun_eq_iff split: prod.splits outcome.splits option.splits
           dest!: next_outcome_frame)
     (auto simp: find_None_iff)

lemma update_one_unset_evolves [evolves_rules]:
  assumes upd: "update_one_unset c f u uns w = (r, w')" and c: "c \<noteq> Ledger"
  shows "evolves w w'"
proof (cases r)
  case (Inl e)
  with upd update_one_unset_error show ?thesis by (metis evolves_same_store order_refl)
next
  case (Inr res)
  with upd have "update_one_unset c f u uns w = (Inr res, w')" by simp
  from update_one_unset_ok(1-3) [OF this] c show ?thesis by (simp add: evolves_def)
qed

end
