(* ===== verification/Ledger.thy ===== *)
theory Ledger
  imports MongoStore
begin

text \<open>
  The audit ledger helpers of \<open>src/app/lib/mongodb.ts\<close>. \<open>save_trade_to_ledger\<close>
  is \<open>saveTradeToLedger\<close>: it refuses a trade without a truthy \<open>userId\<close>, connects,
  derives \<open>tradeDate\<close> from \<open>new Date(trade.timestamp).toISOString().split('T')[0]\<close>
  (a \<open>RangeError\<close> for an Invalid Date), inserts the entry built by
  \<open>ledger_entry\<close>, throws when the insert is not acknowledged, and wraps every error
  raised inside its \<open>try\<close> as \<open>Failed to save trade <id> to ledger: <message>\<close>.
  \<open>get_user_ledger\<close> is \<open>getUserLedger\<close>: the user's entries, optionally within a
  \<open>tradeDate\<close> range, newest day first and newest entry first within a day.
\<close>

definition ledger_entry :: "doc \<Rightarrow> string \<Rightarrow> int \<Rightarrow> doc" where
  "ledger_entry trade trade_date now =
     [(''userId'', js_val (doc_get trade ''userId'')),
      (''tradeDate'', JStr trade_date),
      (''tradeId'', js_val (doc_get trade ''id'')),
      (''trade'', JObj trade),
      (''createdAt'', JDate now)]"

definition trade_date_of :: "js_env \<Rightarrow> doc \<Rightarrow> exn + string" where
  "trade_date_of e trade =
     (case parse_date e (doc_get trade ''timestamp'') of
        None \<Rightarrow> Inl (RangeError ''Invalid time value'')
      | Some t \<Rightarrow> Inr (takeWhile (\<lambda>c. c \<noteq> CHR ''T'') (iso_of e t)))"

text \<open>The body of the \<open>try\<close> block of \<open>saveTradeToLedger\<close>.\<close>

definition save_ledger_try :: "doc \<Rightarrow> world \<Rightarrow> (exn + doc) \<times> world" where
  "save_ledger_try trade w =
     (case connect_to_database w of
        (Inl e, w1) \<Rightarrow> (Inl e, w1)
      | (Inr _, w1) \<Rightarrow>
          (case trade_date_of (env w1) trade of
             Inl e \<Rightarrow> (Inl e, w1)
           | Inr trade_date \<Rightarrow>
               (case insert_one Ledger (ledger_entry trade trade_date (now_ms (env w1))) w1 of
                  (Inl e, w2) \<Rightarrow> (Inl e, w2)
                | (Inr (res, _), w2) \<Rightarrow>
                    if \<not> acknowledged res
                    then (Inl (Error ''Ledger entry was not acknowledged by the database''), w2)
                    else (Inr [(''success'', JBool True), (''ledgerId'', inserted_id res),
                               (''tradeId'', js_val (doc_get trade ''id''))], w2))))"

definition enhance_ledger_error :: "doc \<Rightarrow> exn \<Rightarrow> exn" where
  "enhance_ledger_error trade e =
     Error (''Failed to save trade '' @ js_template (doc_get trade ''id'') @ '' to ledger: '' @ exn_message e)"

definition save_trade_to_ledger :: "doc \<Rightarrow> world \<Rightarrow> (exn + doc) \<times> world" where
  "save_trade_to_ledger trade w =
     (if \<not> js_truthy (doc_get trade ''userId'')
      then (Inl (Error ''User ID is required for saving to ledger''), w)
      else (case save_ledger_try trade w of
              (Inl e, w1) \<Rightarrow> (Inl (enhance_ledger_error trade e), w1)
            | (Inr r, w1) \<Rightarrow> (Inr r, w1)))"

text \<open>
  \<open>getUserLedger(userId, startDate?, endDate?)\<close>: a missing bound is \<open>None\<close>; an
  empty string is falsy and adds no bound, as in the source. The range operators of
  the store compare strings with strings only.
\<close>

definition in_date_range :: "string option \<Rightarrow> string option \<Rightarrow> doc \<Rightarrow> bool" where
  "in_date_range lo hi d \<longleftrightarrow>
     (if js_truthy (map_option JStr lo) \<or> js_truthy (map_option JStr hi) then
        (case doc_get d ''tradeDate'' of
           Some (JStr s) \<Rightarrow>
             (case lo of Some l \<Rightarrow> l = [] \<or> l \<le> s | None \<Rightarrow> True) \<and>
             (case hi of Some h \<Rightarrow> h = [] \<or> s \<le> h | None \<Rightarrow> True)
         | _ \<Rightarrow> False)
      else True)"

definition get_user_ledger ::
  "string \<Rightarrow> string option \<Rightarrow> string option \<Rightarrow> world \<Rightarrow> (exn + doc list) \<times> world" where
  "get_user_ledger user_id start_date end_date w =
     (if user_id = [] then (Inl (Error ''User ID is required for fetching ledger''), w)
      else (case connect_to_database w of
              (Inl e, w1) \<Rightarrow> (Inl (Error (''Failed to fetch ledger for user '' @ user_id @ '': '' @ exn_message e)), w1)
            | (Inr _, w1) \<Rightarrow>
                (case find_where Ledger
                        (\<lambda>d. matches [(''userId'', JStr user_id)] d \<and> in_date_range start_date end_date d) w1 of
                   (Inl e, w2) \<Rightarrow> (Inl (Error (''Failed to fetch ledger for user '' @ user_id @ '': '' @ exn_message e)), w2)
                 | (Inr ds, w2) \<Rightarrow> (Inr (sort_desc [''tradeDate'', ''createdAt''] ds), w2))))"

subsection \<open>What a ledger write does\<close>

text \<open>
  The entry the source builds never carries its own \<open>_id\<close>, so the driver always
  appends a fresh ObjectId to it.
\<close>

lemma ledger_entry_no_id [simp]: "doc_get (ledger_entry t day now) ''_id'' = None"
  by (simp add: ledger_entry_def)

lemma insert_fresh_entry:
  assumes "insert_one c (ledger_entry t day now) w = (Inr (res, d'), w')"
  shows "d' = ledger_entry t day now @ [(''_id'', JOid (next_oid w))]"
    and "inserted_id res = JOid (next_oid w)" and "next_oid w' = Suc (next_oid w)"
  using assms
  by (auto simp: insert_one_def assign_id_def ledger_entry_def js_val_def Let_def
           split: prod.splits outcome.splits if_splits dest!: next_outcome_frame)

lemma save_ledger_try_cases:
  assumes "save_ledger_try t w = (r, w')"
  shows "(\<forall>c. store w' c = store w c) \<and> (\<forall>x. r \<noteq> Inr x) \<or>
         (\<exists>day. trade_date_of (env w) t = Inr day \<and>
            store w' = (store w)(Ledger := store w Ledger @
                         [ledger_entry t day (now_ms (env w)) @ [(''_id'', JOid (next_oid w))]]))"
proof -
  obtain c1 w1 where c: "connect_to_database w = (c1, w1)" by fastforce
  note cf = connect_frame [OF c]
  show ?thesis
  proof (cases "c1 = Inr () \<and> (\<exists>day. trade_date_of (env w) t = Inr day)")
    case False
    with assms c cf show ?thesis
      by (auto simp: save_ledger_try_def split: sum.splits)
  next
    case True
    then obtain day where c1: "c1 = Inr ()" and day: "trade_date_of (env w) t = Inr day" by blast
    obtain i w2 where i: "insert_one Ledger (ledger_entry t day (now_ms (env w))) w1 = (i, w2)"
      by fastforce
    show ?thesis
    proof (cases i)
      case (Inl e)
      with i have "store w2 = store w1" by (auto dest: insert_one_error)
      with assms c c1 cf day i Inl show ?thesis
        by (auto simp: save_ledger_try_def)
    next
      case (Inr p)
      then obtain res d' where p: "i = Inr (res, d')" by (cases p) auto
      with i cf have ins: "insert_one Ledger (ledger_entry t day (now_ms (env w1))) w1 = (Inr (res, d'), w2)"
        by simp
      from assms c c1 cf day i p have "w' = w2"
        by (simp add: save_ledger_try_def split: if_splits)
      with insert_one_ok(1) [OF ins] insert_fresh_entry(1) [OF ins] cf day show ?thesis
        by simp
    qed
  qed
qed

lemma save_trade_to_ledger_cases:
  assumes "save_trade_to_ledger t w = (r, w')"
  shows "(\<forall>c. store w' c = store w c) \<and> (\<forall>x. r \<noteq> Inr x) \<or>
         (\<exists>day. js_truthy (doc_get t ''userId'') \<and> trade_date_of (env w) t = Inr day \<and>
            store w' = (store w)(Ledger := store w Ledger @
                         [ledger_entry t day (now_ms (env w)) @ [(''_id'', JOid (next_oid w))]]))"
proof (cases "js_truthy (doc_get t ''userId'')")
  case False
  with assms show ?thesis by (auto simp: save_trade_to_ledger_def)
next
  case True
  obtain r1 w1 where s: "save_ledger_try t w = (r1, w1)" by fastforce
  with assms True have "w' = w1" and "\<forall>x. r = Inr x \<longrightarrow> r1 = Inr x"
    by (auto simp: save_trade_to_ledger_def split: sum.splits)
  with save_ledger_try_cases [OF s] True show ?thesis by auto
qed

lemma save_trade_to_ledger_ok:
  assumes "save_trade_to_ledger t w = (Inr x, w')"
  shows "\<exists>day. trade_date_of (env w) t = Inr day \<and>
           store w' = (store w)(Ledger := store w Ledger @
                        [ledger_entry t day (now_ms (env w)) @ [(''_id'', JOid (next_oid w))]])"
  using save_trade_to_ledger_cases [OF assms] by auto

lemma save_trade_to_ledger_other [simp]:
  "save_trade_to_ledger t w = (r, w') \<Longrightarrow> c \<noteq> Ledger \<Longrightarrow> store w' c = store w c"
  by (drule save_trade_to_ledger_cases) auto

lemma save_ledger_try_evolves [evolves_rules]:
  assumes "save_ledger_try t w = (r, w')"
  shows "evolves w w'"
proof -
  obtain c1 w1 where c: "connect_to_database w = (c1, w1)" by fastforce
  have e1: "evolves w w1" using c by (rule connect_evolves)
  show ?thesis
  proof (cases "c1 = Inr () \<and> (\<exists>day. trade_date_of (env w1) t = Inr day)")
    case False
    with assms c e1 show ?thesis
      by (auto simp: save_ledger_try_def split: sum.splits)
  next
    case True
    then obtain day where c1: "c1 = Inr ()" and day: "trade_date_of (env w1) t = Inr day" by blast
    obtain i w2 where i: "insert_one Ledger (ledger_entry t day (now_ms (env w1))) w1 = (i, w2)"
      by fastforce
    from i have "evolves w1 w2" by (rule insert_one_evolves)
    moreover from assms c c1 day i have "w' = w2"
      by (auto simp: save_ledger_try_def split: sum.splits prod.splits if_splits)
    ultimately show ?thesis using e1 evolves_trans by blast
  qed
qed

lemma save_trade_to_ledger_evolves [evolves_rules]:
  "save_trade_to_ledger t w = (r, w') \<Longrightarrow> evolves w w'"
  by (auto simp: save_trade_to_ledger_def split: if_splits sum.splits prod.splits
           intro: save_ledger_try_evolves)

end
