(* ===== verification/Http.thy ===== *)
theory Http
  imports MongoStore
begin

text \<open>
  What the route handlers share beyond the store: the response of
  \<open>NextResponse.json(body, {status})\<close>, the truthiness of a query parameter, and the
  session layer of the authentication routes. The session layer covers the
  \<open>jsonwebtoken\<close> calls \<open>jwt.sign\<close> and \<open>jwt.verify\<close>, the cookies a handler sets or
  deletes through \<open>cookies()\<close>, and \<open>new ObjectId(v)\<close>.

  A token is modelled by what it carries: its claims and the key it was signed with.
  A cookie value that is not a token, such as a tampered or truncated string, is a
  \<open>CText\<close>, and \<open>jwt.verify\<close> refuses it as malformed. A token signed with the
  server's key is what a client can only obtain from the server, unless the key is
  the public default of \<open>process.env.JWT_SECRET || 'your-secret-key'\<close>.
\<close>

record response =
  status :: nat
  body :: doc

definition json_error :: "nat \<Rightarrow> string \<Rightarrow> response" where
  "json_error st msg = \<lparr>status = st, body = [(''error'', JStr msg)]\<rparr>"

text \<open>\<open>!param\<close> on a query parameter: absent and empty are both missing.\<close>

definition truthy_param :: "string option \<Rightarrow> string option" where
  "truthy_param p = (case p of Some u \<Rightarrow> if u = [] then None else Some u | None \<Rightarrow> None)"

subsection \<open>Tokens\<close>

datatype jwt = Jwt doc string

datatype cval = CToken jwt | CText string

text \<open>\<open>process.env.X || default\<close>: an unset or empty variable gives the default.\<close>

definition env_or :: "string option \<Rightarrow> string \<Rightarrow> string" where
  "env_or v dflt = (case v of Some s \<Rightarrow> if s = [] then dflt else s | None \<Rightarrow> dflt)"

definition jwt_secret :: "string option \<Rightarrow> string" where
  "jwt_secret v = env_or v ''your-secret-key''"

text \<open>The clock of \<open>jsonwebtoken\<close>: \<open>Math.floor(Date.now() / 1000)\<close>.\<close>

definition now_s :: "js_env \<Rightarrow> int" where
  "now_s e = now_ms e div 1000"

text \<open>\<open>jwt.sign(payload, key, {expiresIn})\<close>: the claims \<open>iat\<close> and \<open>exp\<close> are added.\<close>

definition jwt_sign :: "doc \<Rightarrow> string \<Rightarrow> int \<Rightarrow> js_env \<Rightarrow> cval" where
  "jwt_sign payload key ttl e =
     CToken (Jwt (doc_set (doc_set payload ''iat'' (JNum (now_s e))) ''exp'' (JNum (now_s e + ttl))) key)"

text \<open>
  \<open>jwt.verify(token, key)\<close>: a malformed token and a wrong signature throw
  \<open>JsonWebTokenError\<close>, a token whose \<open>exp\<close> has passed throws \<open>TokenExpiredError\<close>,
  and a non-numeric \<open>exp\<close> is refused. The decoded claims are returned otherwise.
\<close>

definition jwt_verify :: "cval \<Rightarrow> string \<Rightarrow> js_env \<Rightarrow> exn + doc" where
  "jwt_verify t key e =
     (case t of
        CText _ \<Rightarrow> Inl (JsonWebTokenError ''jwt malformed'')
      | CToken (Jwt c k) \<Rightarrow>
          if k \<noteq> key then Inl (JsonWebTokenError ''invalid signature'')
          else (case doc_get c ''exp'' of
                  None \<Rightarrow> Inr c
                | Some (JNum x) \<Rightarrow> if x \<le> now_s e then Inl (TokenExpiredError ''jwt expired'') else Inr c
                | Some _ \<Rightarrow> Inl (JsonWebTokenError ''invalid exp value'')))"

subsection \<open>Cookies\<close>

type_synonym jar = "string \<Rightarrow> cval option"

datatype cookie_op = SetCookie string cval | DeleteCookie string

record http_response = response +
  set_cookies :: "cookie_op list"

definition plain :: "response \<Rightarrow> http_response" where
  "plain r = \<lparr>status = status r, body = body r, set_cookies = []\<rparr>"

text \<open>\<open>cookieStore.get(name)?.value\<close>, kept only when truthy.\<close>

definition cookie_token :: "jar \<Rightarrow> string \<Rightarrow> cval option" where
  "cookie_token j n = (case j n of Some (CText []) \<Rightarrow> None | v \<Rightarrow> v)"

fun apply_cookie :: "jar \<Rightarrow> cookie_op \<Rightarrow> jar" where
  "apply_cookie j (SetCookie n v) = j(n := Some v)"
| "apply_cookie j (DeleteCookie n) = j(n := None)"

definition apply_cookies :: "jar \<Rightarrow> cookie_op list \<Rightarrow> jar" where
  "apply_cookies = foldl apply_cookie"

subsection \<open>ObjectIds from strings\<close>

definition bson_error :: exn where
  "bson_error = BSONError ''input must be a 24 character hex string, 12 byte Uint8Array, or an integer''"

text \<open>
  \<open>new ObjectId(v)\<close>: a string of 24 hex digits is read, an ObjectId is copied,
  \<open>undefined\<close> and a number make a new ObjectId (the number is its timestamp), and
  anything else throws.
\<close>

definition object_id_of :: "jval option \<Rightarrow> world \<Rightarrow> (exn + jval) \<times> world" where
  "object_id_of v w =
     (case v of
        Some (JStr s) \<Rightarrow>
          (if length s = 24
           then (case hex_value s 0 of Some n \<Rightarrow> (Inr (JOid n), w) | None \<Rightarrow> (Inl bson_error, w))
           else (Inl bson_error, w))
      | Some (JOid n) \<Rightarrow> (Inr (JOid n), w)
      | Some (JNum _) \<Rightarrow> (Inr (JOid (next_oid w)), w\<lparr>next_oid := Suc (next_oid w)\<rparr>)
      | None \<Rightarrow> (Inr (JOid (next_oid w)), w\<lparr>next_oid := Suc (next_oid w)\<rparr>)
      | Some _ \<Rightarrow> (Inl bson_error, w))"

text \<open>\<open>v.toString()\<close> on a stored field: \<open>undefined\<close> and \<open>null\<close> throw.\<close>

definition js_to_string :: "jval option \<Rightarrow> exn + string" where
  "js_to_string v =
     (case v of
        None \<Rightarrow> Inl (TypeError ''Cannot read properties of undefined (reading 'toString')'')
      | Some JNull \<Rightarrow> Inl (TypeError ''Cannot read properties of null (reading 'toString')'')
      | Some x \<Rightarrow> Inr (js_template (Some x)))"

subsection \<open>Dates, mail and configuration\<close>

text \<open>\<open>new Date(v)\<close> of a stored value: a date is read as it is, anything else is parsed.\<close>

definition date_of :: "js_env \<Rightarrow> jval option \<Rightarrow> int option" where
  "date_of e v = (case v of Some (JDate t) \<Rightarrow> Some t | _ \<Rightarrow> parse_date e v)"

text \<open>
  An awaited call of the mail transport of \<open>src/lib/email.ts\<close>: it takes the next
  outcome of the fault script, and on success the message is in the outbox.
\<close>

definition mail_send :: "string \<Rightarrow> jval \<Rightarrow> string \<Rightarrow> world \<Rightarrow> (exn + unit) \<times> world" where
  "mail_send kind to content w =
     (let (r, w1) = next_outcome w in
      case r of
        Fail m \<Rightarrow> (Inl (Error m), w1)
      | _ \<Rightarrow> (Inr (), w1\<lparr>outbox := outbox w1 @ [Mail kind to content]\<rparr>))"

text \<open>The process environment the routes read.\<close>

record server_cfg =
  jwt_secret_var :: "string option"
  nextauth_url :: "string option"
  ltp_username_var :: "string option"
  ltp_password_var :: "string option"

definition internal_error :: response where
  "internal_error = json_error 500 ''Internal server error''"

text \<open>\<open>response.ok\<close> of a fetch: the status is in the range 200--299.\<close>

definition reply_ok :: "nat \<Rightarrow> bool" where
  "reply_ok st \<longleftrightarrow> 200 \<le> st \<and> st \<le> 299"

subsection \<open>Lemmas\<close>

lemma jwt_verify_sign:
  "0 < ttl \<Longrightarrow> jwt_verify (jwt_sign p k ttl e) k e = Inr (doc_set (doc_set p ''iat'' (JNum (now_s e))) ''exp'' (JNum (now_s e + ttl)))"
  by (simp add: jwt_verify_def jwt_sign_def doc_get_set)

lemma jwt_verify_key:
  "jwt_verify t key e = Inr c \<Longrightarrow> t = CToken (Jwt c key)"
  by (auto simp: jwt_verify_def split: cval.splits jwt.splits if_splits option.splits jval.splits)

lemma jwt_verify_error_class:
  "jwt_verify t key e = Inl x \<Longrightarrow> is_jwt_error x"
  by (auto simp: jwt_verify_def split: cval.splits jwt.splits if_splits option.splits jval.splits)

lemma object_id_of_hex:
  assumes "n < 16 ^ 24"
  shows "object_id_of (Some (JStr (oid_hex n))) w = (Inr (JOid n), w)"
proof -
  have "length (oid_hex n) = 24" by (simp add: oid_hex_def)
  with oid_hex_read_back [of n] assms show ?thesis by (simp add: object_id_of_def)
qed

lemma mail_send_frame [store_simps]:
  "mail_send k t c w = (r, w') \<Longrightarrow> store w' = store w \<and> env w' = env w \<and> next_oid w' = next_oid w"
  by (auto simp: mail_send_def split: prod.splits outcome.splits dest!: next_outcome_frame)

lemma mail_send_evolves [evolves_rules]: "mail_send k t c w = (r, w') \<Longrightarrow> evolves w w'"
  by (drule mail_send_frame) (simp add: evolves_same_store)

lemma object_id_of_frame [store_simps]:
  "object_id_of v w = (r, w') \<Longrightarrow> store w' = store w \<and> env w' = env w \<and> next_oid w \<le> next_oid w'"
  by (auto simp: object_id_of_def split: option.splits jval.splits if_splits)

lemma js_to_string_Inr: "js_to_string v = Inr s \<Longrightarrow> \<exists>x. v = Some x \<and> x \<noteq> JNull"
  by (auto simp: js_to_string_def split: option.splits jval.splits)

end
