(* ===== verification/Trades.thy ===== *)
theory Trades
  imports Ledger Http
begin

text \<open>
  The trades API: \<open>src/app/api/trades/route.ts\<close> (\<open>GET\<close> lists a user's trades,
  \<open>POST\<close> creates one) and \<open>src/app/api/trades/[tradeId]/route.ts\<close> (\<open>GET\<close>,
  \<open>DELETE\<close>, \<open>PUT\<close> of one trade). Each handler is a function from its request
  (query parameters as \<open>string option\<close>, a body as \<open>jval option\<close> with \<open>None\<close> for a
  body that is no JSON) and the world to the response and the new world. Every
  \<open>try\<close>/\<open>catch\<close> of the source is a case on an \<open>exn + _\<close> result, every early
  \<open>return\<close> a branch. Logging (\<open>console.error\<close>) is not modelled.

  \<open>validateTrade\<close> lives in \<open>src/app/models/Trade\<close>, which is not part of the
  repository; \<open>validate_trade\<close> follows the specification's description of it.
\<close>

subsection \<open>The trade validator (from the specification)\<close>

definition is_str :: "jval option \<Rightarrow> bool" where
  "is_str v \<longleftrightarrow> (case v of Some (JStr s) \<Rightarrow> s \<noteq> [] | _ \<Rightarrow> False)"

definition is_nonneg_num :: "jval option \<Rightarrow> bool" where
  "is_nonneg_num v \<longleftrightarrow> (case v of Some (JNum n) \<Rightarrow> 0 \<le> n | _ \<Rightarrow> False)"

definition trade_checks :: "(string \<times> (jval option \<Rightarrow> bool)) list" where
  "trade_checks =
     [(''id'', is_str), (''userId'', is_str), (''symbol'', is_str), (''side'', is_str),
      (''quantity'', is_nonneg_num), (''price'', is_nonneg_num), (''timestamp'', is_str)]"

definition validate_trade :: "jval \<Rightarrow> string list" where
  "validate_trade v =
     (case v of
        JObj d \<Rightarrow> map (\<lambda>(k, _). k @ '' is missing or invalid'')
                    (filter (\<lambda>(k, ok). \<not> ok (doc_get d k)) trade_checks)
      | _ \<Rightarrow> [''Trade must be an object''])"

subsection \<open>Responses\<close>

definition invalid_trade :: "string list \<Rightarrow> response" where
  "invalid_trade errs =
     \<lparr>status = 400, body = [(''error'', JStr ''Invalid trade data''), (''details'', JArr (map JStr errs))]\<rparr>"

subsection \<open>GET /api/trades\<close>

definition fetch_trades_failed :: "string \<Rightarrow> exn \<Rightarrow> response" where
  "fetch_trades_failed u e =
     \<lparr>status = 500, body = [(''error'', JStr ''Failed to fetch trades''),
                           (''details'', JStr (exn_message e)), (''userId'', JStr u)]\<rparr>"

definition get_trades :: "string option \<Rightarrow> world \<Rightarrow> response \<times> world" where
  "get_trades user_id w =
     (case truthy_param user_id of
        None \<Rightarrow> (json_error 400 ''User ID is required'', w)
      | Some u \<Rightarrow>
          (case connect_to_database w of
             (Inl e, w1) \<Rightarrow> (fetch_trades_failed u e, w1)
           | (Inr _, w1) \<Rightarrow>
               (case find_all Trades [(''userId'', JStr u)] w1 of
                  (Inl e, w2) \<Rightarrow> (fetch_trades_failed u e, w2)
                | (Inr ts, w2) \<Rightarrow>
                    (\<lparr>status = 200, body = [(''trades'', JArr (map JObj (sort_desc [''timestamp''] ts)))]\<rparr>, w2))))"

subsection \<open>POST /api/trades\<close>

definition create_failed :: "exn \<Rightarrow> response" where
  "create_failed e =
     \<lparr>status = 500, body = [(''error'', JStr ''Failed to create trade''), (''details'', JStr (exn_message e))]\<rparr>"

text \<open>
  The inner \<open>try\<close>: insert the trade (the driver adds \<open>_id\<close> to the very object that
  is then written to the ledger), write the ledger entry, and on any error delete the
  inserted trade again when \<open>result?.insertedId\<close> is truthy; the outcome of that
  compensating delete is only logged.
\<close>

definition create_with_ledger :: "doc \<Rightarrow> world \<Rightarrow> response \<times> world" where
  "create_with_ledger trade w =
     (case insert_one Trades trade w of
        (Inl e, w1) \<Rightarrow> (create_failed e, w1)
      | (Inr (res, trade'), w1) \<Rightarrow>
          (case save_trade_to_ledger trade' w1 of
             (Inr _, w2) \<Rightarrow>
               (\<lparr>status = 201, body = [(''message'', JStr ''Trade saved successfully''),
                                     (''tradeId'', inserted_id res)]\<rparr>, w2)
           | (Inl e, w2) \<Rightarrow>
               (create_failed e,
                if js_truthy (Some (inserted_id res))
                then snd (delete_one Trades [(''_id'', inserted_id res)] w2)
                else w2)))"

definition post_trade :: "jval option \<Rightarrow> world \<Rightarrow> response \<times> world" where
  "post_trade req w =
     (case req of
        None \<Rightarrow> (create_failed (SyntaxError ''Unexpected token in JSON''), w)
      | Some trade \<Rightarrow>
          (if validate_trade trade \<noteq> [] then (invalid_trade (validate_trade trade), w)
           else (case connect_to_database w of
                   (Inl e, w1) \<Rightarrow> (create_failed e, w1)
                 | (Inr _, w1) \<Rightarrow> create_with_ledger (as_doc trade) w1)))"

subsection \<open>GET /api/trades/[tradeId]\<close>

definition owner_filter :: "string \<Rightarrow> jval \<Rightarrow> filter" where
  "owner_filter trade_id uid = [(''id'', JStr trade_id), (''userId'', uid)]"

definition fetch_trade_failed :: "string \<Rightarrow> string \<Rightarrow> exn \<Rightarrow> response" where
  "fetch_trade_failed trade_id u e =
     \<lparr>status = 500, body = [(''error'', JStr ''Failed to fetch trade''), (''details'', JStr (exn_message e)),
                           (''tradeId'', JStr trade_id), (''userId'', JStr u)]\<rparr>"

definition get_trade :: "string \<Rightarrow> string option \<Rightarrow> world \<Rightarrow> response \<times> world" where
  "get_trade trade_id user_id w =
     (if trade_id = [] then (json_error 400 ''Trade ID is required'', w)
      else case truthy_param user_id of
        None \<Rightarrow> (json_error 400 ''User ID is required for security'', w)
      | Some u \<Rightarrow>
          (case connect_to_database w of
             (Inl e, w1) \<Rightarrow> (fetch_trade_failed trade_id u e, w1)
           | (Inr _, w1) \<Rightarrow>
               (case find_one Trades (owner_filter trade_id (JStr u)) w1 of
                  (Inl e, w2) \<Rightarrow> (fetch_trade_failed trade_id u e, w2)
                | (Inr None, w2) \<Rightarrow>
                    (json_error 404 ''Trade not found or you do not have permission to view it'', w2)
                | (Inr (Some t), w2) \<Rightarrow> (\<lparr>status = 200, body = [(''trade'', JObj t)]\<rparr>, w2))))"

subsection \<open>DELETE /api/trades/[tradeId]\<close>

definition delete_failed :: "string \<Rightarrow> string \<Rightarrow> exn \<Rightarrow> response" where
  "delete_failed trade_id u e =
     \<lparr>status = 500, body = [(''error'', JStr ''Failed to delete trade''), (''details'', JStr (exn_message e)),
                           (''tradeId'', JStr trade_id), (''userId'', JStr u)]\<rparr>"

definition ledger_delete_failed :: "exn \<Rightarrow> response" where
  "ledger_delete_failed e =
     \<lparr>status = 500, body = [(''error'', JStr ''Failed to delete trade''),
                           (''details'', JStr ''Could not record deletion in ledger''),
                           (''ledgerError'', JStr (exn_message e))]\<rparr>"

text \<open>\<open>{...existingTrade, action: 'deleted', deletedAt, previousState: existingTrade}\<close>.\<close>

definition deletion_record :: "doc \<Rightarrow> js_env \<Rightarrow> doc" where
  "deletion_record existing e =
     doc_set (doc_set (doc_set (spread existing) ''action'' (JStr ''deleted''))
       ''deletedAt'' (JStr (iso_of e (now_ms e))))
       ''previousState'' (JObj existing)"

text \<open>
  The inner \<open>try\<close> of \<open>DELETE\<close>: the ledger entry first, then the physical delete.
  Its \<open>catch\<close> receives the errors of both calls and reports each as a ledger failure.
\<close>

definition delete_with_ledger :: "string \<Rightarrow> string \<Rightarrow> doc \<Rightarrow> world \<Rightarrow> response \<times> world" where
  "delete_with_ledger trade_id u existing w =
     (case save_trade_to_ledger (deletion_record existing (env w)) w of
        (Inl e, w1) \<Rightarrow> (ledger_delete_failed e, w1)
      | (Inr _, w1) \<Rightarrow>
          (case delete_one Trades (owner_filter trade_id (JStr u)) w1 of
             (Inl e, w2) \<Rightarrow> (ledger_delete_failed e, w2)
           | (Inr n, w2) \<Rightarrow>
               if n = 0
               then (\<lparr>status = 500, body = [(''error'', JStr ''Failed to delete trade''),
                      (''details'', JStr ''Trade was found but could not be deleted'')]\<rparr>, w2)
               else (\<lparr>status = 200, body = [(''message'', JStr ''Trade deleted successfully''),
                      (''deletedCount'', JNum (int n))]\<rparr>, w2)))"

definition delete_trade :: "string \<Rightarrow> string option \<Rightarrow> world \<Rightarrow> response \<times> world" where
  "delete_trade trade_id user_id w =
     (if trade_id = [] then (json_error 400 ''Trade ID is required'', w)
      else case truthy_param user_id of
        None \<Rightarrow> (json_error 400 ''User ID is required for security'', w)
      | Some u \<Rightarrow>
          (case connect_to_database w of
             (Inl e, w1) \<Rightarrow> (delete_failed trade_id u e, w1)
           | (Inr _, w1) \<Rightarrow>
               (case find_one Trades (owner_filter trade_id (JStr u)) w1 of
                  (Inl e, w2) \<Rightarrow> (delete_failed trade_id u e, w2)
                | (Inr None, w2) \<Rightarrow>
                    (json_error 404 ''Trade not found or you do not have permission to delete it'', w2)
                | (Inr (Some existing), w2) \<Rightarrow> delete_with_ledger trade_id u existing w2)))"

subsection \<open>PUT /api/trades/[tradeId]\<close>

definition update_failed :: "exn \<Rightarrow> response" where
  "update_failed e =
     \<lparr>status = 500, body = [(''error'', JStr ''Failed to update trade''), (''details'', JStr (exn_message e))]\<rparr>"

text \<open>\<open>{...existingTrade, ...updates, updatedAt, previousState: existingTrade}\<close>.\<close>

definition updated_record :: "doc \<Rightarrow> doc \<Rightarrow> js_env \<Rightarrow> doc" where
  "updated_record existing updates e =
     doc_set (doc_set (doc_assign (spread existing) updates)
       ''updatedAt'' (JStr (iso_of e (now_ms e))))
       ''previousState'' (JObj existing)"

text \<open>Lines 188--214: the ledger write after the update; its failure is a 207, not a rollback.\<close>

definition update_with_ledger :: "doc \<Rightarrow> doc \<Rightarrow> update_result \<Rightarrow> world \<Rightarrow> response \<times> world" where
  "update_with_ledger updates existing res w =
     (case save_trade_to_ledger (updated_record existing updates (env w)) w of
        (Inr _, w1) \<Rightarrow>
          (\<lparr>status = 200, body = [(''message'', JStr ''Trade updated successfully''),
                                (''modifiedCount'', JNum (int (modified_count res)))]\<rparr>, w1)
      | (Inl _, w1) \<Rightarrow>
          (\<lparr>status = 207, body = [(''message'', JStr ''Trade updated but ledger entry failed''),
             (''warning'', JStr ''The trade was updated but may not appear correctly in trade history''),
             (''modifiedCount'', JNum (int (modified_count res)))]\<rparr>, w1))"

definition put_trade :: "string \<Rightarrow> jval option \<Rightarrow> world \<Rightarrow> response \<times> world" where
  "put_trade trade_id req w =
     (if trade_id = [] then (json_error 400 ''Trade ID is required'', w)
      else case req of
        None \<Rightarrow> (update_failed (SyntaxError ''Unexpected token in JSON''), w)
      | Some updates \<Rightarrow>
          (case js_prop updates ''userId'' of
             Inl e \<Rightarrow> (update_failed e, w)
           | Inr uid \<Rightarrow>
               if \<not> js_truthy uid then (json_error 400 ''User ID is required for updating trades'', w)
               else if validate_trade updates \<noteq> [] then (invalid_trade (validate_trade updates), w)
               else
                 (case connect_to_database w of
                    (Inl e, w1) \<Rightarrow> (update_failed e, w1)
                  | (Inr _, w1) \<Rightarrow>
                      (case find_one Trades (owner_filter trade_id (js_val uid)) w1 of
                         (Inl e, w2) \<Rightarrow> (update_failed e, w2)
                       | (Inr None, w2) \<Rightarrow>
                           (json_error 404 ''Trade not found or you do not have permission to update it'', w2)
                       | (Inr (Some existing), w2) \<Rightarrow>
                           (case update_one Trades (owner_filter trade_id (js_val uid)) (as_doc updates) w2 of
                              (Inl e, w3) \<Rightarrow> (update_failed e, w3)
                            | (Inr res, w3) \<Rightarrow>
                                if matched_count res = 0 then (json_error 404 ''Trade not found'', w3)
                                else update_with_ledger (as_doc updates) existing res w3)))))"

declare get_trades_def [handler_defs] post_trade_def [handler_defs] create_with_ledger_def [handler_defs]
  get_trade_def [handler_defs] delete_trade_def [handler_defs] delete_with_ledger_def [handler_defs]
  put_trade_def [handler_defs] update_with_ledger_def [handler_defs]

subsection \<open>Validation\<close>

lemma validate_trade_missing:
  assumes "k \<in> set (map fst trade_checks)" and "doc_get d k = None"
  shows "validate_trade (JObj d) \<noteq> []"
proof -
  from assms(1) obtain ok where mem: "(k, ok) \<in> set trade_checks" by auto
  then have "\<not> ok None" by (auto simp: trade_checks_def is_str_def is_nonneg_num_def)
  with mem assms(2) have "(k, ok) \<in> set (filter (\<lambda>(k, ok). \<not> ok (doc_get d k)) trade_checks)"
    by simp
  then have "filter (\<lambda>(k, ok). \<not> ok (doc_get d k)) trade_checks \<noteq> []"
    by (metis empty_iff list.set(1))
  then show ?thesis by (simp add: validate_trade_def)
qed

lemma validate_trade_ok_fields:
  assumes "validate_trade t = []"
  shows "\<exists>d. t = JObj d \<and> (\<forall>(k, ok) \<in> set trade_checks. ok (doc_get d k))"
  using assms by (cases t) (auto simp: validate_trade_def filter_empty_conv)

lemma validate_trade_ok_userId:
  assumes "validate_trade t = []"
  shows "\<exists>u. doc_get (as_doc t) ''userId'' = Some (JStr u) \<and> u \<noteq> []"
proof -
  from validate_trade_ok_fields [OF assms] obtain d where t: "t = JObj d"
    and ok: "\<forall>(k, ok) \<in> set trade_checks. ok (doc_get d k)" by blast
  then have "is_str (doc_get d ''userId'')" by (auto simp: trade_checks_def)
  with t show ?thesis by (auto simp: is_str_def split: option.splits jval.splits)
qed

lemma validate_trade_ok_id:
  assumes "validate_trade t = []"
  shows "\<exists>i. doc_get (as_doc t) ''id'' = Some (JStr i) \<and> i \<noteq> []"
proof -
  from validate_trade_ok_fields [OF assms] obtain d where t: "t = JObj d"
    and ok: "\<forall>(k, ok) \<in> set trade_checks. ok (doc_get d k)" by blast
  then have "is_str (doc_get d ''id'')" by (auto simp: trade_checks_def)
  with t show ?thesis by (auto simp: is_str_def split: option.splits jval.splits)
qed

subsection \<open>Effects of the inner blocks\<close>

lemma create_with_ledger_created:
  assumes "create_with_ledger t w = (r, w')" and "status r = 201"
  shows "\<exists>d day n. (\<forall>k. k \<noteq> ''_id'' \<longrightarrow> doc_get d k = doc_get t k) \<and>
           doc_get (body r) ''tradeId'' = doc_get d ''_id'' \<and>
           store w' = (store w)(Trades := store w Trades @ [d],
                                Ledger := store w Ledger @ [ledger_entry d day (now_ms (env w)) @ [(''_id'', JOid n)]])"
proof -
  obtain i w1 where i: "insert_one Trades t w = (i, w1)" by fastforce
  from assms i obtain res d where i': "i = Inr (res, d)"
    by (cases i) (auto simp: create_with_ledger_def create_failed_def)
  note ins = insert_one_ok [OF i [unfolded i']]
  obtain sv w2 where sv: "save_trade_to_ledger d w1 = (sv, w2)" by fastforce
  from assms i i' sv obtain x where sv': "sv = Inr x" and r: "r = \<lparr>status = 201, body = [(''message'', JStr ''Trade saved successfully''), (''tradeId'', inserted_id res)]\<rparr>" and w': "w' = w2"
    by (cases sv) (auto simp: create_with_ledger_def create_failed_def)
  from save_trade_to_ledger_ok [OF sv [unfolded sv']] obtain day where
    led: "store w2 = (store w1)(Ledger := store w1 Ledger @ [ledger_entry d day (now_ms (env w1)) @ [(''_id'', JOid (next_oid w1))]])"
    by blast
  show ?thesis
    using ins(1,2,4,5) led r w' by (intro exI [of _ d] exI [of _ day] exI [of _ "next_oid w1"]) (auto simp: fun_eq_iff)
qed

lemma delete_with_ledger_effect:
  assumes "delete_with_ledger tid u ex w = (r, w')"
  shows "(store w' Trades = store w Trades \<and> status r \<noteq> 200) \<or>
         (\<exists>day. store w' Ledger = store w Ledger @
                   [ledger_entry (deletion_record ex (env w)) day (now_ms (env w)) @ [(''_id'', JOid (next_oid w))]] \<and>
                 store w' Trades = remove_first (matches (owner_filter tid (JStr u))) (store w Trades) \<and>
                 (status r = 200 \<longleftrightarrow> find (matches (owner_filter tid (JStr u))) (store w Trades) \<noteq> None))"
proof -
  let ?rec = "deletion_record ex (env w)" and ?f = "owner_filter tid (JStr u)"
  obtain sv w1 where sv: "save_trade_to_ledger ?rec w = (sv, w1)" by fastforce
  have t1: "store w1 Trades = store w Trades" using sv by simp
  show ?thesis
  proof (cases sv)
    case (Inl e)
    with assms sv t1 show ?thesis
      by (auto simp: delete_with_ledger_def ledger_delete_failed_def)
  next
    case (Inr x)
    from save_trade_to_ledger_ok [OF sv [unfolded Inr]] obtain day where
      led: "store w1 = (store w)(Ledger := store w Ledger @ [ledger_entry ?rec day (now_ms (env w)) @ [(''_id'', JOid (next_oid w))]])"
      by blast
    obtain dl w2 where dl: "delete_one Trades ?f w1 = (dl, w2)" by fastforce
    show ?thesis
    proof (cases dl)
      case (Inl e)
      with assms sv Inr dl delete_one_error [of Trades ?f w1 e w2] t1 show ?thesis
        by (auto simp: delete_with_ledger_def ledger_delete_failed_def)
    next
      case (Inr n)
      note del = delete_one_ok [OF dl [unfolded Inr]]
      from assms sv \<open>sv = Inr x\<close> dl Inr have "w' = w2"
        and st: "status r = 200 \<longleftrightarrow> n \<noteq> 0"
        by (auto simp: delete_with_ledger_def split: if_splits)
      with del led t1 show ?thesis by auto
    qed
  qed
qed

lemma update_with_ledger_effect:
  assumes "update_with_ledger upd ex res w = (r, w')"
  shows "store w' Trades = store w Trades \<and> (status r = 200 \<or> status r = 207) \<and>
         (status r = 200 \<longrightarrow> (\<exists>day. store w' Ledger = store w Ledger @
            [ledger_entry (updated_record ex upd (env w)) day (now_ms (env w)) @ [(''_id'', JOid (next_oid w))]]))"
proof -
  obtain sv w1 where sv: "save_trade_to_ledger (updated_record ex upd (env w)) w = (sv, w1)" by fastforce
  show ?thesis
  proof (cases sv)
    case (Inl e)
    with assms sv show ?thesis by (auto simp: update_with_ledger_def)
  next
    case (Inr x)
    from save_trade_to_ledger_ok [OF sv [unfolded Inr]] obtain day where
      "store w1 = (store w)(Ledger := store w Ledger @
         [ledger_entry (updated_record ex upd (env w)) day (now_ms (env w)) @ [(''_id'', JOid (next_oid w))]])"
      by blast
    with Inr sv assms show ?thesis by (auto simp: update_with_ledger_def)
  qed
qed

subsection \<open>The handlers, case by case\<close>

lemma post_trade_cases:
  assumes "post_trade req w = (r, w')"
  shows "(store w' = store w \<and> status r \<noteq> 201) \<or>
         (\<exists>t w1. req = Some t \<and> validate_trade t = [] \<and> store w1 = store w \<and> env w1 = env w \<and>
                 next_oid w1 = next_oid w \<and> create_with_ledger (as_doc t) w1 = (r, w'))"
  using assms
  by (auto simp: post_trade_def create_failed_def invalid_trade_def
           split: option.splits if_splits prod.splits sum.splits dest!: connect_frame)

lemma delete_trade_cases:
  assumes "delete_trade tid (Some u) w = (r, w')"
  shows "(store w' = store w \<and> status r \<noteq> 200) \<or>
         (\<exists>ex w2. find (matches (owner_filter tid (JStr u))) (store w Trades) = Some ex \<and>
                 store w2 = store w \<and> env w2 = env w \<and> next_oid w2 = next_oid w \<and>
                 delete_with_ledger tid u ex w2 = (r, w'))"
  using assms
  by (auto simp: delete_trade_def truthy_param_def json_error_def delete_failed_def
           split: if_splits prod.splits sum.splits option.splits dest!: connect_frame find_one_cases)

lemma put_trade_cases:
  assumes "put_trade tid (Some upd) w = (r, w')"
  shows "(store w' = store w \<and> status r \<noteq> 200 \<and> status r \<noteq> 207) \<or>
         (\<exists>u ex res w3. doc_get (as_doc upd) ''userId'' = Some (JStr u) \<and> validate_trade upd = [] \<and>
            find (matches (owner_filter tid (JStr u))) (store w Trades) = Some ex \<and>
            store w3 = (store w)(Trades := map_first (matches (owner_filter tid (JStr u)))
                                              (\<lambda>x. doc_assign x (as_doc upd)) (store w Trades)) \<and>
            env w3 = env w \<and> next_oid w3 = next_oid w \<and> update_with_ledger (as_doc upd) ex res w3 = (r, w'))"
proof (cases "tid \<noteq> [] \<and> validate_trade upd = [] \<and> js_truthy (doc_get (as_doc upd) ''userId'')")
  case False
  with assms show ?thesis
    by (auto simp: put_trade_def json_error_def invalid_trade_def update_failed_def
             split: sum.splits if_splits dest: js_prop_Inr)
next
  case True
  then have tid: "tid \<noteq> []" and val: "validate_trade upd = []" by auto
  from validate_trade_ok_fields [OF val] obtain d where upd: "upd = JObj d" by blast
  from validate_trade_ok_userId [OF val] obtain u where uid: "doc_get (as_doc upd) ''userId'' = Some (JStr u)"
    and u: "u \<noteq> []" by blast
  let ?f = "owner_filter tid (js_val (Some (JStr u)))"
  have f_eq: "?f = owner_filter tid (JStr u)" by (simp add: js_val_def)
  have jp: "js_prop upd ''userId'' = Inr (Some (JStr u))" using upd uid by (simp add: js_prop_def)
  obtain c1 w1 where c: "connect_to_database w = (c1, w1)" by fastforce
  note cf = connect_frame [OF c]
  have run1: "put_trade tid (Some upd) w =
    (case c1 of Inl e \<Rightarrow> (update_failed e, w1)
     | Inr _ \<Rightarrow> (case find_one Trades ?f w1 of
          (Inl e, w2) \<Rightarrow> (update_failed e, w2)
        | (Inr None, w2) \<Rightarrow> (json_error 404 ''Trade not found or you do not have permission to update it'', w2)
        | (Inr (Some existing), w2) \<Rightarrow>
            (case update_one Trades ?f (as_doc upd) w2 of
               (Inl e, w3) \<Rightarrow> (update_failed e, w3)
             | (Inr res, w3) \<Rightarrow>
                 if matched_count res = 0 then (json_error 404 ''Trade not found'', w3)
                 else update_with_ledger (as_doc upd) existing res w3)))"
    using tid val jp u c by (simp add: put_trade_def split: sum.splits)
  show ?thesis
  proof (cases c1)
    case (Inl e)
    with assms run1 cf show ?thesis by (auto simp: update_failed_def)
  next
    case (Inr v)
    obtain fo w2 where fo: "find_one Trades ?f w1 = (fo, w2)" by fastforce
    note ff = find_one_cases [OF fo]
    show ?thesis
    proof (cases "fo = Inr None \<or> (\<exists>e. fo = Inl e)")
      case True
      with assms run1 Inr fo ff cf show ?thesis by (auto simp: update_failed_def json_error_def)
    next
      case False
      then obtain ex where fo': "fo = Inr (Some ex)" by (cases fo) auto
      with ff cf f_eq have found: "find (matches (owner_filter tid (JStr u))) (store w Trades) = Some ex"
        by simp
      obtain up w3 where up: "update_one Trades ?f (as_doc upd) w2 = (up, w3)" by fastforce
      show ?thesis
      proof (cases up)
        case (Inl e)
        with assms run1 Inr fo fo' up update_one_error [of Trades ?f "as_doc upd" w2 e w3] ff cf
        show ?thesis by (auto simp: update_failed_def)
      next
        case (Inr res)
        note uo = update_one_ok [OF up [unfolded Inr]]
        with found ff cf f_eq have m: "matched_count res \<noteq> 0" by simp
        from assms run1 \<open>c1 = Inr v\<close> fo fo' up Inr m
        have "update_with_ledger (as_doc upd) ex res w3 = (r, w')" by simp
        with uid val found uo ff cf f_eq show ?thesis by (intro disjI2) auto
      qed
    qed
  qed
qed

text \<open>C2: a create whose payload lacks a required field is refused before any store call.\<close>

theorem post_trade_rejects_missing:
  assumes "k \<in> set (map fst trade_checks)" and "doc_get d k = None"
  shows "post_trade (Some (JObj d)) w = (invalid_trade (validate_trade (JObj d)), w)"
  using validate_trade_missing [OF assms] by (simp add: post_trade_def)

text \<open>C3: an update whose payload lacks a required field is refused, and nothing is written.\<close>

theorem put_trade_rejects_missing:
  assumes "k \<in> set (map fst trade_checks)" and "doc_get d k = None" and "tid \<noteq> []"
    and "put_trade tid (Some (JObj d)) w = (r, w')"
  shows "status r = 400 \<and> w' = w"
  using validate_trade_missing [OF assms(1,2)] assms(3,4)
  by (auto simp: put_trade_def js_prop_def json_error_def invalid_trade_def split: if_splits)

subsection \<open>Reads are scoped by owner\<close>

text \<open>C1: a trade is returned only to its owner, and only the trade asked for.\<close>

theorem get_trade_owner_only:
  assumes "get_trade tid (Some u) w = (r, w')" and "status r = 200"
  shows "\<exists>t. body r = [(''trade'', JObj t)] \<and> t \<in> set (store w Trades) \<and>
             doc_get t ''userId'' = Some (JStr u) \<and> doc_get t ''id'' = Some (JStr tid)"
  using assms
  by (auto simp: get_trade_def truthy_param_def json_error_def fetch_trade_failed_def
                 owner_filter_def matches_def
           split: if_splits option.splits prod.splits sum.splits
           dest!: find_one_result connect_frame find_Some_in_set)

text \<open>C4: the list of a user's trades is exactly their trades, newest timestamp first.\<close>

theorem get_trades_sorted:
  assumes "get_trades (Some u) w = (r, w')" and "status r = 200"
  shows "\<exists>ts. body r = [(''trades'', JArr (map JObj ts))] \<and>
              mset ts = mset (filter (matches [(''userId'', JStr u)]) (store w Trades)) \<and>
              sorted_wrt (\<ge>) (map (sort_key_of [''timestamp'']) ts)"
  using assms
  by (auto simp: get_trades_def truthy_param_def json_error_def fetch_trades_failed_def sort_desc_sorted
           split: if_splits option.splits prod.splits sum.splits
           dest!: find_all_result connect_frame)

subsection \<open>Every handler only appends to the ledger\<close>

lemma create_with_ledger_evolves [evolves_rules]:
  assumes "create_with_ledger t w = (r, w')"
  shows "evolves w w'"
proof -
  obtain i w1 where i: "insert_one Trades t w = (i, w1)" by fastforce
  have e1: "evolves w w1" using i by (rule insert_one_evolves)
  show ?thesis
  proof (cases i)
    case (Inl e)
    with assms i e1 show ?thesis by (simp add: create_with_ledger_def)
  next
    case (Inr p)
    then obtain res d where p: "i = Inr (res, d)" by (cases p) auto
    obtain sv w2 where sv: "save_trade_to_ledger d w1 = (sv, w2)" by fastforce
    have e2: "evolves w1 w2" using sv by (rule save_trade_to_ledger_evolves)
    have e3: "evolves w2 (snd (delete_one Trades [(''_id'', inserted_id res)] w2))"
      using delete_one_evolves [of Trades "[(''_id'', inserted_id res)]" w2
          "fst (delete_one Trades [(''_id'', inserted_id res)] w2)"
          "snd (delete_one Trades [(''_id'', inserted_id res)] w2)"] by simp
    have "evolves w1 w'"
    proof (cases sv)
      case (Inl e)
      with assms i p sv have "w' = (if js_truthy (Some (inserted_id res))
                                    then snd (delete_one Trades [(''_id'', inserted_id res)] w2) else w2)"
        by (simp add: create_with_ledger_def)
      with e2 e3 show ?thesis by (auto intro: evolves_trans)
    next
      case (Inr x)
      with assms i p sv e2 show ?thesis by (simp add: create_with_ledger_def)
    qed
    with e1 show ?thesis by (rule evolves_trans)
  qed
qed

lemma post_trade_evolves [evolves_rules]: "post_trade req w = (r, w') \<Longrightarrow> evolves w w'"
  by (auto simp: post_trade_def split: option.splits if_splits prod.splits sum.splits
           dest!: connect_evolves create_with_ledger_evolves intro: evolves_trans)

lemma get_trades_evolves [evolves_rules]: "get_trades u w = (r, w') \<Longrightarrow> evolves w w'"
  by (auto simp: get_trades_def find_all_def split: option.splits prod.splits sum.splits
           dest!: connect_evolves find_where_evolves intro: evolves_trans)

lemma get_trade_evolves [evolves_rules]: "get_trade tid u w = (r, w') \<Longrightarrow> evolves w w'"
  by (auto simp: get_trade_def split: if_splits option.splits prod.splits sum.splits
           dest!: connect_evolves find_one_evolves intro: evolves_trans)

lemma delete_with_ledger_evolves [evolves_rules]:
  "delete_with_ledger tid u ex w = (r, w') \<Longrightarrow> evolves w w'"
  by (auto simp: delete_with_ledger_def split: if_splits prod.splits sum.splits
           dest!: save_trade_to_ledger_evolves delete_one_evolves intro: evolves_trans)

lemma delete_trade_evolves [evolves_rules]: "delete_trade tid u w = (r, w') \<Longrightarrow> evolves w w'"
  by (auto simp: delete_trade_def split: if_splits option.splits prod.splits sum.splits
           dest!: connect_evolves find_one_evolves delete_with_ledger_evolves intro: evolves_trans)

lemma update_with_ledger_evolves [evolves_rules]:
  "update_with_ledger upd ex res w = (r, w') \<Longrightarrow> evolves w w'"
  by (auto simp: update_with_ledger_def split: prod.splits sum.splits
           dest!: save_trade_to_ledger_evolves)

lemma put_trade_evolves [evolves_rules]: "put_trade tid req w = (r, w') \<Longrightarrow> evolves w w'"
  by (auto simp: put_trade_def split: if_splits option.splits prod.splits sum.splits
           dest!: connect_evolves find_one_evolves update_one_evolves update_with_ledger_evolves
           intro: evolves_trans)

subsection \<open>How each handler can change the trades collection\<close>

lemma create_with_ledger_trades:
  assumes "create_with_ledger t w = (r, w')"
  shows "store w' Trades = store w Trades \<or>
         (\<exists>d. (\<forall>k. k \<noteq> ''_id'' \<longrightarrow> doc_get d k = doc_get t k) \<and> store w' Trades = store w Trades @ [d])"
proof -
  obtain i w1 where i: "insert_one Trades t w = (i, w1)" by fastforce
  show ?thesis
  proof (cases i)
    case (Inl e)
    with assms i insert_one_error [of Trades t w e w1] show ?thesis
      by (simp add: create_with_ledger_def)
  next
    case (Inr p)
    then obtain res d where p: "i = Inr (res, d)" by (cases p) auto
    note ins = insert_one_ok [OF i [unfolded p]]
    obtain sv w2 where sv: "save_trade_to_ledger d w1 = (sv, w2)" by fastforce
    have t2: "store w2 Trades = store w Trades @ [d]" using sv ins(1) by simp
    let ?del = "delete_one Trades [(''_id'', inserted_id res)] w2"
    have dl: "store (snd ?del) Trades = store w Trades \<or> store (snd ?del) Trades = store w Trades @ [d]"
    proof (cases "fst ?del")
      case (Inl e)
      then have "?del = (Inl e, snd ?del)" by (metis prod.collapse)
      from delete_one_error [OF this] t2 show ?thesis by simp
    next
      case (Inr n)
      then have "?del = (Inr n, snd ?del)" by (metis prod.collapse)
      from delete_one_ok(1) [OF this] t2 ins(4,6) show ?thesis
        by (simp add: matches_def id_taken_def)
    qed
    from assms i p sv have "w' = w2 \<or> w' = snd ?del"
      by (auto simp: create_with_ledger_def split: sum.splits if_splits)
    with t2 dl ins(5) show ?thesis by blast
  qed
qed

lemma post_trade_trades:
  assumes "post_trade req w = (r, w')"
  shows "store w' Trades = store w Trades \<or>
         (\<exists>t d. req = Some t \<and> validate_trade t = [] \<and>
            (\<forall>k. k \<noteq> ''_id'' \<longrightarrow> doc_get d k = doc_get (as_doc t) k) \<and>
            store w' Trades = store w Trades @ [d])"
proof (cases "store w' = store w")
  case False
  with post_trade_cases [OF assms] obtain t w1 where
    "req = Some t" "validate_trade t = []" "store w1 = store w" "create_with_ledger (as_doc t) w1 = (r, w')"
    by auto
  with create_with_ledger_trades [of "as_doc t" w1 r w'] show ?thesis by auto
qed simp

lemma delete_trade_trades:
  assumes "delete_trade tid (Some u) w = (r, w')"
  shows "store w' Trades = store w Trades \<or>
         store w' Trades = remove_first (matches (owner_filter tid (JStr u))) (store w Trades)"
proof -
  from delete_trade_cases [OF assms] show ?thesis
  proof
    assume "\<exists>ex w2. find (matches (owner_filter tid (JStr u))) (store w Trades) = Some ex \<and>
                 store w2 = store w \<and> env w2 = env w \<and> next_oid w2 = next_oid w \<and>
                 delete_with_ledger tid u ex w2 = (r, w')"
    then show ?thesis by (auto dest!: delete_with_ledger_effect)
  qed simp
qed

lemma put_trade_trades:
  assumes "put_trade tid (Some upd) w = (r, w')"
  shows "store w' Trades = store w Trades \<or>
         (\<exists>u. doc_get (as_doc upd) ''userId'' = Some (JStr u) \<and> validate_trade upd = [] \<and>
            store w' Trades = map_first (matches (owner_filter tid (JStr u)))
                                (\<lambda>x. doc_assign x (as_doc upd)) (store w Trades))"
proof -
  from put_trade_cases [OF assms] show ?thesis
  proof
    assume "store w' = store w \<and> status r \<noteq> 200 \<and> status r \<noteq> 207"
    then show ?thesis by simp
  next
    assume "\<exists>u ex res w3. doc_get (as_doc upd) ''userId'' = Some (JStr u) \<and> validate_trade upd = [] \<and>
            find (matches (owner_filter tid (JStr u))) (store w Trades) = Some ex \<and>
            store w3 = (store w)(Trades := map_first (matches (owner_filter tid (JStr u)))
                                              (\<lambda>x. doc_assign x (as_doc upd)) (store w Trades)) \<and>
            env w3 = env w \<and> next_oid w3 = next_oid w \<and> update_with_ledger (as_doc upd) ex res w3 = (r, w')"
    then show ?thesis by (auto dest!: update_with_ledger_effect)
  qed
qed

lemma get_trades_store: "get_trades u w = (r, w') \<Longrightarrow> store w' = store w"
  by (auto simp: get_trades_def split: option.splits prod.splits sum.splits
           dest!: connect_frame find_all_frame)

lemma get_trade_store: "get_trade tid u w = (r, w') \<Longrightarrow> store w' = store w"
  by (auto simp: get_trade_def split: if_splits option.splits prod.splits sum.splits
           dest!: connect_frame find_one_frame)

subsection \<open>The write path\<close>

text \<open>
  C5: a create that answers 201 has appended exactly one trade, the payload with its
  \<open>_id\<close>, to the trades collection and exactly one ledger entry referring to it to the
  ledger; the answer's \<open>tradeId\<close> is that \<open>_id\<close>, and no other collection changed.
\<close>

theorem post_trade_created:
  assumes "post_trade (Some t) w = (r, w')" and "status r = 201"
  shows "\<exists>d day n. (\<forall>k. k \<noteq> ''_id'' \<longrightarrow> doc_get d k = doc_get (as_doc t) k) \<and>
           doc_get (body r) ''tradeId'' = doc_get d ''_id'' \<and>
           store w' = (store w)(Trades := store w Trades @ [d],
                                Ledger := store w Ledger @ [ledger_entry d day (now_ms (env w)) @ [(''_id'', JOid n)]])"
proof -
  from post_trade_cases [OF assms(1)] assms(2) obtain w1 where
    w1: "store w1 = store w" "env w1 = env w" and cr: "create_with_ledger (as_doc t) w1 = (r, w')"
    by auto
  from create_with_ledger_created [OF cr assms(2)] w1 show ?thesis by simp
qed

text \<open>
  C6: delete writes the ledger first. Whenever a delete changes the trades collection,
  it has removed the owner's first matching trade and the ledger has grown by exactly
  the entry recording that trade's deletion; so when the ledger write fails, the trade
  is still there.
\<close>

theorem delete_trade_ledger_first:
  assumes "delete_trade tid (Some u) w = (r, w')" and "store w' Trades \<noteq> store w Trades"
  shows "\<exists>ex day. find (matches (owner_filter tid (JStr u))) (store w Trades) = Some ex \<and>
           store w' Trades = remove_first (matches (owner_filter tid (JStr u))) (store w Trades) \<and>
           store w' Ledger = store w Ledger @
             [ledger_entry (deletion_record ex (env w)) day (now_ms (env w)) @ [(''_id'', JOid (next_oid w))]]"
proof -
  from delete_trade_cases [OF assms(1)] assms(2) obtain ex w2 where
    found: "find (matches (owner_filter tid (JStr u))) (store w Trades) = Some ex"
    and w2: "store w2 = store w" "env w2 = env w" "next_oid w2 = next_oid w"
    and dw: "delete_with_ledger tid u ex w2 = (r, w')"
    by auto
  from delete_with_ledger_effect [OF dw] assms(2) w2 found show ?thesis by auto
qed

text \<open>
  C7: a delete that answers 200 removed the owner's trade and recorded it in the
  ledger as deleted, with the removed document as its previous state.
\<close>

theorem delete_trade_success:
  assumes "delete_trade tid (Some u) w = (r, w')" and "status r = 200"
  shows "\<exists>ex day ys zs. store w Trades = ys @ ex # zs \<and> store w' Trades = ys @ zs \<and>
           doc_get ex ''id'' = Some (JStr tid) \<and> doc_get ex ''userId'' = Some (JStr u) \<and>
           store w' Ledger = store w Ledger @
             [ledger_entry (deletion_record ex (env w)) day (now_ms (env w)) @ [(''_id'', JOid (next_oid w))]]"
proof -
  let ?f = "owner_filter tid (JStr u)"
  from delete_trade_cases [OF assms(1)] assms(2) obtain ex w2 where
    found: "find (matches ?f) (store w Trades) = Some ex"
    and w2: "store w2 = store w" "env w2 = env w" "next_oid w2 = next_oid w"
    and dw: "delete_with_ledger tid u ex w2 = (r, w')"
    by auto
  from delete_with_ledger_effect [OF dw] assms(2) w2 obtain day where
    led: "store w' Ledger = store w Ledger @
            [ledger_entry (deletion_record ex (env w)) day (now_ms (env w)) @ [(''_id'', JOid (next_oid w))]]"
    and tr: "store w' Trades = remove_first (matches ?f) (store w Trades)"
    by auto
  from remove_first_find [OF found] obtain ys zs where
    "store w Trades = ys @ ex # zs" "remove_first (matches ?f) (store w Trades) = ys @ zs" by blast
  moreover from find_Some_in_set [OF found] have "matches ?f ex" by simp
  ultimately show ?thesis using led tr by (auto simp: matches_def owner_filter_def)
qed

text \<open>
  C8: an update whose ledger write fails answers the distinct status 207, and the
  trades collection then holds the owner's trade with the update's fields set
  (the store's \<open>$set\<close>), in place.
\<close>

theorem put_trade_partial_success:
  assumes "put_trade tid (Some upd) w = (r, w')" and "status r = 207"
  shows "\<exists>u ex ys zs. doc_get (as_doc upd) ''userId'' = Some (JStr u) \<and>
           store w Trades = ys @ ex # zs \<and> matches (owner_filter tid (JStr u)) ex \<and>
           store w' Trades = ys @ doc_assign ex (as_doc upd) # zs"
proof -
  from put_trade_cases [OF assms(1)] assms(2) obtain u ex res w3 where
    uid: "doc_get (as_doc upd) ''userId'' = Some (JStr u)"
    and found: "find (matches (owner_filter tid (JStr u))) (store w Trades) = Some ex"
    and w3: "store w3 = (store w)(Trades := map_first (matches (owner_filter tid (JStr u)))
                                              (\<lambda>x. doc_assign x (as_doc upd)) (store w Trades))"
    and uw: "update_with_ledger (as_doc upd) ex res w3 = (r, w')"
    by auto
  from update_with_ledger_effect [OF uw] w3 have "store w' Trades = map_first (matches (owner_filter tid (JStr u)))
                                              (\<lambda>x. doc_assign x (as_doc upd)) (store w Trades)"
    by simp
  with map_first_find [OF found] find_Some_in_set [OF found] uid show ?thesis by fastforce
qed

text \<open>
  C9: an update that answers 200 has applied the update to the owner's trade in place
  and recorded in the ledger the merged document with the old one as its previous
  state.
\<close>

theorem put_trade_success:
  assumes "put_trade tid (Some upd) w = (r, w')" and "status r = 200"
  shows "\<exists>u ex ys zs day n. doc_get (as_doc upd) ''userId'' = Some (JStr u) \<and>
           store w Trades = ys @ ex # zs \<and> matches (owner_filter tid (JStr u)) ex \<and>
           store w' Trades = ys @ doc_assign ex (as_doc upd) # zs \<and>
           store w' Ledger = store w Ledger @
             [ledger_entry (updated_record ex (as_doc upd) (env w)) day (now_ms (env w)) @ [(''_id'', JOid n)]]"
proof -
  from put_trade_cases [OF assms(1)] assms(2) obtain u ex res w3 where
    uid: "doc_get (as_doc upd) ''userId'' = Some (JStr u)"
    and found: "find (matches (owner_filter tid (JStr u))) (store w Trades) = Some ex"
    and w3: "store w3 = (store w)(Trades := map_first (matches (owner_filter tid (JStr u)))
                                              (\<lambda>x. doc_assign x (as_doc upd)) (store w Trades))"
            "env w3 = env w"
    and uw: "update_with_ledger (as_doc upd) ex res w3 = (r, w')"
    by auto
  from update_with_ledger_effect [OF uw] w3 assms(2) obtain day where
    tr: "store w' Trades = map_first (matches (owner_filter tid (JStr u))) (\<lambda>x. doc_assign x (as_doc upd)) (store w Trades)"
    and led: "store w' Ledger = store w Ledger @
       [ledger_entry (updated_record ex (as_doc upd) (env w)) day (now_ms (env w)) @ [(''_id'', JOid (next_oid w3))]]"
    by auto
  from map_first_find [OF found] obtain ys zs where
    "store w Trades = ys @ ex # zs"
    "map_first (matches (owner_filter tid (JStr u))) (\<lambda>x. doc_assign x (as_doc upd)) (store w Trades) =
       ys @ doc_assign ex (as_doc upd) # zs" by blast
  with find_Some_in_set [OF found] uid tr led show ?thesis by fastforce
qed

end
