(* ===== verification/TradeApi.thy ===== *)
theory TradeApi
  imports Trades
begin

text \<open>
  The trades API as one component: a request names a route handler of
  \<open>src/app/api/trades/route.ts\<close> or \<open>src/app/api/trades/[tradeId]/route.ts\<close> with its
  parameters, \<open>handle\<close> dispatches it as the framework's router does, and \<open>run\<close>
  serves a sequence of requests one after the other, each to completion, as the
  specification's request-per-invocation model says (no interleaving here).
  Properties of runs, under every fault script: the ledger is append-only, every
  stored trade keeps passing the validator, and a user none of whose requests acts
  for them keeps their trades unchanged.
\<close>

datatype request =
    ListTrades "string option"
  | CreateTrade "jval option"
  | GetTrade string "string option"
  | DeleteTrade string "string option"
  | UpdateTrade string "jval option"

fun handle :: "request \<Rightarrow> world \<Rightarrow> response \<times> world" where
  "handle (ListTrades u) w = get_trades u w"
| "handle (CreateTrade b) w = post_trade b w"
| "handle (GetTrade tid u) w = get_trade tid u w"
| "handle (DeleteTrade tid u) w = delete_trade tid u w"
| "handle (UpdateTrade tid b) w = put_trade tid b w"

fun run :: "request list \<Rightarrow> world \<Rightarrow> response list \<times> world" where
  "run [] w = ([], w)"
| "run (q # qs) w =
     (let (r, w1) = handle q w;
          (rs, w2) = run qs w1
      in (r # rs, w2))"

text \<open>
  The user a request acts for: the query's \<open>userId\<close> of a delete, the body's
  \<open>userId\<close> of a create or an update; reads act for nobody, since they write nothing.
\<close>

fun request_user :: "request \<Rightarrow> jval option" where
  "request_user (DeleteTrade _ u) = map_option JStr u"
| "request_user (CreateTrade b) = (case b of Some v \<Rightarrow> doc_get (as_doc v) ''userId'' | None \<Rightarrow> None)"
| "request_user (UpdateTrade _ b) = (case b of Some v \<Rightarrow> doc_get (as_doc v) ''userId'' | None \<Rightarrow> None)"
| "request_user _ = None"

definition not_owned_by :: "jval option \<Rightarrow> doc \<Rightarrow> bool" where
  "not_owned_by u d \<longleftrightarrow> doc_get d ''userId'' \<noteq> u"

text \<open>A stored trade is well formed when it passes the trade validator.\<close>

definition trade_ok :: "doc \<Rightarrow> bool" where
  "trade_ok d \<longleftrightarrow> validate_trade (JObj d) = []"

definition trades_valid :: "world \<Rightarrow> bool" where
  "trades_valid w \<longleftrightarrow> list_all trade_ok (store w Trades)"

text \<open>
  A request body comes from \<open>request.json()\<close>, that is from \<open>JSON.parse\<close>, so the
  keys of its top-level object are distinct; only then does the body the validator
  reads agree with the fields \<open>$set\<close> writes.
\<close>

fun wf_request :: "request \<Rightarrow> bool" where
  "wf_request (CreateTrade (Some v)) = distinct (map fst (as_doc v))"
| "wf_request (UpdateTrade _ (Some v)) = distinct (map fst (as_doc v))"
| "wf_request _ = True"

definition owned_by :: "jval \<Rightarrow> doc \<Rightarrow> bool" where
  "owned_by v d \<longleftrightarrow> doc_get d ''userId'' = Some v"

subsection \<open>The ledger is append-only\<close>

lemma handle_evolves: "evolves w (snd (handle q w))"
proof (cases q)
  case (ListTrades u)
  then show ?thesis using get_trades_evolves [of u w] by (cases "get_trades u w") simp
next
  case (CreateTrade b)
  then show ?thesis using post_trade_evolves [of b w] by (cases "post_trade b w") simp
next
  case (GetTrade tid u)
  then show ?thesis using get_trade_evolves [of tid u w] by (cases "get_trade tid u w") simp
next
  case (DeleteTrade tid u)
  then show ?thesis using delete_trade_evolves [of tid u w] by (cases "delete_trade tid u w") simp
next
  case (UpdateTrade tid b)
  then show ?thesis using put_trade_evolves [of tid b w] by (cases "put_trade tid b w") simp
qed

lemma run_evolves: "evolves w (snd (run qs w))"
proof (induction qs arbitrary: w)
  case Nil
  then show ?case by simp
next
  case (Cons q qs)
  have "evolves w (snd (handle q w))" by (rule handle_evolves)
  moreover have "evolves (snd (handle q w)) (snd (run qs (snd (handle q w))))" by (rule Cons.IH)
  ultimately show ?case
    by (auto simp: split_def Let_def intro: evolves_trans)
qed

text \<open>
  C10: whatever requests are served, in whatever order and under whatever store
  failures, the ledger before is a prefix of the ledger after: no entry is ever
  changed or removed, new entries only come at the end.
\<close>

theorem run_ledger_prefix: "prefix (store w Ledger) (store (snd (run qs w)) Ledger)"
  using run_evolves [of w qs] by (simp add: evolves_def)

subsection \<open>Stored trades stay valid\<close>

lemma trade_ok_iff: "trade_ok d \<longleftrightarrow> (\<forall>(k, ok) \<in> set trade_checks. ok (doc_get d k))"
  by (auto simp: trade_ok_def validate_trade_def filter_empty_conv)

lemma trade_ok_cong:
  "(\<forall>k \<in> set (map fst trade_checks). doc_get d k = doc_get d' k) \<Longrightarrow> trade_ok d = trade_ok d'"
  unfolding trade_ok_iff by (force simp: image_iff)

lemma trade_ok_as_doc: "validate_trade t = [] \<Longrightarrow> trade_ok (as_doc t)"
  using validate_trade_ok_fields [of t] by (auto simp: trade_ok_def)

lemma trade_checks_defined: "(k, ok) \<in> set trade_checks \<Longrightarrow> ok v \<Longrightarrow> v \<noteq> None"
  by (auto simp: trade_checks_def is_str_def is_nonneg_num_def split: option.splits)

lemma trade_ok_assign:
  assumes "validate_trade upd = []" and "distinct (map fst (as_doc upd))"
  shows "trade_ok (doc_assign ex (as_doc upd))"
proof -
  from validate_trade_ok_fields [OF assms(1)] obtain d where upd: "upd = JObj d"
    and ok: "\<forall>(k, ok) \<in> set trade_checks. ok (doc_get d k)" by blast
  have "doc_get (doc_assign ex d) k = doc_get d k" if "k \<in> set (map fst trade_checks)" for k
  proof -
    from that obtain ok' where mem: "(k, ok') \<in> set trade_checks" by auto
    with ok have "ok' (doc_get d k)" by auto
    with mem have "doc_get d k \<noteq> None" by (rule trade_checks_defined)
    with assms(2) upd show ?thesis by (auto simp: doc_get_assign_distinct)
  qed
  then have "trade_ok (doc_assign ex d) = trade_ok d" by (intro trade_ok_cong) blast
  with trade_ok_as_doc [OF assms(1)] upd show ?thesis by simp
qed

lemma trade_ok_off_id:
  "\<forall>k. k \<noteq> ''_id'' \<longrightarrow> doc_get d k = doc_get d' k \<Longrightarrow> trade_ok d = trade_ok d'"
  by (rule trade_ok_cong) (auto simp: trade_checks_def)

lemma delete_trade_no_user: "snd (delete_trade tid None w) = w"
  by (simp add: delete_trade_def truthy_param_def)

lemma put_trade_no_body: "snd (put_trade tid None w) = w"
  by (simp add: put_trade_def)

lemma handle_trades_valid:
  assumes "trades_valid w" and "wf_request q"
  shows "trades_valid (snd (handle q w))"
proof (cases q)
  case (ListTrades u)
  with assms(1) show ?thesis
    by (cases "get_trades u w") (auto simp: trades_valid_def dest: get_trades_store)
next
  case (GetTrade tid u)
  with assms(1) show ?thesis
    by (cases "get_trade tid u w") (auto simp: trades_valid_def dest: get_trade_store)
next
  case (CreateTrade b)
  obtain r w' where h: "post_trade b w = (r, w')" by fastforce
  from post_trade_trades [OF h] have "list_all trade_ok (store w' Trades)"
  proof
    assume "store w' Trades = store w Trades"
    with assms(1) show ?thesis by (simp add: trades_valid_def)
  next
    assume "\<exists>t d. b = Some t \<and> validate_trade t = [] \<and>
              (\<forall>k. k \<noteq> ''_id'' \<longrightarrow> doc_get d k = doc_get (as_doc t) k) \<and>
              store w' Trades = store w Trades @ [d]"
    then obtain t d where "validate_trade t = []" and "trade_ok d = trade_ok (as_doc t)"
      and "store w' Trades = store w Trades @ [d]"
      using trade_ok_off_id by blast
    with assms(1) trade_ok_as_doc show ?thesis by (simp add: trades_valid_def)
  qed
  with CreateTrade h show ?thesis by (simp add: trades_valid_def)
next
  case (DeleteTrade tid u)
  show ?thesis
  proof (cases u)
    case (Some v)
    obtain r w' where h: "delete_trade tid (Some v) w = (r, w')" by fastforce
    from delete_trade_trades [OF h] assms(1)
    have "list_all trade_ok (store w' Trades)"
      by (auto simp: trades_valid_def list_all_iff dest!: set_remove_first_subset [THEN subsetD])
    with DeleteTrade Some h show ?thesis by (simp add: trades_valid_def)
  qed (use DeleteTrade assms(1) delete_trade_no_user in simp)
next
  case (UpdateTrade tid b)
  show ?thesis
  proof (cases b)
    case (Some upd)
    obtain r w' where h: "put_trade tid (Some upd) w = (r, w')" by fastforce
    have dist: "distinct (map fst (as_doc upd))" using assms(2) UpdateTrade Some by simp
    from put_trade_trades [OF h] assms(1) have "list_all trade_ok (store w' Trades)"
      by (auto simp: trades_valid_def list_all_iff dest!: set_map_first_subset [THEN subsetD]
               intro: trade_ok_assign [OF _ dist])
    with UpdateTrade Some h show ?thesis by (simp add: trades_valid_def)
  qed (use UpdateTrade assms(1) put_trade_no_body in simp)
qed

subsection \<open>Requests leave other users' trades alone\<close>

lemma matches_owner_filter:
  "matches (owner_filter tid u) x \<longleftrightarrow> doc_get x ''id'' = Some (JStr tid) \<and> doc_get x ''userId'' = Some u"
  by (simp add: matches_def owner_filter_def)

lemma handle_isolation:
  assumes "wf_request q"
  shows "filter (not_owned_by (request_user q)) (store (snd (handle q w)) Trades) =
         filter (not_owned_by (request_user q)) (store w Trades)"
proof (cases q)
  case (ListTrades u)
  then show ?thesis by (cases "get_trades u w") (auto dest: get_trades_store)
next
  case (GetTrade tid u)
  then show ?thesis by (cases "get_trade tid u w") (auto dest: get_trade_store)
next
  case (CreateTrade b)
  obtain r w' where h: "post_trade b w = (r, w')" by fastforce
  from post_trade_trades [OF h] CreateTrade h show ?thesis
    by (auto simp: not_owned_by_def)
next
  case (DeleteTrade tid u)
  show ?thesis
  proof (cases u)
    case (Some v)
    obtain r w' where h: "delete_trade tid (Some v) w = (r, w')" by fastforce
    have "filter (not_owned_by (Some (JStr v))) (remove_first (matches (owner_filter tid (JStr v))) xs) =
          filter (not_owned_by (Some (JStr v))) xs" for xs
      by (rule remove_first_filter_other) (simp add: matches_owner_filter not_owned_by_def)
    with delete_trade_trades [OF h] DeleteTrade Some h show ?thesis by auto
  qed (use DeleteTrade delete_trade_no_user in simp)
next
  case (UpdateTrade tid b)
  show ?thesis
  proof (cases b)
    case (Some upd)
    obtain r w' where h: "put_trade tid (Some upd) w = (r, w')" by fastforce
    have dist: "distinct (map fst (as_doc upd))" using assms UpdateTrade Some by simp
    from put_trade_trades [OF h] UpdateTrade Some h dist show ?thesis
      by (auto intro!: map_first_filter_other simp: matches_owner_filter not_owned_by_def doc_get_assign_distinct)
  qed (use UpdateTrade put_trade_no_body in simp)
qed

lemma owned_through_isolation:
  assumes "u \<noteq> Some v"
    and "filter (not_owned_by u) xs = filter (not_owned_by u) ys"
  shows "filter (owned_by v) xs = filter (owned_by v) ys"
proof -
  have "filter (owned_by v) zs = filter (owned_by v) (filter (not_owned_by u) zs)" for zs
    using assms(1) by (auto simp: filter_filter owned_by_def not_owned_by_def intro: filter_cong)
  with assms(2) show ?thesis by metis
qed

text \<open>
  C11: when every stored trade passes the validator, it still does after any sequence
  of requests with JSON bodies, whatever the store failures: creates only insert
  validated payloads, updates only \<open>$set\<close> validated payloads, deletes only remove.
\<close>

theorem run_trades_valid:
  assumes "trades_valid w" and "list_all wf_request qs"
  shows "trades_valid (snd (run qs w))"
  using assms
proof (induction qs arbitrary: w)
  case (Cons q qs)
  then have "trades_valid (snd (handle q w))" by (simp add: handle_trades_valid)
  with Cons.IH Cons.prems(2) show ?case by (simp add: split_def Let_def)
qed simp

text \<open>
  C12: tenant isolation. A user none of whose requests acts for them (no create or
  update body and no delete query carrying their id) finds their trades exactly as
  they were, in the same order, after any sequence of requests under any store failures.
\<close>

theorem run_isolation:
  assumes "list_all wf_request qs" and "\<forall>q \<in> set qs. request_user q \<noteq> Some v"
  shows "filter (owned_by v) (store (snd (run qs w)) Trades) = filter (owned_by v) (store w Trades)"
  using assms
proof (induction qs arbitrary: w)
  case (Cons q qs)
  have "filter (owned_by v) (store (snd (handle q w)) Trades) = filter (owned_by v) (store w Trades)"
    using Cons.prems by (auto intro: owned_through_isolation handle_isolation)
  with Cons.IH [of "snd (handle q w)"] Cons.prems show ?case by (simp add: split_def Let_def)
qed simp

end
