(* ===== verification/Auth.thy ===== *)
theory Auth
  imports Http
begin

text \<open>
  The account routes that work on the \<open>users\<close> collection:
  \<^item> \<open>src/app/api/auth/verify/route.ts\<close>: \<open>POST\<close> checks an emailed one-time code and
    signs the user in, and \<open>PUT\<close> sends a new code;
  \<^item> \<open>src/app/api/auth/forgot-password/route.ts\<close>: \<open>POST\<close> issues a reset token;
  \<^item> \<open>src/app/api/auth/reset-password/route.ts\<close>: \<open>POST\<close> resets the password with the
    token, and \<open>GET\<close> tells whether a token is valid;
  \<^item> \<open>src/app/api/auth/update-ltp-credentials/route.ts\<close>: \<open>POST\<close> stores the signed-in
    user's credentials for the LTP calculator.

  The values the routes draw from \<open>@/lib/models/user\<close>, which is not in the repository,
  are parameters: the code \<open>generateOTP()\<close> returns, the token \<open>generateResetToken()\<close>
  returns, and \<open>hashPassword\<close>. The three mail functions of \<open>src/lib/email.ts\<close> are
  awaited calls of the mail transport (\<open>mail_send\<close>); their HTML is not modelled, only
  the recipient and the code or link a message carries.
\<close>

subsection \<open>Request bodies and responses\<close>

text \<open>
  \<open>const {a, b} = await request.json()\<close>: a body that is no JSON throws
  \<open>SyntaxError\<close>, and destructuring \<open>null\<close> throws \<open>TypeError\<close>. Any other value gives
  its own properties, and a value that is no object has none.
\<close>

definition body_obj :: "jval option \<Rightarrow> exn + doc" where
  "body_obj req =
     (case req of
        None \<Rightarrow> Inl (SyntaxError ''Unexpected token in JSON'')
      | Some JNull \<Rightarrow> Inl (TypeError ''Cannot destructure 'null' as it is null.'')
      | Some b \<Rightarrow> Inr (as_doc b))"

text \<open>A field of a response object; \<open>JSON.stringify\<close> drops an \<open>undefined\<close> one.\<close>

definition doc_opt :: "string \<Rightarrow> jval option \<Rightarrow> doc" where
  "doc_opt k v = (case v of None \<Rightarrow> [] | Some x \<Rightarrow> [(k, x)])"

definition message :: "nat \<Rightarrow> string \<Rightarrow> http_response" where
  "message st m = \<lparr>status = st, body = [(''message'', JStr m)], set_cookies = []\<rparr>"

definition error_resp :: "nat \<Rightarrow> string \<Rightarrow> http_response" where
  "error_resp st m = plain (json_error st m)"

definition server_error :: http_response where
  "server_error = plain internal_error"

text \<open>The \<open>{ _id: user._id }\<close> filter of an update.\<close>

definition by_id :: "doc \<Rightarrow> filter" where
  "by_id user = [(''_id'', js_val (doc_get user ''_id''))]"

subsection \<open>Mail\<close>

definition send_verification_email :: "jval \<Rightarrow> string \<Rightarrow> world \<Rightarrow> (exn + unit) \<times> world" where
  "send_verification_email email otp = mail_send ''verification'' email otp"

definition send_welcome_email :: "jval \<Rightarrow> jval option \<Rightarrow> world \<Rightarrow> (exn + unit) \<times> world" where
  "send_welcome_email email username = mail_send ''welcome'' email (js_template username)"

definition send_password_reset_email :: "jval \<Rightarrow> string \<Rightarrow> world \<Rightarrow> (exn + unit) \<times> world" where
  "send_password_reset_email email url = mail_send ''password-reset'' email url"

subsection \<open>POST /api/auth/verify\<close>

text \<open>
  The code is refused when there is none, when it is not identical to the one sent,
  or when \<open>new Date() > new Date(expiresAt)\<close>. An expiry that is no date is
  \<open>NaN\<close>, and no comparison with \<open>NaN\<close> holds.
\<close>

definition otp_rejected :: "js_env \<Rightarrow> jval option \<Rightarrow> jval option \<Rightarrow> bool" where
  "otp_rejected e otp_rec otp \<longleftrightarrow>
     \<not> js_truthy otp_rec \<or> \<not> js_strict_eq (field_of otp_rec ''code'') otp \<or>
     (case date_of e (field_of otp_rec ''expiresAt'') of Some t \<Rightarrow> t < now_ms e | None \<Rightarrow> False)"

text \<open>\<open>expiresIn: '7d'\<close>, in seconds.\<close>

definition session_ttl :: int where
  "session_ttl = 7 * 24 * 60 * 60"

definition session_claims :: "doc \<Rightarrow> string \<Rightarrow> doc" where
  "session_claims user uid =
     [(''id'', JStr uid)] @ doc_opt ''email'' (doc_get user ''email'') @
     doc_opt ''username'' (doc_get user ''username'') @
     [(''isVerified'', JBool True), (''hasSocialLogin'', JBool (js_truthy (doc_get user ''socialLogins'')))]"

definition verified_response :: "doc \<Rightarrow> cval \<Rightarrow> http_response" where
  "verified_response user tok =
     \<lparr>status = 200,
      body = [(''message'', JStr ''Email verification successful''), (''isVerified'', JBool True)] @
             doc_opt ''id'' (doc_get user ''_id'') @ doc_opt ''username'' (doc_get user ''username'') @
             doc_opt ''email'' (doc_get user ''email'') @ doc_opt ''socialLogins'' (doc_get user ''socialLogins''),
      set_cookies = [SetCookie ''auth_token'' tok]\<rparr>"

text \<open>Lines 53--116: mark the user verified, greet them, and sign them in.\<close>

definition complete_verification :: "server_cfg \<Rightarrow> doc \<Rightarrow> world \<Rightarrow> http_response \<times> world" where
  "complete_verification cfg user w =
     (case update_one_unset Users (by_id user)
             [(''isVerified'', JBool True), (''updatedAt'', JDate (now_ms (env w)))] [''verificationOTP''] w of
        (Inl _, w1) \<Rightarrow> (server_error, w1)
      | (Inr _, w1) \<Rightarrow>
          (let w2 = snd (send_welcome_email (js_val (doc_get user ''email'')) (doc_get user ''username'') w1) in
           case js_to_string (doc_get user ''_id'') of
             Inl _ \<Rightarrow> (server_error, w2)
           | Inr uid \<Rightarrow>
               (verified_response user
                  (jwt_sign (session_claims user uid) (jwt_secret (jwt_secret_var cfg)) session_ttl (env w2)), w2)))"

definition verify_otp :: "server_cfg \<Rightarrow> jval option \<Rightarrow> world \<Rightarrow> http_response \<times> world" where
  "verify_otp cfg req w =
     (case body_obj req of
        Inl _ \<Rightarrow> (server_error, w)
      | Inr b \<Rightarrow>
          (if \<not> js_truthy (doc_get b ''email'') \<or> \<not> js_truthy (doc_get b ''otp'')
           then (error_resp 400 ''Email and OTP are required'', w)
           else (case await_client w of
                   (Inl _, w1) \<Rightarrow> (server_error, w1)
                 | (Inr _, w1) \<Rightarrow>
                     (case find_one Users [(''email'', js_val (doc_get b ''email''))] w1 of
                        (Inl _, w2) \<Rightarrow> (server_error, w2)
                      | (Inr None, w2) \<Rightarrow> (error_resp 404 ''User not found'', w2)
                      | (Inr (Some user), w2) \<Rightarrow>
                          if js_truthy (doc_get user ''isVerified'')
                          then (message 200 ''Email already verified'', w2)
                          else if otp_rejected (env w2) (doc_get user ''verificationOTP'') (doc_get b ''otp'')
                          then (error_resp 400 ''Invalid or expired OTP'', w2)
                          else complete_verification cfg user w2))))"

subsection \<open>PUT /api/auth/verify\<close>

text \<open>\<open>otpExpiry.setMinutes(otpExpiry.getMinutes() + 10)\<close>.\<close>

definition otp_ttl_ms :: int where
  "otp_ttl_ms = 10 * 60 * 1000"

definition resend_otp :: "string \<Rightarrow> jval option \<Rightarrow> world \<Rightarrow> http_response \<times> world" where
  "resend_otp code req w =
     (case body_obj req of
        Inl _ \<Rightarrow> (server_error, w)
      | Inr b \<Rightarrow>
          (if \<not> js_truthy (doc_get b ''email'') then (error_resp 400 ''Email is required'', w)
           else (case await_client w of
                   (Inl _, w1) \<Rightarrow> (server_error, w1)
                 | (Inr _, w1) \<Rightarrow>
                     (case find_one Users [(''email'', js_val (doc_get b ''email''))] w1 of
                        (Inl _, w2) \<Rightarrow> (server_error, w2)
                      | (Inr None, w2) \<Rightarrow> (error_resp 404 ''User not found'', w2)
                      | (Inr (Some user), w2) \<Rightarrow>
                          if js_truthy (doc_get user ''isVerified'')
                          then (message 200 ''Email already verified'', w2)
                          else
                            (case update_one Users (by_id user)
                                    [(''verificationOTP'', JObj [(''code'', JStr code),
                                        (''expiresAt'', JDate (now_ms (env w2) + otp_ttl_ms))]),
                                     (''updatedAt'', JDate (now_ms (env w2)))] w2 of
                               (Inl _, w3) \<Rightarrow> (server_error, w3)
                             | (Inr _, w3) \<Rightarrow>
                                 (case send_verification_email (js_val (doc_get b ''email'')) code w3 of
                                    (Inl _, w4) \<Rightarrow> (server_error, w4)
                                  | (Inr _, w4) \<Rightarrow>
                                      (message 200 ''Verification code resent. Please check your email.'', w4)))))))"

subsection \<open>The reset link\<close>

text \<open>
  \<open>encodeURIComponent\<close> on a string of single-byte characters: the unreserved
  characters stay as they are, and every other byte becomes \<open>%XX\<close>.
\<close>

definition uri_unreserved :: "char \<Rightarrow> bool" where
  "uri_unreserved c \<longleftrightarrow>
     (let k = of_char c :: nat in
      (65 \<le> k \<and> k \<le> 90) \<or> (97 \<le> k \<and> k \<le> 122) \<or> (48 \<le> k \<and> k \<le> 57) \<or>
      k \<in> {45, 95, 46, 33, 126, 42, 39, 40, 41})"

definition hex_upper :: "nat \<Rightarrow> char" where
  "hex_upper d = char_of (if d < 10 then 48 + d else 55 + d)"

definition encode_uri_component :: "string \<Rightarrow> string" where
  "encode_uri_component s =
     concat (map (\<lambda>c. if uri_unreserved c then [c]
                      else [CHR ''%'', hex_upper (of_char c div 16), hex_upper (of_char c mod 16)]) s)"

text \<open>Line 55: the link of the reset mail; the token goes in unencoded.\<close>

definition reset_url :: "server_cfg \<Rightarrow> string \<Rightarrow> jval option \<Rightarrow> string" where
  "reset_url cfg tok email =
     env_or (nextauth_url cfg) ''http://localhost:3000'' @ ''/reset-password?token='' @ tok @
     ''&email='' @ encode_uri_component (js_template email)"

text \<open>
  How the reset page reads the link back (\<open>URLSearchParams\<close>): the query is what
  follows the first \<open>?\<close>, its pairs are separated by \<open>&\<close>, and names and values are
  percent-decoded with \<open>+\<close> read as a space. \<open>get\<close> answers the first pair of a name.
\<close>

fun url_decode :: "string \<Rightarrow> string" where
  "url_decode [] = []"
| "url_decode (c # cs) =
     (if c = CHR ''%'' then
        (case cs of
           a # b # rest \<Rightarrow>
             (case (hex_val a, hex_val b) of
                (Some x, Some y) \<Rightarrow> char_of (16 * x + y) # url_decode rest
              | _ \<Rightarrow> c # url_decode cs)
         | _ \<Rightarrow> c # url_decode cs)
      else if c = CHR ''+'' then CHR '' '' # url_decode cs
      else c # url_decode cs)"

fun split_on :: "char \<Rightarrow> string \<Rightarrow> string list" where
  "split_on d [] = [[]]"
| "split_on d (c # cs) =
     (if c = d then [] # split_on d cs
      else (case split_on d cs of p # ps \<Rightarrow> (c # p) # ps | [] \<Rightarrow> [[c]]))"

definition query_of :: "string \<Rightarrow> string" where
  "query_of url = drop 1 (dropWhile (\<lambda>c. c \<noteq> CHR ''?'') url)"

definition query_pairs :: "string \<Rightarrow> (string \<times> string) list" where
  "query_pairs q =
     map (\<lambda>p. (url_decode (takeWhile (\<lambda>c. c \<noteq> CHR ''='') p),
               url_decode (drop 1 (dropWhile (\<lambda>c. c \<noteq> CHR ''='') p))))
         (filter (\<lambda>p. p \<noteq> []) (split_on CHR ''&'' q))"

definition query_get :: "string \<Rightarrow> string \<Rightarrow> string option" where
  "query_get url k = map_of (query_pairs (query_of url)) k"

subsection \<open>POST /api/auth/forgot-password\<close>

definition forgot_ack :: http_response where
  "forgot_ack = message 200 ''If your email is registered, you will receive a password reset link shortly.''"

text \<open>\<open>resetExpiry.setHours(resetExpiry.getHours() + 1)\<close>.\<close>

definition reset_ttl_ms :: int where
  "reset_ttl_ms = 60 * 60 * 1000"

definition forgot_password :: "server_cfg \<Rightarrow> string \<Rightarrow> jval option \<Rightarrow> world \<Rightarrow> http_response \<times> world" where
  "forgot_password cfg tok req w =
     (case body_obj req of
        Inl _ \<Rightarrow> (server_error, w)
      | Inr b \<Rightarrow>
          (if \<not> js_truthy (doc_get b ''email'') then (error_resp 400 ''Email is required'', w)
           else (case await_client w of
                   (Inl _, w1) \<Rightarrow> (server_error, w1)
                 | (Inr _, w1) \<Rightarrow>
                     (case find_one Users [(''email'', js_val (doc_get b ''email''))] w1 of
                        (Inl _, w2) \<Rightarrow> (server_error, w2)
                      | (Inr None, w2) \<Rightarrow> (forgot_ack, w2)
                      | (Inr (Some user), w2) \<Rightarrow>
                          (case update_one Users (by_id user)
                                  [(''passwordReset'', JObj [(''token'', JStr tok),
                                      (''expiresAt'', JDate (now_ms (env w2) + reset_ttl_ms))]),
                                   (''updatedAt'', JDate (now_ms (env w2)))] w2 of
                             (Inl _, w3) \<Rightarrow> (server_error, w3)
                           | (Inr _, w3) \<Rightarrow>
                               (case send_password_reset_email (js_val (doc_get b ''email''))
                                       (reset_url cfg tok (doc_get b ''email'')) w3 of
                                  (Inl _, w4) \<Rightarrow> (server_error, w4)
                                | (Inr _, w4) \<Rightarrow> (forgot_ack, w4)))))))"

subsection \<open>POST and GET /api/auth/reset-password\<close>

text \<open>
  \<open>password.length < 8\<close>: strings and arrays have a length; an object may have a
  \<open>length\<close> property (compared here when it is a number, \<open>null\<close> or a boolean); a
  number or \<open>true\<close> has none, and \<open>undefined < 8\<close> is false.
\<close>

definition password_too_short :: "jval option \<Rightarrow> bool" where
  "password_too_short p =
     (case p of
        Some (JStr s) \<Rightarrow> length s < 8
      | Some (JArr xs) \<Rightarrow> length xs < 8
      | Some (JObj d) \<Rightarrow>
          (case doc_get d ''length'' of
             Some (JNum n) \<Rightarrow> n < 8
           | Some JNull \<Rightarrow> True
           | Some (JBool _) \<Rightarrow> True
           | _ \<Rightarrow> False)
      | _ \<Rightarrow> False)"

text \<open>
  The query \<open>{email, 'passwordReset.token': token, 'passwordReset.expiresAt': {$gt: new Date()}}\<close>:
  \<open>$gt\<close> with a date only matches dates.
\<close>

definition reset_match :: "jval \<Rightarrow> jval \<Rightarrow> int \<Rightarrow> doc \<Rightarrow> bool" where
  "reset_match email token now d \<longleftrightarrow>
     doc_get d ''email'' = Some email \<and>
     field_of (doc_get d ''passwordReset'') ''token'' = Some token \<and>
     (case field_of (doc_get d ''passwordReset'') ''expiresAt'' of Some (JDate t) \<Rightarrow> now < t | _ \<Rightarrow> False)"

definition reset_password ::
  "(jval \<Rightarrow> exn + jval) \<Rightarrow> jval option \<Rightarrow> world \<Rightarrow> http_response \<times> world" where
  "reset_password hash req w =
     (case body_obj req of
        Inl _ \<Rightarrow> (server_error, w)
      | Inr b \<Rightarrow>
          (if \<not> js_truthy (doc_get b ''email'') \<or> \<not> js_truthy (doc_get b ''token'') \<or>
              \<not> js_truthy (doc_get b ''password'')
           then (error_resp 400 ''Email, token, and password are required'', w)
           else if password_too_short (doc_get b ''password'')
           then (error_resp 400 ''Password must be at least 8 characters long'', w)
           else (case await_client w of
                   (Inl _, w1) \<Rightarrow> (server_error, w1)
                 | (Inr _, w1) \<Rightarrow>
                     (case find_first Users (reset_match (js_val (doc_get b ''email''))
                             (js_val (doc_get b ''token'')) (now_ms (env w1))) w1 of
                        (Inl _, w2) \<Rightarrow> (server_error, w2)
                      | (Inr None, w2) \<Rightarrow> (error_resp 400 ''Invalid or expired reset token'', w2)
                      | (Inr (Some user), w2) \<Rightarrow>
                          (case hash (js_val (doc_get b ''password'')) of
                             Inl _ \<Rightarrow> (server_error, w2)
                           | Inr h \<Rightarrow>
                               (case update_one_unset Users (by_id user)
                                       [(''password'', h), (''updatedAt'', JDate (now_ms (env w2)))]
                                       [''passwordReset''] w2 of
                                  (Inl _, w3) \<Rightarrow> (server_error, w3)
                                | (Inr _, w3) \<Rightarrow> (message 200 ''Password has been reset successfully'', w3)))))))"

definition check_reset_token :: "string option \<Rightarrow> string option \<Rightarrow> world \<Rightarrow> http_response \<times> world" where
  "check_reset_token email token w =
     (case (truthy_param email, truthy_param token) of
        (Some e, Some t) \<Rightarrow>
          (case await_client w of
             (Inl _, w1) \<Rightarrow>
               (plain \<lparr>status = 500, body = [(''valid'', JBool False), (''error'', JStr ''Internal server error'')]\<rparr>, w1)
           | (Inr _, w1) \<Rightarrow>
               (case find_first Users (reset_match (JStr e) (JStr t) (now_ms (env w1))) w1 of
                  (Inl _, w2) \<Rightarrow>
                    (plain \<lparr>status = 500, body = [(''valid'', JBool False), (''error'', JStr ''Internal server error'')]\<rparr>, w2)
                | (Inr None, w2) \<Rightarrow>
                    (plain \<lparr>status = 400, body = [(''valid'', JBool False), (''error'', JStr ''Invalid or expired reset token'')]\<rparr>, w2)
                | (Inr (Some _), w2) \<Rightarrow> (plain \<lparr>status = 200, body = [(''valid'', JBool True)]\<rparr>, w2)))
      | _ \<Rightarrow> (error_resp 400 ''Email and token are required'', w))"

subsection \<open>POST /api/auth/update-ltp-credentials\<close>

text \<open>
  The \<open>catch\<close>: an error of \<open>jsonwebtoken\<close> also deletes the session cookie.
\<close>

definition ltp_update_failed :: "exn \<Rightarrow> http_response" where
  "ltp_update_failed e =
     \<lparr>status = 500, body = [(''error'', JStr ''Internal server error'')],
      set_cookies = (if is_jwt_error e then [DeleteCookie ''auth_token''] else [])\<rparr>"

definition update_ltp_credentials ::
  "server_cfg \<Rightarrow> jar \<Rightarrow> jval option \<Rightarrow> world \<Rightarrow> http_response \<times> world" where
  "update_ltp_credentials cfg jar req w =
     (case cookie_token jar ''auth_token'' of
        None \<Rightarrow> (error_resp 401 ''Not authenticated'', w)
      | Some tok \<Rightarrow>
          (case jwt_verify tok (jwt_secret (jwt_secret_var cfg)) (env w) of
             Inl e \<Rightarrow> (ltp_update_failed e, w)
           | Inr decoded \<Rightarrow>
               (case body_obj req of
                  Inl e \<Rightarrow> (ltp_update_failed e, w)
                | Inr b \<Rightarrow>
                    (if \<not> js_truthy (doc_get b ''username'') \<or> \<not> js_truthy (doc_get b ''password'')
                     then (error_resp 400 ''LTP username and password are required'', w)
                     else (case await_client w of
                             (Inl e, w1) \<Rightarrow> (ltp_update_failed e, w1)
                           | (Inr _, w1) \<Rightarrow>
                               (case object_id_of (doc_get decoded ''id'') w1 of
                                  (Inl e, w2) \<Rightarrow> (ltp_update_failed e, w2)
                                | (Inr oid, w2) \<Rightarrow>
                                    (case find_one Users [(''_id'', oid)] w2 of
                                       (Inl e, w3) \<Rightarrow> (ltp_update_failed e, w3)
                                     | (Inr None, w3) \<Rightarrow>
                                         (\<lparr>status = 404, body = [(''error'', JStr ''User not found'')],
                                           set_cookies = [DeleteCookie ''auth_token'']\<rparr>, w3)
                                     | (Inr (Some _), w3) \<Rightarrow>
                                         (case object_id_of (doc_get decoded ''id'') w3 of
                                            (Inl e, w4) \<Rightarrow> (ltp_update_failed e, w4)
                                          | (Inr oid', w4) \<Rightarrow>
                                              (case update_one Users [(''_id'', oid')]
                                                      [(''ltpCredentials'', JObj [(''username'', js_val (doc_get b ''username'')),
                                                          (''password'', js_val (doc_get b ''password'')),
                                                          (''updatedAt'', JDate (now_ms (env w4)))]),
                                                       (''updatedAt'', JDate (now_ms (env w4)))] w4 of
                                                 (Inl e, w5) \<Rightarrow> (ltp_update_failed e, w5)
                                               | (Inr _, w5) \<Rightarrow>
                                                   (message 200 ''LTP credentials updated successfully'', w5))))))))))"

subsection \<open>The reset link reads back\<close>

lemma hex_upper_val [simp]: "d < 16 \<Longrightarrow> hex_val (hex_upper d) = Some d"
  by (auto simp: hex_val_def hex_upper_def Let_def)

lemma url_decode_encode: "url_decode (encode_uri_component s) = s"
proof (induction s)
  case (Cons c s)
  have k: "of_char c < (256::nat)" by (metis of_char_mod_256 mod_less_divisor zero_less_numeral)
  show ?case
  proof (cases "uri_unreserved c")
    case True
    then have "c \<noteq> CHR ''%''" "c \<noteq> CHR ''+''" by (auto simp: uri_unreserved_def)
    with True Cons show ?thesis by (simp add: encode_uri_component_def)
  next
    case False
    have "char_of (16 * (of_char c div 16) + of_char c mod 16 :: nat) = c"
      by simp
    with False Cons k show ?thesis
      by (simp add: encode_uri_component_def less_mult_imp_div_less)
  qed
qed (simp add: encode_uri_component_def)

lemma url_decode_plain: "CHR ''%'' \<notin> set s \<Longrightarrow> CHR ''+'' \<notin> set s \<Longrightarrow> url_decode s = s"
  by (induction s) auto

lemma split_on_none: "d \<notin> set xs \<Longrightarrow> split_on d xs = [xs]"
  by (induction xs) auto

lemma split_on_append: "d \<notin> set xs \<Longrightarrow> split_on d (xs @ d # ys) = xs # split_on d ys"
  by (induction xs) auto

lemma hex_upper_unreserved: "d < 16 \<Longrightarrow> uri_unreserved (hex_upper d)"
  by (auto simp: hex_upper_def uri_unreserved_def Let_def)

lemma encode_chars: "x \<in> set (encode_uri_component s) \<Longrightarrow> uri_unreserved x \<or> x = CHR ''%''"
proof -
  have "of_char c div 16 < (16::nat)" for c
    using of_char_mod_256 [of c] by (metis less_mult_imp_div_less mod_less_divisor numeral_times_numeral semiring_norm(12) semiring_norm(13) semiring_norm(3) zero_less_numeral)
  then show "x \<in> set (encode_uri_component s) \<Longrightarrow> uri_unreserved x \<or> x = CHR ''%''"
    by (auto simp: encode_uri_component_def hex_upper_unreserved split: if_splits)
qed

lemma encode_no_separator:
  "c \<in> {CHR ''&'', CHR ''='', CHR ''+''} \<Longrightarrow> c \<notin> set (encode_uri_component s)"
  using encode_chars [of c s] by (auto simp: uri_unreserved_def)

lemma unreserved_not_special:
  "list_all uri_unreserved s \<Longrightarrow> c \<in> {CHR ''&'', CHR ''='', CHR ''%'', CHR ''+'', CHR ''?''} \<Longrightarrow> c \<notin> set s"
  by (auto simp: list_all_iff uri_unreserved_def)

text \<open>
  C20: the reset page reads back from the link of the reset mail exactly the token
  that was stored and the email it was sent to, when the token has only URL-safe
  characters (the route does not encode it) and the base URL has no query of its own.
\<close>

theorem reset_link_read_back:
  assumes base: "CHR ''?'' \<notin> set (env_or (nextauth_url cfg) ''http://localhost:3000'')"
    and tok: "list_all uri_unreserved tok"
  shows "query_get (reset_url cfg tok email) ''token'' = Some tok \<and>
         query_get (reset_url cfg tok email) ''email'' = Some (js_template email)"
proof -
  define enc where "enc = encode_uri_component (js_template email)"
  have "dropWhile (\<lambda>c. c \<noteq> CHR ''?'') (env_or (nextauth_url cfg) ''http://localhost:3000'' @ ys) =
        dropWhile (\<lambda>c. c \<noteq> CHR ''?'') ys" for ys
    using base by (intro dropWhile_append2) auto
  then have q: "query_of (reset_url cfg tok email) = (''token='' @ tok) @ CHR ''&'' # (''email='' @ enc)"
    by (simp add: query_of_def reset_url_def enc_def)
  have t: "CHR ''&'' \<notin> set tok" "CHR ''='' \<notin> set tok" "CHR ''%'' \<notin> set tok" "CHR ''+'' \<notin> set tok"
    using unreserved_not_special [OF tok] by auto
  have e: "CHR ''&'' \<notin> set enc" "CHR ''='' \<notin> set enc"
    using encode_no_separator unfolding enc_def by auto
  have "split_on CHR ''&'' (query_of (reset_url cfg tok email)) = [''token='' @ tok, ''email='' @ enc]"
    unfolding q using t(1) e(1) by (simp add: split_on_append split_on_none)
  then have "query_pairs (query_of (reset_url cfg tok email)) = [(''token'', tok), (''email'', js_template email)]"
    using t e by (simp add: query_pairs_def takeWhile_append2 dropWhile_append2 url_decode_plain enc_def
                            url_decode_encode)
  then show ?thesis by (simp add: query_get_def)
qed


subsection \<open>Email verification\<close>

lemma responses_no_cookies [simp]:
  "set_cookies (message st m) = []" "set_cookies (error_resp st m) = []" "set_cookies server_error = []"
  "set_cookies (plain r) = []"
  by (simp_all add: message_def error_resp_def server_error_def plain_def)

lemma send_welcome_email_frame:
  "store (snd (send_welcome_email e u w)) = store w \<and> env (snd (send_welcome_email e u w)) = env w \<and>
   next_oid (snd (send_welcome_email e u w)) = next_oid w"
  using mail_send_frame [of "''welcome''" e "js_template u" w]
  by (cases "mail_send ''welcome'' e (js_template u) w") (simp add: send_welcome_email_def)

lemma complete_verification_cookie:
  assumes "complete_verification cfg user w = (r, w')" and "set_cookies r \<noteq> []"
  shows "\<exists>uid. js_to_string (doc_get user ''_id'') = Inr uid \<and>
     store w' = (store w)(Users := map_first (matches (by_id user))
        (\<lambda>x. unset_fields [''verificationOTP''] (doc_assign x [(''isVerified'', JBool True), (''updatedAt'', JDate (now_ms (env w)))]))
        (store w Users)) \<and>
     set_cookies r = [SetCookie ''auth_token'' (jwt_sign (session_claims user uid) (jwt_secret (jwt_secret_var cfg)) session_ttl (env w))]"
proof -
  obtain u w1 where u: "update_one_unset Users (by_id user)
             [(''isVerified'', JBool True), (''updatedAt'', JDate (now_ms (env w)))] [''verificationOTP''] w = (u, w1)"
    by fastforce
  show ?thesis
  proof (cases u)
    case (Inl e)
    with assms u show ?thesis by (simp add: complete_verification_def)
  next
    case (Inr res)
    note ok = update_one_unset_ok [OF u [unfolded Inr]]
    with assms u Inr send_welcome_email_frame show ?thesis
      by (auto simp: complete_verification_def verified_response_def Let_def split: sum.splits)
  qed
qed

lemma complete_verification_answer:
  assumes "complete_verification cfg user w = (r, w')" and "set_cookies r \<noteq> []"
  shows "\<exists>tok. r = verified_response user tok"
  using assms
  by (auto simp: complete_verification_def Let_def split: sum.splits prod.splits)

text \<open>The path of \<open>POST /api/auth/verify\<close> that signs a user in.\<close>

lemma verify_otp_completes:
  assumes v: "verify_otp cfg req w = (r, w')" and c: "set_cookies r \<noteq> []"
  shows "\<exists>b user w2. body_obj req = Inr b \<and>
     find (matches [(''email'', js_val (doc_get b ''email''))]) (store w Users) = Some user \<and>
     \<not> js_truthy (doc_get user ''isVerified'') \<and>
     \<not> otp_rejected (env w) (doc_get user ''verificationOTP'') (doc_get b ''otp'') \<and>
     complete_verification cfg user w2 = (r, w') \<and> store w2 = store w \<and> env w2 = env w"
proof -
  obtain b where b: "body_obj req = Inr b"
    using v c by (cases "body_obj req") (auto simp: verify_otp_def)
  have tr: "js_truthy (doc_get b ''email'') \<and> js_truthy (doc_get b ''otp'')"
    using v c b by (auto simp: verify_otp_def split: if_splits)
  obtain a w1 where a: "await_client w = (a, w1)" by fastforce
  have a1: "a = Inr ()"
    using v c b tr a by (cases a) (auto simp: verify_otp_def)
  note f1 = await_client_frame [OF a]
  obtain fo w2 where fo: "find_one Users [(''email'', js_val (doc_get b ''email''))] w1 = (fo, w2)" by fastforce
  obtain user where u: "fo = Inr (Some user)"
    using v c b tr a a1 fo by (cases fo) (auto simp: verify_otp_def split: option.splits)
  note f2 = find_one_Inr [OF fo [unfolded u]]
  have nv: "\<not> js_truthy (doc_get user ''isVerified'')"
    and ok: "\<not> otp_rejected (env w2) (doc_get user ''verificationOTP'') (doc_get b ''otp'')"
    and cv: "complete_verification cfg user w2 = (r, w')"
    using v c b tr a a1 fo u by (auto simp: verify_otp_def split: if_splits)
  from f1 f2 nv ok b cv show ?thesis by auto
qed

lemma verify_otp_signed_in:
  assumes v: "verify_otp cfg req w = (r, w')" and c: "set_cookies r \<noteq> []"
  shows "\<exists>b user uid. body_obj req = Inr b \<and>
     find (matches [(''email'', js_val (doc_get b ''email''))]) (store w Users) = Some user \<and>
     \<not> js_truthy (doc_get user ''isVerified'') \<and>
     \<not> otp_rejected (env w) (doc_get user ''verificationOTP'') (doc_get b ''otp'') \<and>
     js_to_string (doc_get user ''_id'') = Inr uid \<and>
     store w' = (store w)(Users := map_first (matches (by_id user))
        (\<lambda>x. unset_fields [''verificationOTP''] (doc_assign x [(''isVerified'', JBool True), (''updatedAt'', JDate (now_ms (env w)))]))
        (store w Users)) \<and>
     set_cookies r = [SetCookie ''auth_token'' (jwt_sign (session_claims user uid) (jwt_secret (jwt_secret_var cfg)) session_ttl (env w))]"
proof -
  from verify_otp_completes [OF v c] obtain b user w2 where
    h: "body_obj req = Inr b"
       "find (matches [(''email'', js_val (doc_get b ''email''))]) (store w Users) = Some user"
       "\<not> js_truthy (doc_get user ''isVerified'')"
       "\<not> otp_rejected (env w) (doc_get user ''verificationOTP'') (doc_get b ''otp'')"
       "complete_verification cfg user w2 = (r, w')" "store w2 = store w" "env w2 = env w"
    by blast
  from complete_verification_cookie [OF h(5) c] h show ?thesis by auto
qed


lemma verified_user_found:
  assumes found: "find P xs = Some user" and idv: "doc_get user ''_id'' = Some i"
    and ids: "distinct (map (\<lambda>d. doc_get d ''_id'') xs)" and keep: "P (f user)"
  shows "find P (map_first (matches [(''_id'', i)]) f xs) = Some (f user)"
proof (rule find_after_map_first [OF found])
  show "matches [(''_id'', i)] user" using idv by (simp add: matches_def)
  show "\<forall>x \<in> set xs. matches [(''_id'', i)] x \<longrightarrow> x = user"
    using find_Some_in_set [OF found] idv ids by (auto simp: matches_def intro: distinct_map_unique)
  show "P (f user)" by (rule keep)
qed

text \<open>
  C22: a verification code signs in at most once. After a successful verification, no
  later request for that email gets a session cookie, whatever code it presents,
  provided no two documents of the users collection share an \<open>_id\<close>.
\<close>

theorem verify_otp_single_use:
  assumes v: "verify_otp cfg req w = (r, w')" and c: "set_cookies r \<noteq> []"
    and ids: "distinct (map (\<lambda>d. doc_get d ''_id'') (store w Users))"
    and b: "body_obj req = Inr b" and b': "body_obj req' = Inr b'"
    and same: "doc_get b' ''email'' = doc_get b ''email''"
    and w2: "store w2 Users = store w' Users"
  shows "set_cookies (fst (verify_otp cfg' req' w2)) = []"
proof (rule ccontr)
  let ?upd = "[(''isVerified'', JBool True), (''updatedAt'', JDate (now_ms (env w)))]"
  let ?f = "\<lambda>x. unset_fields [''verificationOTP''] (doc_assign x ?upd)"
  let ?P = "matches [(''email'', js_val (doc_get b ''email''))]"
  from verify_otp_signed_in [OF v c] b obtain user uid where
    found: "find ?P (store w Users) = Some user" and
    uid: "js_to_string (doc_get user ''_id'') = Inr uid" and
    st: "store w' Users = map_first (matches (by_id user)) ?f (store w Users)"
    by auto
  from js_to_string_Inr [OF uid] obtain i where i: "doc_get user ''_id'' = Some i" by blast
  have f_email: "doc_get (?f user) ''email'' = doc_get user ''email''"
    and f_verified: "doc_get (?f user) ''isVerified'' = Some (JBool True)"
    by (simp_all add: doc_get_assign_distinct)
  have "?P (?f user)" using find_Some_in_set [OF found] f_email by (simp add: matches_def)
  from verified_user_found [where f = ?f, OF found i ids this]
  have "find ?P (store w2 Users) = Some (?f user)" using st w2 i by (simp add: by_id_def js_val_def)
  moreover assume "set_cookies (fst (verify_otp cfg' req' w2)) \<noteq> []"
  from verify_otp_signed_in [OF prod.collapse [symmetric] this] b' same obtain user' where
    "find ?P (store w2 Users) = Some user'" "\<not> js_truthy (doc_get user' ''isVerified'')"
    by auto
  ultimately show False using f_verified by simp
qed

end
