(* ===== verification/Chat.thy ===== *)
theory Chat
  imports Auth
begin

text \<open>
  The chat proxy, \<open>src/app/api/chat/route.ts\<close>: \<open>POST /api/chat\<close> checks the body, forwards
  the conversation to the OpenRouter completion API (\<open>generateChatResponse\<close>), and
  post-processes the answer: the first \<open><think>...</think>\<close> block is split off as the
  model's reasoning, and the regular-expression passes that keep text-to-speech from
  reading markup (\<open>**x**\<close>, \<open>*x*\<close>, \<open>#\<close>) are applied.

  The completion service is a script of replies (a status and the response text)
  with a log of the request bodies it received; \<open>JSON.parse\<close> is a parameter of the
  configuration. Strings are lists of 8-bit characters, that is JavaScript strings
  whose code units are below 256; the whitespace and line-terminator classes of the
  regular expressions and of \<open>trim()\<close> are restricted to that range.

  Each regular expression is translated into a function that scans the string the
  way \<open>String.prototype.replace\<close> does: leftmost match first, the lazy \<open>.*?\<close> taking
  the shortest content that lets the rest match, and a global pattern resuming after
  the end of the previous match.
\<close>

subsection \<open>Characters and \<open>trim()\<close>\<close>

text \<open>Line terminators, which \<open>.\<close> does not match without the \<open>s\<close> flag.\<close>

definition js_line_term :: "char \<Rightarrow> bool" where
  "js_line_term c \<longleftrightarrow> c = CHR 0x0A \<or> c = CHR 0x0D"

text \<open>White space and line terminators: the class \<open>\s\<close> and what \<open>trim()\<close> removes.\<close>

definition js_space :: "char \<Rightarrow> bool" where
  "js_space c \<longleftrightarrow> c \<in> {CHR 0x09, CHR 0x0A, CHR 0x0B, CHR 0x0C, CHR 0x0D, CHR 0x20, CHR 0xA0}"

definition js_trim :: "string \<Rightarrow> string" where
  "js_trim s = rev (dropWhile js_space (rev (dropWhile js_space s)))"

subsection \<open>The regular expressions of the post-processing\<close>

text \<open>The index of the first occurrence of a needle (\<open>indexOf\<close>).\<close>

fun find_sub :: "string \<Rightarrow> string \<Rightarrow> nat option" where
  "find_sub n [] = (if n = [] then Some 0 else None)"
| "find_sub n (c # cs) = (if prefix n (c # cs) then Some 0 else map_option Suc (find_sub n cs))"

text \<open>
  \<open>/<think>(.*?)<\/think>/s\<close>: with the \<open>s\<close> flag \<open>.\<close> matches every character, so the
  leftmost match starts at the first \<open><think>\<close> and ends at the first \<open></think>\<close>
  after it. The result is the captured group and the string with the match replaced
  by the empty string.
\<close>

definition think_match :: "string \<Rightarrow> (string \<times> string) option" where
  "think_match s =
     (case find_sub ''<think>'' s of
        None \<Rightarrow> None
      | Some p \<Rightarrow>
          (let r = drop (p + 7) s in
           case find_sub ''</think>'' r of
             None \<Rightarrow> None
           | Some k \<Rightarrow> Some (take k r, take p s @ drop (k + 8) r)))"

text \<open>
  The lazy content of \<open>D(.*?)D\<close> after an opening delimiter \<open>D\<close>: the length of the
  shortest content before the next \<open>D\<close>, none when a line terminator comes first.
\<close>

fun close_at :: "string \<Rightarrow> string \<Rightarrow> nat option" where
  "close_at d [] = (if d = [] then Some 0 else None)"
| "close_at d (c # cs) =
     (if prefix d (c # cs) then Some 0
      else if js_line_term c then None
      else map_option Suc (close_at d cs))"

text \<open>
  \<open>.replace(/D(.*?)D/g, '$1')\<close> for a delimiter \<open>D\<close> (\<open>\*\*\<close> or \<open>\*\<close>): at each
  position a match is tried; a match is replaced by its content and the scan resumes
  after it, otherwise the character is kept.
\<close>

text \<open>The length of the content of a match of \<open>D(.*?)D\<close> at the head of the string.\<close>

definition pair_at :: "string \<Rightarrow> string \<Rightarrow> nat option" where
  "pair_at d s = (if d \<noteq> [] \<and> prefix d s then close_at d (drop (length d) s) else None)"

function strip_pairs :: "string \<Rightarrow> string \<Rightarrow> string" where
  "strip_pairs d [] = []"
| "strip_pairs d (c # cs) =
     (case pair_at d (c # cs) of
        Some k \<Rightarrow> take k (drop (length d) (c # cs)) @ strip_pairs d (drop (length d + k + length d) (c # cs))
      | None \<Rightarrow> c # strip_pairs d cs)"
  by pat_completeness auto
termination
  by (relation "measure (\<lambda>(d, s). length s)") (auto simp: pair_at_def split: if_splits)

text \<open>
  \<open>.replace(/#+\s?/g, '')\<close>: a maximal run of \<open>#\<close> and at most one white-space
  character after it are removed.
\<close>

function strip_hashes :: "string \<Rightarrow> string" where
  "strip_hashes [] = []"
| "strip_hashes (c # cs) =
     (if c = CHR ''#'' then
        (case dropWhile (\<lambda>x. x = CHR ''#'') cs of
           [] \<Rightarrow> []
         | x # xs \<Rightarrow> if js_space x then strip_hashes xs else strip_hashes (x # xs))
      else c # strip_hashes cs)"
  by pat_completeness auto
termination
proof (relation "measure length")
  fix c cs x xs
  assume "dropWhile (\<lambda>x. x = CHR ''#'') cs = x # xs"
  then have "length (x # xs) \<le> length cs" by (metis length_dropWhile_le)
  then show "(xs, c # cs) \<in> measure length" "(x # xs, c # cs) \<in> measure length" by simp_all
qed auto

text \<open>The three passes in the order of lines 102--105.\<close>

definition chat_clean :: "string \<Rightarrow> string" where
  "chat_clean s = strip_hashes (strip_pairs ''*'' (strip_pairs ''**'' s))"

text \<open>
  The promise of the second pass, stated on its output: every \<open>*\<close> is the last one of
  its line (no other \<open>*\<close> follows it before a line terminator).
\<close>

fun lone_stars :: "string \<Rightarrow> bool" where
  "lone_stars [] = True"
| "lone_stars (c # cs) =
     ((if c = CHR ''*'' then CHR ''*'' \<notin> set (takeWhile (\<lambda>x. \<not> js_line_term x) cs) else True)
      \<and> lone_stars cs)"

subsection \<open>Configuration and the completion service\<close>

text \<open>
  \<open>OPENROUTER_API_KEY\<close> falls back to a key literal committed at line 4. The literal
  is not repeated here: only its prefix is kept, and nothing below depends on it
  beyond its being non-empty and different from the placeholder of line 77.
\<close>

definition openrouter_fallback_key :: string where
  "openrouter_fallback_key = ''sk-or-v1-''"

definition openrouter_key :: "string option \<Rightarrow> string" where
  "openrouter_key v = env_or v openrouter_fallback_key"

definition key_placeholder :: string where
  "key_placeholder = ''your-openrouter-api-key-here''"

record chat_cfg =
  openrouter_var :: "string option"
  json_parse :: "string \<Rightarrow> jval option"

text \<open>The request body of lines 21--36, as \<open>JSON.stringify\<close> writes it.\<close>

record chat_payload =
  cp_model :: string
  cp_messages :: "(string \<times> jval option) list"
  cp_temperature :: string
  cp_max_tokens :: nat

datatype completion_reply = Completion nat string | CompletionNetError string

record chat_world =
  completions :: "completion_reply list"
  requests :: "chat_payload list"

definition completion_fetch :: "chat_payload \<Rightarrow> chat_world \<Rightarrow> completion_reply \<times> chat_world" where
  "completion_fetch p s =
     (case completions s of
        [] \<Rightarrow> (CompletionNetError ''fetch failed'', s\<lparr>requests := requests s @ [p]\<rparr>)
      | r # rs \<Rightarrow> (r, s\<lparr>completions := rs, requests := requests s @ [p]\<rparr>))"

subsection \<open>\<open>generateChatResponse\<close>\<close>

definition chat_model :: "bool \<Rightarrow> string" where
  "chat_model deep =
     (if deep then ''deepseek/deepseek-r1-0528:free'' else ''deepseek/deepseek-chat-v3-0324:free'')"

definition deep_instruction :: string where
  "deep_instruction = ''Please provide a deep, thorough analysis with detailed explanations. Consider multiple perspectives, analyze implications, and provide comprehensive insights. Your response should be well-structured, nuanced, and demonstrate expert-level understanding.''"

definition enhanced_prompt :: "string \<Rightarrow> bool \<Rightarrow> string" where
  "enhanced_prompt p deep = (if deep then p @ [CHR 0x0A, CHR 0x0A] @ deep_instruction else p)"

text \<open>\<open>msg => ({role: msg.role === 'assistant' ? 'assistant' : 'user', content: msg.content})\<close>\<close>

definition chat_message :: "jval \<Rightarrow> exn + (string \<times> jval option)" where
  "chat_message m =
     (case js_prop m ''role'' of
        Inl e \<Rightarrow> Inl e
      | Inr r \<Rightarrow>
          (case js_prop m ''content'' of
             Inl e \<Rightarrow> Inl e
           | Inr c \<Rightarrow> Inr (if js_strict_eq r (Some (JStr ''assistant'')) then ''assistant'' else ''user'', c)))"

definition chat_payload_of :: "(string \<times> jval option) list \<Rightarrow> string \<Rightarrow> bool \<Rightarrow> chat_payload" where
  "chat_payload_of ms prompt deep =
     \<lparr>cp_model = chat_model deep,
      cp_messages = (''system'', Some (JStr (enhanced_prompt prompt deep))) # ms,
      cp_temperature = (if deep then ''0.5'' else ''0.7''),
      cp_max_tokens = (if deep then 4096 else 2048)\<rparr>"

text \<open>\<open>v?.k\<close> and \<open>v?.[0]\<close> on a parsed value (the keys read are never \<open>length\<close>).\<close>

fun opt_get :: "jval option \<Rightarrow> string \<Rightarrow> jval option" where
  "opt_get (Some (JObj d)) k = doc_get d k"
| "opt_get _ k = None"

fun opt_index0 :: "jval option \<Rightarrow> jval option" where
  "opt_index0 (Some (JArr (x # _))) = Some x"
| "opt_index0 (Some (JStr (c # _))) = Some (JStr [c])"
| "opt_index0 (Some (JObj d)) = doc_get d ''0''"
| "opt_index0 _ = None"

text \<open>\<open>data.choices?.[0]?.message?.content\<close>: only the first read is not optional.\<close>

definition choice_content :: "jval \<Rightarrow> exn + jval option" where
  "choice_content data =
     (case js_prop data ''choices'' of
        Inl e \<Rightarrow> Inl e
      | Inr c \<Rightarrow> Inr (opt_get (opt_get (opt_index0 c) ''message'') ''content''))"

definition generate_chat_response ::
  "chat_cfg \<Rightarrow> jval list \<Rightarrow> string \<Rightarrow> bool \<Rightarrow> chat_world \<Rightarrow> (exn + jval) \<times> chat_world" where
  "generate_chat_response cfg msgs prompt deep s =
     (case map_throw chat_message msgs of
        Inl e \<Rightarrow> (Inl e, s)
      | Inr ms \<Rightarrow>
          (case completion_fetch (chat_payload_of ms prompt deep) s of
             (CompletionNetError m, s') \<Rightarrow> (Inl (TypeError m), s')
           | (Completion st txt, s') \<Rightarrow>
               (if \<not> reply_ok st then
                  (Inl (Error (''API request failed with status '' @ nat_str st @ '': '' @ txt)), s')
                else
                  (case json_parse cfg txt of
                     None \<Rightarrow> (Inl (Error (''Failed to parse API response as JSON: '' @ txt)), s')
                   | Some data \<Rightarrow>
                       (case choice_content data of
                          Inl e \<Rightarrow> (Inl e, s')
                        | Inr c \<Rightarrow>
                            if js_truthy c then (Inr (the c), s')
                            else (Inl (Error ''Invalid response format from API''), s'))))))"

subsection \<open>\<open>POST /api/chat\<close>\<close>

text \<open>Lines 91--110: the reasoning block is split off, then the answer is cleaned.\<close>

definition chat_result :: "string \<Rightarrow> response" where
  "chat_result txt =
     (let (thinking, content) =
        (case think_match txt of None \<Rightarrow> ([], txt) | Some (t, rest) \<Rightarrow> (js_trim t, js_trim rest))
      in \<lparr>status = 200,
          body = [(''message'', JStr (chat_clean content)),
                  (''thinking'', if thinking = [] then JNull else JStr thinking)]\<rparr>)"

text \<open>
  The catch of lines 112--123. \<open>details\<close> is \<open>undefined\<close>, and so dropped, unless
  \<open>NODE_ENV\<close> is \<open>development\<close>; the model is of a production server.
\<close>

definition chat_failure :: "exn \<Rightarrow> response" where
  "chat_failure e =
     json_error 500 (if exn_message e = [] then ''Internal server error'' else exn_message e)"

definition chat_answer :: "chat_cfg \<Rightarrow> jval option \<Rightarrow> chat_world \<Rightarrow> (exn + response) \<times> chat_world" where
  "chat_answer cfg req s =
     (case body_obj req of
        Inl e \<Rightarrow> (Inl e, s)
      | Inr b \<Rightarrow>
          (let key = openrouter_key (openrouter_var cfg) in
           if key = [] \<or> key = key_placeholder then (Inl (Error ''OpenRouter API key not configured''), s)
           else
             (case doc_get b ''messages'' of
                Some (JArr msgs) \<Rightarrow>
                  (case doc_get b ''systemPrompt'' of
                     Some (JStr prompt) \<Rightarrow>
                       (case generate_chat_response cfg msgs prompt (js_truthy (doc_get b ''useDeepAnalysis'')) s of
                          (Inl e, s') \<Rightarrow> (Inl e, s')
                        | (Inr (JStr txt), s') \<Rightarrow> (Inr (chat_result txt), s')
                        | (Inr _, s') \<Rightarrow> (Inl (TypeError ''responseContent.match is not a function''), s'))
                   | _ \<Rightarrow> (Inl (Error ''System prompt must be a string''), s))
              | _ \<Rightarrow> (Inl (Error ''Messages must be an array''), s))))"

definition chat_post :: "chat_cfg \<Rightarrow> jval option \<Rightarrow> chat_world \<Rightarrow> response \<times> chat_world" where
  "chat_post cfg req s =
     (case chat_answer cfg req s of
        (Inl e, s') \<Rightarrow> (chat_failure e, s')
      | (Inr r, s') \<Rightarrow> (r, s'))"

subsection \<open>Lemmas\<close>

declare strip_hashes.simps(2) [simp del] strip_pairs.simps(2) [simp del]

lemma strip_hashes_plain [simp]: "c \<noteq> CHR ''#'' \<Longrightarrow> strip_hashes (c # cs) = c # strip_hashes cs"
  by (simp add: strip_hashes.simps(2) [of c cs])

lemma strip_hashes_end:
  assumes "dropWhile (\<lambda>x. x = CHR ''#'') cs = []"
  shows "strip_hashes (CHR ''#'' # cs) = []"
  by (subst strip_hashes.simps(2)) (simp add: assms del: dropWhile_eq_Nil_conv)

lemma strip_hashes_run:
  "dropWhile (\<lambda>x. x = CHR ''#'') cs = x # xs \<Longrightarrow>
   strip_hashes (CHR ''#'' # cs) = (if js_space x then strip_hashes xs else strip_hashes (x # xs))"
  by (simp add: strip_hashes.simps(2) [of "CHR ''#''" cs])

lemma strip_hashes_no_hash: "CHR ''#'' \<notin> set (strip_hashes s)"
proof (induction s rule: strip_hashes.induct)
  case (2 c cs)
  show ?case
  proof (cases "c = CHR ''#''")
    case True
    show ?thesis
    proof (cases "dropWhile (\<lambda>x. x = CHR ''#'') cs")
      case Nil
      with True show ?thesis by (simp only: strip_hashes_end) simp
    next
      case (Cons x xs)
      have "js_space x \<Longrightarrow> CHR ''#'' \<notin> set (strip_hashes xs)"
           "\<not> js_space x \<Longrightarrow> CHR ''#'' \<notin> set (strip_hashes (x # xs))"
        using 2 True Cons by metis+
      with True Cons show ?thesis by (simp add: strip_hashes_run)
    qed
  qed (use 2 in simp)
qed simp

lemma length_strip_hashes: "length (strip_hashes s) \<le> length s"
proof (induction s rule: strip_hashes.induct)
  case (2 c cs)
  show ?case
  proof (cases "c = CHR ''#''")
    case True
    show ?thesis
    proof (cases "dropWhile (\<lambda>x. x = CHR ''#'') cs")
      case Nil
      with True show ?thesis by (simp only: strip_hashes_end) simp
    next
      case (Cons x xs)
      have "js_space x \<Longrightarrow> length (strip_hashes xs) \<le> length xs"
           "\<not> js_space x \<Longrightarrow> length (strip_hashes (x # xs)) \<le> length (x # xs)"
        using 2 True Cons by metis+
      moreover have "length (x # xs) \<le> length cs" using Cons by (metis length_dropWhile_le)
      ultimately show ?thesis using True Cons by (auto simp: strip_hashes_run)
    qed
  qed (use 2 in simp)
qed simp

lemma strip_pairs_match:
  "pair_at d s = Some k \<Longrightarrow>
   strip_pairs d s = take k (drop (length d) s) @ strip_pairs d (drop (length d + k + length d) s)"
  by (cases s) (simp_all add: strip_pairs.simps(2) pair_at_def split: if_splits)

lemma strip_pairs_skip [simp]: "pair_at d (c # cs) = None \<Longrightarrow> strip_pairs d (c # cs) = c # strip_pairs d cs"
  by (simp add: strip_pairs.simps(2) [of d c cs])

lemma close_at_le: "close_at d xs = Some k \<Longrightarrow> k + length d \<le> length xs"
proof (induction d xs arbitrary: k rule: close_at.induct)
  case (2 d c cs)
  then show ?case by (auto split: if_splits dest: prefix_length_le)
qed (simp split: if_splits)

lemma pair_at_le: "pair_at d s = Some k \<Longrightarrow> 0 < length d \<and> length d + k + length d \<le> length s"
  by (auto simp: pair_at_def split: if_splits dest: close_at_le)

lemma length_strip_pairs: "length (strip_pairs d s) \<le> length s"
proof (induction d s rule: strip_pairs.induct)
  case (2 d c cs)
  show ?case
  proof (cases "pair_at d (c # cs)")
    case (Some k)
    with 2 pair_at_le [OF Some] show ?thesis by (simp add: strip_pairs_match)
  qed (use 2 in simp)
qed simp

theorem chat_clean_shorter: "length (chat_clean s) \<le> length s"
  unfolding chat_clean_def
  using length_strip_hashes length_strip_pairs le_trans by blast

lemma js_line_term_star [simp]: "\<not> js_line_term CHR ''*''"
  by (simp add: js_line_term_def)

lemma close_at_star_Some:
  "close_at ''*'' xs = Some k \<Longrightarrow>
   xs = take k xs @ CHR ''*'' # drop (Suc k) xs \<and> list_all (\<lambda>x. \<not> js_line_term x \<and> x \<noteq> CHR ''*'') (take k xs)"
proof (induction xs arbitrary: k)
  case (Cons c cs)
  then show ?case by (cases k) (auto split: if_splits)
qed simp

lemma close_at_star_None:
  "close_at ''*'' xs = None \<Longrightarrow> CHR ''*'' \<notin> set (takeWhile (\<lambda>x. \<not> js_line_term x) xs)"
  by (induction xs) (auto split: if_splits)

lemma pair_at_star: "pair_at ''*'' (c # cs) = (if c = CHR ''*'' then close_at ''*'' cs else None)"
  by (simp add: pair_at_def)

lemma lone_stars_append:
  "CHR ''*'' \<notin> set xs \<Longrightarrow> lone_stars ys \<Longrightarrow> lone_stars (xs @ ys)"
  by (induction xs) auto

lemma takeWhile_strip_star:
  "set (takeWhile (\<lambda>x. \<not> js_line_term x) (strip_pairs ''*'' s)) \<subseteq> set (takeWhile (\<lambda>x. \<not> js_line_term x) s)"
proof (induction "''*''" s rule: strip_pairs.induct)
  case (2 c cs)
  show ?case
  proof (cases "pair_at ''*'' (c # cs)")
    case (Some k)
    then have c: "c = CHR ''*''" and k: "close_at ''*'' cs = Some k"
      by (simp_all add: pair_at_star split: if_splits)
    from close_at_star_Some [OF k]
    have cs: "cs = take k cs @ CHR ''*'' # drop (Suc k) cs"
      and t: "list_all (\<lambda>x. \<not> js_line_term x \<and> x \<noteq> CHR ''*'') (take k cs)" by blast+
    have tw: "takeWhile (\<lambda>x. \<not> js_line_term x) cs
                = take k cs @ CHR ''*'' # takeWhile (\<lambda>x. \<not> js_line_term x) (drop (Suc k) cs)"
      using t by (subst cs) (simp add: takeWhile_append2 list_all_iff)
    have "strip_pairs ''*'' (c # cs) = take k cs @ strip_pairs ''*'' (drop (Suc k) cs)"
      using strip_pairs_match [OF Some] by simp
    moreover have "set (takeWhile (\<lambda>x. \<not> js_line_term x) (strip_pairs ''*'' (drop (Suc k) cs)))
                     \<subseteq> set (takeWhile (\<lambda>x. \<not> js_line_term x) (drop (Suc k) cs))"
      using 2(2) [OF Some] by simp
    ultimately show ?thesis using c t tw by (auto simp: takeWhile_append2 list_all_iff)
  next
    case None
    with 2(1) [OF None] show ?thesis by auto
  qed
qed simp

text \<open>
  C30. After the pass \<open>.replace(/\*(.*?)\*/g, '$1')\<close> every remaining asterisk is
  alone on the rest of its line: pairs on one line are always consumed, and only an
  asterisk with no partner before the next line terminator survives.
\<close>

theorem strip_star_lone: "lone_stars (strip_pairs ''*'' s)"
proof (induction "''*''" s rule: strip_pairs.induct)
  case (2 c cs)
  show ?case
  proof (cases "pair_at ''*'' (c # cs)")
    case (Some k)
    then have k: "close_at ''*'' cs = Some k" by (simp add: pair_at_star split: if_splits)
    have "CHR ''*'' \<notin> set (take k cs)"
      using close_at_star_Some [OF k] by (auto simp: list_all_iff)
    moreover have "strip_pairs ''*'' (c # cs) = take k cs @ strip_pairs ''*'' (drop (Suc k) cs)"
      using strip_pairs_match [OF Some] by simp
    ultimately show ?thesis using 2(2) [OF Some] lone_stars_append by simp
  next
    case None
    have "c = CHR ''*'' \<Longrightarrow> CHR ''*'' \<notin> set (takeWhile (\<lambda>x. \<not> js_line_term x) (strip_pairs ''*'' cs))"
      using None close_at_star_None takeWhile_strip_star by (fastforce simp: pair_at_star)
    with 2(1) [OF None] None show ?thesis by simp
  qed
qed simp

lemma prefix_take: "prefix xs ys \<Longrightarrow> length xs \<le> m \<Longrightarrow> prefix xs (take m ys)"
  by (metis append_eq_conv_conj prefix_def take_append take_all_iff)

lemma find_sub_Some_iff:
  assumes "n \<noteq> []"
  shows "find_sub n s = Some p \<longleftrightarrow> prefix n (drop p s) \<and> \<not> sublist n (take (p + length n - 1) s)"
proof (induction s arbitrary: p)
  case Nil
  with assms show ?case by simp
next
  case (Cons c cs)
  show ?case
  proof (cases "prefix n (c # cs)")
    case True
    show ?thesis
    proof (cases p)
      case 0
      have "\<not> sublist n (take (length n - 1) (c # cs))"
        using assms sublist_length_le by fastforce
      with True 0 show ?thesis by simp
    next
      case (Suc q)
      have "prefix n (take (p + length n - 1) (c # cs))"
        using True Suc by (intro prefix_take) simp_all
      with True Suc show ?thesis by (auto dest: prefix_imp_sublist)
    qed
  next
    case False
    show ?thesis
    proof (cases p)
      case (Suc q)
      have tk: "take (p + length n - 1) (c # cs) = c # take (q + length n - 1) cs"
        using assms Suc by (cases n) simp_all
      have "\<not> prefix n (c # take (q + length n - 1) cs)"
        using False by (metis prefix_order.trans take_is_prefix prefix_Cons)
      then have "sublist n (take (p + length n - 1) (c # cs)) \<longleftrightarrow> sublist n (take (q + length n - 1) cs)"
        unfolding tk by (simp add: sublist_Cons_right)
      with False Suc Cons.IH [of q] show ?thesis by auto
    qed (use False in auto)
  qed
qed

lemma prefix_drop_split:
  assumes "prefix n (drop p s)" "n \<noteq> []"
  shows "s = take p s @ n @ drop (p + length n) s \<and> length (take p s) = p"
proof -
  from assms(1) obtain z where z: "drop p s = n @ z" by (auto simp: prefix_def)
  with assms(2) have "p < length s" by (metis Nil_is_append_conv drop_eq_Nil not_le_imp_less)
  moreover have "drop (p + length n) s = z" using z by (metis add.commute append_eq_conv_conj drop_drop)
  ultimately show ?thesis using z by (metis append_take_drop_id length_take min.absorb4)
qed

lemma find_sub_think: "find_sub ''<think>'' s = Some p \<longleftrightarrow> prefix ''<think>'' (drop p s) \<and> \<not> sublist ''<think>'' (take (p + 6) s)"
  by (simp add: find_sub_Some_iff eval_nat_numeral)

lemma find_sub_end_think: "find_sub ''</think>'' s = Some p \<longleftrightarrow> prefix ''</think>'' (drop p s) \<and> \<not> sublist ''</think>'' (take (p + 7) s)"
  by (simp add: find_sub_Some_iff eval_nat_numeral)


text \<open>
  C29. The scanner for \<open>/<think>(.*?)<\/think>/s\<close> is equivalent to the regular
  expression's semantics: it succeeds exactly when the answer splits as
  \<open>a <think> t </think> b\<close> with the opening tag at its leftmost occurrence and the
  lazy group \<open>t\<close> the shortest one; the group is \<open>t\<close> and the replacement leaves
  \<open>a b\<close>.
\<close>

theorem think_match_spec:
  "think_match s = Some (t, rest) \<longleftrightarrow>
     (\<exists>a b. s = a @ ''<think>'' @ t @ ''</think>'' @ b \<and> rest = a @ b \<and>
            \<not> sublist ''<think>'' (a @ ''<think'') \<and> \<not> sublist ''</think>'' (t @ ''</think''))"
  (is "?l \<longleftrightarrow> ?r")
proof
  assume ?l
  then obtain p k where p: "find_sub ''<think>'' s = Some p"
    and k: "find_sub ''</think>'' (drop (p + 7) s) = Some k"
    and t: "t = take k (drop (p + 7) s)" and rest: "rest = take p s @ drop (k + 8) (drop (p + 7) s)"
    by (auto simp: think_match_def Let_def split: option.splits)
  define a r where "a = take p s" and "r = drop (p + 7) s"
  define b where "b = drop (k + 8) r"
  from p have p1: "prefix ''<think>'' (drop p s)" "\<not> sublist ''<think>'' (take (p + 6) s)"
    unfolding find_sub_think by blast+
  from k have k1: "prefix ''</think>'' (drop k r)" "\<not> sublist ''</think>'' (take (k + 7) r)"
    unfolding find_sub_end_think r_def by blast+
  from prefix_drop_split [OF p1(1)] have s: "s = a @ ''<think>'' @ r" "length a = p"
    by (simp_all add: a_def r_def eval_nat_numeral)
  from prefix_drop_split [OF k1(1)] have r: "r = t @ ''</think>'' @ b" "length t = k"
    by (simp_all add: t b_def r_def eval_nat_numeral)
  have "take (p + 6) s = a @ ''<think''" using s by simp
  moreover have "take (k + 7) r = t @ ''</think''" using r by simp
  moreover have "rest = a @ b" by (simp add: rest a_def b_def r_def)
  ultimately show ?r using s(1) r(1) p1(2) k1(2) by auto
next
  assume ?r
  then obtain a b where s: "s = a @ ''<think>'' @ t @ ''</think>'' @ b" and rest: "rest = a @ b"
    and a: "\<not> sublist ''<think>'' (a @ ''<think'')" and t: "\<not> sublist ''</think>'' (t @ ''</think'')"
    by blast
  have f1: "find_sub ''<think>'' s = Some (length a)"
    unfolding find_sub_think using a by (simp add: s)
  have d: "drop (length a + 7) s = t @ ''</think>'' @ b" by (simp add: s)
  have f2: "find_sub ''</think>'' (t @ ''</think>'' @ b) = Some (length t)"
    unfolding find_sub_end_think using t by simp
  have "take (length a) s = a" by (simp add: s)
  with f1 d f2 show ?l by (simp add: think_match_def rest)
qed

lemma js_prop_Inl: "js_prop v k = Inl e \<Longrightarrow> \<exists>m. e = TypeError m"
  by (auto simp: js_prop_def split: jval.splits)

lemma chat_message_Inl: "map_throw chat_message msgs = Inl e \<Longrightarrow> \<exists>m. e = TypeError m"
  by (auto simp: chat_message_def split: sum.splits dest!: map_throw_Inl js_prop_Inl)

lemma choice_content_Inl: "choice_content data = Inl e \<Longrightarrow> \<exists>m. e = TypeError m"
  by (auto simp: choice_content_def split: sum.splits dest: js_prop_Inl)

lemma generate_chat_response_requests:
  assumes "generate_chat_response cfg msgs prompt deep s = (y, s')"
  shows "(s' = s \<and> (\<exists>e. map_throw chat_message msgs = Inl e)) \<or>
         (\<exists>ms. map_throw chat_message msgs = Inr ms \<and> requests s' = requests s @ [chat_payload_of ms prompt deep])"
proof (cases "map_throw chat_message msgs")
  case (Inl e)
  with assms show ?thesis by (simp add: generate_chat_response_def)
next
  case (Inr ms)
  obtain r s1 where f: "completion_fetch (chat_payload_of ms prompt deep) s = (r, s1)" by (metis prod.exhaust)
  then have "requests s1 = requests s @ [chat_payload_of ms prompt deep]"
    by (auto simp: completion_fetch_def split: list.splits)
  moreover have "s' = s1"
    using assms Inr f
    by (auto simp: generate_chat_response_def split: completion_reply.splits if_splits option.splits sum.splits)
  ultimately show ?thesis using Inr by simp
qed

lemma generate_chat_response_not_key:
  "fst (generate_chat_response cfg msgs prompt deep s) \<noteq> Inl (Error ''OpenRouter API key not configured'')"
proof (cases "map_throw chat_message msgs")
  case (Inl e)
  then show ?thesis by (auto simp: generate_chat_response_def dest: chat_message_Inl)
next
  case (Inr ms)
  obtain r s1 where f: "completion_fetch (chat_payload_of ms prompt deep) s = (r, s1)" by (metis prod.exhaust)
  show ?thesis
  proof (cases r)
    case (Completion st rt)
    then show ?thesis using Inr f
      by (auto simp: generate_chat_response_def split: option.splits sum.splits dest: choice_content_Inl)
  next
    case (CompletionNetError m)
    with Inr f show ?thesis by (simp add: generate_chat_response_def)
  qed
qed

lemma generate_chat_response_not_key_eq:
  "generate_chat_response cfg msgs prompt deep s = (y, s') \<Longrightarrow> y \<noteq> Inl (Error ''OpenRouter API key not configured'')"
  using generate_chat_response_not_key by (metis fst_conv)

lemma body_obj_Inl: "body_obj req = Inl e \<Longrightarrow> (\<exists>m. e = SyntaxError m) \<or> (\<exists>m. e = TypeError m)"
  by (auto simp: body_obj_def split: option.splits jval.splits)

lemma openrouter_key_nonempty: "openrouter_key v \<noteq> []"
  by (simp add: openrouter_key_def openrouter_fallback_key_def env_or_def split: option.split)

lemma openrouter_key_placeholder: "openrouter_key v = key_placeholder \<longleftrightarrow> v = Some key_placeholder"
  by (simp add: openrouter_key_def openrouter_fallback_key_def key_placeholder_def env_or_def
           split: option.split)

lemma chat_answer_frame:
  assumes "chat_answer cfg req s = (x, s')"
  shows "s' = s \<or>
         (\<exists>b msgs prompt y. body_obj req = Inr b \<and> openrouter_var cfg \<noteq> Some key_placeholder \<and>
            doc_get b ''messages'' = Some (JArr msgs) \<and> doc_get b ''systemPrompt'' = Some (JStr prompt) \<and>
            generate_chat_response cfg msgs prompt (js_truthy (doc_get b ''useDeepAnalysis'')) s = (y, s'))"
  using assms openrouter_key_nonempty [of "openrouter_var cfg"]
  by (auto simp: chat_answer_def Let_def openrouter_key_placeholder
           split: sum.splits option.splits jval.splits prod.splits if_splits)



lemma length_js_trim: "length (js_trim s) \<le> length s"
  unfolding js_trim_def by (metis dual_order.trans length_dropWhile_le length_rev)

lemma think_match_length: "think_match s = Some (t, rest) \<Longrightarrow> length rest \<le> length s"
  by (auto simp: think_match_def Let_def split: option.splits)

text \<open>
  C32. \<open>POST /api/chat\<close> throws \<open>OpenRouter API key not configured\<close> exactly when the
  body parses and \<open>OPENROUTER_API_KEY\<close> is set to the placeholder: with the variable
  unset the committed fallback key is used, so the guard of line 77 never reports a
  missing key.
\<close>

theorem chat_key_error_iff:
  "fst (chat_answer cfg req s) = Inl (Error ''OpenRouter API key not configured'') \<longleftrightarrow>
   (\<exists>b. body_obj req = Inr b) \<and> openrouter_var cfg = Some key_placeholder"
proof (cases "body_obj req")
  case (Inl e)
  then show ?thesis using body_obj_Inl [OF Inl] by (auto simp: chat_answer_def)
next
  case (Inr b)
  show ?thesis
  proof (cases "openrouter_var cfg = Some key_placeholder")
    case True
    with Inr show ?thesis by (simp add: chat_answer_def openrouter_key_placeholder)
  next
    case False
    obtain x s' where h: "chat_answer cfg req s = (x, s')" by (metis prod.exhaust)
    have "x \<noteq> Inl (Error ''OpenRouter API key not configured'')"
      using chat_answer_frame [OF h] False h Inr
      by (auto dest: generate_chat_response_not_key_eq simp: chat_answer_def Let_def openrouter_key_placeholder openrouter_key_nonempty
               split: option.splits jval.splits prod.splits sum.splits)
    with h False show ?thesis by simp
  qed
qed

text \<open>
  C33. A request reaches the completion service only when the body parsed, the key is
  configured, \<open>messages\<close> is an array, \<open>systemPrompt\<close> is a string and every message
  could be read; exactly one request is then sent, with the system prompt first and
  the messages' roles mapped to \<open>assistant\<close> or \<open>user\<close>.
\<close>

theorem chat_forwards_checked:
  assumes "chat_post cfg req s = (r, s')" and "requests s' \<noteq> requests s"
  shows "\<exists>b msgs prompt ms. body_obj req = Inr b \<and> openrouter_var cfg \<noteq> Some key_placeholder \<and>
           doc_get b ''messages'' = Some (JArr msgs) \<and> doc_get b ''systemPrompt'' = Some (JStr prompt) \<and>
           map_throw chat_message msgs = Inr ms \<and>
           requests s' = requests s @ [chat_payload_of ms prompt (js_truthy (doc_get b ''useDeepAnalysis''))]"
proof -
  obtain x where h: "chat_answer cfg req s = (x, s')"
    using assms(1) by (auto simp: chat_post_def split: prod.splits sum.splits)
  from chat_answer_frame [OF h] assms(2) obtain b msgs prompt y where
    c: "body_obj req = Inr b" "openrouter_var cfg \<noteq> Some key_placeholder"
       "doc_get b ''messages'' = Some (JArr msgs)" "doc_get b ''systemPrompt'' = Some (JStr prompt)"
    and g: "generate_chat_response cfg msgs prompt (js_truthy (doc_get b ''useDeepAnalysis'')) s = (y, s')"
    by blast
  from generate_chat_response_requests [OF g] assms(2) c show ?thesis by blast
qed


text \<open>
  C31. The message of a successful answer contains no \<open>#\<close> and is no longer than the
  model's answer.
\<close>

theorem chat_result_clean:
  "\<exists>m. doc_get (body (chat_result x)) ''message'' = Some (JStr m) \<and> CHR ''#'' \<notin> set m \<and> length m \<le> length x"
proof (cases "think_match x")
  case None
  then show ?thesis using strip_hashes_no_hash chat_clean_shorter [of x]
    by (simp add: chat_result_def chat_clean_def)
next
  case (Some tr)
  then obtain t rest where tr: "think_match x = Some (t, rest)" by (cases tr) simp
  have "length (chat_clean (js_trim rest)) \<le> length x"
    using chat_clean_shorter [of "js_trim rest"] length_js_trim [of rest] think_match_length [OF tr]
    by linarith
  with tr show ?thesis using strip_hashes_no_hash by (simp add: chat_result_def chat_clean_def)
qed

text \<open>
  The fourth pass can join lines: a heading mark at the end of a line takes the line
  break with it, so two asterisks that the second pass left on different lines end up
  side by side in the spoken text.
\<close>

lemma chat_clean_joins_lines:
  "chat_clean [CHR ''a'', CHR ''*'', CHR ''#'', CHR 0x0A, CHR ''*'', CHR ''b''] = ''a**b''"
  by (simp add: chat_clean_def strip_pairs.simps strip_hashes.simps pair_at_def js_line_term_def js_space_def)

end
