(* ===== verification/Client.thy ===== *)
theory Client
  imports Auth
begin

text \<open>
  The authentication client, \<open>src/app/contexts/AuthContext.tsx\<close>: the React state
  \<open>user\<close>, \<open>isLoading\<close> and \<open>error\<close> of \<open>AuthProvider\<close>, and the actions it offers
  (\<open>login\<close>, \<open>register\<close>, \<open>verifyEmail\<close>, \<open>resendVerificationCode\<close>, \<open>completeProfile\<close>,
  \<open>logout\<close>, \<open>forgotPassword\<close>, \<open>resetPassword\<close>, \<open>verifyResetToken\<close>,
  \<open>updateLTPCredentials\<close>) and the check on mount.

  The client state is a record; the requests it sends are logged, and the server's
  answers are a script of replies (a status and the parsed JSON body, \<open>None\<close> when the
  body is not JSON). \<open>router.push\<close> appends to a list of visited paths; the 100 ms
  delay of \<open>login\<close>'s push is not timed.

  Each action runs its synchronous part up to the \<open>await fetch\<close> (\<open>api_start\<close>) and then,
  when the reply arrives, the rest of its \<open>try\<close>, \<open>catch\<close> and \<open>finally\<close>
  (\<open>api_settle\<close>). Run one at a time they are functions of the state; run concurrently,
  as a page can, they are the steps of the relation \<open>client_reach\<close>.
\<close>

subsection \<open>JSON on the wire\<close>

text \<open>
  \<open>NextResponse.json\<close> followed by \<open>response.json()\<close>: an ObjectId becomes its hex
  string and a date its ISO string; everything else is unchanged.
\<close>

fun json_wire :: "js_env \<Rightarrow> jval \<Rightarrow> jval" where
  "json_wire e (JOid n) = JStr (oid_hex n)"
| "json_wire e (JDate t) = JStr (iso_of e t)"
| "json_wire e (JArr xs) = JArr (map (json_wire e) xs)"
| "json_wire e (JObj d) = JObj (map (\<lambda>kv. (fst kv, json_wire e (snd kv))) d)"
| "json_wire e JNull = JNull"
| "json_wire e (JBool b) = JBool b"
| "json_wire e (JNum n) = JNum n"
| "json_wire e (JStr s) = JStr s"

subsection \<open>Client state\<close>

datatype api_reply = ApiReply nat "jval option" | ApiNetError

record client =
  cl_user :: jval
  cl_loading :: bool
  cl_error :: "string option"
  cl_pushed :: "string list"
  cl_calls :: "(string \<times> string \<times> jval option) list"
  cl_replies :: "api_reply list"
  cl_now :: string

text \<open>\<open>isAuthenticated: !!user\<close>.\<close>

definition is_authenticated :: "client \<Rightarrow> bool" where
  "is_authenticated c \<longleftrightarrow> js_truthy (Some (cl_user c))"

text \<open>The next reply of the script; an exhausted script is a network failure.\<close>

definition next_reply :: "client \<Rightarrow> api_reply \<times> client" where
  "next_reply c =
     (case cl_replies c of [] \<Rightarrow> (ApiNetError, c) | r # rs \<Rightarrow> (r, c\<lparr>cl_replies := rs\<rparr>))"

subsection \<open>The shared shape of the actions\<close>

text \<open>Up to the first \<open>await\<close>: \<open>setError(null); setIsLoading(true); fetch(...)\<close>.\<close>

definition api_start :: "string \<Rightarrow> string \<Rightarrow> jval option \<Rightarrow> client \<Rightarrow> client" where
  "api_start meth url b c =
     c\<lparr>cl_error := None, cl_loading := True, cl_calls := cl_calls c @ [(meth, url, b)]\<rparr>"

text \<open>\<open>throw new Error(data.error || dflt)\<close>; reading \<open>error\<close> of \<open>null\<close> throws instead.\<close>

definition api_error :: "jval \<Rightarrow> string \<Rightarrow> exn" where
  "api_error data dflt =
     (case js_prop data ''error'' of
        Inl e \<Rightarrow> e
      | Inr v \<Rightarrow> Error (if js_truthy v then js_template v else dflt))"

text \<open>
  The \<open>catch\<close> and \<open>finally\<close> of an action: every error thrown in these \<open>try\<close> blocks is
  an \<open>Error\<close> instance, so \<open>error.message\<close> is recorded.
\<close>

definition api_fail :: "exn \<Rightarrow> client \<Rightarrow> client" where
  "api_fail e c = c\<lparr>cl_error := Some (exn_message e), cl_loading := False\<rparr>"

text \<open>
  After the fetch: \<open>await response.json()\<close>, the check of \<open>response.ok\<close>, then the action's
  own success part \<open>k\<close>, which may read the data and update the state, or throw.
  The result is what the action returns, or what it throws.
\<close>

definition api_settle ::
  "api_reply \<Rightarrow> string \<Rightarrow> (jval \<Rightarrow> client \<Rightarrow> exn + (jval option \<times> client)) \<Rightarrow> client \<Rightarrow>
   (exn + jval option) \<times> client" where
  "api_settle r dflt k c =
     (case r of
        ApiNetError \<Rightarrow> (Inl (TypeError ''Failed to fetch''), api_fail (TypeError ''Failed to fetch'') c)
      | ApiReply st None \<Rightarrow>
          (Inl (SyntaxError ''Unexpected end of JSON input''),
           api_fail (SyntaxError ''Unexpected end of JSON input'') c)
      | ApiReply st (Some data) \<Rightarrow>
          (if \<not> reply_ok st then (Inl (api_error data dflt), api_fail (api_error data dflt) c)
           else
             (case k data c of
                Inl e \<Rightarrow> (Inl e, api_fail e c)
              | Inr (v, c') \<Rightarrow> (Inr v, c'\<lparr>cl_loading := False\<rparr>))))"

definition api_action ::
  "string \<Rightarrow> string \<Rightarrow> jval option \<Rightarrow> string \<Rightarrow> (jval \<Rightarrow> client \<Rightarrow> exn + (jval option \<times> client)) \<Rightarrow>
   client \<Rightarrow> (exn + jval option) \<times> client" where
  "api_action meth url b dflt k c =
     (case next_reply (api_start meth url b c) of (r, c1) \<Rightarrow> api_settle r dflt k c1)"

text \<open>\<open>return data\<close> with no other effect.\<close>

definition return_data :: "jval \<Rightarrow> client \<Rightarrow> exn + (jval option \<times> client)" where
  "return_data data c = Inr (Some data, c)"

subsection \<open>The actions\<close>

definition login_error :: "nat \<Rightarrow> jval \<Rightarrow> exn" where
  "login_error st data =
     (if st = 403 then
        (case js_prop data ''requiresVerification'' of
           Inl e \<Rightarrow> e
         | Inr v \<Rightarrow> if js_truthy v then Error ''Email not verified. Please check your email for a verification code.''
                   else api_error data ''Failed to login'')
      else api_error data ''Failed to login'')"

text \<open>\<open>login\<close> catches every error, so it never throws.\<close>

definition login :: "string \<Rightarrow> string \<Rightarrow> string option \<Rightarrow> client \<Rightarrow> client" where
  "login ident pw redirect c =
     (case next_reply (api_start ''POST'' ''/api/auth/login''
                         (Some (JObj [(''identifier'', JStr ident), (''password'', JStr pw)])) c) of
        (ApiNetError, c1) \<Rightarrow> api_fail (TypeError ''Failed to fetch'') c1
      | (ApiReply st None, c1) \<Rightarrow> api_fail (SyntaxError ''Unexpected end of JSON input'') c1
      | (ApiReply st (Some data), c1) \<Rightarrow>
          (if \<not> reply_ok st then api_fail (login_error st data) c1
           else c1\<lparr>cl_user := data, cl_pushed := cl_pushed c1 @ [env_or redirect ''/dashboard''],
                   cl_loading := False\<rparr>))"

definition register :: "string \<Rightarrow> string \<Rightarrow> string \<Rightarrow> client \<Rightarrow> (exn + jval option) \<times> client" where
  "register name email pw =
     api_action ''POST'' ''/api/auth/register''
       (Some (JObj [(''username'', JStr name), (''email'', JStr email), (''password'', JStr pw)]))
       ''Failed to register''
       (\<lambda>data c. Inr (Some (JObj [(''requiresVerification'', JBool True), (''email'', JStr email)]), c))"

text \<open>On success the user is set from the answer when it carries an id and an email.\<close>

definition verified_user :: "jval \<Rightarrow> client \<Rightarrow> exn + (jval option \<times> client)" where
  "verified_user data c =
     (case js_prop data ''id'' of
        Inl e \<Rightarrow> Inl e
      | Inr i \<Rightarrow>
          if \<not> js_truthy i then Inr (Some data, c)
          else
            (let d = as_doc data in
             if \<not> js_truthy (doc_get d ''email'') then Inr (Some data, c)
             else Inr (Some data,
                       c\<lparr>cl_user := JObj ([(''id'', the i)] @ doc_opt ''username'' (doc_get d ''username'') @
                                         [(''email'', the (doc_get d ''email'')), (''isVerified'', JBool True)] @
                                         doc_opt ''socialLogins'' (doc_get d ''socialLogins''))\<rparr>)))"

definition verify_email :: "string \<Rightarrow> string \<Rightarrow> client \<Rightarrow> (exn + jval option) \<times> client" where
  "verify_email email otp =
     api_action ''POST'' ''/api/auth/verify''
       (Some (JObj [(''email'', JStr email), (''otp'', JStr otp)])) ''Failed to verify email'' verified_user"

definition resend_verification_code :: "string \<Rightarrow> client \<Rightarrow> (exn + jval option) \<times> client" where
  "resend_verification_code email =
     api_action ''PUT'' ''/api/auth/verify'' (Some (JObj [(''email'', JStr email)]))
       ''Failed to resend verification code'' return_data"

text \<open>\<open>{...user, k: v}\<close> on the user object (a property set to \<open>undefined\<close> reads as absent).\<close>

definition user_with :: "string \<Rightarrow> jval option \<Rightarrow> jval \<Rightarrow> jval" where
  "user_with k v u =
     JObj (case v of None \<Rightarrow> unset_fields [k] (as_doc u) | Some x \<Rightarrow> doc_set (as_doc u) k x)"

definition profile_updated :: "jval \<Rightarrow> client \<Rightarrow> exn + (jval option \<times> client)" where
  "profile_updated data c =
     (if \<not> js_truthy (Some (cl_user c)) then Inr (Some data, c)
      else
        (case js_prop data ''username'' of
           Inl e \<Rightarrow> Inl e
         | Inr n \<Rightarrow> Inr (Some data, c\<lparr>cl_user := user_with ''username'' n (cl_user c)\<rparr>)))"

definition complete_profile :: "string \<Rightarrow> string \<Rightarrow> client \<Rightarrow> (exn + jval option) \<times> client" where
  "complete_profile name pw =
     api_action ''POST'' ''/api/auth/complete-profile''
       (Some (JObj [(''username'', JStr name), (''password'', JStr pw)])) ''Failed to update profile''
       profile_updated"

text \<open>\<open>logout\<close> does not clear \<open>error\<close>, reads the body only on failure, and catches everything.\<close>

definition logout :: "client \<Rightarrow> client" where
  "logout c =
     (case next_reply (c\<lparr>cl_loading := True, cl_calls := cl_calls c @ [(''POST'', ''/api/auth/logout'', None)]\<rparr>) of
        (ApiReply st _, c1) \<Rightarrow>
          if reply_ok st then c1\<lparr>cl_user := JNull, cl_pushed := cl_pushed c1 @ [''/''], cl_loading := False\<rparr>
          else c1\<lparr>cl_loading := False\<rparr>
      | (ApiNetError, c1) \<Rightarrow> c1\<lparr>cl_loading := False\<rparr>)"

definition forgot_password_req :: "string \<Rightarrow> client \<Rightarrow> (exn + jval option) \<times> client" where
  "forgot_password_req email =
     api_action ''POST'' ''/api/auth/forgot-password'' (Some (JObj [(''email'', JStr email)]))
       ''Failed to process forgot password request'' return_data"

definition reset_password_req :: "string \<Rightarrow> string \<Rightarrow> string \<Rightarrow> client \<Rightarrow> (exn + jval option) \<times> client" where
  "reset_password_req email token pw =
     api_action ''POST'' ''/api/auth/reset-password''
       (Some (JObj [(''email'', JStr email), (''token'', JStr token), (''password'', JStr pw)]))
       ''Failed to reset password'' return_data"

definition reset_token_url :: "string \<Rightarrow> string \<Rightarrow> string" where
  "reset_token_url email token =
     ''/api/auth/reset-password?email='' @ encode_uri_component email @ ''&token='' @ encode_uri_component token"

text \<open>\<open>return data.valid\<close>; every failure is caught and answered with \<open>false\<close>.\<close>

definition verify_reset_token :: "string \<Rightarrow> string \<Rightarrow> client \<Rightarrow> jval option \<times> client" where
  "verify_reset_token email token c =
     (case api_action ''GET'' (reset_token_url email token) None ''Invalid or expired reset token''
             (\<lambda>data c. case js_prop data ''valid'' of Inl e \<Rightarrow> Inl e | Inr v \<Rightarrow> Inr (v, c)) c of
        (Inl _, c1) \<Rightarrow> (Some (JBool False), c1)
      | (Inr v, c1) \<Rightarrow> (v, c1))"

text \<open>The client keeps a masked password and the time of the update.\<close>

definition ltp_masked :: "string \<Rightarrow> jval \<Rightarrow> client \<Rightarrow> exn + (jval option \<times> client)" where
  "ltp_masked name data c =
     (if \<not> js_truthy (Some (cl_user c)) then Inr (Some data, c)
      else Inr (Some data,
                c\<lparr>cl_user := user_with ''ltpCredentials''
                               (Some (JObj [(''username'', JStr name), (''password'', JStr ''********''),
                                            (''updatedAt'', JStr (cl_now c))])) (cl_user c)\<rparr>))"

definition update_ltp_credentials_req :: "string \<Rightarrow> string \<Rightarrow> client \<Rightarrow> (exn + jval option) \<times> client" where
  "update_ltp_credentials_req name pw =
     api_action ''POST'' ''/api/auth/update-ltp-credentials''
       (Some (JObj [(''username'', JStr name), (''password'', JStr pw)])) ''Failed to update LTP credentials''
       (ltp_masked name)"

subsection \<open>Mount\<close>

text \<open>The state of a fresh provider: no user, loading, no error.\<close>

definition client_init :: "api_reply list \<Rightarrow> string \<Rightarrow> client" where
  "client_init rs now =
     \<lparr>cl_user = JNull, cl_loading = True, cl_error = None, cl_pushed = [], cl_calls = [],
      cl_replies = rs, cl_now = now\<rparr>"

text \<open>\<open>checkAuth\<close> once its request has been answered; it never touches \<open>error\<close>.\<close>

definition check_auth_settle :: "api_reply \<Rightarrow> client \<Rightarrow> client" where
  "check_auth_settle r c =
     (case r of
        ApiReply st (Some v) \<Rightarrow> if reply_ok st then c\<lparr>cl_user := v, cl_loading := False\<rparr>
                                else c\<lparr>cl_user := JNull, cl_loading := False\<rparr>
      | _ \<Rightarrow> c\<lparr>cl_user := JNull, cl_loading := False\<rparr>)"

definition check_auth :: "client \<Rightarrow> client" where
  "check_auth c =
     (case next_reply (c\<lparr>cl_calls := cl_calls c @ [(''GET'', ''/api/auth/me'', None)]\<rparr>) of
        (r, c1) \<Rightarrow> check_auth_settle r c1)"

text \<open>The 5 s timer of the mount effect.\<close>

definition load_timeout :: "client \<Rightarrow> client" where
  "load_timeout c = c\<lparr>cl_loading := False\<rparr>"

subsection \<open>Concurrent actions\<close>

text \<open>
  A request in flight: the mount check, or an action with its default message and its
  success part. A page may start an action while another is still waiting.
\<close>

datatype flight = CheckAuth | Action string "jval \<Rightarrow> client \<Rightarrow> exn + (jval option \<times> client)"

fun flight_settle :: "api_reply \<Rightarrow> flight \<Rightarrow> client \<Rightarrow> client" where
  "flight_settle r CheckAuth c = check_auth_settle r c"
| "flight_settle r (Action dflt k) c = snd (api_settle r dflt k c)"

text \<open>
  The states a provider can reach: after mount (check sent, timer armed), any action may
  start, any request in flight may be answered, and the timer may fire once.
\<close>

inductive client_reach :: "client \<Rightarrow> flight list \<Rightarrow> bool \<Rightarrow> bool" where
  mount: "client_reach ((client_init rs now)\<lparr>cl_calls := [(''GET'', ''/api/auth/me'', None)]\<rparr>) [CheckAuth] True"
| start: "client_reach c fl t \<Longrightarrow> client_reach (api_start meth url b c) (fl @ [Action dflt k]) t"
| settle: "client_reach c (p @ f # q) t \<Longrightarrow> client_reach (flight_settle r f c) (p @ q) t"
| timeout: "client_reach c fl True \<Longrightarrow> client_reach (load_timeout c) fl False"

subsection \<open>Lemmas\<close>

lemma api_settle_loading: "\<not> cl_loading (snd (api_settle r dflt k c))"
  by (auto simp: api_settle_def api_fail_def split: api_reply.split option.split sum.split prod.split)

lemma flight_settle_loading: "\<not> cl_loading (flight_settle r f c)"
  by (cases f) (auto simp: api_settle_loading check_auth_settle_def split: api_reply.split option.split)

text \<open>
  C35. \<open>isLoading\<close> is never stuck: in every state a provider can reach, with actions
  started and answered in any order and the timer firing or not, \<open>isLoading\<close> is true
  only while some request is still in flight.
\<close>

theorem client_reach_loading: "client_reach c fl t \<Longrightarrow> cl_loading c \<Longrightarrow> fl \<noteq> []"
proof (induction rule: client_reach.induct)
  case (settle c p f q t r)
  then show ?case by (simp add: flight_settle_loading)
next
  case (timeout c fl)
  then show ?case by (simp add: load_timeout_def)
qed simp_all

lemma mount_then_action:
  "client_reach (api_start meth url b ((client_init rs now)\<lparr>cl_calls := [(''GET'', ''/api/auth/me'', None)]\<rparr>))
     [CheckAuth, Action dflt k] True"
  using client_reach.start [OF client_reach.mount] by simp

text \<open>
  C38. The mount check and an action race: when a verification completes before the answer
  of \<open>/api/auth/me\<close>, a late 401 of that check sets the user back to \<open>null\<close>.
\<close>

lemma late_check_auth_signs_out:
  "\<exists>c. client_reach c [CheckAuth] True \<and> is_authenticated c \<and>
       client_reach (check_auth_settle (ApiReply 401 (Some (JObj []))) c) [] True \<and>
       \<not> is_authenticated (check_auth_settle (ApiReply 401 (Some (JObj []))) c)"
proof -
  define c0 where "c0 = api_start ''POST'' ''/api/auth/verify'' None
                          ((client_init [] [])\<lparr>cl_calls := [(''GET'', ''/api/auth/me'', None)]\<rparr>)"
  define c1 where "c1 = flight_settle (ApiReply 200 (Some (JObj [(''id'', JStr ''u1''), (''email'', JStr ''a@x.io'')])))
                          (Action ''Failed to verify email'' verified_user) c0"
  have m: "client_reach c0 ([CheckAuth] @ Action ''Failed to verify email'' verified_user # []) True"
    unfolding c0_def using mount_then_action by simp
  have r1: "client_reach c1 ([] @ CheckAuth # []) True"
    using client_reach.settle [OF m] by (simp add: c1_def)
  have r2: "client_reach (check_auth_settle (ApiReply 401 (Some (JObj []))) c1) [] True"
    using client_reach.settle [OF r1, of "ApiReply 401 (Some (JObj []))"] by simp
  have a1: "is_authenticated c1"
    by (simp add: c1_def c0_def api_settle_def verified_user_def js_prop_def reply_ok_def is_authenticated_def)
  have a2: "\<not> is_authenticated (check_auth_settle (ApiReply 401 (Some (JObj []))) c1)"
    by (simp add: check_auth_settle_def reply_ok_def is_authenticated_def)
  show ?thesis using r1 r2 a1 a2 by auto
qed

lemma verified_response_wire:
  assumes "doc_get user ''_id'' = Some (JOid n)" and "doc_get user ''email'' = Some (JStr e)"
  shows "doc_get (as_doc (json_wire env' (JObj (body (verified_response user tok))))) ''id'' = Some (JStr (oid_hex n)) \<and>
         doc_get (as_doc (json_wire env' (JObj (body (verified_response user tok))))) ''email'' = Some (JStr e)"
  using assms by (simp add: verified_response_def doc_opt_def split: option.split)

lemma oid_hex_nonempty [simp]: "oid_hex n \<noteq> []"
  by (metis length_hex_digits oid_hex_def length_0_conv zero_neq_numeral)

text \<open>
  C36. Server and client together: when \<open>POST /api/auth/verify\<close> signs a user in, and
  its answer reaches \<open>verifyEmail\<close> through JSON, the client holds that user, with the
  ObjectId as its hex string, the same email and \<open>isVerified\<close> true, and no error
  (for users stored with an ObjectId and a non-empty email).
\<close>

theorem verify_signs_in_client:
  assumes v: "verify_otp cfg req w = (r, w')" and ck: "set_cookies r \<noteq> []"
    and users: "list_all (\<lambda>d. (\<exists>n. doc_get d ''_id'' = Some (JOid n)) \<and>
                              (\<exists>e. doc_get d ''email'' = Some (JStr e) \<and> e \<noteq> [])) (store w Users)"
    and rep: "cl_replies c = ApiReply (status r) (Some (json_wire (env w') (JObj (body r)))) # rs"
  shows "\<exists>user n e. user \<in> set (store w Users) \<and> doc_get user ''_id'' = Some (JOid n) \<and>
           doc_get user ''email'' = Some (JStr e) \<and>
           doc_get (as_doc (cl_user (snd (verify_email email otp c)))) ''id'' = Some (JStr (oid_hex n)) \<and>
           doc_get (as_doc (cl_user (snd (verify_email email otp c)))) ''email'' = Some (JStr e) \<and>
           doc_get (as_doc (cl_user (snd (verify_email email otp c)))) ''isVerified'' = Some (JBool True) \<and>
           cl_error (snd (verify_email email otp c)) = None \<and> \<not> cl_loading (snd (verify_email email otp c)) \<and>
           cl_replies (snd (verify_email email otp c)) = rs"
proof -
  from verify_otp_completes [OF v ck] obtain b user w2 where
    f: "find (matches [(''email'', js_val (doc_get b ''email''))]) (store w Users) = Some user"
    and cv: "complete_verification cfg user w2 = (r, w')" by blast
  have u: "user \<in> set (store w Users)" using find_Some_in_set [OF f] by blast
  from complete_verification_answer [OF cv ck] obtain tok where r: "r = verified_response user tok" by blast
  from users u obtain n e where n: "doc_get user ''_id'' = Some (JOid n)"
    and e: "doc_get user ''email'' = Some (JStr e)" and ne: "e \<noteq> []"
    by (auto simp: list_all_iff)
  define data where "data = json_wire (env w') (JObj (body r))"
  have d: "doc_get (as_doc data) ''id'' = Some (JStr (oid_hex n))"
          "doc_get (as_doc data) ''email'' = Some (JStr e)"
    using verified_response_wire [OF n e] by (simp_all add: data_def r)
  obtain dd where dj: "data = JObj dd" by (simp add: data_def)
  have st: "status r = 200" by (simp add: r verified_response_def)
  have rep': "cl_replies c = ApiReply 200 (Some data) # rs" using rep st by (simp add: data_def)
  have "verify_email email otp c =
          (Inr (Some data),
           (api_start ''POST'' ''/api/auth/verify'' (Some (JObj [(''email'', JStr email), (''otp'', JStr otp)])) c)
             \<lparr>cl_replies := rs,
              cl_user := JObj ([(''id'', JStr (oid_hex n))] @ doc_opt ''username'' (doc_get (as_doc data) ''username'') @
                               [(''email'', JStr e), (''isVerified'', JBool True)] @
                               doc_opt ''socialLogins'' (doc_get (as_doc data) ''socialLogins'')),
              cl_loading := False\<rparr>)"
    using rep' d ne
    by (simp add: dj verify_email_def api_action_def next_reply_def api_start_def api_settle_def
                             reply_ok_def verified_user_def js_prop_def)
  then show ?thesis using u n e
    by (intro exI [of _ user] exI [of _ n] exI [of _ e]) (simp add: api_start_def doc_opt_def split: option.split)
qed

text \<open>
  C37. A failed login changes neither the user nor the location: it records the
  unverified-email message for a 403 that asks for verification, the server's
  \<open>error\<close> when there is one, and \<open>Failed to login\<close> otherwise, and stops loading.
\<close>

theorem login_failure:
  assumes "cl_replies c = ApiReply st (Some (JObj d)) # rs" and "\<not> reply_ok st"
  shows "cl_user (login ident pw redirect c) = cl_user c \<and> cl_pushed (login ident pw redirect c) = cl_pushed c \<and>
         \<not> cl_loading (login ident pw redirect c) \<and>
         cl_error (login ident pw redirect c) =
           Some (if st = 403 \<and> js_truthy (doc_get d ''requiresVerification'')
                 then ''Email not verified. Please check your email for a verification code.''
                 else if js_truthy (doc_get d ''error'') then js_template (doc_get d ''error'') else ''Failed to login'')"
  using assms
  by (simp add: login_def next_reply_def api_start_def api_fail_def login_error_def api_error_def js_prop_def)

end
