(* ===== verification/Ltp.thy ===== *)
theory Ltp
  imports Auth
begin

text \<open>
  The proxy to the LTP calculator service:
  \<^item> \<open>src/app/api/ltp-calculator/historical/route.ts\<close>: \<open>GET\<close> finds the caller's stored
    credentials through a session cookie, falls back to the server's, rate-limits the
    upstream calls with the module variable \<open>lastRequestTime\<close>, calls the service (once
    more after a 429), and projects its answer with \<open>formatResponse\<close>;
  \<^item> \<open>src/app/api/ltp-calculator/verify/route.ts\<close>: \<open>POST\<close> tries a pair of credentials
    against the service.

  The service is outside the program: each \<open>fetch\<close> takes the next reply of a script
  (a status with the parsed JSON body, or a network error), and the requests made are
  logged with their URL and \<open>Authorization\<close> header. The module state and the script
  form the record \<open>ltp_world\<close>. \<open>Date.now()\<close> is the clock of the world's environment;
  a run of requests sets that clock before each request.
\<close>

subsection \<open>Base64 and the Basic authorization header\<close>

text \<open>
  \<open>Buffer.from(s)\<close> encodes a string as UTF-8. A character of the model is a code point
  below 256, so it takes one byte below 128 and two bytes otherwise.
\<close>

fun utf8_bytes :: "string \<Rightarrow> nat list" where
  "utf8_bytes [] = []"
| "utf8_bytes (c # cs) =
     (let k = of_char c :: nat in
      (if k < 128 then [k] else [192 + k div 64, 128 + k mod 64]) @ utf8_bytes cs)"

definition b64_alphabet :: string where
  "b64_alphabet = ''ABCDEFGHIJKLMNOPQRSTUVWXYZabcdefghijklmnopqrstuvwxyz0123456789+/''"

definition b64 :: "nat \<Rightarrow> char" where
  "b64 n = b64_alphabet ! n"

text \<open>\<open>.toString('base64')\<close>: three bytes to four characters, padded with \<open>=\<close>.\<close>

fun base64_encode :: "nat list \<Rightarrow> string" where
  "base64_encode (a # b # c # rest) =
     [b64 (a div 4), b64 (a mod 4 * 16 + b div 16), b64 (b mod 16 * 4 + c div 64), b64 (c mod 64)] @
     base64_encode rest"
| "base64_encode [a, b] = [b64 (a div 4), b64 (a mod 4 * 16 + b div 16), b64 (b mod 16 * 4), CHR ''='']"
| "base64_encode [a] = [b64 (a div 4), b64 (a mod 4 * 16), CHR ''='', CHR ''='']"
| "base64_encode [] = []"

definition basic_auth :: "jval \<Rightarrow> jval \<Rightarrow> string" where
  "basic_auth user pass =
     ''Basic '' @ base64_encode (utf8_bytes (js_template (Some user) @ '':'' @ js_template (Some pass)))"




subsection \<open>The service\<close>

datatype http_reply = Reply nat "jval option" | NetError string

record ltp_world =
  last_request_time :: int
  upstream :: "http_reply list"
  sent :: "(string \<times> string) list"

text \<open>\<open>await fetch(url, {headers})\<close>: an exhausted script is a network error.\<close>

definition ltp_fetch :: "string \<Rightarrow> string \<Rightarrow> ltp_world \<Rightarrow> http_reply \<times> ltp_world" where
  "ltp_fetch url auth s =
     (case upstream s of
        [] \<Rightarrow> (NetError ''fetch failed'', s\<lparr>sent := sent s @ [(url, auth)]\<rparr>)
      | r # rs \<Rightarrow> (r, s\<lparr>upstream := rs, sent := sent s @ [(url, auth)]\<rparr>))"

subsection \<open>GET /api/ltp-calculator/historical\<close>

text \<open>\<open>formatResponse(data)\<close>: the fields the dashboard reads, with their defaults.\<close>

definition or_default :: "jval option \<Rightarrow> jval \<Rightarrow> jval" where
  "or_default v d = (if js_truthy v then the v else d)"

definition format_response :: "jval option \<Rightarrow> doc" where
  "format_response data =
     (if \<not> js_truthy data \<or> (case data of Some (JObj _) \<Rightarrow> False | Some (JArr _) \<Rightarrow> False | _ \<Rightarrow> True)
      then [(''error'', JStr ''Invalid data format'')]
      else [(''direction'', or_default (field_of data ''direction'') (JStr ''UNKNOWN'')),
            (''scenario'', or_default (field_of data ''scenario'') (JStr ''UNKNOWN''))] @
           map (\<lambda>k. (k, or_default (field_of data k) JNull))
             [''riskyResistance'', ''riskySupport'', ''moderateResistance'', ''moderateSupport'',
              ''rMaxGain'', ''sMaxGain'', ''rMaxPain'', ''sMaxPain''])"

record ltp_query =
  q_symbol :: "string option"
  q_expiry :: "string option"
  q_lot_size :: "string option"
  q_fetch_date :: "string option"
  q_fetch_time :: "string option"

definition min_request_interval :: int where
  "min_request_interval = 2000"

text \<open>
  Lines 39--65: the user id of a \<open>token\<close> cookie, then that user's stored credentials.
  Every error on the way is caught and leaves the credentials undefined.
\<close>

definition stored_credentials :: "server_cfg \<Rightarrow> jar \<Rightarrow> world \<Rightarrow> jval option \<times> world" where
  "stored_credentials cfg jar w =
     (let uid = (case cookie_token jar ''token'' of
                   None \<Rightarrow> None
                 | Some tok \<Rightarrow>
                     (case jwt_verify tok (jwt_secret (jwt_secret_var cfg)) (env w) of
                        Inl _ \<Rightarrow> None
                      | Inr decoded \<Rightarrow> doc_get decoded ''userId''))
      in if \<not> js_truthy uid then (None, w)
         else (case await_client w of
                 (Inl _, w1) \<Rightarrow> (None, w1)
               | (Inr _, w1) \<Rightarrow>
                   (case object_id_of uid w1 of
                      (Inl _, w2) \<Rightarrow> (None, w2)
                    | (Inr oid, w2) \<Rightarrow>
                        (case find_one Users [(''_id'', oid)] w2 of
                           (Inr (Some user), w3) \<Rightarrow>
                             (if js_truthy (doc_get user ''ltpCredentials'')
                              then (doc_get user ''ltpCredentials'', w3) else (None, w3))
                         | (_, w3) \<Rightarrow> (None, w3)))))"

text \<open>\<open>ltpCredentials?.username || process.env.LTP_USERNAME || ''\<close>.\<close>

definition credential :: "jval option \<Rightarrow> string \<Rightarrow> string option \<Rightarrow> jval" where
  "credential creds k var =
     (if js_truthy (field_of creds k) then the (field_of creds k) else JStr (env_or var []))"

definition format_time :: "string \<Rightarrow> string" where
  "format_time t = (if CHR '':'' \<in> set t then t else t @ '':00'')"

definition ltp_url :: "string \<Rightarrow> string \<Rightarrow> string \<Rightarrow> string \<Rightarrow> string \<Rightarrow> string" where
  "ltp_url symbol expiry lot_size fetch_date fetch_time =
     ''https://login.ltpcalculator.com/optionChain/fetch-data?symbol='' @ symbol @ ''&expiry='' @ expiry @
     ''&lotSize='' @ lot_size @ ''&fetchTime='' @ fetch_date @ '' '' @ format_time fetch_time"

definition ltp_api_error :: "nat \<Rightarrow> response" where
  "ltp_api_error st = \<lparr>status = st, body = [(''error'', JStr (''LTP Calculator API error: '' @ nat_str st))]\<rparr>"

text \<open>Lines 102--137: the call, and one retry after a 429.\<close>

definition ltp_call :: "string \<Rightarrow> string \<Rightarrow> ltp_world \<Rightarrow> response \<times> ltp_world" where
  "ltp_call url auth s =
     (case ltp_fetch url auth s of
        (NetError _, s1) \<Rightarrow> (internal_error, s1)
      | (Reply st data, s1) \<Rightarrow>
          if reply_ok st then
            (case data of
               None \<Rightarrow> (internal_error, s1)
             | Some _ \<Rightarrow> (\<lparr>status = 200, body = format_response data\<rparr>, s1))
          else if st = 429 then
            (case ltp_fetch url auth s1 of
               (NetError _, s2) \<Rightarrow> (internal_error, s2)
             | (Reply st2 data2, s2) \<Rightarrow>
                 if \<not> reply_ok st2 then (ltp_api_error st2, s2)
                 else (case data2 of
                         None \<Rightarrow> (internal_error, s2)
                       | Some _ \<Rightarrow> (\<lparr>status = 200, body = format_response data2\<rparr>, s2)))
          else (ltp_api_error st, s1))"

definition ltp_historical ::
  "server_cfg \<Rightarrow> ltp_query \<Rightarrow> jar \<Rightarrow> ltp_world \<Rightarrow> world \<Rightarrow> response \<times> ltp_world \<times> world" where
  "ltp_historical cfg q jar s w =
     (let symbol = env_or (q_symbol q) ''NIFTY''; expiry = env_or (q_expiry q) [];
          lot_size = env_or (q_lot_size q) ''75''; fetch_date = env_or (q_fetch_date q) [];
          fetch_time = env_or (q_fetch_time q) []
      in if expiry = [] \<or> fetch_date = [] \<or> fetch_time = []
         then (json_error 400 ''Missing required parameters: expiry, fetchDate, or fetchTime'', s, w)
         else
           (case stored_credentials cfg jar w of
              (creds, w1) \<Rightarrow>
                (let user = credential creds ''username'' (ltp_username_var cfg);
                     pass = credential creds ''password'' (ltp_password_var cfg)
                 in if \<not> js_truthy (Some user) \<or> \<not> js_truthy (Some pass)
                    then (json_error 401 ''LTP Calculator credentials not found'', s, w1)
                    else if now_ms (env w1) - last_request_time s < min_request_interval
                    then (json_error 429 ''Rate limit exceeded. Please try again in a few seconds.'', s, w1)
                    else
                      (case ltp_call (ltp_url symbol expiry lot_size fetch_date fetch_time) (basic_auth user pass)
                              (s\<lparr>last_request_time := now_ms (env w1)\<rparr>) of
                         (r, s2) \<Rightarrow> (r, s2, w1)))))"

subsection \<open>POST /api/ltp-calculator/verify\<close>

definition ltp_verify_url :: string where
  "ltp_verify_url = ''https://login.ltpcalculator.com/optionChain/fetch-data?symbol=NIFTY&expiry=26-06-2025&lotSize=75''"

definition ltp_verify :: "jval option \<Rightarrow> ltp_world \<Rightarrow> response \<times> ltp_world" where
  "ltp_verify req s =
     (case body_obj req of
        Inl e \<Rightarrow> (json_error 401 (exn_message e), s)
      | Inr b \<Rightarrow>
          (if \<not> js_truthy (doc_get b ''email'') \<or> \<not> js_truthy (doc_get b ''password'')
           then (json_error 400 ''Email and password are required'', s)
           else (case ltp_fetch ltp_verify_url (basic_auth (the (doc_get b ''email'')) (the (doc_get b ''password''))) s of
                   (NetError m, s1) \<Rightarrow> (json_error 401 m, s1)
                 | (Reply st _, s1) \<Rightarrow>
                     if reply_ok st then (\<lparr>status = 200, body = [(''success'', JBool True)]\<rparr>, s1)
                     else (json_error 401 ''Invalid credentials'', s1))))"

subsection \<open>Runs\<close>

text \<open>
  A run serves requests one after the other, each at its own time: the clock of the
  world is set to the request's time. Each response is paired with the limiter's value
  after it, the state the rate-limit theorems speak of.
\<close>

fun ltp_run :: "server_cfg \<Rightarrow> (int \<times> ltp_query \<times> jar) list \<Rightarrow> ltp_world \<Rightarrow> world \<Rightarrow>
                 (response \<times> int) list \<times> ltp_world \<times> world" where
  "ltp_run cfg [] s w = ([], s, w)"
| "ltp_run cfg ((t, q, j) # rs) s w =
     (case ltp_historical cfg q j s (w\<lparr>env := (env w)\<lparr>now_ms := t\<rparr>\<rparr>) of
        (r, s1, w1) \<Rightarrow> (case ltp_run cfg rs s1 w1 of (out, s2, w2) \<Rightarrow> ((r, last_request_time s1) # out, s2, w2)))"

subsection \<open>Lemmas\<close>











lemma stored_credentials_frame:
  "stored_credentials cfg jar w = (c, w') \<Longrightarrow> store w' = store w \<and> env w' = env w"
  by (auto simp: stored_credentials_def Let_def split: if_splits prod.splits sum.splits option.splits
           dest!: await_client_frame object_id_of_frame find_one_frame)

lemma ltp_fetch_limit: "ltp_fetch u a s = (r, s') \<Longrightarrow> last_request_time s' = last_request_time s"
  by (auto simp: ltp_fetch_def split: list.splits)

lemma ltp_call_limit: "ltp_call u a s = (r, s') \<Longrightarrow> last_request_time s' = last_request_time s"
  by (auto simp: ltp_call_def split: prod.splits http_reply.splits if_splits option.splits
           dest!: ltp_fetch_limit)

lemma ltp_historical_limit_cases:
  assumes "ltp_historical cfg q jar s w = (r, s', w')"
  shows "(last_request_time s' = last_request_time s \<and> sent s' = sent s) \<or>
         (last_request_time s + min_request_interval \<le> now_ms (env w) \<and>
          last_request_time s' = now_ms (env w))"
  using assms
  by (auto simp: ltp_historical_def Let_def split: if_splits prod.splits
           dest!: stored_credentials_frame ltp_call_limit)

text \<open>
  C24: the module variable \<open>lastRequestTime\<close> refines a rate limiter. A request
  reaches the LTP service only when at least \<open>MIN_REQUEST_INTERVAL\<close> (2000 ms) has
  passed since the last admitted request, and the limiter is then set to the current
  time.
\<close>

corollary ltp_historical_limiter:
  assumes "ltp_historical cfg q jar s w = (r, s', w')" and "sent s' \<noteq> sent s"
  shows "last_request_time s + min_request_interval \<le> now_ms (env w) \<and> last_request_time s' = now_ms (env w)"
  using ltp_historical_limit_cases [OF assms(1)] assms(2) by auto

text \<open>
  C25: over any run of requests, whatever their times, the limiter's value never
  decreases, and whenever it changes it moves forward by at least 2000 ms. Two
  admitted requests are therefore always at least 2000 ms apart.
\<close>

theorem ltp_run_limits:
  "sorted_wrt (\<lambda>a b. a = b \<or> a + min_request_interval \<le> b) (last_request_time s # map snd (fst (ltp_run cfg rs s w)))"
proof (induction rs arbitrary: s w)
  case (Cons x rs)
  obtain t q j where x: "x = (t, q, j)" by (cases x) auto
  let ?w = "w\<lparr>env := (env w)\<lparr>now_ms := t\<rparr>\<rparr>"
  obtain r s1 w1 where h: "ltp_historical cfg q j s ?w = (r, s1, w1)" by (metis prod.exhaust)
  have step: "last_request_time s1 = last_request_time s \<or> last_request_time s + min_request_interval \<le> last_request_time s1"
    using ltp_historical_limit_cases [OF h] by auto
  have ih: "sorted_wrt (\<lambda>a b. a = b \<or> a + min_request_interval \<le> b) (last_request_time s1 # map snd (fst (ltp_run cfg rs s1 w1)))"
    by (rule Cons.IH)
  have mi: "0 \<le> min_request_interval" by (simp add: min_request_interval_def)
  from ih have "\<forall>y \<in> set (map snd (fst (ltp_run cfg rs s1 w1))). last_request_time s1 = y \<or> last_request_time s1 + min_request_interval \<le> y"
    by simp
  with step mi have "\<forall>y \<in> set (map snd (fst (ltp_run cfg rs s1 w1))). last_request_time s = y \<or> last_request_time s + min_request_interval \<le> y"
    by fastforce
  with ih step show ?case using x h by (auto split: prod.splits)
qed simp

lemma truthy_the: "js_truthy v \<Longrightarrow> js_truthy (Some (the v))"
  by (cases v) auto

lemma credential_truthy: "var = Some v \<Longrightarrow> v \<noteq> [] \<Longrightarrow> js_truthy (Some (credential c k var))"
  by (auto simp: credential_def env_or_def truthy_the)

lemma ltp_fetch_sent: "ltp_fetch u a s = (r, s') \<Longrightarrow> sent s' = sent s @ [(u, a)]"
  by (auto simp: ltp_fetch_def split: list.splits)

lemma ltp_call_sent: "ltp_call u a s = (r, s') \<Longrightarrow> prefix (sent s @ [(u, a)]) (sent s')"
  by (auto simp: ltp_call_def split: prod.splits http_reply.splits if_splits option.splits
           dest!: ltp_fetch_sent)

text \<open>
  C26: the limiter does not starve a well-formed request. With the required parameters
  present, server credentials configured, and 2000 ms passed since the last admitted
  request, the request is admitted and reaches the service.
\<close>

theorem ltp_historical_admits:
  assumes h: "ltp_historical cfg q jar s w = (r, s', w')"
    and "env_or (q_expiry q) [] \<noteq> []" "env_or (q_fetch_date q) [] \<noteq> []" "env_or (q_fetch_time q) [] \<noteq> []"
    and "ltp_username_var cfg = Some u" "u \<noteq> []" "ltp_password_var cfg = Some p" "p \<noteq> []"
    and "last_request_time s + min_request_interval \<le> now_ms (env w)"
  shows "last_request_time s' = now_ms (env w) \<and> length (sent s) < length (sent s')"
proof -
  obtain c w1 where sc: "stored_credentials cfg jar w = (c, w1)" by fastforce
  note f = stored_credentials_frame [OF sc]
  define U where "U = ltp_url (env_or (q_symbol q) ''NIFTY'') (env_or (q_expiry q) []) (env_or (q_lot_size q) ''75'')
          (env_or (q_fetch_date q) []) (env_or (q_fetch_time q) [])"
  define A where "A = basic_auth (credential c ''username'' (ltp_username_var cfg)) (credential c ''password'' (ltp_password_var cfg))"
  have t: "js_truthy (Some (credential c ''username'' (ltp_username_var cfg)))"
          "js_truthy (Some (credential c ''password'' (ltp_password_var cfg)))"
    using assms(5-8) by (simp_all add: credential_truthy)
  have call: "ltp_call U A (s\<lparr>last_request_time := now_ms (env w)\<rparr>) = (r, s')"
    using assms(1-4,9) sc f t unfolding U_def A_def
    by (auto simp: ltp_historical_def Let_def split: prod.splits)
  from ltp_call_limit [OF call] ltp_call_sent [OF call] show ?thesis
    by (auto dest: prefix_length_le)
qed

lemma verify_otp_cookie_names:
  assumes "verify_otp cfg req w = (r, w')" and "op \<in> set (set_cookies r)"
  shows "\<exists>t. op = SetCookie ''auth_token'' t"
proof -
  have "set_cookies r \<noteq> []" using assms(2) by auto
  from verify_otp_signed_in [OF assms(1) this] assms(2) show ?thesis by auto
qed

lemma apply_cookies_untouched:
  "\<forall>op \<in> set ops. \<exists>t. op = SetCookie n t \<Longrightarrow> m \<noteq> n \<Longrightarrow> apply_cookies j ops m = j m"
  by (induction ops arbitrary: j) (auto simp: apply_cookies_def)

text \<open>
  C27: the session cookie that email verification sets is invisible to the historical
  LTP route. That route reads a cookie named \<open>token\<close>, while the only cookie the
  verify route sets is \<open>auth_token\<close>, so the stored LTP credentials of a signed-in
  user are never looked up.
\<close>

theorem ltp_ignores_session_cookie:
  assumes "verify_otp cfg req w0 = (r, w1)" and "jar ''token'' = None"
  shows "stored_credentials cfg' (apply_cookies jar (set_cookies r)) w = (None, w)"
proof -
  have "apply_cookies jar (set_cookies r) ''token'' = None"
    using apply_cookies_untouched [of "set_cookies r" "''auth_token''" "''token''" jar]
      verify_otp_cookie_names [OF assms(1)] assms(2) by auto
  then show ?thesis by (simp add: stored_credentials_def cookie_token_def)
qed

lemma session_claims_no_user_id: "doc_get (session_claims user uid) ''userId'' = None"
  by (simp add: session_claims_def doc_opt_def split: option.splits)

text \<open>
  C28: even a session token placed under the name \<open>token\<close> would not help. Its claims
  carry the user as \<open>id\<close>, while the route reads \<open>decoded.userId\<close>, so no user
  credentials are looked up either.
\<close>

theorem ltp_ignores_session_claims:
  "stored_credentials cfg (jar(''token'' := Some (jwt_sign (session_claims user uid) k ttl e))) w = (None, w)"
proof -
  have "doc_get c ''userId'' = None"
    if "jwt_verify (jwt_sign (session_claims user uid) k ttl e) key env' = Inr c" for key env' c
    using jwt_verify_key [OF that] session_claims_no_user_id [of user uid]
    by (auto simp: jwt_sign_def doc_get_set)
  then show ?thesis
    by (auto simp: stored_credentials_def cookie_token_def jwt_sign_def split: sum.splits)
qed

end
