(* ===== verification/Dashboard.thy ===== *)
theory Dashboard
  imports Chat Client Ltp "HOL-Library.While_Combinator"
begin

text \<open>
  The chat page, \<open>src/app/dashboard/page.tsx\<close>: its React state, the handlers that change
  it, and the requests it sends to \<open>/api/chat\<close>, to the LTP routes and to the
  translation service. Rendering, the speech-recognition and audio-visualisation
  effects, scrolling and the glow effect are not modelled; speech synthesis is the
  text handed to the browser and a speaking flag.

  Requests are logged and answered from a script of replies, as in \<open>Client\<close>. The
  long system prompts are string constants of the page; only their first words are
  kept here, since no property depends on their text.
\<close>

subsection \<open>State\<close>

text \<open>\<open>type Message\<close>.\<close>

record chat_msg =
  cm_role :: string
  cm_content :: string
  cm_thinking :: "string option"
  cm_deep :: "bool option"

datatype feedback = Like | Dislike

record dash =
  d_messages :: "chat_msg list"
  d_input :: string
  d_loading :: bool
  d_typing :: bool
  d_speaking :: bool
  d_listening :: bool
  d_utterance :: "string option"
  d_ltp_modal :: bool
  d_scenario_modal :: bool
  d_pending :: "string option"
  d_feedback :: "string \<Rightarrow> feedback option option"
  d_translated :: "string \<Rightarrow> string option"
  d_translating :: "string \<Rightarrow> bool option"
  d_deep :: bool
  d_user :: jval
  d_requests :: "(string \<times> jval option) list"
  d_replies :: "api_reply list"

definition user_msg :: "string \<Rightarrow> chat_msg" where
  "user_msg s = \<lparr>cm_role = ''user'', cm_content = s, cm_thinking = None, cm_deep = None\<rparr>"

definition assistant_msg :: "string \<Rightarrow> chat_msg" where
  "assistant_msg s = \<lparr>cm_role = ''assistant'', cm_content = s, cm_thinking = None, cm_deep = None\<rparr>"

definition nl :: string where
  "nl = [CHR 0x0A]"

text \<open>\<open>fetch(url, ...)\<close> of the page: the request is logged and the next reply taken.\<close>

definition dash_fetch :: "string \<Rightarrow> jval option \<Rightarrow> dash \<Rightarrow> api_reply \<times> dash" where
  "dash_fetch url b st =
     (let st' = st\<lparr>d_requests := d_requests st @ [(url, b)]\<rparr> in
      case d_replies st of [] \<Rightarrow> (ApiNetError, st') | r # rs \<Rightarrow> (r, st'\<lparr>d_replies := rs\<rparr>))"

subsection \<open>Greeting, input and keys\<close>

definition greeting_of :: "nat \<Rightarrow> string" where
  "greeting_of hour =
     (if hour < 12 then ''Good morning'' else if hour < 18 then ''Good afternoon'' else ''Good evening'')"

definition display_name :: "jval \<Rightarrow> string" where
  "display_name u =
     (let n = (case u of JObj d \<Rightarrow> doc_get d ''username'' | _ \<Rightarrow> None)
      in if js_truthy n then js_template n else ''User'')"

text \<open>The height of the text area: \<open>Math.min(120, Math.max(56, scrollHeight))\<close>.\<close>

definition textarea_height :: "nat \<Rightarrow> nat" where
  "textarea_height h = min 120 (max 56 h)"

datatype key_action = SubmitKey | NewlineKey | ToggleMic | OtherKey

definition handle_key :: "string \<Rightarrow> bool \<Rightarrow> bool \<Rightarrow> key_action" where
  "handle_key k shift alt =
     (if k = ''Enter'' \<and> \<not> shift then SubmitKey
      else if k = ''Enter'' \<and> shift then NewlineKey
      else if k = ''m'' \<and> alt then ToggleMic
      else OtherKey)"

definition stop_speech :: "dash \<Rightarrow> dash" where
  "stop_speech st = st\<lparr>d_speaking := False, d_utterance := None\<rparr>"

definition stop_listening :: "dash \<Rightarrow> dash" where
  "stop_listening st = st\<lparr>d_listening := False\<rparr>"

definition clear_chat :: "dash \<Rightarrow> dash" where
  "clear_chat st = stop_listening (stop_speech (st\<lparr>d_messages := []\<rparr>))"

subsection \<open>LTP data for a scenario\<close>

text \<open>\<open>x || dflt\<close> in a template literal.\<close>

definition or_text :: "jval option \<Rightarrow> string \<Rightarrow> string" where
  "or_text v dflt = (if js_truthy v then js_template v else dflt)"

text \<open>The ten fields both prompts list, with their labels and defaults.\<close>

definition ltp_fields :: "(string \<times> string \<times> string) list" where
  "ltp_fields =
     [(''Market Direction'', ''direction'', ''UNKNOWN''), (''Scenario'', ''scenario'', ''UNKNOWN''),
      (''Risky Resistance'', ''riskyResistance'', ''N/A''), (''Risky Support'', ''riskySupport'', ''N/A''),
      (''Moderate Resistance'', ''moderateResistance'', ''N/A''), (''Moderate Support'', ''moderateSupport'', ''N/A''),
      (''Resistance Max Gain'', ''rMaxGain'', ''N/A''), (''Support Max Gain'', ''sMaxGain'', ''N/A''),
      (''Resistance Max Pain'', ''rMaxPain'', ''N/A''), (''Support Max Pain'', ''sMaxPain'', ''N/A'')]"

text \<open>The fields read from an object, each as \<open>label: value\<close>; reading from \<open>null\<close> throws.\<close>

definition ltp_field_lines :: "jval \<Rightarrow> exn + string list" where
  "ltp_field_lines v =
     (case js_prop v ''direction'' of
        Inl e \<Rightarrow> Inl e
      | Inr _ \<Rightarrow> Inr (map (\<lambda>(label, k, dflt). label @ '': '' @ or_text (doc_get (as_doc v) k) dflt) ltp_fields))"

text \<open>\<open>formattedTime\<close> of \<open>fetchLTPData\<close>: \<open>:00\<close> is added unless the time has two colons.\<close>

definition client_time :: "string \<Rightarrow> string" where
  "client_time t =
     (if CHR '':'' \<in> set t then (if length (split_on CHR '':'' t) = 3 then t else t @ '':00'') else t @ '':00'')"

definition ltp_fetch_url :: "bool \<Rightarrow> string \<Rightarrow> string \<Rightarrow> string \<Rightarrow> string" where
  "ltp_fetch_url hist expiry date time =
     (if hist \<and> expiry \<noteq> [] \<and> date \<noteq> [] \<and> time \<noteq> []
      then ''/api/ltp-calculator/historical?symbol=NIFTY&expiry='' @ expiry @ ''&lotSize=75&fetchTime='' @
           date @ ''%20'' @ client_time time
      else ''/api/ltp-calculator?symbol=NIFTY'')"

text \<open>
  \<open>generateLTPSummary\<close>. After building its prompt the function evaluates
  \<open>systemPrompt = `${systemPrompt}...`\<close> (line 705), but no \<open>systemPrompt\<close> is in scope
  there: the page is a module, so the read throws a \<open>ReferenceError\<close> and the request to
  \<open>/api/chat\<close> that follows is never sent.
\<close>

definition unbound_var :: "string \<Rightarrow> exn + string" where
  "unbound_var x = Inl (ReferenceError (x @ '' is not defined''))"

definition summary_failed :: string where
  "summary_failed = ''Unable to generate summary due to an error''"

definition summary_of_reply :: "api_reply \<Rightarrow> string" where
  "summary_of_reply r =
     (case r of
        ApiReply st (Some data) \<Rightarrow>
          if \<not> reply_ok st then summary_failed
          else (case js_prop data ''message'' of
                  Inl _ \<Rightarrow> summary_failed
                | Inr m \<Rightarrow> if js_truthy m then js_template m else ''Unable to generate summary'')
      | _ \<Rightarrow> summary_failed)"

definition summary_instructions :: string where
  "summary_instructions = ''Your name is Daddy''"

definition generate_ltp_summary :: "jval \<Rightarrow> dash \<Rightarrow> string \<times> dash" where
  "generate_ltp_summary data st =
     (case ltp_field_lines data of
        Inl _ \<Rightarrow> (summary_failed, st)
      | Inr fls \<Rightarrow>
          (let prompt = ''Summarize the following LTP Calculator'' @ concat (map (\<lambda>l. nl @ l) fls) in
           case unbound_var ''systemPrompt'' of
             Inl _ \<Rightarrow> (summary_failed, st)
           | Inr sp \<Rightarrow>
               (case dash_fetch ''/api/chat''
                       (Some (JObj [(''messages'', JArr [JObj [(''role'', JStr ''user''), (''content'', JStr prompt)]]),
                                    (''systemPrompt'', JStr summary_instructions)])) st of
                  (r, st1) \<Rightarrow> (summary_of_reply r, st1))))"

text \<open>\<open>fetchLTPData\<close>: every failure is caught and gives \<open>null\<close>.\<close>

definition fetch_ltp_data :: "bool \<Rightarrow> string \<Rightarrow> string \<Rightarrow> string \<Rightarrow> dash \<Rightarrow> jval option \<times> dash" where
  "fetch_ltp_data hist expiry date time st =
     (case dash_fetch (ltp_fetch_url hist expiry date time) None st of
        (ApiReply s (Some data), st1) \<Rightarrow>
          if \<not> reply_ok s then (None, st1)
          else (case generate_ltp_summary data st1 of
                  (summary, st2) \<Rightarrow> (Some (JObj (doc_set (as_doc data) ''aiSummary'' (JStr summary))), st2))
      | (_, st1) \<Rightarrow> (None, st1))"

text \<open>The query a route sees for a URL (\<open>request.nextUrl.searchParams\<close>).\<close>

definition ltp_query_of_url :: "string \<Rightarrow> ltp_query" where
  "ltp_query_of_url url =
     \<lparr>q_symbol = query_get url ''symbol'', q_expiry = query_get url ''expiry'',
      q_lot_size = query_get url ''lotSize'', q_fetch_date = query_get url ''fetchDate'',
      q_fetch_time = query_get url ''fetchTime''\<rparr>"

subsection \<open>Scenario requests\<close>

definition word_char :: "char \<Rightarrow> bool" where
  "word_char c \<longleftrightarrow> (CHR ''a'' \<le> c \<and> c \<le> CHR ''z'') \<or> (CHR ''A'' \<le> c \<and> c \<le> CHR ''Z'') \<or>
                    (CHR ''0'' \<le> c \<and> c \<le> CHR ''9'') \<or> c = CHR ''_''"

definition js_lower :: "char \<Rightarrow> char" where
  "js_lower c = (if CHR ''A'' \<le> c \<and> c \<le> CHR ''Z'' then char_of (of_char c + (32::nat)) else c)"

text \<open>
  \<open>/\bscenario\b/i.test(s)\<close>: the word, in any case, with no word character right
  before or after it (the word starts and ends with word characters).
\<close>

fun has_word_from :: "string \<Rightarrow> char option \<Rightarrow> string \<Rightarrow> bool" where
  "has_word_from w p [] = False"
| "has_word_from w p (c # cs) =
     (((case p of None \<Rightarrow> True | Some q \<Rightarrow> \<not> word_char q) \<and> length w \<le> length (c # cs) \<and>
       map js_lower (take (length w) (c # cs)) = w \<and>
       (case drop (length w) (c # cs) of [] \<Rightarrow> True | d # _ \<Rightarrow> \<not> word_char d))
      \<or> has_word_from w (Some c) cs)"

definition has_scenario_word :: "string \<Rightarrow> bool" where
  "has_scenario_word s = has_word_from ''scenario'' None s"

definition data_choice_prompt :: string where
  "data_choice_prompt = ''Would you like to use live market data or historical data for this scenario analysis?''"

definition check_for_scenario_keyword :: "string \<Rightarrow> dash \<Rightarrow> bool \<times> dash" where
  "check_for_scenario_keyword m st =
     (if \<not> has_scenario_word m then (False, st)
      else if js_truthy (field_of (Some (d_user st)) ''ltpCredentials'') then
        (True, st\<lparr>d_messages := d_messages st @ [user_msg m, assistant_msg data_choice_prompt], d_input := [],
                  d_pending := Some m, d_scenario_modal := True\<rparr>)
      else (True, st\<lparr>d_pending := Some m, d_ltp_modal := True\<rparr>))"

definition handle_ltp_credentials_success :: "dash \<Rightarrow> dash" where
  "handle_ltp_credentials_success st =
     (let st1 = st\<lparr>d_ltp_modal := False\<rparr> in
      if js_truthy (map_option JStr (d_pending st1))
      then st1\<lparr>d_messages := d_messages st1 @ [assistant_msg data_choice_prompt], d_scenario_modal := True\<rparr>
      else st1)"

text \<open>
  \<open>handleScenarioDataSelection\<close>, with its promise chain run to the end: the data,
  then a second summary of it, then the message.
\<close>

definition scenario_error :: string where
  "scenario_error = ''Sorry, I encountered an error while fetching LTP data. Please try again later.''"

definition handle_scenario_data_selection :: "bool \<Rightarrow> string \<Rightarrow> string \<Rightarrow> string \<Rightarrow> dash \<Rightarrow> dash" where
  "handle_scenario_data_selection hist expiry date time st =
     (let st1 = st\<lparr>d_scenario_modal := False\<rparr> in
      if \<not> js_truthy (map_option JStr (d_pending st1)) then st1
      else
        (let sel = (if hist then ''Using historical data for '' @ date @ '' at '' @ time else ''Using live market data'');
             st2 = st1\<lparr>d_loading := True, d_messages := d_messages st1 @ [user_msg sel]\<rparr>
         in case fetch_ltp_data hist expiry date time st2 of
              (None, st3) \<Rightarrow> st3\<lparr>d_messages := d_messages st3 @ [assistant_msg scenario_error], d_loading := False,
                                 d_pending := None\<rparr>
            | (Some data, st3) \<Rightarrow>
                (case generate_ltp_summary data st3 of
                   (summary, st4) \<Rightarrow> st4\<lparr>d_messages := d_messages st4 @ [assistant_msg summary], d_loading := False,
                                          d_pending := None\<rparr>)))"

subsection \<open>A chat turn: \<open>handleSubmit\<close>\<close>

definition default_system_prompt :: string where
  "default_system_prompt = ''Your name is Daddy''"

text \<open>The prompt of lines 2086--2087, for LTP data fetched in the turn.\<close>

definition enhanced_system_prompt :: "string \<Rightarrow> jval \<Rightarrow> string" where
  "enhanced_system_prompt sp data =
     sp @ nl @ nl @ ''Here is the current LTP Calculator data for NIFTY:'' @
     concat (map (\<lambda>(label, k, dflt). nl @ ''- '' @ label @ '': '' @ or_text (doc_get (as_doc data) k) dflt) ltp_fields) @
     nl @ nl @ ''AI Market Summary: '' @ js_template (doc_get (as_doc data) ''aiSummary'') @ nl @ nl @
     ''When responding to scenario questions, use this data to provide accurate market analysis.''"

text \<open>A message as \<open>JSON.stringify\<close> writes it (\<open>undefined\<close> fields are dropped).\<close>

definition msg_json :: "chat_msg \<Rightarrow> jval" where
  "msg_json m =
     JObj ([(''role'', JStr (cm_role m)), (''content'', JStr (cm_content m))] @
           doc_opt ''thinking'' (map_option JStr (cm_thinking m)) @
           doc_opt ''metadata'' (map_option (\<lambda>b. JObj [(''deepAnalysis'', JBool b)]) (cm_deep m)))"

text \<open>The answer of \<open>/api/chat\<close> as the page reads it (lines 2101--2121).\<close>

definition chat_reply_msg :: "api_reply \<Rightarrow> bool \<Rightarrow> exn + chat_msg" where
  "chat_reply_msg r deep =
     (case r of
        ApiNetError \<Rightarrow> Inl (TypeError ''Failed to fetch'')
      | ApiReply st b \<Rightarrow>
          if \<not> reply_ok st then
            (let e = (case b of Some (JObj d) \<Rightarrow> doc_get d ''error'' | _ \<Rightarrow> None) in
             Inl (Error (if js_truthy e then js_template e else ''Request failed with status '' @ nat_str st)))
          else
            (case b of
               None \<Rightarrow> Inl (SyntaxError ''Unexpected end of JSON input'')
             | Some data \<Rightarrow>
                 (case js_prop data ''message'' of
                    Inl e \<Rightarrow> Inl e
                  | Inr m \<Rightarrow>
                      if \<not> js_truthy m then Inl (Error ''Invalid response format from API'')
                      else
                        (let t = doc_get (as_doc data) ''thinking'' in
                         Inr \<lparr>cm_role = ''assistant'', cm_content = js_template m,
                              cm_thinking = (if js_truthy t then Some (js_template t) else None),
                              cm_deep = Some deep\<rparr>))))"

definition chat_error_msg :: "exn \<Rightarrow> chat_msg" where
  "chat_error_msg e =
     assistant_msg (''Sorry, I encountered an error: '' @
                    (if exn_message e = [] then ''Unknown error occurred'' else exn_message e) @ ''. Please try again.'')"

text \<open>
  \<open>handleSubmit\<close> with \<open>overrideInput || input\<close>. A message naming a scenario is taken
  over by \<open>checkForScenarioKeyword\<close>; the scenario branch of lines 2080--2088 is therefore
  only reached by messages without the word.
\<close>

definition handle_submit :: "string option \<Rightarrow> dash \<Rightarrow> dash" where
  "handle_submit override st =
     (let m = env_or override (d_input st) in
      if js_trim m = [] then st
      else
        (case check_for_scenario_keyword m st of
           (True, st1) \<Rightarrow> st1\<lparr>d_input := []\<rparr>
         | (False, st1) \<Rightarrow>
             (let um = user_msg m;
                  history = d_messages st1 @ [um];
                  st2 = st1\<lparr>d_messages := history, d_input := [], d_typing := False, d_loading := True\<rparr>;
                  (sp, st3) =
                    (if has_scenario_word m \<and> js_truthy (field_of (Some (d_user st2)) ''ltpCredentials'') then
                       (case fetch_ltp_data False [] [] [] st2 of
                          (None, st3) \<Rightarrow> (default_system_prompt, st3)
                        | (Some data, st3) \<Rightarrow> (enhanced_system_prompt default_system_prompt data, st3))
                     else (default_system_prompt, st2));
                  (r, st4) = dash_fetch ''/api/chat''
                               (Some (JObj [(''messages'', JArr (map msg_json history)), (''systemPrompt'', JStr sp),
                                            (''useDeepAnalysis'', JBool (d_deep st3))])) st3
              in (case chat_reply_msg r (d_deep st4) of
                    Inl e \<Rightarrow> st4\<lparr>d_messages := d_messages st4 @ [chat_error_msg e], d_loading := False\<rparr>
                  | Inr a \<Rightarrow> st4\<lparr>d_messages := d_messages st4 @ [a], d_loading := False\<rparr>))))"

subsection \<open>Translation\<close>

definition non_ascii :: "string \<Rightarrow> bool" where
  "non_ascii s \<longleftrightarrow> list_ex (\<lambda>c. (127::nat) < of_char c) s"

definition translate_url :: "string \<Rightarrow> string \<Rightarrow> string" where
  "translate_url lang text =
     ''https://translate.googleapis.com/translate_a/single?client=gtx&sl=auto&tl='' @ lang @ ''&dt=t&q='' @
     encode_uri_component text"

text \<open>\<open>data[0].forEach(item => { if (item[0]) translatedText += item[0]; })\<close>.\<close>

fun translation_parts :: "jval list \<Rightarrow> exn + string" where
  "translation_parts [] = Inr []"
| "translation_parts (JNull # _) = Inl (TypeError (''Cannot read properties of null (reading '' @ ''0'' @ '')''))"
| "translation_parts (item # items) =
     (case translation_parts items of
        Inl e \<Rightarrow> Inl e
      | Inr rest \<Rightarrow> Inr ((if js_truthy (opt_index0 (Some item)) then js_template (opt_index0 (Some item)) else []) @ rest))"

definition translation_of :: "jval \<Rightarrow> exn + string" where
  "translation_of data =
     (if \<not> js_truthy (Some data) \<or> \<not> js_truthy (opt_index0 (Some data)) then Inr []
      else (case opt_index0 (Some data) of
              Some (JArr items) \<Rightarrow> translation_parts items
            | _ \<Rightarrow> Inl (TypeError ''data[0].forEach is not a function'')))"

definition translation_failed :: string where
  "translation_failed = ''Translation failed. Please try again later.''"

definition max_retries :: nat where
  "max_retries = 2"

text \<open>One pass of the retry loop: \<open>(retries, success, state)\<close>; the back-off wait is not timed.\<close>

definition translate_attempt :: "string \<Rightarrow> string \<Rightarrow> string \<Rightarrow> nat \<times> bool \<times> dash \<Rightarrow> nat \<times> bool \<times> dash" where
  "translate_attempt text mid lang x =
     (case x of (r, ok, st) \<Rightarrow>
       (let (rep, st1) = dash_fetch (translate_url lang text) None st;
            res = (case rep of
                     ApiReply s (Some data) \<Rightarrow>
                       if \<not> reply_ok s then Inl (Error ''Translation API returned status'')
                       else (case translation_of data of
                               Inl e \<Rightarrow> Inl e
                             | Inr t \<Rightarrow> if t = [] then Inl (Error ''Empty translation result'') else Inr t)
                   | ApiReply s None \<Rightarrow> if \<not> reply_ok s then Inl (Error ''Translation API returned status'')
                                        else Inl (SyntaxError ''Unexpected end of JSON input'')
                   | ApiNetError \<Rightarrow> Inl (TypeError ''Failed to fetch''))
        in case res of
             Inr t \<Rightarrow> (r, True, st1\<lparr>d_translated := (d_translated st1)(mid := Some t)\<rparr>)
           | Inl _ \<Rightarrow>
               (if max_retries < Suc r
                then (Suc r, False, st1\<lparr>d_translated := (d_translated st1)(mid := Some translation_failed)\<rparr>)
                else (Suc r, False, st1))))"

text \<open>
  \<open>translateText\<close>: the loop \<open>while (retries <= maxRetries && !success)\<close> is a
  \<open>while_option\<close>; \<open>None\<close> would mean that it does not end.
\<close>

definition translate_text :: "string \<Rightarrow> string \<Rightarrow> string \<Rightarrow> dash \<Rightarrow> dash option" where
  "translate_text text mid lang st =
     (let st1 = st\<lparr>d_translating := (d_translating st)(mid := Some True)\<rparr> in
      if lang = ''en'' \<and> \<not> non_ascii text
      then Some (st1\<lparr>d_translated := (d_translated st1)(mid := Some text),
                     d_translating := (d_translating st1)(mid := Some False)\<rparr>)
      else map_option (\<lambda>(_, _, st2). st2\<lparr>d_translating := (d_translating st2)(mid := Some False)\<rparr>)
             (while_option (\<lambda>(r, ok, _). r \<le> max_retries \<and> \<not> ok) (translate_attempt text mid lang) (0, False, st1)))"

subsection \<open>Speech and feedback\<close>

text \<open>\<open>speakText\<close>: the text is cleaned by the same three passes as on the server.\<close>

definition speak_text :: "bool \<Rightarrow> string \<Rightarrow> dash \<Rightarrow> dash" where
  "speak_text has_synth text st =
     (let st1 = (if has_synth then stop_speech st else st) in
      if has_synth then st1\<lparr>d_utterance := Some (chat_clean text), d_speaking := True\<rparr> else st1)"

definition toggle_speech :: "string \<Rightarrow> dash \<Rightarrow> dash" where
  "toggle_speech m st =
     (if d_speaking st \<and> d_utterance st \<noteq> None then stop_speech st else speak_text True m st)"

definition handle_feedback :: "string \<Rightarrow> feedback \<Rightarrow> dash \<Rightarrow> dash" where
  "handle_feedback mid f st =
     st\<lparr>d_feedback := (d_feedback st)(mid := Some (if d_feedback st mid = Some (Some f) then None else Some f))\<rparr>"

subsection \<open>Lemmas\<close>

lemma generate_ltp_summary_fails: "generate_ltp_summary data st = (summary_failed, st)"
  by (simp add: generate_ltp_summary_def unbound_var_def split: sum.split)

lemma client_time_amp: "CHR ''&'' \<notin> set t \<Longrightarrow> CHR ''&'' \<notin> set (client_time t)"
  by (simp add: client_time_def)

lemma historical_url_no_fetch_date:
  assumes "CHR ''&'' \<notin> set e" and "CHR ''&'' \<notin> set rest"
  shows "query_get (''/api/ltp-calculator/historical?symbol=NIFTY&expiry='' @ e @ ''&lotSize=75&fetchTime='' @ rest)
           ''fetchDate'' = None"
proof -
  have q: "query_of (''/api/ltp-calculator/historical?symbol=NIFTY&expiry='' @ e @ ''&lotSize=75&fetchTime='' @ rest)
             = ''symbol=NIFTY'' @ CHR ''&'' # ((''expiry='' @ e) @ CHR ''&'' # (''lotSize=75'' @ CHR ''&'' # (''fetchTime='' @ rest)))"
    by (simp add: query_of_def)
  have s: "split_on CHR ''&'' (''symbol=NIFTY'' @ CHR ''&'' # ((''expiry='' @ e) @ CHR ''&'' # (''lotSize=75'' @ CHR ''&'' # (''fetchTime='' @ rest))))
           = [''symbol=NIFTY'', ''expiry='' @ e, ''lotSize=75'', ''fetchTime='' @ rest]"
  proof -
    have a1: "CHR ''&'' \<notin> set ''symbol=NIFTY''" and a2: "CHR ''&'' \<notin> set (''expiry='' @ e)"
      and a3: "CHR ''&'' \<notin> set ''lotSize=75''" and a4: "CHR ''&'' \<notin> set (''fetchTime='' @ rest)"
      using assms by simp_all
    show ?thesis
      by (simp only: split_on_append [OF a1] split_on_append [OF a2] split_on_append [OF a3] split_on_none [OF a4])
  qed
  show ?thesis
    unfolding query_get_def query_pairs_def q s by simp
qed

text \<open>
  C39. Dashboard and LTP route together: the URL \<open>fetchLTPData\<close> builds for historical
  data carries the date inside \<open>fetchTime\<close> and no \<open>fetchDate\<close> parameter, so
  \<open>GET /api/ltp-calculator/historical\<close> refuses every such request with 400 before
  touching the rate limiter or the LTP service (for values without \<open>&\<close>).
\<close>

theorem dashboard_historical_refused:
  assumes "CHR ''&'' \<notin> set expiry" and "CHR ''&'' \<notin> set date" and "CHR ''&'' \<notin> set time"
    and "expiry \<noteq> []" and "date \<noteq> []" and "time \<noteq> []"
  shows "ltp_historical cfg (ltp_query_of_url (ltp_fetch_url True expiry date time)) jar s w =
           (json_error 400 ''Missing required parameters: expiry, fetchDate, or fetchTime'', s, w)"
proof -
  have "CHR ''&'' \<notin> set (date @ ''%20'' @ client_time time)"
    using assms(2,3) client_time_amp by simp
  then have "q_fetch_date (ltp_query_of_url (ltp_fetch_url True expiry date time)) = None"
    using historical_url_no_fetch_date [OF assms(1)] assms(4-6)
    by (simp add: ltp_query_of_url_def ltp_fetch_url_def)
  then show ?thesis by (simp add: ltp_historical_def Let_def env_or_def)
qed

lemma translate_attempt_step:
  assumes "translate_attempt text mid lang (r, ok, st) = (r', ok', st')"
  shows "length (d_requests st') = Suc (length (d_requests st)) \<and>
         ((ok' \<and> r' = r \<and> d_translated st' mid \<noteq> None) \<or>
          (\<not> ok' \<and> r' = Suc r \<and> (max_retries < Suc r \<longrightarrow> d_translated st' mid \<noteq> None)))"
  using assms
  by (auto simp: translate_attempt_def dash_fetch_def Let_def split: list.splits api_reply.splits option.splits
                 sum.splits if_splits prod.splits)

text \<open>
  C40. \<open>translateText\<close> always finishes: its retry loop ends after at most three requests
  to the translation service, clears the translating flag of the message and leaves a
  text for it (the translation, the original English text, or the failure notice).
\<close>

theorem translate_text_terminates:
  "\<exists>st'. translate_text text mid lang st = Some st' \<and> length (d_requests st') \<le> length (d_requests st) + 3 \<and>
         d_translating st' mid = Some False \<and> d_translated st' mid \<noteq> None"
proof (cases "lang = ''en'' \<and> \<not> non_ascii text")
  case True
  then show ?thesis by (simp add: translate_text_def)
next
  case False
  define st1 where "st1 = st\<lparr>d_translating := (d_translating st)(mid := Some True)\<rparr>"
  define b where "b = (\<lambda>(r, ok, _::dash). r \<le> max_retries \<and> \<not> ok)"
  define P where "P = (\<lambda>(r, ok, st'::dash). length (d_requests st') = length (d_requests st1) + r + (if ok then 1 else 0) \<and>
                        r \<le> 3 \<and> (ok \<longrightarrow> r \<le> 2 \<and> d_translated st' mid \<noteq> None) \<and>
                        (\<not> ok \<and> r = 3 \<longrightarrow> d_translated st' mid \<noteq> None))"
  have step: "P (translate_attempt text mid lang x) \<and>
              (case translate_attempt text mid lang x of (r, ok, _) \<Rightarrow> if ok then 0 else 3 - r)
                < (case x of (r, ok, _) \<Rightarrow> if ok then 0 else 3 - (r::nat))"
    if "P x" "b x" for x
  proof -
    obtain r ok st' where x: "x = (r, ok, st')" by (cases x) auto
    obtain r' ok' st'' where y: "translate_attempt text mid lang (r, ok, st') = (r', ok', st'')" by (cases "translate_attempt text mid lang (r, ok, st')") auto
    from that x have "r \<le> 2" "\<not> ok" by (auto simp: b_def max_retries_def)
    with translate_attempt_step [OF y] that(1) x y show ?thesis
      by (auto simp: P_def max_retries_def)
  qed
  have p0: "P (0, False, st1)" by (simp add: P_def)
  obtain t where t: "while_option b (translate_attempt text mid lang) (0, False, st1) = Some t"
    using measure_while_option_Some [where P = P and b = b and c = "translate_attempt text mid lang"
            and f = "\<lambda>x. case x of (r, ok, _) \<Rightarrow> if ok then 0 else 3 - r", OF step p0] by blast
  have pt: "P t" using while_option_rule [where P = P, OF _ t p0] step by blast
  have nb: "\<not> b t" using while_option_stop [OF t] .
  obtain r ok st2 where tt: "t = (r, ok, st2)" by (cases t) auto
  have "translate_text text mid lang st = Some (st2\<lparr>d_translating := (d_translating st2)(mid := Some False)\<rparr>)"
    using False t tt by (auto simp: translate_text_def st1_def b_def Let_def)
  moreover have "length (d_requests st1) = length (d_requests st)" by (simp add: st1_def)
  ultimately show ?thesis using pt nb tt by (auto simp: P_def b_def max_retries_def)
qed

end
