(* ===== verification/ScenarioDialog.thy ===== *)
theory ScenarioDialog
  imports Dashboard "HOL-Library.Code_Target_Nat"
begin

text \<open>
  The market-data dialog, \<open>src/components/auth/ScenarioDataDialog.tsx\<close>: the list of
  expiry dates it offers, the monthly and quarterly expiry marks, its calendar, the
  checks of the historical form and the date it hands to the dashboard's
  \<open>handleScenarioDataSelection\<close>.

  A day is its number counted from 1970-01-01 (day 0, a Thursday), converted to and
  from the proleptic Gregorian calendar as JavaScript's \<open>Date\<close> does. The browser's time
  zone is its offset in minutes east of UTC, less than a day in size; whole-day
  arithmetic on local dates is exact (no daylight saving). An instant is in
  milliseconds since the epoch.
\<close>

subsection \<open>Days, dates and instants\<close>

definition days_from_civil :: "int \<Rightarrow> int \<Rightarrow> int \<Rightarrow> int" where
  "days_from_civil y m d =
     (let y' = y - (if m \<le> 2 then 1 else 0);
          era = y' div 400; yoe = y' - era * 400;
          mp = (m + 9) mod 12;
          doy = (153 * mp + 2) div 5 + d - 1;
          doe = yoe * 365 + yoe div 4 - yoe div 100 + doy
      in era * 146097 + doe - 719468)"

definition civil_from_days :: "int \<Rightarrow> int \<times> int \<times> int" where
  "civil_from_days z =
     (let z' = z + 719468; era = z' div 146097; doe = z' - era * 146097;
          yoe = (doe - doe div 1460 + doe div 36524 - doe div 146096) div 365;
          doy = doe - (365 * yoe + yoe div 4 - yoe div 100);
          mp = (5 * doy + 2) div 153;
          d = doy - (153 * mp + 2) div 5 + 1;
          m = (if mp < 10 then mp + 3 else mp - 9)
      in (yoe + era * 400 + (if m \<le> 2 then 1 else 0), m, d))"

text \<open>\<open>new Date(y, m, d)\<close> in local time, with JavaScript's carrying of months and days.\<close>

definition make_day :: "int \<Rightarrow> int \<Rightarrow> int \<Rightarrow> int" where
  "make_day y m0 d = days_from_civil (y + m0 div 12) (m0 mod 12 + 1) 1 + (d - 1)"

text \<open>\<open>getDay()\<close>, \<open>getDate()\<close>, \<open>getMonth()\<close> and \<open>getFullYear()\<close> of a local day.\<close>

definition weekday :: "int \<Rightarrow> int" where
  "weekday n = (n + 4) mod 7"

definition date_of_day :: "int \<Rightarrow> int" where
  "date_of_day n = snd (snd (civil_from_days n))"

definition month0_of_day :: "int \<Rightarrow> int" where
  "month0_of_day n = fst (snd (civil_from_days n)) - 1"

definition year_of_day :: "int \<Rightarrow> int" where
  "year_of_day n = fst (civil_from_days n)"

definition day_ms :: int where
  "day_ms = 86400000"

text \<open>The instant of local midnight of a day, and the local and UTC days of an instant.\<close>

definition local_midnight :: "int \<Rightarrow> int \<Rightarrow> int" where
  "local_midnight tz n = n * day_ms - tz * 60000"

definition local_day :: "int \<Rightarrow> int \<Rightarrow> int" where
  "local_day tz t = (t + tz * 60000) div day_ms"

definition utc_day :: "int \<Rightarrow> int" where
  "utc_day t = t div day_ms"

subsection \<open>Date strings\<close>

definition pad :: "nat \<Rightarrow> string \<Rightarrow> string" where
  "pad k s = replicate (k - length s) CHR ''0'' @ s"

text \<open>\<open>toISOString().split('T')[0]\<close> of an instant (years 0--9999).\<close>

definition iso_date :: "int \<Rightarrow> string" where
  "iso_date t =
     (case civil_from_days (utc_day t) of
        (y, m, d) \<Rightarrow> pad 4 (nat_str (nat y)) @ ''-'' @ pad 2 (nat_str (nat m)) @ ''-'' @ pad 2 (nat_str (nat d)))"

definition digit_val :: "char \<Rightarrow> int option" where
  "digit_val c = (if CHR ''0'' \<le> c \<and> c \<le> CHR ''9'' then Some (int (of_char c - 48)) else None)"

fun digits_int :: "string \<Rightarrow> int \<Rightarrow> int option" where
  "digits_int [] acc = Some acc"
| "digits_int (c # cs) acc = (case digit_val c of None \<Rightarrow> None | Some v \<Rightarrow> digits_int cs (10 * acc + v))"

text \<open>\<open>parseInt(s)\<close> of a string of decimal digits: its leading digits, \<open>NaN\<close> without any.\<close>

definition parse_int :: "string \<Rightarrow> int option" where
  "parse_int s =
     (let ds = takeWhile (\<lambda>c. digit_val c \<noteq> None) s in if ds = [] then None else digits_int ds 0)"

text \<open>\<open>new Date('YYYY-MM-DD')\<close>: the string is read as UTC midnight; anything else is invalid.\<close>

definition parse_iso :: "string \<Rightarrow> int option" where
  "parse_iso s =
     (if length s = 10 \<and> s ! 4 = CHR ''-'' \<and> s ! 7 = CHR ''-'' \<and>
         list_all (\<lambda>c. digit_val c \<noteq> None) (take 4 s @ take 2 (drop 5 s) @ drop 8 s)
      then (case (digits_int (take 4 s) 0, digits_int (take 2 (drop 5 s)) 0, digits_int (drop 8 s) 0) of
              (Some y, Some m, Some d) \<Rightarrow>
                if 1 \<le> m \<and> m \<le> 12 \<and> 1 \<le> d \<and> d \<le> 31 then Some (days_from_civil y m d * day_ms) else None
            | _ \<Rightarrow> None)
      else None)"

subsection \<open>Expiry dates\<close>

definition expiry_dates :: "string list" where
  "expiry_dates =
     [''24-12-2025'', ''25-09-2025'', ''28-08-2025'', ''07-08-2025'', ''31-07-2025'',
      ''24-07-2025'', ''17-07-2025'', ''10-07-2025'', ''03-07-2025'', ''26-06-2025'',
      ''19-06-2025'', ''12-06-2025'', ''05-06-2025'', ''29-05-2025'', ''22-05-2025'',
      ''15-05-2025'', ''08-05-2025'', ''30-04-2025'', ''24-04-2025'', ''17-04-2025'',
      ''09-04-2025'', ''03-04-2025'', ''27-03-2025'', ''20-03-2025'', ''13-03-2025'',
      ''06-03-2025'', ''27-02-2025'', ''20-02-2025'', ''13-02-2025'', ''06-02-2025'',
      ''30-01-2025'', ''23-01-2025'', ''16-01-2025'', ''09-01-2025'', ''02-01-2025'']"

text \<open>\<open>dateStr.split('-').map(parseInt)\<close> of a \<open>DD-MM-YYYY\<close> option.\<close>

definition dmy_of :: "string \<Rightarrow> (int \<times> int \<times> int) option" where
  "dmy_of s =
     (case split_on CHR ''-'' s of
        [a, b, c] \<Rightarrow>
          (case (parse_int a, parse_int b, parse_int c) of
             (Some d, Some m, Some y) \<Rightarrow> Some (d, m, y) | _ \<Rightarrow> None)
      | _ \<Rightarrow> None)"

text \<open>\<open>getUpcomingThursday\<close>: today, or the next Thursday after it.\<close>

definition upcoming_thursday :: "int \<Rightarrow> int" where
  "upcoming_thursday today = today + (4 - weekday today + 7) mod 7"

text \<open>
  \<open>processExpiryDates\<close>: the dates not after the upcoming Thursday. A date compares as
  local midnight with the upcoming Thursday at the current time of day, so on the
  same day it is not after it.
\<close>

definition expiry_options :: "int \<Rightarrow> string list" where
  "expiry_options today =
     filter (\<lambda>s. case dmy_of s of
                   Some (d, m, y) \<Rightarrow> make_day y (m - 1) d \<le> upcoming_thursday today
                 | None \<Rightarrow> False) expiry_dates"

text \<open>The loop \<open>while (lastThursday.getDay() !== 4) lastThursday.setDate(... - 1)\<close>.\<close>

function back_to_thursday :: "int \<Rightarrow> int" where
  "back_to_thursday n = (if weekday n = 4 then n else back_to_thursday (n - 1))"
  by pat_completeness auto
termination
proof (relation "measure (\<lambda>n. nat (n mod 7))")
  fix n :: int
  assume h: "weekday n \<noteq> 4"
  have "n mod 7 \<noteq> 0"
  proof
    assume "n mod 7 = 0"
    then show False using h by (simp add: weekday_def mod_add_left_eq[of n 7 4, symmetric])
  qed
  then have "0 < n mod 7" "(n - 1) mod 7 = n mod 7 - 1"
    using pos_mod_sign[of 7 n] by (simp_all add: mod_pred_nonzero)
  then show "(n - 1, n) \<in> measure (\<lambda>n. nat (n mod 7))" by simp
qed simp

text \<open>The monthly mark of an option: the day is the last Thursday of its month.\<close>

definition option_last_thursday :: "int \<Rightarrow> int \<Rightarrow> int \<Rightarrow> bool" where
  "option_last_thursday d m y =
     (d = date_of_day (back_to_thursday (make_day y m 0)))"

definition option_quarterly :: "int \<Rightarrow> int \<Rightarrow> int \<Rightarrow> bool" where
  "option_quarterly d m y \<longleftrightarrow> option_last_thursday d m y \<and> m \<in> {3, 6, 9, 12}"

definition day_names :: "string list" where
  "day_names = [''Sunday'', ''Monday'', ''Tuesday'', ''Wednesday'', ''Thursday'', ''Friday'', ''Saturday'']"

text \<open>The label of an option: date, weekday abbreviation, quarterly or monthly mark.\<close>

definition option_label :: "string \<Rightarrow> string" where
  "option_label s =
     (case dmy_of s of
        None \<Rightarrow> s
      | Some (d, m, y) \<Rightarrow>
          s @ '' - '' @ take 3 (day_names ! nat (weekday (make_day y (m - 1) d))) @ '' '' @
          (if option_quarterly d m y then ''Q'' else if option_last_thursday d m y then ''M'' else []))"

subsection \<open>The calendar\<close>

definition holidays_2025 :: "string list" where
  "holidays_2025 =
     [''2025-02-26'', ''2025-03-14'', ''2025-03-31'', ''2025-04-10'', ''2025-04-14'', ''2025-04-18'',
      ''2025-05-01'', ''2025-08-15'', ''2025-08-27'', ''2025-10-02'', ''2025-10-21'', ''2025-10-22'',
      ''2025-11-05'', ''2025-12-25'']"

text \<open>The monthly mark of a calendar day: a Thursday whose next week is in another month.\<close>

definition cal_last_thursday :: "int \<Rightarrow> int \<Rightarrow> int \<Rightarrow> bool" where
  "cal_last_thursday y m0 i \<longleftrightarrow>
     weekday (make_day y m0 i) = 4 \<and> month0_of_day (make_day y m0 (i + 7)) \<noteq> m0 mod 12"

record cal_day =
  cd_day :: int
  cd_iso :: string
  cd_today :: bool
  cd_selected :: bool
  cd_holiday :: bool
  cd_last_thursday :: bool
  cd_quarterly :: bool
  cd_selectable :: bool

datatype cal_cell = Filler int | Day cal_day

text \<open>
  One day of the month (lines 510--548). The day's string is \<open>toISOString\<close> of its
  local midnight; \<open>now\<close> is the current instant.
\<close>

definition cal_day_of :: "int \<Rightarrow> int \<Rightarrow> string \<Rightarrow> int \<Rightarrow> int \<Rightarrow> int \<Rightarrow> cal_day" where
  "cal_day_of tz now sel y m0 i =
     (let n = make_day y m0 i; today = local_day tz now; s = iso_date (local_midnight tz n);
          wd = weekday n; lt = cal_last_thursday y m0 i;
          future = local_midnight tz n > now;
          after = local_midnight tz n > now + (upcoming_thursday today - today) * day_ms
      in \<lparr>cd_day = i, cd_iso = s, cd_today = (n = today), cd_selected = (sel = s),
          cd_holiday = (s \<in> set holidays_2025), cd_last_thursday = lt,
          cd_quarterly = (lt \<and> m0 \<in> {2, 5, 8, 11}),
          cd_selectable = (\<not> (wd = 0 \<or> wd = 6) \<and> s \<notin> set holidays_2025 \<and> \<not> future \<and> \<not> after)\<rparr>)"

definition month_length :: "int \<Rightarrow> int \<Rightarrow> int" where
  "month_length y m0 = date_of_day (make_day y (m0 + 1) 0)"

text \<open>The grid of lines 461--605: the days before, the month, and the days after.\<close>

definition calendar_cells :: "int \<Rightarrow> int \<Rightarrow> string \<Rightarrow> int \<Rightarrow> int \<Rightarrow> cal_cell list" where
  "calendar_cells tz now sel y m0 =
     (let start = weekday (make_day y m0 1); last = month_length y m0;
          prev_last = date_of_day (make_day y m0 0);
          total = ((start + last + 6) div 7) * 7
      in map (\<lambda>i. Filler (prev_last - start + i + 1)) [0..start - 1] @
         map (\<lambda>i. Day (cal_day_of tz now sel y m0 i)) [1..last] @
         map (\<lambda>i. Filler (i - last - start + 1)) [last + start..total - 1])"

text \<open>A click on a selectable day stores \<open>new Date(year, month, i).toISOString().split('T')[0]\<close>.\<close>

definition pick_day :: "int \<Rightarrow> int \<Rightarrow> int \<Rightarrow> int \<Rightarrow> string" where
  "pick_day tz y m0 i = iso_date (local_midnight tz (make_day y m0 i))"

subsection \<open>The dialog\<close>

text \<open>
  The dialog's state (lines 119--126), with the dashboard's \<open>open\<close> flag it sets through
  \<open>onOpenChange\<close> and the visibility of the two drop-downs, which the code toggles on the
  DOM (\<open>classList\<close> of \<open>calendar-dropdown\<close> and \<open>time-dropdown\<close>).
\<close>

record dialog =
  sd_open :: bool
  sd_show_form :: bool
  sd_expiry :: string
  sd_date :: string
  sd_time :: string
  sd_error :: "string option"
  sd_calendar_open :: bool
  sd_time_open :: bool

text \<open>The time input adds the seconds when the browser gives \<open>HH:MM\<close>.\<close>

definition time_input :: "string \<Rightarrow> string" where
  "time_input t = (if length (split_on CHR '':'' t) = 2 then t @ '':00'' else t)"

text \<open>
  \<open>new Date(date)\<close>, one day added in local time, then \<open>toISOString().split('T')[0]\<close>;
  an invalid date makes \<open>toISOString\<close> throw.
\<close>

definition next_iso_date :: "int \<Rightarrow> string \<Rightarrow> exn + string" where
  "next_iso_date tz s =
     (case parse_iso s of
        None \<Rightarrow> Inl (RangeError ''Invalid time value'')
      | Some t \<Rightarrow> Inr (iso_date (local_midnight tz (local_day tz t + 1) + (t - local_midnight tz (local_day tz t)))))"

datatype selection = LiveData | HistoricalData string string string

text \<open>\<open>handleHistoricalDataSubmit\<close>: the data handed to the dashboard, or the error shown.\<close>

definition historical_submit :: "int \<Rightarrow> dialog \<Rightarrow> selection option \<times> dialog" where
  "historical_submit tz sd =
     (if sd_expiry sd = [] then (None, sd\<lparr>sd_error := Some ''Expiry is required''\<rparr>)
      else if sd_date sd = [] then (None, sd\<lparr>sd_error := Some ''Date is required''\<rparr>)
      else if sd_time sd = [] then (None, sd\<lparr>sd_error := Some ''Time is required''\<rparr>)
      else (case next_iso_date tz (sd_date sd) of
              Inl _ \<Rightarrow> (None, sd)
            | Inr d \<Rightarrow> (Some (HistoricalData (sd_expiry sd) d (sd_time sd)), sd\<lparr>sd_open := False\<rparr>)))"

text \<open>\<open>handleLiveDataSelection\<close>.\<close>

definition live_submit :: "dialog \<Rightarrow> selection option \<times> dialog" where
  "live_submit sd = (Some LiveData, sd\<lparr>sd_open := False\<rparr>)"

text \<open>
  The read-only date field (lines 383--388): the stored date plus one local day, as
  \<open>toLocaleDateString('en-GB')\<close> with the slashes replaced by dashes.
\<close>

definition date_display :: "int \<Rightarrow> string \<Rightarrow> string" where
  "date_display tz s =
     (if s = [] then []
      else case parse_iso s of
        None \<Rightarrow> ''Invalid Date''
      | Some t \<Rightarrow>
          (case civil_from_days (local_day tz t + 1) of
             (y, m, d) \<Rightarrow> pad 2 (nat_str (nat d)) @ ''-'' @ pad 2 (nat_str (nat m)) @ ''-'' @ pad 4 (nat_str (nat y))))"

text \<open>
  The instant the calendar shows: the stored date, or now when there is none
  (\<open>date ? new Date(date) : new Date()\<close>); \<open>None\<close> is an invalid date.
\<close>

definition calendar_base :: "int \<Rightarrow> string \<Rightarrow> int option" where
  "calendar_base now s = (if s = [] then Some now else parse_iso s)"

text \<open>\<open>setMonth(getMonth() + k)\<close> in local time: same date and time of day, months carried.\<close>

definition shift_month :: "int \<Rightarrow> int \<Rightarrow> int \<Rightarrow> int" where
  "shift_month tz k t =
     (let n = local_day tz t; tod = t - local_midnight tz n
      in local_midnight tz (make_day (year_of_day n) (month0_of_day n + k) (date_of_day n)) + tod)"

text \<open>
  The calendar's previous and next month buttons (lines 417--440); \<open>toISOString\<close> of an
  invalid date throws.
\<close>

definition month_nav :: "int \<Rightarrow> int \<Rightarrow> int \<Rightarrow> string \<Rightarrow> exn + string" where
  "month_nav tz now k s =
     (case calendar_base now s of
        None \<Rightarrow> Inl (RangeError ''Invalid time value'')
      | Some t \<Rightarrow> Inr (iso_date (shift_month tz k t)))"

text \<open>The year and month the calendar grid shows.\<close>

definition calendar_month :: "int \<Rightarrow> int \<Rightarrow> string \<Rightarrow> (int \<times> int) option" where
  "calendar_month tz now s =
     map_option (\<lambda>t. (year_of_day (local_day tz t), month0_of_day (local_day tz t))) (calendar_base now s)"

text \<open>The \<open>Current Time\<close> button: local hours, minutes and seconds, two digits each.\<close>

definition current_time :: "int \<Rightarrow> int \<Rightarrow> string" where
  "current_time tz now =
     (let tod = (now + tz * 60000) mod day_ms;
          two = (\<lambda>k. pad 2 (nat_str (nat k)))
      in two (tod div 3600000) @ '':'' @ two (tod div 60000 mod 60) @ '':'' @ two (tod div 1000 mod 60))"

text \<open>The handlers of the buttons and inputs of the historical form, one per control.\<close>

definition choose_historical :: "dialog \<Rightarrow> dialog" where
  "choose_historical sd = sd\<lparr>sd_show_form := True\<rparr>"

definition back_to_choice :: "dialog \<Rightarrow> dialog" where
  "back_to_choice sd = sd\<lparr>sd_show_form := False\<rparr>"

definition select_expiry :: "string \<Rightarrow> dialog \<Rightarrow> dialog" where
  "select_expiry e sd = sd\<lparr>sd_expiry := e\<rparr>"

definition toggle_calendar :: "dialog \<Rightarrow> dialog" where
  "toggle_calendar sd = sd\<lparr>sd_calendar_open := \<not> sd_calendar_open sd\<rparr>"

definition date_input :: "string \<Rightarrow> dialog \<Rightarrow> dialog" where
  "date_input v sd = sd\<lparr>sd_date := v, sd_calendar_open := False\<rparr>"

definition close_calendar :: "dialog \<Rightarrow> dialog" where
  "close_calendar sd = sd\<lparr>sd_calendar_open := False\<rparr>"

text \<open>The two \<open>Today\<close> buttons store the UTC date of the current instant.\<close>

definition today_date :: "int \<Rightarrow> dialog \<Rightarrow> dialog" where
  "today_date now sd = sd\<lparr>sd_date := iso_date now\<rparr>"

definition month_step :: "int \<Rightarrow> int \<Rightarrow> int \<Rightarrow> dialog \<Rightarrow> dialog" where
  "month_step tz now k sd = (case month_nav tz now k (sd_date sd) of Inl _ \<Rightarrow> sd | Inr d \<Rightarrow> sd\<lparr>sd_date := d\<rparr>)"

definition toggle_time :: "dialog \<Rightarrow> dialog" where
  "toggle_time sd = sd\<lparr>sd_time_open := \<not> sd_time_open sd\<rparr>"

text \<open>The hidden native time input stores its value as it is.\<close>

definition native_time_input :: "string \<Rightarrow> dialog \<Rightarrow> dialog" where
  "native_time_input v sd = sd\<lparr>sd_time := v, sd_time_open := False\<rparr>"

definition dropdown_time_input :: "string \<Rightarrow> dialog \<Rightarrow> dialog" where
  "dropdown_time_input v sd = sd\<lparr>sd_time := time_input v, sd_time_open := False\<rparr>"

definition time_presets :: "string list" where
  "time_presets = [''09:15:00'', ''15:30:00'', ''10:00:00'', ''12:00:00'', ''14:00:00'']"

definition time_preset :: "string \<Rightarrow> dialog \<Rightarrow> dialog" where
  "time_preset v sd = (if v \<in> set time_presets then sd\<lparr>sd_time := v, sd_time_open := False\<rparr> else sd)"

definition current_time_button :: "int \<Rightarrow> int \<Rightarrow> dialog \<Rightarrow> dialog" where
  "current_time_button tz now sd = sd\<lparr>sd_time := current_time tz now, sd_time_open := False\<rparr>"

definition close_time :: "dialog \<Rightarrow> dialog" where
  "close_time sd = sd\<lparr>sd_time_open := False\<rparr>"

datatype dialog_event =
    ChooseLive | ChooseHistorical | Back | SelectExpiry string
  | ToggleCalendar | CalendarDay int | DateInput string | MonthNav int | TodayDate | CloseCalendar
  | ToggleTime | NativeTimeInput string | TimeInput string | TimePreset string | CurrentTime | CloseTime
  | Submit

text \<open>
  A click on day \<open>i\<close> of the grid (line 585): only the days of the month shown, and only
  selectable ones, store their date and close the calendar.
\<close>

definition calendar_click :: "int \<Rightarrow> int \<Rightarrow> int \<Rightarrow> dialog \<Rightarrow> dialog" where
  "calendar_click tz now i sd =
     (case calendar_month tz now (sd_date sd) of
        None \<Rightarrow> sd
      | Some (y, m0) \<Rightarrow>
          if 1 \<le> i \<and> i \<le> month_length y m0 \<and> cd_selectable (cal_day_of tz now (sd_date sd) y m0 i)
          then sd\<lparr>sd_date := pick_day tz y m0 i, sd_calendar_open := False\<rparr> else sd)"

text \<open>
  One event of the dialog at time zone \<open>tz\<close> and instant \<open>now\<close>: the new state and the
  selection handed to the dashboard, if any. An exception thrown by a handler leaves the
  state as it was.
\<close>

fun dialog_step :: "int \<Rightarrow> int \<Rightarrow> dialog_event \<Rightarrow> dialog \<Rightarrow> selection option \<times> dialog" where
  "dialog_step tz now ChooseLive sd = live_submit sd"
| "dialog_step tz now ChooseHistorical sd = (None, choose_historical sd)"
| "dialog_step tz now Back sd = (None, back_to_choice sd)"
| "dialog_step tz now (SelectExpiry e) sd = (None, select_expiry e sd)"
| "dialog_step tz now ToggleCalendar sd = (None, toggle_calendar sd)"
| "dialog_step tz now (CalendarDay i) sd = (None, calendar_click tz now i sd)"
| "dialog_step tz now (DateInput v) sd = (None, date_input v sd)"
| "dialog_step tz now (MonthNav k) sd = (None, month_step tz now k sd)"
| "dialog_step tz now TodayDate sd = (None, today_date now sd)"
| "dialog_step tz now CloseCalendar sd = (None, close_calendar sd)"
| "dialog_step tz now ToggleTime sd = (None, toggle_time sd)"
| "dialog_step tz now (NativeTimeInput v) sd = (None, native_time_input v sd)"
| "dialog_step tz now (TimeInput v) sd = (None, dropdown_time_input v sd)"
| "dialog_step tz now (TimePreset v) sd = (None, time_preset v sd)"
| "dialog_step tz now CurrentTime sd = (None, current_time_button tz now sd)"
| "dialog_step tz now CloseTime sd = (None, close_time sd)"
| "dialog_step tz now Submit sd = historical_submit tz sd"

text \<open>A sequence of dialog events: the selections handed to the dashboard and the final state.\<close>

fun dialog_run :: "int \<Rightarrow> int \<Rightarrow> dialog_event list \<Rightarrow> dialog \<Rightarrow> selection list \<times> dialog" where
  "dialog_run tz now [] sd = ([], sd)"
| "dialog_run tz now (e # es) sd =
     (case dialog_step tz now e sd of
        (sel, sd') \<Rightarrow> (case dialog_run tz now es sd' of
                         (sels, sd'') \<Rightarrow> (case sel of None \<Rightarrow> sels | Some x \<Rightarrow> x # sels, sd'')))"

definition dialog_init :: dialog where
  "dialog_init = \<lparr>sd_open = True, sd_show_form = False, sd_expiry = [], sd_date = [], sd_time = [],
                  sd_error = None, sd_calendar_open = False, sd_time_open = False\<rparr>"

declare back_to_thursday.simps [simp del]

subsection \<open>Weekdays and the Thursday searches\<close>

lemma weekday_thursday_iff: "weekday n = 4 \<longleftrightarrow> n mod 7 = 0"
proof -
  have "(n + 4) mod 7 = 4 mod 7 \<longleftrightarrow> 7 dvd (n + 4 - 4)" by (rule mod_eq_dvd_iff)
  then show ?thesis by (simp add: weekday_def dvd_eq_mod_eq_0)
qed

lemma back_to_thursday_eq: "back_to_thursday n = n - n mod 7"
proof (induction n rule: back_to_thursday.induct)
  case (1 n)
  show ?case
  proof (cases "weekday n = 4")
    case True
    then show ?thesis by (subst back_to_thursday.simps) (simp add: weekday_thursday_iff)
  next
    case False
    then have "n mod 7 \<noteq> 0" by (simp add: weekday_thursday_iff)
    then show ?thesis using "1" False mod_pred_nonzero[of n 7] by (subst back_to_thursday.simps) simp
  qed
qed

lemma back_to_thursday_bounds:
  "weekday (back_to_thursday n) = 4 \<and> n - 6 \<le> back_to_thursday n \<and> back_to_thursday n \<le> n"
proof -
  have "(n - n mod 7) mod 7 = 0" by (simp add: minus_mod_eq_mult_div)
  moreover have "n - 6 \<le> n - n mod 7 \<and> n - n mod 7 \<le> n"
    using pos_mod_sign[of 7 n] pos_mod_bound[of 7 n] by linarith
  ultimately show ?thesis by (simp add: back_to_thursday_eq weekday_thursday_iff)
qed

lemma upcoming_thursday_bounds:
  "weekday (upcoming_thursday d) = 4 \<and> d \<le> upcoming_thursday d \<and> upcoming_thursday d \<le> d + 6"
proof -
  define k where "k = 4 - weekday d + 7"
  have e: "d + k = 7 * ((d + 4) div 7 + 1)"
    using minus_mod_eq_mult_div[of "d + 4" 7] unfolding k_def weekday_def by (simp add: algebra_simps)
  have "(d + k mod 7) mod 7 = (d + k) mod 7" by (rule mod_add_right_eq)
  also have "\<dots> = 0" by (simp only: e) simp
  finally have "weekday (d + k mod 7) = 4" by (simp add: weekday_thursday_iff)
  moreover have "0 \<le> k mod 7 \<and> k mod 7 \<le> 6" using pos_mod_sign[of 7 k] pos_mod_bound[of 7 k] by linarith
  ultimately show ?thesis unfolding upcoming_thursday_def k_def [symmetric] by simp
qed

subsection \<open>Time zones: the day a pick stores and the day a submission sends\<close>

lemmas date_simps = days_from_civil_def civil_from_days_def make_day_def weekday_def date_of_day_def
  month0_of_day_def year_of_day_def day_ms_def local_midnight_def local_day_def utc_day_def pad_def
  iso_date_def digit_val_def parse_int_def parse_iso_def

lemma day_div: "0 \<le> r \<Longrightarrow> r < day_ms \<Longrightarrow> (r + k * day_ms) div day_ms = k"
  by (simp add: day_ms_def div_pos_pos_trivial)

lemma utc_day_local_midnight_east:
  assumes "0 < tz" "tz \<le> 1440"
  shows "utc_day (local_midnight tz n) = n - 1"
proof -
  have "local_midnight tz n = (day_ms - tz * 60000) + (n - 1) * day_ms"
    by (simp add: local_midnight_def algebra_simps)
  moreover have "0 \<le> day_ms - tz * 60000" "day_ms - tz * 60000 < day_ms"
    using assms by (simp_all add: day_ms_def)
  ultimately show ?thesis unfolding utc_day_def by (simp only: day_div)
qed

lemma utc_day_local_midnight_west:
  assumes "- 1440 < tz" "tz \<le> 0"
  shows "utc_day (local_midnight tz n) = n"
proof -
  have "local_midnight tz n = (- tz * 60000) + n * day_ms"
    by (simp add: local_midnight_def algebra_simps)
  moreover have "0 \<le> - tz * 60000" "- tz * 60000 < day_ms"
    using assms by (simp_all add: day_ms_def)
  ultimately show ?thesis unfolding utc_day_def by (simp only: day_div)
qed

lemma local_day_utc_midnight_east:
  assumes "0 \<le> tz" "tz < 1440"
  shows "local_day tz (k * day_ms) = k"
proof -
  have "k * day_ms + tz * 60000 = tz * 60000 + k * day_ms" by simp
  moreover have "0 \<le> tz * 60000" "tz * 60000 < day_ms" using assms by (simp_all add: day_ms_def)
  ultimately show ?thesis unfolding local_day_def by (simp only: day_div)
qed

lemma local_day_utc_midnight_west:
  assumes "- 1440 \<le> tz" "tz < 0"
  shows "local_day tz (k * day_ms) = k - 1"
proof -
  have "k * day_ms + tz * 60000 = (day_ms + tz * 60000) + (k - 1) * day_ms" by (simp add: algebra_simps)
  moreover have "0 \<le> day_ms + tz * 60000" "day_ms + tz * 60000 < day_ms"
    using assms by (simp_all add: day_ms_def)
  ultimately show ?thesis unfolding local_day_def by (simp only: day_div)
qed

lemma iso_date_utc_day: "iso_date t = iso_date (utc_day t * day_ms)"
  by (simp add: iso_date_def utc_day_def day_ms_def)

lemma iso_date_nonempty: "iso_date t \<noteq> []"
  unfolding iso_date_def by (cases "civil_from_days (utc_day t)") (simp del: nat_str.simps)

text \<open>Adding one local day to a parsed date moves it by exactly one day, in every time zone.\<close>

lemma next_iso_date_next_day: "parse_iso s = Some t \<Longrightarrow> next_iso_date tz s = Inr (iso_date (t + day_ms))"
  by (simp add: next_iso_date_def local_midnight_def algebra_simps)

lemma pick_day_east: "0 < tz \<Longrightarrow> tz \<le> 1440 \<Longrightarrow> pick_day tz y m0 i = iso_date ((make_day y m0 i - 1) * day_ms)"
  unfolding pick_day_def using iso_date_utc_day[of "local_midnight tz (make_day y m0 i)"]
  by (simp add: utc_day_local_midnight_east)

lemma pick_day_west: "- 1440 < tz \<Longrightarrow> tz \<le> 0 \<Longrightarrow> pick_day tz y m0 i = iso_date (make_day y m0 i * day_ms)"
  unfolding pick_day_def using iso_date_utc_day[of "local_midnight tz (make_day y m0 i)"]
  by (simp add: utc_day_local_midnight_west)

lemma cal_day_iso: "cd_iso (cal_day_of tz now sel y m0 i) = pick_day tz y m0 i"
  by (simp add: cal_day_of_def pick_day_def Let_def)

lemma cal_day_holiday: "cd_holiday (cal_day_of tz now sel y m0 i) \<longleftrightarrow> pick_day tz y m0 i \<in> set holidays_2025"
  by (simp add: cal_day_of_def pick_day_def Let_def)

text \<open>
  A pick followed by a submission, where the stored date string reads back as the UTC
  midnight it was printed from: the dashboard receives the clicked day east of UTC and
  the day after it in UTC and west of it.
\<close>

lemma submit_after_pick:
  assumes tz: "- 1440 < tz" "tz \<le> 1440"
    and sd: "sd_date sd = pick_day tz y m0 i" "sd_expiry sd \<noteq> []" "sd_time sd \<noteq> []"
    and rt: "parse_iso (pick_day tz y m0 i) = Some (utc_day (local_midnight tz (make_day y m0 i)) * day_ms)"
  shows "fst (historical_submit tz sd) =
           Some (HistoricalData (sd_expiry sd)
                   (iso_date ((make_day y m0 i + (if 0 < tz then 0 else 1)) * day_ms)) (sd_time sd))"
proof -
  have u: "utc_day (local_midnight tz (make_day y m0 i)) = make_day y m0 i - (if 0 < tz then 1 else 0)"
    using tz by (simp add: utc_day_local_midnight_east utc_day_local_midnight_west)
  have "sd_date sd \<noteq> []" using sd(1) by (simp add: pick_day_def iso_date_nonempty)
  moreover have "next_iso_date tz (sd_date sd) =
                   Inr (iso_date ((make_day y m0 i + (if 0 < tz then 0 else 1)) * day_ms))"
    using next_iso_date_next_day[OF rt] sd(1) u by (simp add: algebra_simps)
  ultimately show ?thesis using sd by (simp add: historical_submit_def)
qed

text \<open>Under the same reading back, the date field shows the clicked day except at UTC itself.\<close>

lemma display_after_pick:
  assumes tz: "- 1440 < tz" "tz < 1440"
    and rt: "parse_iso (pick_day tz y m0 i) = Some (utc_day (local_midnight tz (make_day y m0 i)) * day_ms)"
  shows "date_display tz (pick_day tz y m0 i) =
           (case civil_from_days (make_day y m0 i + (if tz = 0 then 1 else 0)) of
              (yy, m, d) \<Rightarrow> pad 2 (nat_str (nat d)) @ ''-'' @ pad 2 (nat_str (nat m)) @ ''-'' @ pad 4 (nat_str (nat yy)))"
proof -
  consider "0 < tz" | "tz = 0" | "tz < 0" by linarith
  then have "local_day tz (utc_day (local_midnight tz (make_day y m0 i)) * day_ms) + 1 =
               make_day y m0 i + (if tz = 0 then 1 else 0)"
  proof cases
    case 1
    then show ?thesis using tz
      by (simp add: utc_day_local_midnight_east local_day_utc_midnight_east)
  next
    case 2
    then show ?thesis by (simp add: utc_day_local_midnight_west local_day_utc_midnight_east)
  next
    case 3
    then show ?thesis using tz
      by (simp add: utc_day_local_midnight_west local_day_utc_midnight_west)
  qed
  then show ?thesis using rt by (simp add: date_display_def pick_day_def iso_date_nonempty del: nat_str.simps)
qed

subsection \<open>What the dialog hands to the dashboard\<close>

lemma historical_submit_Some:
  "historical_submit tz sd = (Some x, sd') \<Longrightarrow>
   sd' = sd\<lparr>sd_open := False\<rparr> \<and> sd_expiry sd \<noteq> [] \<and> sd_date sd \<noteq> [] \<and> sd_time sd \<noteq> [] \<and>
   (\<exists>d. next_iso_date tz (sd_date sd) = Inr d \<and> x = HistoricalData (sd_expiry sd) d (sd_time sd))"
  by (auto simp: historical_submit_def split: if_splits sum.splits)

lemma next_iso_date_nonempty: "next_iso_date tz s = Inr d \<Longrightarrow> d \<noteq> []"
  by (auto simp: next_iso_date_def iso_date_nonempty split: option.splits)

text \<open>
  Every selection the dialog hands over closes it, and a historical one carries a nonempty
  expiry, date and time, the date being the stored one plus a day.
\<close>

lemma dialog_step_selection:
  assumes "dialog_step tz now e sd = (Some x, sd')"
  shows "\<not> sd_open sd' \<and>
         (x = LiveData \<or> (\<exists>ex d t. x = HistoricalData ex d t \<and> ex \<noteq> [] \<and> d \<noteq> [] \<and> t \<noteq> [] \<and>
                                   next_iso_date tz (sd_date sd) = Inr d))"
proof (cases e)
  case Submit
  then have h: "historical_submit tz sd = (Some x, sd')" using assms by simp
  then obtain d where "sd' = sd\<lparr>sd_open := False\<rparr>" "sd_expiry sd \<noteq> []" "sd_time sd \<noteq> []"
      "next_iso_date tz (sd_date sd) = Inr d" "x = HistoricalData (sd_expiry sd) d (sd_time sd)"
    using historical_submit_Some[OF h] by blast
  then show ?thesis using next_iso_date_nonempty by auto
qed (use assms in \<open>auto simp: live_submit_def\<close>)

subsection \<open>Holidays east of UTC\<close>

text \<open>
  C19: In every time zone east of UTC up to a day ahead (India among them) the calendar
  flags a day as an exchange holiday exactly when the previous day's UTC date is in
  \<open>holidays2025\<close>: the holiday check compares the \<open>toISOString\<close> date of local midnight,
  which lies in the previous UTC day, so each holiday is flagged (and blocked) on the day
  after it, while the holiday itself stays selectable on a weekday.
\<close>

theorem holiday_marks_previous_day:
  "0 < tz \<Longrightarrow> tz \<le> 1440 \<Longrightarrow>
   cd_holiday (cal_day_of tz now sel y m0 i) \<longleftrightarrow> iso_date ((make_day y m0 i - 1) * day_ms) \<in> set holidays_2025"
  by (simp add: cal_day_holiday pick_day_east)

end
