(* ===== verification/Forms.thy ===== *)
theory Forms
  imports Client Chat
begin

text \<open>
  The account forms of \<open>src/components/auth\<close> and the pages that host them:
  \<open>ForgotPasswordForm\<close> (with \<open>src/app/forgot-password/page.tsx\<close>), \<open>ResetPasswordForm\<close>
  (with \<open>src/app/reset-password/page.tsx\<close>) and \<open>LTPCredentialsDialog\<close>. Each form is a
  record of its React state; each handler takes the form and the \<open>AuthProvider\<close> client
  of \<open>Client\<close> and returns both, calling the client's actions (\<open>forgotPassword\<close>,
  \<open>verifyResetToken\<close>, \<open>resetPassword\<close>, \<open>updateLTPCredentials\<close>) as the code does.
  A control that is \<open>disabled\<close> ignores its events. Timers (\<open>setTimeout\<close>) are recorded as
  scheduled, not run.
\<close>

subsection \<open>The e-mail pattern\<close>

text \<open>A run of \<open>[^\s@]+\<close>.\<close>

definition email_part :: "string \<Rightarrow> bool" where
  "email_part s \<longleftrightarrow> s \<noteq> [] \<and> list_all (\<lambda>c. \<not> js_space c \<and> c \<noteq> CHR ''@'') s"

text \<open>
  \<open>/^[^\s@]+@[^\s@]+\.[^\s@]+$/.test(s)\<close>: one \<open>@\<close>, a nonempty local part, and a dot in
  the domain with a character before and after it, no white space anywhere.
\<close>

definition email_regex :: "string \<Rightarrow> bool" where
  "email_regex s =
     (case split_on CHR ''@'' s of
        [a, d] \<Rightarrow> email_part a \<and> list_all (\<lambda>c. \<not> js_space c) d \<and>
                  list_ex (\<lambda>i. d ! i = CHR ''.'') [1..<length d - 1]
      | _ \<Rightarrow> False)"

text \<open>The error shown: the form's own, else the context's (\<open>authError && !error\<close>).\<close>

definition shown_error :: "string option \<Rightarrow> client \<Rightarrow> string option" where
  "shown_error e c = (case e of Some m \<Rightarrow> Some m | None \<Rightarrow> cl_error c)"

subsection \<open>Forgot password\<close>

record forgot_form =
  ff_email :: string
  ff_error :: "string option"
  ff_success :: "string option"
  ff_show_sign_in :: bool

definition forgot_init :: forgot_form where
  "forgot_init = \<lparr>ff_email = [], ff_error = None, ff_success = None, ff_show_sign_in = False\<rparr>"

definition forgot_sent :: string where
  "forgot_sent = ''If your email is registered, you will receive a password reset link shortly.''"

text \<open>\<open>handleSubmit\<close>: the checks, then \<open>forgotPassword\<close>; a failure leaves its message in the context.\<close>

definition forgot_submit :: "forgot_form \<Rightarrow> client \<Rightarrow> forgot_form \<times> client" where
  "forgot_submit f c =
     (let f1 = f\<lparr>ff_error := None, ff_success := None\<rparr>
      in if ff_email f = [] then (f1\<lparr>ff_error := Some ''Email is required''\<rparr>, c)
         else if \<not> email_regex (ff_email f) then (f1\<lparr>ff_error := Some ''Please enter a valid email address''\<rparr>, c)
         else (case forgot_password_req (ff_email f) c of
                 (Inl _, c') \<Rightarrow> (f1, c')
               | (Inr _, c') \<Rightarrow> (f1\<lparr>ff_success := Some forgot_sent, ff_email := []\<rparr>, c')))"

text \<open>The input and the submit button are disabled while loading or after a success.\<close>

definition forgot_locked :: "forgot_form \<Rightarrow> client \<Rightarrow> bool" where
  "forgot_locked f c \<longleftrightarrow> cl_loading c \<or> ff_success f \<noteq> None"

datatype forgot_event = ForgotEmail string | ForgotSubmit | ForgotBack

text \<open>One event of the page: the email input, the submit button, and \<open>onBack\<close> (disabled while loading).\<close>

fun forgot_step :: "forgot_event \<Rightarrow> forgot_form \<Rightarrow> client \<Rightarrow> forgot_form \<times> client" where
  "forgot_step (ForgotEmail v) f c = (if forgot_locked f c then (f, c) else (f\<lparr>ff_email := v\<rparr>, c))"
| "forgot_step ForgotSubmit f c = (if forgot_locked f c then (f, c) else forgot_submit f c)"
| "forgot_step ForgotBack f c = (if cl_loading c then (f, c) else (f\<lparr>ff_show_sign_in := True\<rparr>, c))"

fun forgot_run :: "forgot_event list \<Rightarrow> forgot_form \<Rightarrow> client \<Rightarrow> forgot_form \<times> client" where
  "forgot_run [] f c = (f, c)"
| "forgot_run (e # es) f c = (case forgot_step e f c of (f', c') \<Rightarrow> forgot_run es f' c')"

subsection \<open>Reset password\<close>

text \<open>
  \<open>ResetPasswordContent\<close>: the link's \<open>email\<close> and \<open>token\<close> (as \<open>searchParams.get\<close> reads
  them), or the error shown instead of the form.
\<close>

definition reset_page :: "string \<Rightarrow> string + (string \<times> string)" where
  "reset_page url =
     (case (query_get url ''email'', query_get url ''token'') of
        (Some e, Some t) \<Rightarrow> if e = [] \<or> t = [] then Inl ''Invalid reset password link. Please request a new one.''
                            else Inr (e, t)
      | _ \<Rightarrow> Inl ''Invalid reset password link. Please request a new one.'')"

record reset_form =
  rf_password :: string
  rf_confirm :: string
  rf_error :: "string option"
  rf_success :: "string option"
  rf_token_valid :: "jval option option"
  rf_attempted :: bool
  rf_show_password :: bool
  rf_show_confirm :: bool
  rf_redirect :: bool

definition reset_init :: reset_form where
  "reset_init = \<lparr>rf_password = [], rf_confirm = [], rf_error = None, rf_success = None,
                 rf_token_valid = None, rf_attempted = False, rf_show_password = False,
                 rf_show_confirm = False, rf_redirect = False\<rparr>"

text \<open>
  The mount effect \<open>checkToken\<close>: once, \<open>isTokenValid\<close> becomes what \<open>verifyResetToken\<close>
  returns (\<open>None\<close> inside is \<open>undefined\<close>). The action catches its own errors, so the
  effect's \<open>catch\<close> is never reached.
\<close>

definition check_token :: "string \<Rightarrow> string \<Rightarrow> reset_form \<Rightarrow> client \<Rightarrow> reset_form \<times> client" where
  "check_token email token f c =
     (if rf_attempted f then (f, c)
      else (case verify_reset_token email token c of
              (v, c') \<Rightarrow> (f\<lparr>rf_attempted := True, rf_token_valid := Some v\<rparr>, c')))"

datatype reset_view = ResetInvalid | ResetVerifying | ResetFormShown

text \<open>What the component renders: \<open>isTokenValid === false\<close>, \<open>=== null\<close>, or the form.\<close>

definition reset_view :: "reset_form \<Rightarrow> reset_view" where
  "reset_view f =
     (case rf_token_valid f of
        None \<Rightarrow> ResetVerifying
      | Some (Some (JBool False)) \<Rightarrow> ResetInvalid
      | Some _ \<Rightarrow> ResetFormShown)"

definition reset_done :: string where
  "reset_done = ''Your password has been reset successfully!''"

text \<open>\<open>handleSubmit\<close>; a success schedules the redirect to \<open>/sign-in\<close>.\<close>

definition reset_submit :: "string \<Rightarrow> string \<Rightarrow> reset_form \<Rightarrow> client \<Rightarrow> reset_form \<times> client" where
  "reset_submit email token f c =
     (let f1 = f\<lparr>rf_error := None, rf_success := None\<rparr>
      in if rf_password f = [] \<or> rf_confirm f = [] then (f1\<lparr>rf_error := Some ''Both fields are required''\<rparr>, c)
         else if length (rf_password f) < 8
           then (f1\<lparr>rf_error := Some ''Password must be at least 8 characters long''\<rparr>, c)
         else if rf_password f \<noteq> rf_confirm f then (f1\<lparr>rf_error := Some ''Passwords do not match''\<rparr>, c)
         else (case reset_password_req email token (rf_password f) c of
                 (Inl _, c') \<Rightarrow> (f1, c')
               | (Inr _, c') \<Rightarrow> (f1\<lparr>rf_success := Some reset_done, rf_redirect := True\<rparr>, c')))"

definition reset_locked :: "reset_form \<Rightarrow> client \<Rightarrow> bool" where
  "reset_locked f c \<longleftrightarrow> cl_loading c \<or> rf_success f \<noteq> None"

datatype reset_event =
    ResetMount | ResetPassword string | ResetConfirm string | ResetTogglePassword | ResetToggleConfirm
  | ResetSubmit

text \<open>One event of the form for the link's \<open>email\<close> and \<open>token\<close>; the inputs exist only when the form is shown.\<close>

fun reset_step :: "string \<Rightarrow> string \<Rightarrow> reset_event \<Rightarrow> reset_form \<Rightarrow> client \<Rightarrow> reset_form \<times> client" where
  "reset_step e t ResetMount f c = check_token e t f c"
| "reset_step e t (ResetPassword v) f c =
     (if reset_view f = ResetFormShown \<and> \<not> reset_locked f c then (f\<lparr>rf_password := v\<rparr>, c) else (f, c))"
| "reset_step e t (ResetConfirm v) f c =
     (if reset_view f = ResetFormShown \<and> \<not> reset_locked f c then (f\<lparr>rf_confirm := v\<rparr>, c) else (f, c))"
| "reset_step e t ResetTogglePassword f c =
     (if reset_view f = ResetFormShown then (f\<lparr>rf_show_password := \<not> rf_show_password f\<rparr>, c) else (f, c))"
| "reset_step e t ResetToggleConfirm f c =
     (if reset_view f = ResetFormShown then (f\<lparr>rf_show_confirm := \<not> rf_show_confirm f\<rparr>, c) else (f, c))"
| "reset_step e t ResetSubmit f c =
     (if reset_view f = ResetFormShown \<and> \<not> reset_locked f c then reset_submit e t f c else (f, c))"

fun reset_run :: "string \<Rightarrow> string \<Rightarrow> reset_event list \<Rightarrow> reset_form \<Rightarrow> client \<Rightarrow> reset_form \<times> client" where
  "reset_run e t [] f c = (f, c)"
| "reset_run e t (ev # evs) f c = (case reset_step e t ev f c of (f', c') \<Rightarrow> reset_run e t evs f' c')"

subsection \<open>LTP credentials dialog\<close>

record ltp_form =
  lf_email :: string
  lf_password :: string
  lf_show_password :: bool
  lf_updating :: bool
  lf_error :: "string option"
  lf_success :: "string option"
  lf_on_success :: bool
  lf_open :: bool

text \<open>\<open>useState(user?.ltpCredentials?.email || '')\<close> when the dialog mounts.\<close>

definition ltp_prefill :: "client \<Rightarrow> string" where
  "ltp_prefill c =
     (let v = opt_get (opt_get (Some (cl_user c)) ''ltpCredentials'') ''email''
      in if js_truthy v then js_template v else [])"

definition ltp_form_init :: "client \<Rightarrow> ltp_form" where
  "ltp_form_init c = \<lparr>lf_email = ltp_prefill c, lf_password = [], lf_show_password = False,
                      lf_updating = False, lf_error = None, lf_success = None, lf_on_success = False,
                      lf_open = True\<rparr>"

definition ltp_verify_path :: string where
  "ltp_verify_path = ''/api/ltp-calculator/verify''"

text \<open>
  The direct \<open>fetch\<close> of the verify route: only \<open>response.ok\<close> is read; a network failure
  throws \<open>TypeError\<close>.
\<close>

definition ltp_verify_fetch :: "string \<Rightarrow> string \<Rightarrow> client \<Rightarrow> exn option \<times> client" where
  "ltp_verify_fetch email pw c =
     (let c1 = c\<lparr>cl_calls := cl_calls c @ [(''POST'', ltp_verify_path,
                                             Some (JObj [(''email'', JStr email), (''password'', JStr pw)]))]\<rparr>
      in case next_reply c1 of
           (ApiNetError, c2) \<Rightarrow> (Some (TypeError ''Failed to fetch''), c2)
         | (ApiReply st _, c2) \<Rightarrow>
             (if reply_ok st then None else Some (Error ''Invalid LTP Calculator credentials''), c2))"

definition ltp_saved :: string where
  "ltp_saved = ''LTP credentials verified and updated successfully''"

text \<open>
  \<open>handleUpdateCredentials\<close> with or without an \<open>onSuccess\<close> callback: the checks, the
  verification, then \<open>updateLTPCredentials(email, password)\<close>; the \<open>finally\<close> clears
  \<open>isUpdating\<close>.
\<close>

definition ltp_update :: "bool \<Rightarrow> ltp_form \<Rightarrow> client \<Rightarrow> ltp_form \<times> client" where
  "ltp_update has_cb f c =
     (if lf_email f = [] then (f\<lparr>lf_error := Some ''Email is required''\<rparr>, c)
      else if \<not> email_regex (lf_email f) then (f\<lparr>lf_error := Some ''Please enter a valid email address''\<rparr>, c)
      else if lf_password f = [] then (f\<lparr>lf_error := Some ''Password is required''\<rparr>, c)
      else
        (let f1 = f\<lparr>lf_error := None, lf_success := None\<rparr>
         in case ltp_verify_fetch (lf_email f) (lf_password f) c of
              (Some e, c2) \<Rightarrow> (f1\<lparr>lf_error := Some (exn_message e), lf_updating := False\<rparr>, c2)
            | (None, c2) \<Rightarrow>
                (case update_ltp_credentials_req (lf_email f) (lf_password f) c2 of
                   (Inl e, c3) \<Rightarrow> (f1\<lparr>lf_error := Some (exn_message e), lf_updating := False\<rparr>, c3)
                 | (Inr _, c3) \<Rightarrow>
                     (f1\<lparr>lf_success := Some ltp_saved, lf_password := [], lf_on_success := has_cb,
                         lf_updating := False\<rparr>, c3))))"

datatype ltp_event = LtpEmail string | LtpPassword string | LtpToggle | LtpCancel | LtpSubmit

text \<open>
  One event of the dialog: the inputs, the show-password toggle, Cancel
  (\<open>onOpenChange(false)\<close>) and the update button; all are disabled while \<open>isUpdating\<close>.
\<close>

fun ltp_step :: "bool \<Rightarrow> ltp_event \<Rightarrow> ltp_form \<Rightarrow> client \<Rightarrow> ltp_form \<times> client" where
  "ltp_step cb ev f c =
     (if lf_updating f then (f, c)
      else case ev of
        LtpEmail v \<Rightarrow> (f\<lparr>lf_email := v\<rparr>, c)
      | LtpPassword v \<Rightarrow> (f\<lparr>lf_password := v\<rparr>, c)
      | LtpToggle \<Rightarrow> (f\<lparr>lf_show_password := \<not> lf_show_password f\<rparr>, c)
      | LtpCancel \<Rightarrow> (f\<lparr>lf_open := False\<rparr>, c)
      | LtpSubmit \<Rightarrow> ltp_update cb f c)"

text \<open>The requests the reset form may send for the link's \<open>email\<close> and \<open>token\<close>.\<close>

definition reset_call_ok :: "string \<Rightarrow> string \<Rightarrow> string \<times> string \<times> jval option \<Rightarrow> bool" where
  "reset_call_ok e t call \<longleftrightarrow>
     call = (''GET'', reset_token_url e t, None) \<or>
     (\<exists>p. call = (''POST'', ''/api/auth/reset-password'',
                   Some (JObj [(''email'', JStr e), (''token'', JStr t), (''password'', JStr p)])) \<and> 8 \<le> length p)"

subsection \<open>Splitting at one separator\<close>

lemma split_on_nonempty: "split_on d s \<noteq> []"
  by (induction s) (auto split: list.split)

lemma split_on_Cons_other:
  "c \<noteq> d \<Longrightarrow> split_on d (c # cs) = (c # hd (split_on d cs)) # tl (split_on d cs)"
  using split_on_nonempty[of d cs] by (cases "split_on d cs") auto

lemma split_on_one: "split_on d s = [a] \<longleftrightarrow> s = a \<and> d \<notin> set a"
proof (induction s arbitrary: a)
  case Nil
  then show ?case by auto
next
  case (Cons c cs)
  show ?case
  proof (cases "c = d")
    case True
    then show ?thesis using split_on_nonempty[of d cs] by auto
  next
    case False
    then have e: "split_on d (c # cs) = (c # hd (split_on d cs)) # tl (split_on d cs)"
      by (rule split_on_Cons_other)
    have "split_on d cs \<noteq> []" by (rule split_on_nonempty)
    then have iff: "split_on d (c # cs) = [a] \<longleftrightarrow> (\<exists>p. a = c # p \<and> split_on d cs = [p])"
      unfolding e by (cases "split_on d cs") auto
    show ?thesis
    proof
      assume "split_on d (c # cs) = [a]"
      then obtain p where "a = c # p" "split_on d cs = [p]" using iff by blast
      then show "c # cs = a \<and> d \<notin> set a" using Cons.IH[of p] False by simp
    next
      assume h: "c # cs = a \<and> d \<notin> set a"
      then have "split_on d cs = [cs]" using Cons.IH[of cs] by auto
      then show "split_on d (c # cs) = [a]" using iff h by blast
    qed
  qed
qed
lemma split_on_two: "split_on d s = [a, b] \<longleftrightarrow> s = a @ d # b \<and> d \<notin> set a \<and> d \<notin> set b"
proof (induction s arbitrary: a)
  case Nil
  then show ?case by auto
next
  case (Cons c cs)
  show ?case
  proof (cases "c = d")
    case True
    then have l: "split_on d (c # cs) = [a, b] \<longleftrightarrow> a = [] \<and> split_on d cs = [b]" by auto
    have r: "c # cs = a @ d # b \<and> d \<notin> set a \<and> d \<notin> set b \<longleftrightarrow> a = [] \<and> cs = b \<and> d \<notin> set b"
      using True by (cases a) auto
    show ?thesis unfolding l r split_on_one by blast
  next
    case False
    then have e: "split_on d (c # cs) = (c # hd (split_on d cs)) # tl (split_on d cs)"
      by (rule split_on_Cons_other)
    have "split_on d cs \<noteq> []" by (rule split_on_nonempty)
    then have iff: "split_on d (c # cs) = [a, b] \<longleftrightarrow> (\<exists>p. a = c # p \<and> split_on d cs = [p, b])"
      unfolding e by (cases "split_on d cs") auto
    show ?thesis
    proof
      assume "split_on d (c # cs) = [a, b]"
      then obtain p where "a = c # p" "split_on d cs = [p, b]" using iff by blast
      then show "c # cs = a @ d # b \<and> d \<notin> set a \<and> d \<notin> set b" using Cons.IH[of p] False by simp
    next
      assume h: "c # cs = a @ d # b \<and> d \<notin> set a \<and> d \<notin> set b"
      then obtain p where p: "a = c # p" "cs = p @ d # b" using False by (cases a) auto
      then have "split_on d cs = [p, b]" using Cons.IH[of p] h by simp
      then show "split_on d (c # cs) = [a, b]" using iff p by blast
    qed
  qed
qed

subsection \<open>The e-mail pattern\<close>

lemma dot_inside_iff:
  "list_ex (\<lambda>i. d ! i = CHR ''.'') [1..<length d - 1] \<longleftrightarrow>
   (\<exists>x y. d = x @ CHR ''.'' # y \<and> x \<noteq> [] \<and> y \<noteq> [])"
proof
  assume "list_ex (\<lambda>i. d ! i = CHR ''.'') [1..<length d - 1]"
  then obtain i where i: "1 \<le> i" "i < length d - 1" "d ! i = CHR ''.''" by (auto simp: list_ex_iff)
  have il: "i < length d" using i(2) by linarith
  have "d = take i d @ CHR ''.'' # drop (Suc i) d" using id_take_nth_drop[OF il] i(3) by metis
  moreover have "take i d \<noteq> []" "drop (Suc i) d \<noteq> []" using i il by auto
  ultimately show "\<exists>x y. d = x @ CHR ''.'' # y \<and> x \<noteq> [] \<and> y \<noteq> []" by blast
next
  assume "\<exists>x y. d = x @ CHR ''.'' # y \<and> x \<noteq> [] \<and> y \<noteq> []"
  then obtain x y where "d = x @ CHR ''.'' # y" "x \<noteq> []" "y \<noteq> []" by blast
  then show "list_ex (\<lambda>i. d ! i = CHR ''.'') [1..<length d - 1]"
    by (auto simp: list_ex_iff Suc_le_eq intro!: bexI[of _ "length x"])
qed

lemma dot_not_special: "\<not> js_space (CHR ''.'') \<and> CHR ''.'' \<noteq> CHR ''@''"
  by (simp add: js_space_def)

text \<open>
  C18: The e-mail check of the forgot-password form and the LTP credentials dialog
  accepts exactly the strings of the pattern's language: a local part, \<open>@\<close>, and a domain
  made of two nonempty parts around a dot, each part free of white space and \<open>@\<close>.
\<close>

theorem email_regex_spec:
  "email_regex s \<longleftrightarrow>
   (\<exists>a x y. s = a @ CHR ''@'' # x @ CHR ''.'' # y \<and> email_part a \<and> email_part x \<and> email_part y)"
proof
  assume r: "email_regex s"
  obtain a d where sp: "split_on CHR ''@'' s = [a, d]"
    using r by (auto simp: email_regex_def split: list.splits)
  then have h: "email_part a" "list_all (\<lambda>c. \<not> js_space c) d"
      "list_ex (\<lambda>i. d ! i = CHR ''.'') [1..<length d - 1]"
    using r by (simp_all add: email_regex_def)
  from sp have s: "s = a @ CHR ''@'' # d" and nd: "CHR ''@'' \<notin> set d" by (simp_all add: split_on_two)
  obtain x y where d: "d = x @ CHR ''.'' # y" "x \<noteq> []" "y \<noteq> []"
    using h(3) dot_inside_iff by blast
  have "email_part x" "email_part y"
    using h(2) nd d by (auto simp: email_part_def list_all_iff)
  then show "\<exists>a x y. s = a @ CHR ''@'' # x @ CHR ''.'' # y \<and> email_part a \<and> email_part x \<and> email_part y"
    using s d h(1) by auto
next
  assume "\<exists>a x y. s = a @ CHR ''@'' # x @ CHR ''.'' # y \<and> email_part a \<and> email_part x \<and> email_part y"
  then obtain a x y where s: "s = a @ CHR ''@'' # x @ CHR ''.'' # y"
    and p: "email_part a" "email_part x" "email_part y" by blast
  define d where "d = x @ CHR ''.'' # y"
  have nd: "CHR ''@'' \<notin> set d" "CHR ''@'' \<notin> set a" "list_all (\<lambda>c. \<not> js_space c) d"
    using p dot_not_special unfolding d_def by (auto simp: email_part_def list_all_iff)
  have "split_on CHR ''@'' s = [a, d]" using s nd by (simp add: split_on_two d_def)
  moreover have "list_ex (\<lambda>i. d ! i = CHR ''.'') [1..<length d - 1]"
    unfolding dot_inside_iff d_def using p by (auto simp: email_part_def)
  ultimately show "email_regex s" using p(1) nd(3) by (simp add: email_regex_def)
qed

subsection \<open>The requests of the forms\<close>

text \<open>An action whose success part sends nothing adds exactly its own request to the log.\<close>

lemma api_action_calls:
  assumes "\<And>d c v c'. k d c = Inr (v, c') \<Longrightarrow> cl_calls c' = cl_calls c"
  shows "cl_calls (snd (api_action m u b dflt k c)) = cl_calls c @ [(m, u, b)]"
proof -
  obtain r c1 where n: "next_reply (api_start m u b c) = (r, c1)" by (metis prod.exhaust)
  have c1: "cl_calls c1 = cl_calls c @ [(m, u, b)]"
    using n by (auto simp: next_reply_def api_start_def split: list.splits)
  show ?thesis using c1 assms n
    by (auto simp: api_action_def api_settle_def api_fail_def split: api_reply.split option.split sum.split)
qed

lemma verify_reset_token_calls:
  "cl_calls (snd (verify_reset_token e t c)) = cl_calls c @ [(''GET'', reset_token_url e t, None)]"
proof -
  have "cl_calls (snd (api_action ''GET'' (reset_token_url e t) None ''Invalid or expired reset token''
           (\<lambda>data c. case js_prop data ''valid'' of Inl e \<Rightarrow> Inl e | Inr v \<Rightarrow> Inr (v, c)) c)) =
        cl_calls c @ [(''GET'', reset_token_url e t, None)]"
    by (rule api_action_calls) (auto split: sum.splits)
  then show ?thesis by (auto simp: verify_reset_token_def split: prod.split sum.split)
qed

lemma reset_password_req_calls:
  "cl_calls (snd (reset_password_req e t p c)) =
     cl_calls c @ [(''POST'', ''/api/auth/reset-password'',
                    Some (JObj [(''email'', JStr e), (''token'', JStr t), (''password'', JStr p)]))]"
  unfolding reset_password_req_def by (rule api_action_calls) (simp add: return_data_def)

lemma reset_step_calls:
  "\<exists>new. cl_calls (snd (reset_step e t ev f c)) = cl_calls c @ new \<and> list_all (reset_call_ok e t) new"
proof (cases ev)
  case ResetMount
  then show ?thesis
    using verify_reset_token_calls[of e t c]
    by (auto simp: check_token_def reset_call_ok_def split: prod.split)
next
  case ResetSubmit
  show ?thesis
  proof (cases "reset_view f = ResetFormShown \<and> \<not> reset_locked f c \<and> rf_password f \<noteq> [] \<and>
                rf_confirm f \<noteq> [] \<and> \<not> length (rf_password f) < 8 \<and> rf_password f = rf_confirm f")
    case True
    then show ?thesis using ResetSubmit reset_password_req_calls[of e t "rf_password f" c]
      by (auto simp: reset_submit_def reset_call_ok_def Let_def split: prod.split sum.split)
  next
    case False
    then show ?thesis using ResetSubmit by (auto simp: reset_submit_def Let_def)
  qed
qed auto

lemma reset_run_calls:
  "\<exists>new. cl_calls (snd (reset_run e t evs f c)) = cl_calls c @ new \<and> list_all (reset_call_ok e t) new"
proof (induction evs arbitrary: f c)
  case Nil
  then show ?case by simp
next
  case (Cons ev evs)
  obtain f1 c1 where s: "reset_step e t ev f c = (f1, c1)" by (metis prod.exhaust)
  obtain n1 where n1: "cl_calls c1 = cl_calls c @ n1" "list_all (reset_call_ok e t) n1"
    using reset_step_calls[of e t ev f c] s by auto
  obtain n2 where n2: "cl_calls (snd (reset_run e t evs f1 c1)) = cl_calls c1 @ n2" "list_all (reset_call_ok e t) n2"
    using Cons.IH by blast
  show ?case using s n1 n2 by (intro exI[of _ "n1 @ n2"]) simp
qed

subsection \<open>The LTP dialog after a save\<close>

lemma update_ltp_user:
  assumes "update_ltp_credentials_req n p c = (Inr v, c')" "js_truthy (Some (cl_user c))"
  shows "cl_user c' = user_with ''ltpCredentials''
           (Some (JObj [(''username'', JStr n), (''password'', JStr ''********''), (''updatedAt'', JStr (cl_now c))]))
           (cl_user c)"
proof -
  obtain r c1 where nr: "next_reply (api_start ''POST'' ''/api/auth/update-ltp-credentials''
                           (Some (JObj [(''username'', JStr n), (''password'', JStr p)])) c) = (r, c1)"
    by (metis prod.exhaust)
  have c1: "cl_user c1 = cl_user c" "cl_now c1 = cl_now c"
    using nr by (auto simp: next_reply_def api_start_def split: list.splits)
  show ?thesis using assms nr c1
    by (auto simp: update_ltp_credentials_req_def api_action_def api_settle_def ltp_masked_def
             split: api_reply.splits option.splits if_splits)
qed

lemma ltp_verify_fetch_user: "ltp_verify_fetch e p c = (r, c') \<Longrightarrow> cl_user c' = cl_user c \<and> cl_now c' = cl_now c"
  by (auto simp: ltp_verify_fetch_def next_reply_def Let_def split: list.splits api_reply.splits)

text \<open>
  The dialog stores the credentials through \<open>updateLTPCredentials(email, password)\<close>, which
  keeps them on the user as \<open>username\<close>; the dialog prefills from \<open>ltpCredentials.email\<close>,
  so after its own successful save (the only outcome that leaves no error), a newly mounted
  dialog starts with an empty e-mail.
\<close>

lemma ltp_prefill_after_save:
  assumes "ltp_update cb f c = (f', c')" "lf_error f' = None" "js_truthy (Some (cl_user c))"
  shows "ltp_prefill c' = []"
proof -
  obtain r c2 where v: "ltp_verify_fetch (lf_email f) (lf_password f) c = (r, c2)" by (metis prod.exhaust)
  have u2: "cl_user c2 = cl_user c" using ltp_verify_fetch_user[OF v] by simp
  obtain res c3 where up: "update_ltp_credentials_req (lf_email f) (lf_password f) c2 = (res, c3)"
    by (metis prod.exhaust)
  have ok: "r = None \<and> (\<exists>x. res = Inr x) \<and> c' = c3"
    using assms(1,2) v up by (auto simp: ltp_update_def Let_def split: if_splits option.splits sum.splits)
  then obtain x where "update_ltp_credentials_req (lf_email f) (lf_password f) c2 = (Inr x, c')" using up by auto
  then have "cl_user c' = user_with ''ltpCredentials''
           (Some (JObj [(''username'', JStr (lf_email f)), (''password'', JStr ''********''), (''updatedAt'', JStr (cl_now c2))]))
           (cl_user c2)"
    using update_ltp_user assms(3) u2 by simp
  then show ?thesis by (simp add: ltp_prefill_def user_with_def)
qed

subsection \<open>The forgot-password form after a success\<close>

text \<open>
  Once the form shows its success message the input and the button stay disabled: whatever
  the user does next, no further request is sent.
\<close>

lemma forgot_run_after_success:
  "ff_success f \<noteq> None \<Longrightarrow> cl_calls (snd (forgot_run es f c)) = cl_calls c"
proof (induction es arbitrary: f)
  case Nil
  then show ?case by simp
next
  case (Cons e es)
  then show ?case by (cases e) (auto simp: forgot_locked_def)
qed

end
