(* ===== verification/Navbar.thy ===== *)
theory Navbar
  imports Client
begin

text \<open>
  The site header, \<open>src/app/components/Navbar.tsx\<close>: the mobile menu flag, the scrolled
  flag, the effect that locks the page's scrolling while the menu is open, the links'
  active test and the in-page section links, which navigate to \<open>/\<close> first when the page
  is another one and scroll there 300 ms later. The document's sections are the ids the
  current page has; the window's events (scroll, resize, a press outside the header)
  and the timer are events of a step function. The header shows the sign-in links or
  the user button by \<open>isAuthenticated\<close> of \<open>AuthProvider\<close>.
\<close>

record nav =
  nav_menu_open :: bool
  nav_scrolled :: bool
  nav_body_locked :: bool
  nav_path :: string
  nav_pushed :: "string list"
  nav_timer :: "string option"

definition nav_init :: "string \<Rightarrow> nav" where
  "nav_init p = \<lparr>nav_menu_open = False, nav_scrolled = False, nav_body_locked = False,
                  nav_path = p, nav_pushed = [], nav_timer = None\<rparr>"

text \<open>\<open>isActive(path)\<close>.\<close>

definition nav_active :: "string \<Rightarrow> string \<Rightarrow> bool" where
  "nav_active pathname path =
     (if path = ''/'' then pathname = ''/''
      else if prefix ''/#'' path then False
      else prefix path pathname)"

definition toggle_menu :: "nav \<Rightarrow> nav" where
  "toggle_menu n = n\<lparr>nav_menu_open := \<not> nav_menu_open n\<rparr>"

definition close_menu :: "nav \<Rightarrow> nav" where
  "close_menu n = n\<lparr>nav_menu_open := False\<rparr>"

definition handle_scroll :: "int \<Rightarrow> nav \<Rightarrow> nav" where
  "handle_scroll y n = n\<lparr>nav_scrolled := 20 < y\<rparr>"

definition handle_resize :: "int \<Rightarrow> nav \<Rightarrow> nav" where
  "handle_resize w n = (if 768 \<le> w \<and> nav_menu_open n then n\<lparr>nav_menu_open := False\<rparr> else n)"

text \<open>A press on the document; \<open>inside\<close> tells whether its target lies in the header.\<close>

definition handle_click_outside :: "bool \<Rightarrow> nav \<Rightarrow> nav" where
  "handle_click_outside inside n = (if nav_menu_open n \<and> \<not> inside then n\<lparr>nav_menu_open := False\<rparr> else n)"

text \<open>The effect on \<open>isMenuOpen\<close>: \<open>document.body.style.overflow\<close> is \<open>hidden\<close> while the menu is open.\<close>

definition body_lock :: "nav \<Rightarrow> nav" where
  "body_lock n = n\<lparr>nav_body_locked := nav_menu_open n\<rparr>"

text \<open>
  \<open>scrollToSection\<close> on a page whose sections are \<open>secs\<close>: on another page, push \<open>/\<close> and
  arm the timer; on \<open>/\<close>, scroll to the section if it exists and close the menu.
\<close>

definition scroll_to_section :: "string list \<Rightarrow> string \<Rightarrow> nav \<Rightarrow> nav" where
  "scroll_to_section secs sid n =
     (if nav_path n \<noteq> ''/'' then n\<lparr>nav_pushed := nav_pushed n @ [''/''], nav_path := ''/'', nav_timer := Some sid\<rparr>
      else if sid \<in> set secs then n\<lparr>nav_menu_open := False\<rparr> else n)"

text \<open>The timer, 300 ms later, looks the section up in the page shown by then.\<close>

definition section_timer :: "string list \<Rightarrow> nav \<Rightarrow> nav" where
  "section_timer secs n =
     (case nav_timer n of
        None \<Rightarrow> n
      | Some sid \<Rightarrow> (if sid \<in> set secs then n\<lparr>nav_menu_open := False, nav_timer := None\<rparr>
                     else n\<lparr>nav_timer := None\<rparr>))"

datatype nav_event =
    NavToggle | NavClose | NavScroll int | NavResize int | NavPress bool
  | NavSection string | NavTimer

text \<open>One event, then the lock effect; \<open>secs\<close> are the section ids of the page shown.\<close>

fun nav_step :: "string list \<Rightarrow> nav_event \<Rightarrow> nav \<Rightarrow> nav" where
  "nav_step secs NavToggle n = body_lock (toggle_menu n)"
| "nav_step secs NavClose n = body_lock (close_menu n)"
| "nav_step secs (NavScroll y) n = body_lock (handle_scroll y n)"
| "nav_step secs (NavResize w) n = body_lock (handle_resize w n)"
| "nav_step secs (NavPress inside) n = body_lock (handle_click_outside inside n)"
| "nav_step secs (NavSection sid) n = body_lock (scroll_to_section secs sid n)"
| "nav_step secs NavTimer n = body_lock (section_timer secs n)"

fun nav_run :: "string list \<Rightarrow> nav_event list \<Rightarrow> nav \<Rightarrow> nav" where
  "nav_run secs [] n = n"
| "nav_run secs (e # es) n = nav_run secs es (nav_step secs e n)"

datatype nav_auth = SignLinks | UserButton

definition nav_auth_view :: "client \<Rightarrow> nav_auth" where
  "nav_auth_view c = (if is_authenticated c then UserButton else SignLinks)"

subsection \<open>Lemmas\<close>

lemma nav_step_locked: "nav_body_locked (nav_step secs e n) = nav_menu_open (nav_step secs e n)"
  by (cases e) (simp_all add: body_lock_def)

text \<open>After any sequence of events the page scroll is locked exactly while the menu is open.\<close>

lemma nav_run_locked:
  "nav_body_locked n = nav_menu_open n \<Longrightarrow> nav_body_locked (nav_run secs es n) = nav_menu_open (nav_run secs es n)"
  by (induction es arbitrary: n) (simp_all add: nav_step_locked)

text \<open>Widening the window to the desktop breakpoint always closes the menu.\<close>

lemma nav_resize_closes: "768 \<le> w \<Longrightarrow> \<not> nav_menu_open (nav_step secs (NavResize w) n)"
  by (simp add: body_lock_def handle_resize_def)

text \<open>A path is active only if it is a prefix of the current path; section links never are.\<close>

lemma nav_active_prefix: "nav_active p q \<Longrightarrow> prefix q p \<and> \<not> prefix ''/#'' q"
  by (auto simp: nav_active_def split: if_splits)

end
