(* ===== verification/DashboardVoice.thy ===== *)
theory DashboardVoice
  imports Dashboard
begin

text \<open>
  Voice input and the remaining page-level handlers of \<open>src/app/dashboard/page.tsx\<close>: the
  Web Speech recognition callbacks set up on mount, \<open>startListening\<close>, \<open>toggleListening\<close>
  and its keyboard shortcut, the 10-second auto-stop timer, the 1-second timer that
  submits a final transcript, the chat container's scroll flag, the forced render after
  3 seconds of authentication loading, and the input's change handler.

  What the browser provides is a parameter: whether \<open>SpeechRecognition\<close> exists (the
  mount effect then stores a recognizer) and whether the microphone may be opened
  (\<open>startAudioVisualization\<close> throws otherwise). A timer stores the values its callback
  closes over, as the JavaScript closure does, and fires as a separate event.
\<close>

record voice =
  v_recognition :: bool
  v_auto_stop :: "(bool \<times> string) option"
  v_submit_timer :: "string option"
  v_alerts :: "string list"
  v_show_scroll_top :: bool
  v_force_render :: bool

definition voice_init :: "bool \<Rightarrow> voice" where
  "voice_init supported = \<lparr>v_recognition = supported, v_auto_stop = None, v_submit_timer = None,
                           v_alerts = [], v_show_scroll_top = False, v_force_render = False\<rparr>"

definition unsupported_alert :: string where
  "unsupported_alert =
     ''Speech recognition is not supported in your browser. Please try using Chrome, Edge, or Safari.''"

definition microphone_alert :: string where
  "microphone_alert =
     ''Could not access microphone. Please check your microphone permissions and try again.''"

text \<open>
  \<open>startListening\<close>: stop speaking; without a recognizer, alert; if the microphone cannot be
  opened, alert and stop; otherwise listen and arm the auto-stop timer, whose callback
  reads \<open>isListening\<close> and \<open>input\<close> as they were when \<open>startListening\<close> was called.
\<close>

definition start_listening :: "bool \<Rightarrow> voice \<Rightarrow> dash \<Rightarrow> voice \<times> dash" where
  "start_listening mic v st =
     (let st1 = stop_speech st in
      if \<not> v_recognition v then (v\<lparr>v_alerts := v_alerts v @ [unsupported_alert]\<rparr>, st1)
      else if \<not> mic then (v\<lparr>v_alerts := v_alerts v @ [microphone_alert]\<rparr>, st1\<lparr>d_listening := False\<rparr>)
      else (v\<lparr>v_auto_stop := Some (d_listening st, d_input st)\<rparr>, st1\<lparr>d_listening := True\<rparr>))"

text \<open>The auto-stop timer, 10 seconds later: \<open>if (isListening && input.trim() === '') stopListening()\<close>.\<close>

definition auto_stop_fires :: "voice \<Rightarrow> dash \<Rightarrow> voice \<times> dash" where
  "auto_stop_fires v st =
     (case v_auto_stop v of
        None \<Rightarrow> (v, st)
      | Some (listening, inp) \<Rightarrow>
          (v\<lparr>v_auto_stop := None\<rparr>, if listening \<and> js_trim inp = [] then stop_listening st else st))"

text \<open>
  \<open>toggleListening(e)\<close>: the ripple reads \<open>e.currentTarget\<close> first, which throws when the
  function is called without an event; then it stops or starts listening.
\<close>

definition toggle_listening :: "bool \<Rightarrow> bool \<Rightarrow> voice \<Rightarrow> dash \<Rightarrow> exn + voice \<times> dash" where
  "toggle_listening has_event mic v st =
     (if \<not> has_event then Inl (TypeError ''Cannot read properties of undefined (reading 'currentTarget')'')
      else if d_listening st then Inr (v, stop_listening st)
      else Inr (start_listening mic v st))"

text \<open>\<open>handleKeyPress\<close>: Enter submits, Shift+Enter is left to the text area, Alt+M calls \<open>toggleListening()\<close>.\<close>

definition key_press :: "string \<Rightarrow> bool \<Rightarrow> bool \<Rightarrow> bool \<Rightarrow> voice \<Rightarrow> dash \<Rightarrow> exn + voice \<times> dash" where
  "key_press k shift alt mic v st =
     (case handle_key k shift alt of
        SubmitKey \<Rightarrow> Inr (v, handle_submit None st)
      | ToggleMic \<Rightarrow> toggle_listening False mic v st
      | _ \<Rightarrow> Inr (v, st))"

text \<open>The recognizer's callbacks, installed on mount.\<close>

definition rec_start :: "dash \<Rightarrow> dash" where
  "rec_start st = st\<lparr>d_listening := True\<rparr>"

definition rec_end :: "dash \<Rightarrow> dash" where
  "rec_end st = st\<lparr>d_listening := False\<rparr>"

definition rec_error :: "dash \<Rightarrow> dash" where
  "rec_error st = st\<lparr>d_listening := False\<rparr>"

text \<open>\<open>onresult\<close>: the transcripts joined become the input; a final result arms the submit timer.\<close>

definition rec_result :: "string list \<Rightarrow> bool \<Rightarrow> voice \<Rightarrow> dash \<Rightarrow> voice \<times> dash" where
  "rec_result ts final v st =
     (let tr = concat ts in
      (if final then v\<lparr>v_submit_timer := Some tr\<rparr> else v, st\<lparr>d_input := tr\<rparr>))"

text \<open>The submit timer: a non-blank transcript dispatches \<open>submit\<close> on the form, that is \<open>handleSubmit\<close>.\<close>

definition submit_timer_fires :: "voice \<Rightarrow> dash \<Rightarrow> voice \<times> dash" where
  "submit_timer_fires v st =
     (case v_submit_timer v of
        None \<Rightarrow> (v, st)
      | Some tr \<Rightarrow> (v\<lparr>v_submit_timer := None\<rparr>, if js_trim tr \<noteq> [] then handle_submit None st else st))"

definition chat_scroll :: "int \<Rightarrow> voice \<Rightarrow> voice" where
  "chat_scroll pos v = v\<lparr>v_show_scroll_top := 300 < pos\<rparr>"

text \<open>The 3-second timer armed whenever the authentication state changes.\<close>

definition force_render_timer :: "bool \<Rightarrow> voice \<Rightarrow> voice" where
  "force_render_timer auth_loading v = (if auth_loading then v\<lparr>v_force_render := True\<rparr> else v)"

definition input_change :: "string \<Rightarrow> dash \<Rightarrow> dash" where
  "input_change s st = st\<lparr>d_input := s\<rparr>"

subsection \<open>The auto-stop timer and the shortcut\<close>

lemma toggle_starts_with_stale_flag:
  assumes "toggle_listening True mic v st = Inr (v1, st1)" "\<not> d_listening st"
  shows "v_auto_stop v1 = v_auto_stop v \<or> v_auto_stop v1 = Some (False, d_input st)"
  using assms by (auto simp: toggle_listening_def start_listening_def Let_def split: if_splits)

text \<open>
  The auto-stop timer armed by the microphone button never stops listening: the button
  only starts listening when \<open>isListening\<close> is false, and the timer's callback reads that
  value, not the current one. Whatever happens in between, when it fires the page's
  state is left as it is.
\<close>

lemma auto_stop_never_stops:
  assumes "toggle_listening True mic v st = Inr (v1, st1)" "\<not> d_listening st"
    and "v_auto_stop v = None" "v_auto_stop v2 = v_auto_stop v1"
  shows "snd (auto_stop_fires v2 st2) = st2"
proof -
  have "v_auto_stop v2 = None \<or> v_auto_stop v2 = Some (False, d_input st)"
    using toggle_starts_with_stale_flag[OF assms(1,2)] assms(3,4) by auto
  then show ?thesis by (auto simp: auto_stop_fires_def)
qed

text \<open>The Alt+M shortcut calls \<open>toggleListening()\<close> without an event and always throws.\<close>

lemma alt_m_throws: "\<exists>e. key_press ''m'' False True mic v st = Inl e"
  by (simp add: key_press_def handle_key_def toggle_listening_def)

lemma start_listening_listens:
  "v_recognition v \<Longrightarrow> mic \<Longrightarrow> d_listening (snd (start_listening mic v st)) \<and> \<not> d_speaking (snd (start_listening mic v st))"
  by (simp add: start_listening_def stop_speech_def Let_def)

end
