(* ===== verification/Mailer.thy ===== *)
theory Mailer
  imports Auth
begin

text \<open>
  The mail transport of \<open>src/lib/email.ts\<close> in detail: \<open>createTransporter\<close>, which caches
  its result in the module variable \<open>transporter\<close>, chooses an SMTP transport when
  \<open>EMAIL_SERVER\<close> and \<open>EMAIL_FROM\<close> are set (and verifies the connection, only logging a
  failure), and otherwise creates an Ethereal test account; and the send functions,
  which create or reuse the transport and then call \<open>sendMail\<close>. The routes of \<open>Auth\<close> use
  the abstract \<open>mail_send\<close> of \<open>Http\<close>, one awaited call per message; the refinement
  lemma below shows that the detailed sender is that call once a transport is cached.

  The awaited calls to the outside (\<open>transporter.verify()\<close>,
  \<open>nodemailer.createTestAccount()\<close>, \<open>sendMail\<close>) each take the next outcome of the
  world's fault script. \<open>Number(...)\<close> of the port variable is a parameter of the
  configuration (\<open>None\<close> for \<open>NaN\<close>). The HTML bodies of the messages are not modelled;
  a message is its kind, recipient and variable content, as in \<open>Http\<close>.
\<close>

record mail_cfg =
  email_server :: "string option"
  email_from :: "string option"
  email_host :: "string option"
  email_port :: "string option"
  email_secure :: "string option"
  email_user :: "string option"
  email_pass :: "string option"
  js_number :: "string option \<Rightarrow> int option"

datatype transport =
    Smtp "string option" int bool "string option" "string option"
  | Ethereal

text \<open>\<open>Number(process.env.EMAIL_SERVER_PORT) || 587\<close>: \<open>NaN\<close> and \<open>0\<close> are falsy.\<close>

definition smtp_port :: "mail_cfg \<Rightarrow> int" where
  "smtp_port cfg = (case js_number cfg (email_port cfg) of Some n \<Rightarrow> if n = 0 then 587 else n | None \<Rightarrow> 587)"

definition env_truthy :: "string option \<Rightarrow> bool" where
  "env_truthy v \<longleftrightarrow> (case v of Some s \<Rightarrow> s \<noteq> [] | None \<Rightarrow> False)"

text \<open>\<open>createTransporter\<close>: the cached transport, a new SMTP one, or a test account.\<close>

definition create_transporter ::
  "mail_cfg \<Rightarrow> transport option \<Rightarrow> world \<Rightarrow> (exn + transport) \<times> transport option \<times> world" where
  "create_transporter cfg cache w =
     (case cache of
        Some t \<Rightarrow> (Inr t, cache, w)
      | None \<Rightarrow>
          if env_truthy (email_server cfg) \<and> env_truthy (email_from cfg) then
            (let t = Smtp (email_host cfg) (smtp_port cfg) (email_secure cfg = Some ''true'')
                          (email_user cfg) (email_pass cfg);
                 (_, w1) = next_outcome w
             in (Inr t, Some t, w1))
          else
            (case next_outcome w of
               (Fail m, w1) \<Rightarrow> (Inl (Error m), None, w1)
             | (_, w1) \<Rightarrow> (Inr Ethereal, Some Ethereal, w1)))"

text \<open>
  A send function (\<open>sendVerificationEmail\<close>, \<open>sendWelcomeEmail\<close>,
  \<open>sendPasswordResetEmail\<close>): the transport, then \<open>sendMail\<close>; every error is rethrown.
\<close>

definition send_mail_via ::
  "mail_cfg \<Rightarrow> string \<Rightarrow> jval \<Rightarrow> string \<Rightarrow> transport option \<Rightarrow> world \<Rightarrow>
   (exn + unit) \<times> transport option \<times> world" where
  "send_mail_via cfg kind to content cache w =
     (case create_transporter cfg cache w of
        (Inl e, cache1, w1) \<Rightarrow> (Inl e, cache1, w1)
      | (Inr _, cache1, w1) \<Rightarrow> (case mail_send kind to content w1 of (r, w2) \<Rightarrow> (r, cache1, w2)))"

subsection \<open>Lemmas\<close>

text \<open>Once a transport is cached, sending a message is exactly the abstract \<open>mail_send\<close>.\<close>

lemma send_mail_via_cached:
  "send_mail_via cfg kind to content (Some t) w =
     (fst (mail_send kind to content w), Some t, snd (mail_send kind to content w))"
  by (simp add: send_mail_via_def create_transporter_def split: prod.split)

text \<open>The cache is never emptied, and it holds a transport after every successful send.\<close>

lemma send_mail_via_cache:
  "send_mail_via cfg kind to content cache w = (r, cache', w') \<Longrightarrow>
   (cache \<noteq> None \<longrightarrow> cache' = cache) \<and> (r = Inr () \<longrightarrow> cache' \<noteq> None)"
  by (auto simp: send_mail_via_def create_transporter_def Let_def
           split: option.splits prod.splits if_splits outcome.splits sum.splits)

text \<open>
  With \<open>EMAIL_SERVER\<close> and \<open>EMAIL_FROM\<close> set, a failed connection check is ignored: the
  SMTP transport is cached and used, and the first message is sent regardless.
\<close>

lemma smtp_verify_failure_ignored:
  assumes "env_truthy (email_server cfg)" "env_truthy (email_from cfg)" "faults w = Fail m # fs"
  shows "send_mail_via cfg kind to content None w =
           (fst (mail_send kind to content (w\<lparr>faults := fs\<rparr>)),
            Some (Smtp (email_host cfg) (smtp_port cfg) (email_secure cfg = Some ''true'') (email_user cfg) (email_pass cfg)),
            snd (mail_send kind to content (w\<lparr>faults := fs\<rparr>)))"
  using assms by (simp add: send_mail_via_def create_transporter_def next_outcome_def Let_def split: prod.split)

text \<open>The SMTP host is \<open>EMAIL_SERVER_HOST\<close>: \<open>EMAIL_SERVER\<close> only decides between SMTP and a test account.\<close>

lemma smtp_host_ignores_server:
  "env_truthy (email_server cfg) \<Longrightarrow> env_truthy (email_from cfg) \<Longrightarrow>
   fst (create_transporter cfg None w) = Inr (Smtp (email_host cfg) (smtp_port cfg) (email_secure cfg = Some ''true'') (email_user cfg) (email_pass cfg))"
  by (simp add: create_transporter_def Let_def split: prod.split)

end
