(* ===== verification/Spec2Isabelle.thy ===== *)
theory Spec2Isabelle
  imports TradeApi ScenarioDialog Forms Navbar DashboardVoice Mailer
begin

text \<open>
  \<^bold>\<open>A verification library for DaddysAi.\<close>

  \<^medskip>
  \<^bold>\<open>The program.\<close> DaddysAi is a Next.js application: a trading assistant with a chat
  page, an account system and a trade journal. Its parts, and how they meet:
  \<^item> the trades API (\<open>src/app/api/trades\<close>, \<open>src/app/lib/mongodb.ts\<close>): trades and their
    audit ledger in two MongoDB collections;
  \<^item> the account routes (\<open>src/app/api/auth\<close>): e-mail verification by one-time code,
    password reset by an e-mailed token, and the user's LTP calculator credentials;
  \<^item> the LTP proxy (\<open>src/app/api/ltp-calculator\<close>): option data from an external service,
    behind a rate limiter, with the caller's or the server's credentials;
  \<^item> the chat proxy (\<open>src/app/api/chat/route.ts\<close>): forwards a conversation to OpenRouter
    and cleans the answer;
  \<^item> the browser side: \<open>AuthProvider\<close> (\<open>src/app/contexts/AuthContext.tsx\<close>) calls the
    account routes; the dashboard (\<open>src/app/dashboard/page.tsx\<close>) calls the chat and LTP
    routes and hosts the market-data dialog; the account forms call \<open>AuthProvider\<close>.

  \<^medskip>
  \<^bold>\<open>Theories\<close> (each opens with a text block saying what it models and how).
  \<^item> \<open>Prelude\<close>: \<open>remove_first\<close> and \<open>map_first\<close> (the list effects of \<open>deleteOne\<close> and
    \<open>updateOne\<close>), \<open>map_throw\<close> (\<open>xs.map(f)\<close> with a throwing callback), integer remainders.
  \<^item> \<open>Json\<close>: JSON values, documents as association lists, JS truthiness, the \<open>exn\<close> type of
    thrown errors, property reads that throw on \<open>null\<close>, number and ObjectId printing.
  \<^item> \<open>MongoStore\<close>, \<open>Ledger\<close>, \<open>Trades\<close>, \<open>TradeApi\<close>: the store as a world record with a
    fault script (each awaited call consumes an outcome: \<open>Ok\<close>, \<open>Fail m\<close> throwing
    \<open>Error m\<close>, or an unacknowledged write), the driver calls, \<open>saveTradeToLedger\<close>, the
    five trade handlers (every early return and \<open>catch\<close> a branch) and runs of requests.
    Claims C1 to C17 (handler behaviour, an append-only ledger, valid trades, isolation
    of users, and the concrete runs at the end of this theory).
  \<^item> \<open>Http\<close>, \<open>Auth\<close>: responses, cookies, JWT signing and verification as data, and the
    account routes; the reset link read back (C20), and that a session cookie needs the
    emailed code and is issued once per code (C21, C22).
  \<^item> \<open>Ltp\<close>: the historical and verify routes with the module variable \<open>lastRequestTime\<close>,
    Basic authorization read back (C23), the limiter as a refinement of a 2000 ms spacing
    (C24, C25), admission (C26), and two reasons stored credentials are never used
    (C27, C28).
  \<^item> \<open>Chat\<close>: the body checks, the completion call and the regular-expression clean-up as
    scanning functions; the \<open>think\<close> matcher equals the regex semantics (C29), at most
    one asterisk per line survives (C30), the answer shape and the key error (C31--C34).
  \<^item> \<open>Client\<close>: \<open>AuthProvider\<close>'s state and actions as steps answered by a reply script, and
    the reachable states of interleaved actions (an inductive relation); loading is never
    stuck (C35), verification composes with the route (C36), login failure (C37), and a
    late mount check signs the user out (C38).
  \<^item> \<open>Dashboard\<close>: the chat page's state and handlers; the historical URL the route refuses
    (C39) and the translation retry loop, a \<open>while_option\<close> that ends after at most three
    requests (C40).
  \<^item> \<open>DashboardVoice\<close>: voice input on the chat page (the recognizer's callbacks,
    \<open>startListening\<close>, \<open>toggleListening\<close> and its Alt+M shortcut, the auto-stop and submit
    timers with the values their closures captured) and the page's remaining flags; the
    auto-stop timer never stops listening (\<open>auto_stop_never_stops\<close>) and the shortcut
    always throws (\<open>alt_m_throws\<close>).
  \<^item> \<open>ScenarioDialog\<close>: the market-data dialog, with dates as day numbers (proleptic
    Gregorian, as \<open>Date\<close>) and the browser's time zone as a fixed offset in minutes; every
    control is a handler of \<open>dialog_step\<close>. East of UTC holidays are flagged a day late
    (C19); the submitted date depends on the time zone (lemmas \<open>submit_after_pick\<close>,
    \<open>display_after_pick\<close>, and \<open>dialog_run_by_timezone\<close> below).
  \<^item> \<open>Forms\<close>: the forgot-password and reset-password forms with their pages and the LTP
    credentials dialog, composed with \<open>Client\<close>; the e-mail check equals its regex (C18), the
    reset form only sends passwords of at least 8 characters (\<open>reset_run_calls\<close>), and the
    LTP dialog's prefill misses the saved credentials (\<open>ltp_prefill_after_save\<close>).
  \<^item> \<open>Mailer\<close>: \<open>createTransporter\<close> with its module-level cache and the send functions of
    \<open>src/lib/email.ts\<close>; once a transport is cached a send is the one-call \<open>mail_send\<close>
    the routes use (\<open>send_mail_via_cached\<close>), and a failed SMTP check is ignored.
  \<^item> \<open>Navbar\<close>: the header's menu, scroll, resize and outside-press handlers, the effect
    that locks page scrolling while the menu is open (\<open>nav_run_locked\<close>), the section
    links with their 300 ms timer, and the auth buttons by \<open>isAuthenticated\<close>.
  \<^item> This theory: example worlds and configurations, a witness for each claim with a
    hypothesis, and concrete runs that exhibit behaviours the specification does not
    expect.

  \<^medskip>
  \<^bold>\<open>External services, bounds and fuel.\<close> The database, the LTP service, OpenRouter, the
  translation service and the server seen from the browser are scripts of replies with
  a log of the requests they received; the theorems hold for every script. No model
  needs fuel: handlers are finite compositions; the regex scanners terminate by the
  length of the string; \<open>back_to_thursday\<close> takes at most six steps (measure
  \<open>n mod 7\<close>, and \<open>back_to_thursday_eq\<close> gives its closed form); the translation loop is a
  \<open>while_option\<close> whose termination is proved with the measure of remaining retries
  (\<open>maxRetries = 2\<close>, so at most three attempts).

  \<^medskip>
  \<^bold>\<open>Not modelled.\<close>
  \<^item> Modelled from the specification: \<open>validateTrade\<close> and the user-model helpers
    (\<open>src/app/models\<close>, \<open>src/lib/models\<close> are not in the repository).
  \<^item> The HTML of the e-mail templates of \<open>src/lib/email.ts\<close> (the transport, the sending
    call and its failure are modelled), and the marketing pages and components (\<open>src/app/about\<close>,
    \<open>blog\<close>, \<open>careers\<close>, \<open>contact\<close>, \<open>faq\<close>, \<open>Features\<close>, \<open>Footer\<close>, \<open>StockVisualization\<close>):
    static rendering and links with no state that a property could be about.
  \<^item> On the dashboard: rendering, the audio visualiser, the ripple and glow effects,
    scrolling and animation; the long system prompts are abbreviated.
  \<^item> Concurrency of server requests: they are served one at a time; the interleaving of
    client actions is modelled in \<open>Client\<close>.
\<close>

section \<open>Example worlds\<close>

text \<open>
  A request environment whose clock reads 2025-01-01T10:00:00Z and whose \<open>Date\<close>
  parser accepts every string, and a world with a given fault script and trades
  collection (the ledger and users empty, the ObjectId counter at 0).
\<close>

definition demo_env :: js_env where
  "demo_env =
     \<lparr>now_ms = 1735725600000,
      iso_of = (\<lambda>t. ''2025-01-01T10:00:00.000Z''),
      parse_date = (\<lambda>v. case v of Some (JStr _) \<Rightarrow> Some 1735725600000 | _ \<Rightarrow> None)\<rparr>"

definition demo_world :: "outcome list \<Rightarrow> doc list \<Rightarrow> world" where
  "demo_world fs ts =
     \<lparr>store = (\<lambda>c. if c = Trades then ts else []), next_oid = 0, faults = fs, env = demo_env, outbox = []\<rparr>"

definition demo_trade :: doc where
  "demo_trade =
     [(''id'', JStr ''t1''), (''userId'', JStr ''u1''), (''symbol'', JStr ''NIFTY''),
      (''side'', JStr ''BUY''), (''quantity'', JNum 50), (''price'', JNum 100),
      (''timestamp'', JStr ''2025-01-01T10:00:00Z'')]"

definition demo_update :: doc where
  "demo_update = doc_set demo_trade ''price'' (JNum 120)"

definition demo_run :: "request list" where
  "demo_run =
     [CreateTrade (Some (JObj (doc_set demo_trade ''id'' (JStr ''t2'')))),
      UpdateTrade ''t1'' (Some (JObj demo_update)),
      DeleteTrade ''t2'' (Some ''u1''), ListTrades (Some ''u1'')]"

text \<open>
  A server configuration with its own signing key, a user who has been sent the
  code 123456 (valid for ten minutes from the clock of \<open>demo_env\<close>), and a world
  holding users only.
\<close>

definition demo_cfg :: server_cfg where
  "demo_cfg =
     \<lparr>jwt_secret_var = Some ''k3y'', nextauth_url = Some ''https://daddysai.app'',
      ltp_username_var = Some ''envuser'', ltp_password_var = Some ''envpass''\<rparr>"

definition demo_user :: doc where
  "demo_user =
     [(''_id'', JOid 7), (''email'', JStr ''ann@x.io''), (''username'', JStr ''ann''),
      (''isVerified'', JBool False),
      (''verificationOTP'', JObj [(''code'', JStr ''123456''), (''expiresAt'', JDate 1735726200000)])]"

definition users_world :: "outcome list \<Rightarrow> doc list \<Rightarrow> world" where
  "users_world fs us =
     \<lparr>store = (\<lambda>c. if c = Users then us else []), next_oid = 8, faults = fs, env = demo_env, outbox = []\<rparr>"

definition demo_verify :: "jval option" where
  "demo_verify = Some (JObj [(''email'', JStr ''ann@x.io''), (''otp'', JStr ''123456'')])"

text \<open>
  A historical-data request with all parameters, and an LTP service that answers once
  with a direction, for a limiter that has never admitted a request.
\<close>

definition demo_query :: ltp_query where
  "demo_query =
     \<lparr>q_symbol = None, q_expiry = Some ''26-06-2025'', q_lot_size = None,
      q_fetch_date = Some ''2025-06-20'', q_fetch_time = Some ''10''\<rparr>"

definition demo_ltp :: ltp_world where
  "demo_ltp =
     \<lparr>last_request_time = 0, upstream = [Reply 200 (Some (JObj [(''direction'', JStr ''UP'')]))], sent = []\<rparr>"

text \<open>
  A chat request with one user message, a server without \<open>OPENROUTER_API_KEY\<close>, and a
  completion service that answers once with a well-formed completion.
\<close>

definition demo_chat_cfg :: chat_cfg where
  "demo_chat_cfg =
     \<lparr>openrouter_var = None,
      json_parse = (\<lambda>t. if t = ''{choices}''
                         then Some (JObj [(''choices'', JArr [JObj [(''message'', JObj [(''content'', JStr ''Hold.'')])]])])
                         else None)\<rparr>"

definition demo_chat_req :: "jval option" where
  "demo_chat_req =
     Some (JObj [(''messages'', JArr [JObj [(''role'', JStr ''user''), (''content'', JStr ''Nifty?'')]]),
                 (''systemPrompt'', JStr ''You are Daddy AI'')])"

definition demo_chat_world :: chat_world where
  "demo_chat_world = \<lparr>completions = [Completion 200 ''{choices}''], requests = []\<rparr>"

lemmas demo_chat_simps = demo_chat_cfg_def demo_chat_req_def demo_chat_world_def

text \<open>
  The clicks of a user of the market-data dialog: historical data, an expiry, day 20 of the
  month shown (June 2025, opened on 2025-06-24), market open, apply.
\<close>

definition demo_clicks :: "dialog_event list" where
  "demo_clicks = [ChooseHistorical, SelectExpiry ''26-06-2025'', ToggleCalendar, CalendarDay 20,
                  TimePreset ''09:15:00'', Submit]"

definition demo_june_24 :: int where
  "demo_june_24 = 1750759200000"

definition demo_aug_28 :: int where
  "demo_aug_28 = 1756375200000"

lemmas demo_simps = demo_world_def demo_env_def demo_trade_def demo_update_def
  connect_to_database_def await_client_def next_outcome_def find_one_def find_where_def
  find_all_def matches_def owner_filter_def truthy_param_def
  insert_one_def assign_id_def id_taken_def set_coll_def update_one_def delete_one_def
  js_val_def save_trade_to_ledger_def save_ledger_try_def trade_date_of_def ledger_entry_def
  deletion_record_def updated_record_def spread_def js_prop_def
  validate_trade_def trade_checks_def is_str_def is_nonneg_num_def Let_def create_failed_def
  demo_cfg_def demo_user_def users_world_def demo_verify_def

section \<open>Witnesses\<close>

text \<open>The demo user's code signs them in.\<close>

lemma demo_verify_signs_in: "set_cookies (fst (verify_otp demo_cfg demo_verify (users_world [] [demo_user]))) \<noteq> []"
  by (simp add: verify_otp_def complete_verification_def verified_response_def otp_rejected_def
                body_obj_def date_of_def field_of_def by_id_def update_one_unset_def
                send_welcome_email_def mail_send_def js_to_string_def demo_simps)

theorem get_trade_owner_only_witness:
  "status (fst (get_trade ''t1'' (Some ''u1'') (demo_world [] [demo_trade]))) = 200 \<and>
   (\<exists>t. body (fst (get_trade ''t1'' (Some ''u1'') (demo_world [] [demo_trade]))) = [(''trade'', JObj t)] \<and>
        t \<in> set (store (demo_world [] [demo_trade]) Trades) \<and>
        doc_get t ''userId'' = Some (JStr ''u1'') \<and> doc_get t ''id'' = Some (JStr ''t1''))"
proof -
  have s: "status (fst (get_trade ''t1'' (Some ''u1'') (demo_world [] [demo_trade]))) = 200"
    by (simp add: get_trade_def demo_simps)
  show ?thesis
    using s Trades.get_trade_owner_only [of "''t1''" "''u1''" "demo_world [] [demo_trade]"
      "fst (get_trade ''t1'' (Some ''u1'') (demo_world [] [demo_trade]))"
      "snd (get_trade ''t1'' (Some ''u1'') (demo_world [] [demo_trade]))"] by simp
qed

theorem post_trade_rejects_missing_witness:
  "''price'' \<in> set (map fst trade_checks) \<and> doc_get (filter (\<lambda>(k, _). k \<noteq> ''price'') demo_trade) ''price'' = None \<and>
   post_trade (Some (JObj (filter (\<lambda>(k, _). k \<noteq> ''price'') demo_trade))) (demo_world [] []) =
     (invalid_trade (validate_trade (JObj (filter (\<lambda>(k, _). k \<noteq> ''price'') demo_trade))), demo_world [] [])"
  using Trades.post_trade_rejects_missing [of "''price''" "filter (\<lambda>(k, _). k \<noteq> ''price'') demo_trade" "demo_world [] []"]
  by (simp add: trade_checks_def demo_trade_def)

theorem put_trade_rejects_missing_witness:
  "''price'' \<in> set (map fst trade_checks) \<and>
   doc_get (filter (\<lambda>(k, _). k \<noteq> ''price'') demo_trade) ''price'' = None \<and> ''t1'' \<noteq> [] \<and>
   status (fst (put_trade ''t1'' (Some (JObj (filter (\<lambda>(k, _). k \<noteq> ''price'') demo_trade))) (demo_world [] [demo_trade]))) = 400 \<and>
   snd (put_trade ''t1'' (Some (JObj (filter (\<lambda>(k, _). k \<noteq> ''price'') demo_trade))) (demo_world [] [demo_trade])) =
     demo_world [] [demo_trade]"
  using Trades.put_trade_rejects_missing [of "''price''" "filter (\<lambda>(k, _). k \<noteq> ''price'') demo_trade" "''t1''"
      "demo_world [] [demo_trade]"
      "fst (put_trade ''t1'' (Some (JObj (filter (\<lambda>(k, _). k \<noteq> ''price'') demo_trade))) (demo_world [] [demo_trade]))"
      "snd (put_trade ''t1'' (Some (JObj (filter (\<lambda>(k, _). k \<noteq> ''price'') demo_trade))) (demo_world [] [demo_trade]))"]
  by (simp add: trade_checks_def demo_trade_def)

theorem get_trades_sorted_witness:
  "status (fst (get_trades (Some ''u1'') (demo_world [] [demo_trade]))) = 200 \<and>
   (\<exists>ts. body (fst (get_trades (Some ''u1'') (demo_world [] [demo_trade]))) = [(''trades'', JArr (map JObj ts))] \<and>
         mset ts = mset (filter (matches [(''userId'', JStr ''u1'')]) (store (demo_world [] [demo_trade]) Trades)) \<and>
         sorted_wrt (\<ge>) (map (sort_key_of [''timestamp'']) ts))"
proof -
  have s: "status (fst (get_trades (Some ''u1'') (demo_world [] [demo_trade]))) = 200"
    by (simp add: get_trades_def demo_simps)
  show ?thesis
    using s Trades.get_trades_sorted [of "''u1''" "demo_world [] [demo_trade]"
      "fst (get_trades (Some ''u1'') (demo_world [] [demo_trade]))"
      "snd (get_trades (Some ''u1'') (demo_world [] [demo_trade]))"] by simp
qed

theorem post_trade_created_witness:
  "status (fst (post_trade (Some (JObj demo_trade)) (demo_world [] []))) = 201 \<and>
   (\<exists>d day n. (\<forall>k. k \<noteq> ''_id'' \<longrightarrow> doc_get d k = doc_get (as_doc (JObj demo_trade)) k) \<and>
     doc_get (body (fst (post_trade (Some (JObj demo_trade)) (demo_world [] [])))) ''tradeId'' = doc_get d ''_id'' \<and>
     store (snd (post_trade (Some (JObj demo_trade)) (demo_world [] []))) =
       (store (demo_world [] []))(Trades := store (demo_world [] []) Trades @ [d],
          Ledger := store (demo_world [] []) Ledger @
            [ledger_entry d day (now_ms (env (demo_world [] []))) @ [(''_id'', JOid n)]]))"
proof -
  have s: "status (fst (post_trade (Some (JObj demo_trade)) (demo_world [] []))) = 201"
    by (simp add: post_trade_def create_with_ledger_def demo_simps)
  show ?thesis
    using s Trades.post_trade_created [of "JObj demo_trade" "demo_world [] []"
      "fst (post_trade (Some (JObj demo_trade)) (demo_world [] []))"
      "snd (post_trade (Some (JObj demo_trade)) (demo_world [] []))"] by simp
qed

theorem delete_trade_ledger_first_witness:
  "store (snd (delete_trade ''t1'' (Some ''u1'') (demo_world [] [demo_trade]))) Trades \<noteq> store (demo_world [] [demo_trade]) Trades \<and>
   (\<exists>ex day. find (matches (owner_filter ''t1'' (JStr ''u1''))) (store (demo_world [] [demo_trade]) Trades) = Some ex \<and>
      store (snd (delete_trade ''t1'' (Some ''u1'') (demo_world [] [demo_trade]))) Trades = remove_first (matches (owner_filter ''t1'' (JStr ''u1''))) (store (demo_world [] [demo_trade]) Trades) \<and>
      store (snd (delete_trade ''t1'' (Some ''u1'') (demo_world [] [demo_trade]))) Ledger = store (demo_world [] [demo_trade]) Ledger @
        [ledger_entry (deletion_record ex (env (demo_world [] [demo_trade]))) day (now_ms (env (demo_world [] [demo_trade]))) @ [(''_id'', JOid (next_oid (demo_world [] [demo_trade])))]])"
proof -
  have s: "store (snd (delete_trade ''t1'' (Some ''u1'') (demo_world [] [demo_trade]))) Trades \<noteq> store (demo_world [] [demo_trade]) Trades"
    by (simp add: delete_trade_def delete_with_ledger_def demo_simps)
  show ?thesis
    using s Trades.delete_trade_ledger_first [of "''t1''" "''u1''" "demo_world [] [demo_trade]" "fst (delete_trade ''t1'' (Some ''u1'') (demo_world [] [demo_trade]))" "snd (delete_trade ''t1'' (Some ''u1'') (demo_world [] [demo_trade]))"] by simp
qed

theorem delete_trade_success_witness:
  "status (fst (delete_trade ''t1'' (Some ''u1'') (demo_world [] [demo_trade]))) = 200 \<and>
   (\<exists>ex day ys zs. store (demo_world [] [demo_trade]) Trades = ys @ ex # zs \<and> store (snd (delete_trade ''t1'' (Some ''u1'') (demo_world [] [demo_trade]))) Trades = ys @ zs \<and>
      doc_get ex ''id'' = Some (JStr ''t1'') \<and> doc_get ex ''userId'' = Some (JStr ''u1'') \<and>
      store (snd (delete_trade ''t1'' (Some ''u1'') (demo_world [] [demo_trade]))) Ledger = store (demo_world [] [demo_trade]) Ledger @
        [ledger_entry (deletion_record ex (env (demo_world [] [demo_trade]))) day (now_ms (env (demo_world [] [demo_trade]))) @ [(''_id'', JOid (next_oid (demo_world [] [demo_trade])))]])"
proof -
  have s: "status (fst (delete_trade ''t1'' (Some ''u1'') (demo_world [] [demo_trade]))) = 200"
    by (simp add: delete_trade_def delete_with_ledger_def demo_simps)
  show ?thesis
    using s Trades.delete_trade_success [of "''t1''" "''u1''" "demo_world [] [demo_trade]" "fst (delete_trade ''t1'' (Some ''u1'') (demo_world [] [demo_trade]))" "snd (delete_trade ''t1'' (Some ''u1'') (demo_world [] [demo_trade]))"] by simp
qed

theorem put_trade_partial_success_witness:
  "status (fst (put_trade ''t1'' (Some (JObj demo_update)) (demo_world [Ok, Ok, Ok, Fail ''down''] [demo_trade]))) = 207 \<and>
   (\<exists>u ex ys zs. doc_get (as_doc (JObj demo_update)) ''userId'' = Some (JStr u) \<and>
      store (demo_world [Ok, Ok, Ok, Fail ''down''] [demo_trade]) Trades = ys @ ex # zs \<and> matches (owner_filter ''t1'' (JStr u)) ex \<and>
      store (snd (put_trade ''t1'' (Some (JObj demo_update)) (demo_world [Ok, Ok, Ok, Fail ''down''] [demo_trade]))) Trades = ys @ doc_assign ex (as_doc (JObj demo_update)) # zs)"
proof -
  have s: "status (fst (put_trade ''t1'' (Some (JObj demo_update)) (demo_world [Ok, Ok, Ok, Fail ''down''] [demo_trade]))) = 207"
    by (simp add: put_trade_def update_with_ledger_def demo_simps)
  show ?thesis
    using s Trades.put_trade_partial_success [of "''t1''" "JObj demo_update" "demo_world [Ok, Ok, Ok, Fail ''down''] [demo_trade]" "fst (put_trade ''t1'' (Some (JObj demo_update)) (demo_world [Ok, Ok, Ok, Fail ''down''] [demo_trade]))" "snd (put_trade ''t1'' (Some (JObj demo_update)) (demo_world [Ok, Ok, Ok, Fail ''down''] [demo_trade]))"]
    by simp
qed

theorem put_trade_success_witness:
  "status (fst (put_trade ''t1'' (Some (JObj demo_update)) (demo_world [] [demo_trade]))) = 200 \<and>
   (\<exists>u ex ys zs day n. doc_get (as_doc (JObj demo_update)) ''userId'' = Some (JStr u) \<and>
      store (demo_world [] [demo_trade]) Trades = ys @ ex # zs \<and> matches (owner_filter ''t1'' (JStr u)) ex \<and>
      store (snd (put_trade ''t1'' (Some (JObj demo_update)) (demo_world [] [demo_trade]))) Trades = ys @ doc_assign ex (as_doc (JObj demo_update)) # zs \<and>
      store (snd (put_trade ''t1'' (Some (JObj demo_update)) (demo_world [] [demo_trade]))) Ledger = store (demo_world [] [demo_trade]) Ledger @
        [ledger_entry (updated_record ex (as_doc (JObj demo_update)) (env (demo_world [] [demo_trade]))) day (now_ms (env (demo_world [] [demo_trade]))) @ [(''_id'', JOid n)]])"
proof -
  have s: "status (fst (put_trade ''t1'' (Some (JObj demo_update)) (demo_world [] [demo_trade]))) = 200"
    by (simp add: put_trade_def update_with_ledger_def demo_simps)
  show ?thesis
    using s Trades.put_trade_success [of "''t1''" "JObj demo_update" "demo_world [] [demo_trade]" "fst (put_trade ''t1'' (Some (JObj demo_update)) (demo_world [] [demo_trade]))" "snd (put_trade ''t1'' (Some (JObj demo_update)) (demo_world [] [demo_trade]))"] by simp
qed

theorem run_trades_valid_witness:
  "trades_valid (demo_world [] [demo_trade]) \<and> list_all wf_request demo_run \<and>
   trades_valid (snd (run demo_run (demo_world [] [demo_trade])))"
proof -
  have v: "trades_valid (demo_world [] [demo_trade])"
    by (simp add: trades_valid_def trade_ok_def demo_simps)
  have r: "list_all wf_request demo_run"
    by (simp add: demo_run_def demo_trade_def demo_update_def)
  show ?thesis using v r TradeApi.run_trades_valid [OF v r] by blast
qed

theorem run_isolation_witness:
  "list_all wf_request demo_run \<and> list_all (\<lambda>q. request_user q \<noteq> Some (JStr ''u2'')) demo_run \<and>
   filter (owned_by (JStr ''u2'')) (store (snd (run demo_run (demo_world [] [demo_trade, doc_set demo_trade ''userId'' (JStr ''u2'')]))) Trades) =
   filter (owned_by (JStr ''u2'')) (store (demo_world [] [demo_trade, doc_set demo_trade ''userId'' (JStr ''u2'')]) Trades)"
proof -
  have r: "list_all wf_request demo_run"
    by (simp add: demo_run_def demo_trade_def demo_update_def)
  have u: "\<forall>q \<in> set demo_run. request_user q \<noteq> Some (JStr ''u2'')"
    by (simp add: demo_run_def demo_trade_def demo_update_def)
  show ?thesis
    using r u [unfolded list_all_iff [symmetric]] TradeApi.run_isolation [OF r u, of "demo_world [] [demo_trade, doc_set demo_trade ''userId'' (JStr ''u2'')]"]
    by blast
qed

theorem reset_link_read_back_witness:
  "CHR ''?'' \<notin> set (env_or (nextauth_url demo_cfg) ''http://localhost:3000'') \<and>
   list_all uri_unreserved ''a1b2c3'' \<and>
   query_get (reset_url demo_cfg ''a1b2c3'' (Some (JStr ''ann@x.io''))) ''token'' = Some ''a1b2c3'' \<and>
   query_get (reset_url demo_cfg ''a1b2c3'' (Some (JStr ''ann@x.io''))) ''email'' =
     Some (js_template (Some (JStr ''ann@x.io'')))"
proof -
  have b: "CHR ''?'' \<notin> set (env_or (nextauth_url demo_cfg) ''http://localhost:3000'')"
    by (simp add: demo_cfg_def env_or_def)
  have t: "list_all uri_unreserved ''a1b2c3''"
    by (simp add: uri_unreserved_def)
  show ?thesis using b t Auth.reset_link_read_back [OF b t, of "Some (JStr ''ann@x.io'')"] by blast
qed


theorem verify_otp_single_use_witness:
  "set_cookies (fst (verify_otp demo_cfg demo_verify (users_world [] [demo_user]))) \<noteq> [] \<and>
   distinct (map (\<lambda>d. doc_get d ''_id'') (store (users_world [] [demo_user]) Users)) \<and>
   body_obj demo_verify = Inr [(''email'', JStr ''ann@x.io''), (''otp'', JStr ''123456'')] \<and>
   body_obj (Some (JObj [(''email'', JStr ''ann@x.io''), (''otp'', JStr ''999999'')])) =
     Inr [(''email'', JStr ''ann@x.io''), (''otp'', JStr ''999999'')] \<and>
   set_cookies (fst (verify_otp demo_cfg (Some (JObj [(''email'', JStr ''ann@x.io''), (''otp'', JStr ''999999'')]))
                       (snd (verify_otp demo_cfg demo_verify (users_world [] [demo_user]))))) = []"
proof -
  have c: "set_cookies (fst (verify_otp demo_cfg demo_verify (users_world [] [demo_user]))) \<noteq> []"
    by (rule demo_verify_signs_in)
  have i: "distinct (map (\<lambda>d. doc_get d ''_id'') (store (users_world [] [demo_user]) Users))"
    by (simp add: demo_simps)
  have b: "body_obj demo_verify = Inr [(''email'', JStr ''ann@x.io''), (''otp'', JStr ''123456'')]"
    by (simp add: body_obj_def demo_verify_def)
  have b': "body_obj (Some (JObj [(''email'', JStr ''ann@x.io''), (''otp'', JStr ''999999'')])) =
     Inr [(''email'', JStr ''ann@x.io''), (''otp'', JStr ''999999'')]"
    by (simp add: body_obj_def)
  have e: "doc_get [(''email'', JStr ''ann@x.io''), (''otp'', JStr ''999999'')] ''email'' =
           doc_get [(''email'', JStr ''ann@x.io''), (''otp'', JStr ''123456'')] ''email''"
    by simp
  show ?thesis
    using c i b b' Auth.verify_otp_single_use [OF prod.collapse [symmetric] c i b b' e refl] by blast
qed

theorem ltp_historical_limiter_witness:
  "sent (fst (snd (ltp_historical demo_cfg demo_query (\<lambda>_. None) demo_ltp (users_world [] [])))) \<noteq> sent demo_ltp \<and>
   last_request_time demo_ltp + min_request_interval \<le> now_ms (env (users_world [] [])) \<and>
   last_request_time (fst (snd (ltp_historical demo_cfg demo_query (\<lambda>_. None) demo_ltp (users_world [] [])))) = now_ms (env (users_world [] []))"
proof -
  obtain r s' w' where h: "ltp_historical demo_cfg demo_query (\<lambda>_. None) demo_ltp (users_world [] []) = (r, s', w')" by (metis prod.exhaust)
  have s: "sent s' \<noteq> sent demo_ltp"
    using h by (auto simp: reply_ok_def ltp_historical_def stored_credentials_def cookie_token_def ltp_call_def ltp_fetch_def
                  credential_def env_or_def field_of_def min_request_interval_def demo_query_def demo_ltp_def
                  demo_cfg_def users_world_def demo_env_def Let_def split: if_splits)
  show ?thesis using h s Ltp.ltp_historical_limiter [OF h s] by simp
qed

theorem ltp_historical_admits_witness:
  "env_or (q_expiry demo_query) [] \<noteq> [] \<and> env_or (q_fetch_date demo_query) [] \<noteq> [] \<and>
   env_or (q_fetch_time demo_query) [] \<noteq> [] \<and>
   ltp_username_var demo_cfg = Some ''envuser'' \<and> ltp_password_var demo_cfg = Some ''envpass'' \<and>
   last_request_time demo_ltp + min_request_interval \<le> now_ms (env (users_world [] [])) \<and>
   last_request_time (fst (snd (ltp_historical demo_cfg demo_query (\<lambda>_. None) demo_ltp (users_world [] [])))) = now_ms (env (users_world [] [])) \<and>
   length (sent demo_ltp) < length (sent (fst (snd (ltp_historical demo_cfg demo_query (\<lambda>_. None) demo_ltp (users_world [] [])))))"
proof -
  have q: "env_or (q_expiry demo_query) [] \<noteq> []" "env_or (q_fetch_date demo_query) [] \<noteq> []"
          "env_or (q_fetch_time demo_query) [] \<noteq> []"
    by (simp_all add: demo_query_def env_or_def)
  have c: "ltp_username_var demo_cfg = Some ''envuser''" "ltp_password_var demo_cfg = Some ''envpass''"
    by (simp_all add: demo_cfg_def)
  have t: "last_request_time demo_ltp + min_request_interval \<le> now_ms (env (users_world [] []))"
    by (simp add: demo_ltp_def min_request_interval_def users_world_def demo_env_def)
  obtain r s' w' where h: "ltp_historical demo_cfg demo_query (\<lambda>_. None) demo_ltp (users_world [] []) = (r, s', w')" by (metis prod.exhaust)
  have ne: "''envuser'' \<noteq> []" "''envpass'' \<noteq> []" by simp_all
  show ?thesis
    using q c t h Ltp.ltp_historical_admits [OF h q c(1) ne(1) c(2) ne(2) t] by simp
qed

theorem ltp_ignores_session_cookie_witness:
  "(\<lambda>_. None :: cval option) ''token'' = None \<and>
   stored_credentials demo_cfg (apply_cookies (\<lambda>_. None) (set_cookies (fst (verify_otp demo_cfg demo_verify (users_world [] [demo_user]))))) (users_world [] [demo_user]) =
     (None, users_world [] [demo_user])"
  using Ltp.ltp_ignores_session_cookie [OF prod.collapse [symmetric],
          where cfg = demo_cfg and req = demo_verify and w0 = "users_world [] [demo_user]"
            and jar = "\<lambda>_. None" and cfg' = demo_cfg and w = "users_world [] [demo_user]"]
  by simp

theorem chat_forwards_checked_witness:
  "requests (snd (chat_post demo_chat_cfg demo_chat_req demo_chat_world)) \<noteq> requests demo_chat_world \<and>
   (\<exists>b msgs prompt ms. body_obj demo_chat_req = Inr b \<and> openrouter_var demo_chat_cfg \<noteq> Some key_placeholder \<and>
      doc_get b ''messages'' = Some (JArr msgs) \<and> doc_get b ''systemPrompt'' = Some (JStr prompt) \<and>
      map_throw chat_message msgs = Inr ms \<and>
      requests (snd (chat_post demo_chat_cfg demo_chat_req demo_chat_world)) =
        requests demo_chat_world @ [chat_payload_of ms prompt (js_truthy (doc_get b ''useDeepAnalysis''))])"
proof -
  have ne: "requests (snd (chat_post demo_chat_cfg demo_chat_req demo_chat_world)) \<noteq> requests demo_chat_world"
    by (simp add: chat_post_def chat_answer_def generate_chat_response_def completion_fetch_def body_obj_def
                  openrouter_key_def openrouter_fallback_key_def key_placeholder_def env_or_def chat_message_def
                  js_prop_def choice_content_def reply_ok_def demo_chat_simps split: prod.split sum.split)
  show ?thesis using ne Chat.chat_forwards_checked [OF prod.collapse [symmetric] ne] by blast
qed

theorem client_reach_loading_witness:
  "client_reach ((client_init [] [])\<lparr>cl_calls := [(''GET'', ''/api/auth/me'', None)]\<rparr>) [CheckAuth] True \<and>
   cl_loading ((client_init [] [])\<lparr>cl_calls := [(''GET'', ''/api/auth/me'', None)]\<rparr>) \<and> [CheckAuth] \<noteq> []"
proof -
  have r: "client_reach ((client_init [] [])\<lparr>cl_calls := [(''GET'', ''/api/auth/me'', None)]\<rparr>) [CheckAuth] True"
    by (rule client_reach.mount)
  have l: "cl_loading ((client_init [] [])\<lparr>cl_calls := [(''GET'', ''/api/auth/me'', None)]\<rparr>)"
    by (simp add: client_init_def)
  show ?thesis using r l Client.client_reach_loading [OF r l] by blast
qed

theorem verify_signs_in_client_witness:
  "set_cookies (fst (verify_otp demo_cfg demo_verify (users_world [] [demo_user]))) \<noteq> [] \<and>
   list_all (\<lambda>d. (\<exists>n. doc_get d ''_id'' = Some (JOid n)) \<and> (\<exists>e. doc_get d ''email'' = Some (JStr e) \<and> e \<noteq> []))
     (store (users_world [] [demo_user]) Users) \<and>
   (\<exists>user n e. user \<in> set (store (users_world [] [demo_user]) Users) \<and> doc_get user ''_id'' = Some (JOid n) \<and>
      doc_get user ''email'' = Some (JStr e) \<and>
      doc_get (as_doc (cl_user (snd (verify_email ''ann@x.io'' ''123456'' (client_init [ApiReply (status (fst (verify_otp demo_cfg demo_verify (users_world [] [demo_user])))) (Some (json_wire (env (snd (verify_otp demo_cfg demo_verify (users_world [] [demo_user])))) (JObj (body (fst (verify_otp demo_cfg demo_verify (users_world [] [demo_user])))))))] ''2025-01-01T10:00:00.000Z''))))) ''id'' = Some (JStr (oid_hex n)) \<and>
      doc_get (as_doc (cl_user (snd (verify_email ''ann@x.io'' ''123456'' (client_init [ApiReply (status (fst (verify_otp demo_cfg demo_verify (users_world [] [demo_user])))) (Some (json_wire (env (snd (verify_otp demo_cfg demo_verify (users_world [] [demo_user])))) (JObj (body (fst (verify_otp demo_cfg demo_verify (users_world [] [demo_user])))))))] ''2025-01-01T10:00:00.000Z''))))) ''email'' = Some (JStr e) \<and>
      doc_get (as_doc (cl_user (snd (verify_email ''ann@x.io'' ''123456'' (client_init [ApiReply (status (fst (verify_otp demo_cfg demo_verify (users_world [] [demo_user])))) (Some (json_wire (env (snd (verify_otp demo_cfg demo_verify (users_world [] [demo_user])))) (JObj (body (fst (verify_otp demo_cfg demo_verify (users_world [] [demo_user])))))))] ''2025-01-01T10:00:00.000Z''))))) ''isVerified'' = Some (JBool True) \<and>
      cl_error (snd (verify_email ''ann@x.io'' ''123456'' (client_init [ApiReply (status (fst (verify_otp demo_cfg demo_verify (users_world [] [demo_user])))) (Some (json_wire (env (snd (verify_otp demo_cfg demo_verify (users_world [] [demo_user])))) (JObj (body (fst (verify_otp demo_cfg demo_verify (users_world [] [demo_user])))))))] ''2025-01-01T10:00:00.000Z''))) = None \<and> \<not> cl_loading (snd (verify_email ''ann@x.io'' ''123456'' (client_init [ApiReply (status (fst (verify_otp demo_cfg demo_verify (users_world [] [demo_user])))) (Some (json_wire (env (snd (verify_otp demo_cfg demo_verify (users_world [] [demo_user])))) (JObj (body (fst (verify_otp demo_cfg demo_verify (users_world [] [demo_user])))))))] ''2025-01-01T10:00:00.000Z''))) \<and> cl_replies (snd (verify_email ''ann@x.io'' ''123456'' (client_init [ApiReply (status (fst (verify_otp demo_cfg demo_verify (users_world [] [demo_user])))) (Some (json_wire (env (snd (verify_otp demo_cfg demo_verify (users_world [] [demo_user])))) (JObj (body (fst (verify_otp demo_cfg demo_verify (users_world [] [demo_user])))))))] ''2025-01-01T10:00:00.000Z''))) = [])"
proof -
  have u: "list_all (\<lambda>d. (\<exists>n. doc_get d ''_id'' = Some (JOid n)) \<and> (\<exists>e. doc_get d ''email'' = Some (JStr e) \<and> e \<noteq> []))
             (store (users_world [] [demo_user]) Users)"
    by (simp add: users_world_def demo_user_def)
  have rep: "cl_replies (client_init [ApiReply (status (fst (verify_otp demo_cfg demo_verify (users_world [] [demo_user])))) (Some (json_wire (env (snd (verify_otp demo_cfg demo_verify (users_world [] [demo_user])))) (JObj (body (fst (verify_otp demo_cfg demo_verify (users_world [] [demo_user])))))))] ''2025-01-01T10:00:00.000Z'') = [ApiReply (status (fst (verify_otp demo_cfg demo_verify (users_world [] [demo_user])))) (Some (json_wire (env (snd (verify_otp demo_cfg demo_verify (users_world [] [demo_user])))) (JObj (body (fst (verify_otp demo_cfg demo_verify (users_world [] [demo_user])))))))]"
    by (simp add: client_init_def)
  show ?thesis
    using demo_verify_signs_in u
          Client.verify_signs_in_client [OF prod.collapse [symmetric] demo_verify_signs_in u rep,
                                         of "''ann@x.io''" "''123456''"]
    by blast
qed

theorem login_failure_witness:
  "cl_replies (client_init [ApiReply 403 (Some (JObj [(''requiresVerification'', JBool True)]))] ''2025-01-01T10:00:00.000Z'') = [ApiReply 403 (Some (JObj [(''requiresVerification'', JBool True)]))] \<and>
   \<not> reply_ok 403 \<and>
   cl_user (login ''ann'' ''pw'' None (client_init [ApiReply 403 (Some (JObj [(''requiresVerification'', JBool True)]))] ''2025-01-01T10:00:00.000Z'')) = JNull \<and> cl_pushed (login ''ann'' ''pw'' None (client_init [ApiReply 403 (Some (JObj [(''requiresVerification'', JBool True)]))] ''2025-01-01T10:00:00.000Z'')) = [] \<and>
   \<not> cl_loading (login ''ann'' ''pw'' None (client_init [ApiReply 403 (Some (JObj [(''requiresVerification'', JBool True)]))] ''2025-01-01T10:00:00.000Z'')) \<and>
   cl_error (login ''ann'' ''pw'' None (client_init [ApiReply 403 (Some (JObj [(''requiresVerification'', JBool True)]))] ''2025-01-01T10:00:00.000Z'')) = Some ''Email not verified. Please check your email for a verification code.''"
proof -
  have rep: "cl_replies (client_init [ApiReply 403 (Some (JObj [(''requiresVerification'', JBool True)]))] ''2025-01-01T10:00:00.000Z'') = [ApiReply 403 (Some (JObj [(''requiresVerification'', JBool True)]))]"
    by (simp add: client_init_def)
  have nok: "\<not> reply_ok 403" by (simp add: reply_ok_def)
  show ?thesis
    using rep nok Client.login_failure [OF rep nok, of "''ann''" "''pw''" None]
    by (simp add: client_init_def)
qed

theorem dashboard_historical_refused_witness:
  "CHR ''&'' \<notin> set ''26-06-2025'' \<and> CHR ''&'' \<notin> set ''2025-06-20'' \<and> CHR ''&'' \<notin> set ''10:15'' \<and>
   ''26-06-2025'' \<noteq> [] \<and> ''2025-06-20'' \<noteq> [] \<and> ''10:15'' \<noteq> [] \<and>
   ltp_historical demo_cfg (ltp_query_of_url (ltp_fetch_url True ''26-06-2025'' ''2025-06-20'' ''10:15''))
     (\<lambda>_. None) demo_ltp (users_world [] []) =
   (json_error 400 ''Missing required parameters: expiry, fetchDate, or fetchTime'', demo_ltp, users_world [] [])"
proof -
  have h: "CHR ''&'' \<notin> set ''26-06-2025''" "CHR ''&'' \<notin> set ''2025-06-20''" "CHR ''&'' \<notin> set ''10:15''"
          "''26-06-2025'' \<noteq> []" "''2025-06-20'' \<noteq> []" "''10:15'' \<noteq> []"
    by simp_all
  show ?thesis
    using h Dashboard.dashboard_historical_refused [OF h, of demo_cfg "\<lambda>_. None" demo_ltp "users_world [] []"]
    by blast
qed

section \<open>Behaviours the specification does not expect\<close>






text \<open>
  Nothing enforces the uniqueness of \<open>id\<close> within a user: posting the same trade twice
  succeeds twice and stores two trades with the same \<open>id\<close> and \<open>userId\<close>.
\<close>

theorem duplicate_trade_ids:
  "map status (fst (run [CreateTrade (Some (JObj demo_trade)), CreateTrade (Some (JObj demo_trade))] (demo_world [] []))) =
     [201, 201] \<and>
   store (snd (run [CreateTrade (Some (JObj demo_trade)), CreateTrade (Some (JObj demo_trade))] (demo_world [] []))) Trades =
     [demo_trade @ [(''_id'', JOid 0)], demo_trade @ [(''_id'', JOid 2)]]"
  by (simp add: post_trade_def create_with_ledger_def demo_simps)

text \<open>
  An update may rename the trade: its \<open>$set\<close> writes the body's \<open>id\<close>, which need not be
  the \<open>tradeId\<close> of the path.
\<close>

theorem update_renames_trade:
  "status (fst (put_trade ''t1'' (Some (JObj (doc_set demo_trade ''id'' (JStr ''t9'')))) (demo_world [] [demo_trade]))) = 200 \<and>
   map (\<lambda>d. doc_get d ''id'') (store (snd (put_trade ''t1'' (Some (JObj (doc_set demo_trade ''id'' (JStr ''t9''))))
                                          (demo_world [] [demo_trade]))) Trades) = [Some (JStr ''t9'')]"
  by (simp add: put_trade_def update_with_ledger_def demo_simps)

text \<open>
  The same clicks in India (UTC+05:30) and in New York (UTC-04:00): both show 20-06-2025 in
  the date field, but the dashboard receives 2025-06-20 from the first and 2025-06-21 from
  the second.
\<close>

lemma dialog_run_by_timezone:
  "fst (dialog_run 330 demo_june_24 demo_clicks dialog_init) = [HistoricalData ''26-06-2025'' ''2025-06-20'' ''09:15:00''] \<and>
   fst (dialog_run (-240) demo_june_24 demo_clicks dialog_init) = [HistoricalData ''26-06-2025'' ''2025-06-21'' ''09:15:00'']"
  by code_simp

theorem holiday_marks_previous_day_witness:
  "cd_holiday (cal_day_of 330 demo_aug_28 [] 2025 7 16) \<and> cd_selectable (cal_day_of 330 demo_aug_28 [] 2025 7 15)"
proof -
  have d: "iso_date ((make_day 2025 7 16 - 1) * day_ms) = ''2025-08-15''" by code_simp
  have s: "cd_selectable (cal_day_of 330 demo_aug_28 [] 2025 7 15)" by code_simp
  show ?thesis
    using ScenarioDialog.holiday_marks_previous_day[of 330 demo_aug_28 "[]" 2025 7 16] d s
    by (simp add: holidays_2025_def)
qed

end
